(* ===== verification/PyFloat.thy ===== *)
theory PyFloat
  imports Prelude "HOL-Library.Log_Nat"
begin

text \<open>
  Python's \<^verbatim>\<open>float\<close> is IEEE binary64.  A finite float is modelled by the rational it
  denotes, and every arithmetic operation by the exact operation followed by
  \<open>rnd\<close>, rounding to 53 significant bits, ties to even.  Overflow, subnormal numbers,
  infinities and NaN are outside the model: the code computes with probabilities in
  [0, 1], token counts and costs in dollars.
\<close>

type_synonym pyfloat = rat

section \<open>Rounding to an integer\<close>

definition round_even :: "rat \<Rightarrow> int" where
  "round_even y = (let f = \<lfloor>y\<rfloor>; d = y - of_int f in
     if d < 1 / 2 then f else if 1 / 2 < d then f + 1 else if even f then f else f + 1)"

lemma round_even_of_int [simp]: "round_even (of_int i) = i"
  by (simp add: round_even_def Let_def)

lemma round_even_lower: "\<lfloor>y\<rfloor> \<le> round_even y"
  by (simp add: round_even_def Let_def)

lemma round_even_upper: "round_even y \<le> \<lfloor>y\<rfloor> + 1"
  by (simp add: round_even_def Let_def)

lemma round_even_mono:
  assumes "x \<le> y"
  shows "round_even x \<le> round_even y"
proof (cases "\<lfloor>x\<rfloor> = \<lfloor>y\<rfloor>")
  case True
  with assms show ?thesis by (auto simp: round_even_def Let_def)
next
  case False
  with assms have "\<lfloor>x\<rfloor> < \<lfloor>y\<rfloor>" using floor_mono [of x y] by linarith
  with round_even_upper [of x] round_even_lower [of y] show ?thesis by linarith
qed

section \<open>The binary exponent\<close>

definition ilog2 :: "rat \<Rightarrow> int" where
  "ilog2 x = (case quotient_of x of (p, q) \<Rightarrow>
     let e = bitlen p - bitlen q in if 2 powi e \<le> x then e else e - 1)"

lemma bitlen_powi:
  assumes "0 < p"
  shows "(2::rat) powi (bitlen p - 1) \<le> of_int p" "of_int p < (2::rat) powi bitlen p"
proof -
  have "bitlen p \<noteq> 0" using assms by (simp add: bitlen_eq_zero_iff)
  then have b: "0 < bitlen p" "2 ^ nat (bitlen p - 1) \<le> p" "p < 2 ^ nat (bitlen p)"
    using assms bitlen_bounds [of p] bitlen_nonneg [of p] by auto
  have "(2::rat) ^ nat (bitlen p - 1) = of_int (2 ^ nat (bitlen p - 1))" by simp
  also have "\<dots> \<le> of_int p" using b(2) by (simp only: of_int_le_iff)
  finally show "(2::rat) powi (bitlen p - 1) \<le> of_int p"
    using b(1) by (simp add: power_int_def)
  have "of_int p < (of_int (2 ^ nat (bitlen p)) :: rat)" using b(3) by (simp only: of_int_less_iff)
  then show "of_int p < (2::rat) powi bitlen p"
    using b(1) by (simp add: power_int_def)
qed

lemma ilog2_bounds:
  assumes "0 < x"
  shows "2 powi ilog2 x \<le> x" "x < 2 powi (ilog2 x + 1)"
proof -
  obtain p q where pq: "quotient_of x = (p, q)" by (cases "quotient_of x") auto
  have q: "0 < q" by (rule quotient_of_denom_pos [OF pq])
  have x: "x = of_int p / of_int q" by (rule quotient_of_div [OF pq])
  have p: "0 < p" using assms q by (simp add: x zero_less_divide_iff)
  define e where "e = bitlen p - bitlen q"
  have lo: "2 powi (e - 1) < x"
  proof -
    have "(2::rat) powi (e - 1) = 2 powi (bitlen p - 1) / 2 powi bitlen q"
      by (simp add: e_def power_int_diff [symmetric] algebra_simps)
    also have "\<dots> \<le> of_int p / 2 powi bitlen q"
      using bitlen_powi(1) [OF p] by (simp add: divide_right_mono)
    also have "\<dots> < of_int p / of_int q"
      using bitlen_powi(2) [OF q] p q by (simp add: divide_strict_left_mono)
    finally show ?thesis by (simp add: x)
  qed
  have hi: "x < 2 powi (e + 1)"
  proof -
    have "x < 2 powi bitlen p / of_int q"
      using bitlen_powi(2) [OF p] q by (simp add: x divide_strict_right_mono)
    also have "\<dots> \<le> 2 powi bitlen p / 2 powi (bitlen q - 1)"
      using bitlen_powi(1) [OF q] q by (intro divide_left_mono) auto
    also have "\<dots> = 2 powi (e + 1)"
      by (simp add: e_def power_int_diff [symmetric] algebra_simps)
    finally show ?thesis .
  qed
  have il: "ilog2 x = (if 2 powi e \<le> x then e else e - 1)"
    by (simp add: ilog2_def pq e_def Let_def)
  show "2 powi ilog2 x \<le> x" using il lo by (simp split: if_splits)
  show "x < 2 powi (ilog2 x + 1)" using il hi by (simp split: if_splits)
qed

lemma powi2_le_iff: "(2::rat) powi a \<le> 2 powi b \<longleftrightarrow> a \<le> b"
  by (metis linorder_not_le numeral_One numeral_less_iff order_less_imp_le power_int_increasing
      power_int_strict_increasing semiring_norm(76) verit_comp_simplify1(3))

lemma powi2_less_iff: "(2::rat) powi a < 2 powi b \<longleftrightarrow> a < b"
  by (meson linorder_not_le powi2_le_iff)

lemma ilog2_unique:
  assumes "2 powi e \<le> x" "x < 2 powi (e + 1)"
  shows "ilog2 x = e"
proof -
  have x: "0 < x" using assms(1) by (metis order_less_le_trans zero_less_numeral zero_less_power_int)
  have "(2::rat) powi ilog2 x < 2 powi (e + 1)" "(2::rat) powi e < 2 powi (ilog2 x + 1)"
    using ilog2_bounds [OF x] assms by linarith+
  then show ?thesis by (simp add: powi2_less_iff)
qed

lemma ilog2_mono:
  assumes "0 < x" "x \<le> y"
  shows "ilog2 x \<le> ilog2 y"
proof -
  have "(2::rat) powi ilog2 x < 2 powi (ilog2 y + 1)"
    using ilog2_bounds [of x] ilog2_bounds [of y] assms by linarith
  then show ?thesis by (simp add: powi2_less_iff)
qed


section \<open>Rounding to 53 bits\<close>

definition ulp :: "rat \<Rightarrow> rat" where
  "ulp x = 2 powi (ilog2 \<bar>x\<bar> - 52)"

definition rnd :: "rat \<Rightarrow> pyfloat" where
  "rnd x = (if x = 0 then 0 else ulp x * of_int (round_even (x / ulp x)))"

definition is_float :: "rat \<Rightarrow> bool" where
  "is_float x \<longleftrightarrow> rnd x = x"

lemma ulp_pos [simp]: "0 < ulp x"
  by (simp add: ulp_def)

lemma ulp_nonneg [simp]: "0 \<le> ulp x" and ulp_nonzero [simp]: "ulp x \<noteq> 0"
  by (simp_all add: ulp_def less_imp_le)

lemma ulp_minus [simp]: "ulp (- x) = ulp x"
  by (simp add: ulp_def)

lemma rnd_0 [simp]: "rnd 0 = 0"
  by (simp add: rnd_def)

lemma round_even_minus: "round_even (- y) = - round_even y"
proof (cases "y \<in> \<int>")
  case True
  then obtain i where "y = of_int i" by (auto elim: Ints_cases)
  then show ?thesis by (simp flip: of_int_minus)
next
  case False
  then have fl: "\<lfloor>- y\<rfloor> = - \<lfloor>y\<rfloor> - 1"
    by (simp add: floor_minus ceiling_altdef) (metis Ints_of_int)
  show ?thesis by (auto simp: round_even_def Let_def fl)
qed

lemma rnd_minus: "rnd (- x) = - rnd x"
  by (simp add: rnd_def round_even_minus)

text \<open>A positive float lies in the binade of the number it rounds, or on its upper end.\<close>

lemma rnd_binade:
  assumes "0 < x"
  shows "2 powi ilog2 x \<le> rnd x" "rnd x \<le> 2 powi (ilog2 x + 1)"
proof -
  let ?e = "ilog2 x"
  have u: "ulp x = 2 powi (?e - 52)" using assms by (simp add: ulp_def)
  have lo: "2 powi ?e / ulp x = of_int (2 ^ 52)" and hi: "2 powi (?e + 1) / ulp x = of_int (2 ^ 53)"
    by (simp_all add: u power_int_diff [symmetric])
  have "of_int (2 ^ 52) \<le> x / ulp x"
    using ilog2_bounds(1) [OF assms] by (simp only: lo [symmetric]) (simp add: divide_right_mono)
  then have "2 ^ 52 \<le> round_even (x / ulp x)"
    using round_even_mono [of "of_int (2 ^ 52)" "x / ulp x"] by (simp only: round_even_of_int)
  then have "2 powi ?e / ulp x \<le> of_int (round_even (x / ulp x))"
    by (simp only: lo of_int_le_iff)
  then show "2 powi ?e \<le> rnd x"
    using assms by (simp add: rnd_def divide_le_eq mult.commute)
  have "x / ulp x \<le> of_int (2 ^ 53)"
    using ilog2_bounds(2) [OF assms] by (simp only: hi [symmetric]) (simp add: divide_right_mono)
  then have "round_even (x / ulp x) \<le> 2 ^ 53"
    using round_even_mono [of "x / ulp x" "of_int (2 ^ 53)"] by (simp only: round_even_of_int)
  then have "of_int (round_even (x / ulp x)) \<le> 2 powi (?e + 1) / ulp x"
    by (simp only: hi of_int_le_iff)
  then show "rnd x \<le> 2 powi (?e + 1)"
    using assms by (simp add: rnd_def le_divide_eq mult.commute)
qed

lemma rnd_pos: "0 < x \<Longrightarrow> 0 < rnd x"
  using rnd_binade(1) [of x] by (metis order_less_le_trans zero_less_numeral zero_less_power_int)

lemma rnd_nonneg: "0 \<le> x \<Longrightarrow> 0 \<le> rnd x"
  using rnd_pos [of x] by (cases "x = 0") auto

lemma rnd_mono_pos:
  assumes "0 < x" "x \<le> y"
  shows "rnd x \<le> rnd y"
proof (cases "ilog2 x = ilog2 y")
  case True
  with assms have u: "ulp x = ulp y" by (simp add: ulp_def)
  have "round_even (x / ulp y) \<le> round_even (y / ulp y)"
    using assms by (intro round_even_mono divide_right_mono) (simp_all add: less_imp_le)
  with assms u show ?thesis by (simp add: rnd_def)
next
  case False
  with ilog2_mono [OF assms] have "ilog2 x + 1 \<le> ilog2 y" by simp
  then have "(2::rat) powi (ilog2 x + 1) \<le> 2 powi ilog2 y" by (simp add: powi2_le_iff)
  with rnd_binade(2) [of x] rnd_binade(1) [of y] assms show ?thesis by linarith
qed

lemma rnd_mono: "x \<le> y \<Longrightarrow> rnd x \<le> rnd y"
proof -
  assume xy: "x \<le> y"
  consider "0 < x" | "x \<le> 0" "0 \<le> y" | "y < 0" by linarith
  then show ?thesis
  proof cases
    case 1
    with xy show ?thesis by (simp add: rnd_mono_pos)
  next
    case 2
    then have "0 \<le> rnd (- x)" "0 \<le> rnd y" by (simp_all add: rnd_nonneg)
    then show ?thesis by (simp add: rnd_minus)
  next
    case 3
    with xy have "rnd (- y) \<le> rnd (- x)" by (intro rnd_mono_pos) auto
    then show ?thesis by (simp add: rnd_minus)
  qed
qed

text \<open>Numbers with at most 53 significant bits are exact.\<close>

lemma rnd_exact_pos:
  assumes "0 < m" "m \<le> 2 ^ 53"
  shows "rnd (of_int m * 2 powi k) = of_int m * 2 powi k"
proof -
  define x where "x = (of_int m :: rat) * 2 powi k"
  have x: "0 < x" using assms(1) by (simp add: x_def)
  have up: "x \<le> 2 powi (k + 53)"
  proof -
    have "(of_int m :: rat) \<le> of_int (2 ^ 53)" using assms(2) by (simp only: of_int_le_iff)
    then show ?thesis by (simp add: x_def power_int_add mult_right_mono mult.commute)
  qed
  have int: "x / ulp x \<in> \<int>"
  proof (cases "ilog2 x \<le> k + 52")
    case True
    have "x / ulp x = of_int m * 2 powi (k - (ilog2 x - 52))"
      using x by (simp add: ulp_def power_int_diff x_def)
    also have "(2::rat) powi (k - (ilog2 x - 52)) = 2 ^ nat (k - (ilog2 x - 52))"
      using True by (simp add: power_int_def)
    finally show ?thesis by simp
  next
    case False
    then have "(2::rat) powi (k + 53) \<le> 2 powi ilog2 x" by (simp add: powi2_le_iff)
    with up ilog2_bounds(1) [OF x] have "x = 2 powi (k + 53)" "x = 2 powi ilog2 x" by linarith+
    then have "x / ulp x = 2 powi ilog2 x / 2 powi (ilog2 x - 52)"
      using x by (simp add: ulp_def)
    also have "\<dots> = 2 ^ 52" by (simp add: power_int_diff [symmetric])
    finally show ?thesis by simp
  qed
  then obtain i where "x / ulp x = of_int i" by (auto elim: Ints_cases)
  then have "rnd x = ulp x * (x / ulp x)" using x by (simp add: rnd_def)
  then show ?thesis by (simp add: x_def)
qed

lemma rnd_exact: "\<bar>m\<bar> \<le> 2 ^ 53 \<Longrightarrow> rnd (of_int m * 2 powi k) = of_int m * 2 powi k"
proof -
  assume b: "\<bar>m\<bar> \<le> 2 ^ 53"
  consider "m = 0" | "0 < m" | "0 < - m" by linarith
  then show ?thesis
  proof cases
    case 3
    with b rnd_exact_pos [of "- m" k] show ?thesis by (simp add: rnd_minus)
  qed (use b rnd_exact_pos [of m k] in auto)
qed

lemma rnd_of_int: "\<bar>m\<bar> \<le> 2 ^ 53 \<Longrightarrow> rnd (of_int m) = of_int m"
  using rnd_exact [of m 0] by simp

lemma rnd_0_1 [simp]: "rnd 1 = 1"
  using rnd_of_int [of 1] by simp

lemma rnd_idem [simp]: "rnd (rnd x) = rnd x"
proof -
  have pos: "rnd (rnd y) = rnd y" if y: "0 < y" for y
  proof -
    let ?m = "round_even (y / ulp y)"
    have r: "rnd y = of_int ?m * 2 powi (ilog2 y - 52)"
      using y by (simp add: rnd_def ulp_def)
    have "(of_int ?m :: rat) \<le> 2 powi (ilog2 y + 1) / 2 powi (ilog2 y - 52)"
      using rnd_binade(2) [OF y] by (simp add: r le_divide_eq)
    also have "\<dots> = of_int (2 ^ 53)" by (simp add: power_int_diff [symmetric])
    finally have "?m \<le> 2 ^ 53" by (simp only: of_int_le_iff)
    moreover have "0 < ?m" using rnd_pos [OF y]
      by (simp add: r zero_less_mult_iff) (metis not_less_iff_gr_or_eq zero_less_numeral zero_less_power_int)
    ultimately show ?thesis by (simp only: r rnd_exact_pos)
  qed
  consider "x = 0" | "0 < x" | "0 < - x" by linarith
  then show ?thesis
    by cases (use pos [of x] pos [of "- x"] in \<open>simp_all add: rnd_minus\<close>)
qed

lemma is_float_rnd [simp]: "is_float (rnd x)"
  by (simp add: is_float_def)

lemma is_float_0 [simp]: "is_float 0" and is_float_1 [simp]: "is_float 1"
  by (simp_all add: is_float_def)

section \<open>The operations\<close>

definition fadd :: "pyfloat \<Rightarrow> pyfloat \<Rightarrow> pyfloat" where
  "fadd a b = rnd (a + b)"

definition fsub :: "pyfloat \<Rightarrow> pyfloat \<Rightarrow> pyfloat" where
  "fsub a b = rnd (a - b)"

definition fmul :: "pyfloat \<Rightarrow> pyfloat \<Rightarrow> pyfloat" where
  "fmul a b = rnd (a * b)"

definition fdiv :: "pyfloat \<Rightarrow> pyfloat \<Rightarrow> pyfloat" where
  "fdiv a b = rnd (a / b)"

text \<open>An integer used in a float operation is converted first.\<close>

definition of_pyint :: "int \<Rightarrow> pyfloat" where
  "of_pyint i = rnd (of_int i)"

text \<open>\<^verbatim>\<open>int(x)\<close> truncates towards zero.\<close>

definition trunc :: "pyfloat \<Rightarrow> int" where
  "trunc x = (if x < 0 then \<lceil>x\<rceil> else \<lfloor>x\<rfloor>)"

text \<open>
  \<^verbatim>\<open>round(x, n)\<close> is the float nearest to the decimal that is nearest to the exact value
  of \<open>x\<close>, ties to even.
\<close>

definition fround :: "nat \<Rightarrow> pyfloat \<Rightarrow> pyfloat" where
  "fround n x = rnd (of_int (round_even (x * 10 ^ n)) / 10 ^ n)"

lemma is_float_ops [simp]:
  "is_float (fadd a b)" "is_float (fsub a b)" "is_float (fmul a b)" "is_float (fdiv a b)"
  "is_float (of_pyint i)" "is_float (fround n x)"
  by (simp_all add: fadd_def fsub_def fmul_def fdiv_def of_pyint_def fround_def)

lemma fadd_ge: "is_float a \<Longrightarrow> 0 \<le> b \<Longrightarrow> a \<le> fadd a b"
  using rnd_mono [of a "a + b"] by (simp add: fadd_def is_float_def)

lemma fsub_le: "is_float a \<Longrightarrow> 0 \<le> b \<Longrightarrow> fsub a b \<le> a"
  using rnd_mono [of "a - b" a] by (simp add: fsub_def is_float_def)

lemma fadd_nonneg: "0 \<le> a \<Longrightarrow> 0 \<le> b \<Longrightarrow> 0 \<le> fadd a b"
  by (simp add: fadd_def rnd_nonneg)

lemma fmul_nonneg: "0 \<le> a \<Longrightarrow> 0 \<le> b \<Longrightarrow> 0 \<le> fmul a b"
  by (simp add: fmul_def rnd_nonneg)

lemma fdiv_nonneg: "0 \<le> a \<Longrightarrow> 0 \<le> b \<Longrightarrow> 0 \<le> fdiv a b"
  by (simp add: fdiv_def rnd_nonneg)

lemma of_pyint_nonneg: "0 \<le> i \<Longrightarrow> 0 \<le> of_pyint i"
  by (simp add: of_pyint_def rnd_nonneg)

lemma fadd_mono: "a \<le> a' \<Longrightarrow> b \<le> b' \<Longrightarrow> fadd a b \<le> fadd a' b'"
  by (simp add: fadd_def rnd_mono add_mono)

lemma fsub_mono: "a \<le> a' \<Longrightarrow> b' \<le> b \<Longrightarrow> fsub a b \<le> fsub a' b'"
  by (simp add: fsub_def rnd_mono diff_mono)

lemma fmul_mono: "a \<le> a' \<Longrightarrow> 0 \<le> c \<Longrightarrow> fmul c a \<le> fmul c a'"
  by (simp add: fmul_def rnd_mono mult_left_mono)

lemma fdiv_mono: "a \<le> a' \<Longrightarrow> 0 \<le> c \<Longrightarrow> fdiv a c \<le> fdiv a' c"
  by (simp add: fdiv_def rnd_mono divide_right_mono)

lemma of_pyint_mono: "i \<le> j \<Longrightarrow> of_pyint i \<le> of_pyint j"
  by (simp add: of_pyint_def rnd_mono)

lemma rnd_rel_upper:
  assumes "0 \<le> x"
  shows "rnd x \<le> x * (1 + 1 / 2 ^ 52)"
proof (cases "x = 0")
  case False
  with assms have pos: "0 < x" by simp
  have "round_even (x / ulp x) \<le> \<lfloor>x / ulp x\<rfloor> + 1" by (rule round_even_upper)
  then have "of_int (round_even (x / ulp x)) \<le> x / ulp x + 1"
    by linarith
  then have "rnd x \<le> ulp x * (x / ulp x + 1)"
    using pos by (simp only: rnd_def) (auto intro: mult_left_mono)
  also have "\<dots> = x + ulp x" by (simp add: distrib_left)
  also have "ulp x = 2 powi ilog2 x / 2 ^ 52"
    using pos by (simp add: ulp_def power_int_diff)
  also have "\<dots> \<le> x / 2 ^ 52"
    using ilog2_bounds(1) [OF pos] by (simp add: divide_right_mono)
  finally show ?thesis by (simp add: distrib_left)
qed simp

lemma trunc_le: "0 \<le> x \<Longrightarrow> x \<le> of_int i \<Longrightarrow> trunc x \<le> i"
  by (simp add: trunc_def) linarith

lemma trunc_nonneg: "0 \<le> x \<Longrightarrow> 0 \<le> trunc x"
  by (simp add: trunc_def)

lemma fround_mono: "x \<le> y \<Longrightarrow> fround n x \<le> fround n y"
  by (auto simp: fround_def intro!: rnd_mono divide_right_mono round_even_mono mult_right_mono)

lemma fround_range:
  assumes "0 \<le> x" "x \<le> 1"
  shows "0 \<le> fround n x" "fround n x \<le> 1"
proof -
  have "(0::rat) = fround n 0" using round_even_of_int [of 0] by (simp add: fround_def)
  also have "\<dots> \<le> fround n x" by (rule fround_mono [OF assms(1)])
  finally show "0 \<le> fround n x" .
  have "fround n x \<le> fround n 1" by (rule fround_mono [OF assms(2)])
  also have "fround n 1 = 1"
    using round_even_of_int [of "10 ^ n"] by (simp add: fround_def)
  finally show "fround n x \<le> 1" .
qed

end
