(* ===== verification/Provider.thy ===== *)
theory Provider
  imports PyFloat
begin

text \<open>
  \<^verbatim>\<open>models/provider.py\<close>: tiers, messages, generation results and the registry that finds
  the provider of a model.  A provider itself is a service outside the process; its type
  is a parameter.
\<close>

datatype tier = LOCAL | EXPERT

fun tier_value :: "tier \<Rightarrow> string" where
  "tier_value LOCAL = ''local''"
| "tier_value EXPERT = ''expert''"

datatype role = SYSTEM | USER | ASSISTANT | TOOL

fun role_value :: "role \<Rightarrow> string" where
  "role_value SYSTEM = ''system''"
| "role_value USER = ''user''"
| "role_value ASSISTANT = ''assistant''"
| "role_value TOOL = ''tool''"

definition role_of_value :: "string \<Rightarrow> role option" where
  "role_of_value s = (if s = ''system'' then Some SYSTEM else if s = ''user'' then Some USER
     else if s = ''assistant'' then Some ASSISTANT else if s = ''tool'' then Some TOOL else None)"

lemma role_of_value_value [simp]: "role_of_value (role_value r) = Some r"
  by (cases r) (simp_all add: role_of_value_def)

record message =
  msg_role :: role
  content :: string

definition system_msg :: "string \<Rightarrow> message" where
  "system_msg c = \<lparr>msg_role = SYSTEM, content = c\<rparr>"

definition user_msg :: "string \<Rightarrow> message" where
  "user_msg c = \<lparr>msg_role = USER, content = c\<rparr>"

definition assistant_msg :: "string \<Rightarrow> message" where
  "assistant_msg c = \<lparr>msg_role = ASSISTANT, content = c\<rparr>"

lemmas msg_defs = system_msg_def user_msg_def assistant_msg_def

record gen_result =
  gr_text :: string
  gr_model :: string
  gr_tier :: tier
  gr_input_tokens :: int
  gr_output_tokens :: int
  gr_structured :: "pyval option"

section \<open>The registry\<close>

type_synonym 'p registry = "(string, 'p) dict"

definition register :: "('p \<Rightarrow> string) \<Rightarrow> 'p \<Rightarrow> 'p registry \<Rightarrow> 'p registry" where
  "register name_of p reg = dict_set (name_of p) p reg"

text \<open>\<^verbatim>\<open>":" in name and name.split(":", 1)[1] == "cloud"\<close>\<close>

definition has_cloud_tag :: "string \<Rightarrow> bool" where
  "has_cloud_tag model_name \<longleftrightarrow> after_first (CHR '':'') model_name = Some ''cloud''"

definition no_provider_error :: "string \<Rightarrow> py_error" where
  "no_provider_error model_name =
     provider_error (''No provider registered for model '' @ [quote] @ model_name @ [quote])"

definition provider_for :: "'p registry \<Rightarrow> string \<Rightarrow> string option \<Rightarrow> 'p result" where
  "provider_for reg model_name dflt =
     (case (if has_cloud_tag model_name then dict_get reg ''ollama'' else None) of
        Some p \<Rightarrow> Inr p
      | None \<Rightarrow>
        (case (case dflt of None \<Rightarrow> None | Some [] \<Rightarrow> None | Some d \<Rightarrow> dict_get reg d) of
           Some p \<Rightarrow> Inr p
         | None \<Rightarrow> (case reg of
             [(_, p)] \<Rightarrow> Inr p
           | _ \<Rightarrow> Inl (no_provider_error model_name))))"

definition registry_get :: "'p registry \<Rightarrow> string \<Rightarrow> 'p result" where
  "registry_get reg name = (case dict_get reg name of
     Some p \<Rightarrow> Inr p
   | None \<Rightarrow> Inl (provider_error (''Provider '' @ [quote] @ name @ [quote] @ '' is not registered'')))"

lemma provider_for_registered:
  "provider_for reg m d = Inr p \<Longrightarrow> p \<in> snd ` set reg"
  by (auto simp: provider_for_def split: if_splits option.splits list.splits prod.splits
      dest!: map_of_SomeD intro: rev_image_eqI)

lemma provider_for_default:
  "\<not> has_cloud_tag m \<Longrightarrow> d \<noteq> [] \<Longrightarrow> dict_get reg d = Some p \<Longrightarrow> provider_for reg m (Some d) = Inr p"
  by (cases d) (simp_all add: provider_for_def)

lemma registry_get_register: "registry_get (register nm p reg) (nm p) = Inr p"
  by (simp add: registry_get_def register_def)

lemma registry_get_other:
  "n \<noteq> nm p \<Longrightarrow> registry_get (register nm p reg) n = registry_get reg n"
  by (simp add: registry_get_def register_def)

end
