(* ===== verification/PyRegex.thy ===== *)
theory PyRegex
  imports Prelude
begin

text \<open>
  The regular expressions of Python's \<^verbatim>\<open>re\<close> module that the code uses: character
  classes, sequence, alternation, greedy and lazy repetition, word boundaries, line and
  text anchors and negative lookahead.  \<open>ends r p\<close> lists the positions at which a match
  of \<open>r\<close> from \<open>p\<close> can end, in the order the backtracking matcher of Python tries them, so
  that the first one is the match Python reports.  \<open>matches\<close> is the relation it computes.
\<close>

section \<open>Syntax\<close>

text \<open>A position is the character before it, if any, and the text after it.\<close>

type_synonym pos = "char option \<times> string"

text \<open>Character classes; \<open>Folded c\<close> is the character \<open>c\<close> under \<^verbatim>\<open>re.IGNORECASE\<close>.\<close>

datatype cclass =
    AnyChar
  | NoChar
  | Is char
  | Folded char
  | Space
  | Digit
  | WordChar
  | UpperCase
  | LowerCase
  | HexLower
  | Either cclass cclass
  | NotIn cclass

fun has :: "cclass \<Rightarrow> char \<Rightarrow> bool" where
  "has AnyChar c = True"
| "has NoChar c = False"
| "has (Is d) c = (c = d)"
| "has (Folded d) c = (lower_char c = d)"
| "has Space c = is_space c"
| "has Digit c = is_digit c"
| "has WordChar c = is_word c"
| "has UpperCase c = is_upper c"
| "has LowerCase c = is_lower c"
| "has HexLower c = is_hex_letter c"
| "has (Either a b) c = (has a c \<or> has b c)"
| "has (NotIn a) c = (\<not> has a c)"

datatype re =
    REps
  | RCh cclass
  | RSeq re re
  | RAlt re re
  | RStar re
  | RLazy re
  | RWordB
  | RLineStart
  | RLineEnd
  | RTextStart
  | RTextEnd
  | RNot re

abbreviation start_pos :: "string \<Rightarrow> pos" where
  "start_pos s \<equiv> (None, s)"

definition rseq :: "re list \<Rightarrow> re" where
  "rseq rs = foldr RSeq rs REps"

fun ralt :: "re list \<Rightarrow> re" where
  "ralt [] = RCh NoChar"
| "ralt [r] = r"
| "ralt (r # rs) = RAlt r (ralt rs)"

definition rplus :: "re \<Rightarrow> re" where
  "rplus r = RSeq r (RStar r)"

definition ropt :: "re \<Rightarrow> re" where
  "ropt r = RAlt r REps"

definition rep :: "nat \<Rightarrow> re \<Rightarrow> re" where
  "rep n r = foldr RSeq (replicate n r) REps"

text \<open>\<^verbatim>\<open>r{n,}\<close>\<close>

definition rep_min :: "nat \<Rightarrow> re \<Rightarrow> re" where
  "rep_min n r = foldr RSeq (replicate n r) (RStar r)"

text \<open>A literal, and a literal under \<^verbatim>\<open>re.IGNORECASE\<close>.\<close>

definition rlit :: "string \<Rightarrow> re" where
  "rlit w = foldr (\<lambda>c. RSeq (RCh (Is c))) w REps"

definition ilit :: "string \<Rightarrow> re" where
  "ilit w = foldr (\<lambda>c. RSeq (RCh (Folded c))) w REps"

abbreviation rspace :: re where
  "rspace \<equiv> RCh Space"

abbreviation rdot :: re where
  "rdot \<equiv> RCh (NotIn (Is newline))"

abbreviation rany :: re where
  "rany \<equiv> RCh AnyChar"

section \<open>The matcher\<close>

text \<open>\<^verbatim>\<open>\b\<close>: exactly one side of the position is a word character.\<close>

definition word_boundary :: "pos \<Rightarrow> bool" where
  "word_boundary p \<longleftrightarrow>
     (case fst p of None \<Rightarrow> False | Some c \<Rightarrow> is_word c) \<noteq>
     (case snd p of [] \<Rightarrow> False | c # _ \<Rightarrow> is_word c)"

definition at_line_start :: "pos \<Rightarrow> bool" where
  "at_line_start p \<longleftrightarrow> fst p = None \<or> fst p = Some newline"

definition at_line_end :: "pos \<Rightarrow> bool" where
  "at_line_end p \<longleftrightarrow> (case snd p of [] \<Rightarrow> True | c # _ \<Rightarrow> c = newline)"

text \<open>Without \<^verbatim>\<open>re.MULTILINE\<close>, \<^verbatim>\<open>$\<close> also matches before a final newline.\<close>

definition at_text_end :: "pos \<Rightarrow> bool" where
  "at_text_end p \<longleftrightarrow> snd p = [] \<or> snd p = [newline]"

text \<open>
  Greedy and lazy iteration of a one-step matcher.  An iteration that consumes nothing is
  not repeated, and every other one shortens the text, so the length of the remaining
  text is enough fuel.
\<close>

fun greedy :: "(pos \<Rightarrow> pos list) \<Rightarrow> nat \<Rightarrow> pos \<Rightarrow> pos list" where
  "greedy f 0 p = [p]"
| "greedy f (Suc n) p =
     concat (map (greedy f n) (filter (\<lambda>q. length (snd q) < length (snd p)) (f p))) @ [p]"

fun lazy :: "(pos \<Rightarrow> pos list) \<Rightarrow> nat \<Rightarrow> pos \<Rightarrow> pos list" where
  "lazy f 0 p = [p]"
| "lazy f (Suc n) p =
     p # concat (map (lazy f n) (filter (\<lambda>q. length (snd q) < length (snd p)) (f p)))"

primrec ends :: "re \<Rightarrow> pos \<Rightarrow> pos list" where
  "ends REps p = [p]"
| "ends (RCh P) p = (case snd p of [] \<Rightarrow> [] | c # cs \<Rightarrow> if has P c then [(Some c, cs)] else [])"
| "ends (RSeq a b) p = concat (map (ends b) (ends a p))"
| "ends (RAlt a b) p = ends a p @ ends b p"
| "ends (RStar r) p = greedy (ends r) (length (snd p)) p"
| "ends (RLazy r) p = lazy (ends r) (length (snd p)) p"
| "ends RWordB p = (if word_boundary p then [p] else [])"
| "ends RLineStart p = (if at_line_start p then [p] else [])"
| "ends RLineEnd p = (if at_line_end p then [p] else [])"
| "ends RTextStart p = (if fst p = None then [p] else [])"
| "ends RTextEnd p = (if at_text_end p then [p] else [])"
| "ends (RNot r) p = (if ends r p = [] then [p] else [])"

text \<open>The positions of a text, from a given one to its end.\<close>

fun positions :: "char option \<Rightarrow> string \<Rightarrow> pos list" where
  "positions pv [] = [(pv, [])]"
| "positions pv (c # cs) = (pv, c # cs) # positions (Some c) cs"

text \<open>\<^verbatim>\<open>re.search\<close> as a truth value, and \<^verbatim>\<open>re.match\<close>.\<close>

definition search :: "re \<Rightarrow> string \<Rightarrow> bool" where
  "search r s \<longleftrightarrow> list_ex (\<lambda>p. ends r p \<noteq> []) (positions None s)"

definition match_start :: "re \<Rightarrow> string \<Rightarrow> bool" where
  "match_start r s \<longleftrightarrow> ends r (start_pos s) \<noteq> []"

text \<open>The text of group 1 of the first match of \<^verbatim>\<open>pre(grp)\<close>, if it matches anywhere.\<close>

definition group_at :: "re \<Rightarrow> re \<Rightarrow> pos \<Rightarrow> string list" where
  "group_at pre grp p = concat (map (\<lambda>q. map (\<lambda>e. take (length (snd q) - length (snd e)) (snd q))
     (ends grp q)) (ends pre p))"

definition search_group :: "re \<Rightarrow> re \<Rightarrow> string \<Rightarrow> string option" where
  "search_group pre grp s =
     (case concat (map (group_at pre grp) (positions None s)) of [] \<Rightarrow> None | g # _ \<Rightarrow> Some g)"

text \<open>
  \<^verbatim>\<open>pattern.sub(w, s)\<close>: non-overlapping matches from left to right, each replaced by \<open>w\<close>.
  The patterns used with it never match the empty text; an empty match is passed over.
  The fuel is the length of the text.
\<close>

fun sub_from :: "re \<Rightarrow> string \<Rightarrow> nat \<Rightarrow> pos \<Rightarrow> string" where
  "sub_from r w 0 p = snd p"
| "sub_from r w (Suc n) (pv, []) = []"
| "sub_from r w (Suc n) (pv, c # cs) =
     (case ends r (pv, c # cs) of
        q # _ \<Rightarrow> if length (snd q) \<le> length cs then w @ sub_from r w n q
                 else c # sub_from r w n (Some c, cs)
      | [] \<Rightarrow> c # sub_from r w n (Some c, cs))"

definition re_sub :: "re \<Rightarrow> string \<Rightarrow> string \<Rightarrow> string" where
  "re_sub r w s = sub_from r w (length s) (start_pos s)"

section \<open>The relation the matcher computes\<close>

inductive matches :: "re \<Rightarrow> pos \<Rightarrow> pos \<Rightarrow> bool" where
  m_eps: "matches REps p p"
| m_ch: "has P c \<Longrightarrow> matches (RCh P) (pv, c # cs) (Some c, cs)"
| m_seq: "matches a p q \<Longrightarrow> matches b q t \<Longrightarrow> matches (RSeq a b) p t"
| m_alt1: "matches a p q \<Longrightarrow> matches (RAlt a b) p q"
| m_alt2: "matches b p q \<Longrightarrow> matches (RAlt a b) p q"
| m_star0: "matches (RStar r) p p"
| m_star1: "matches r p q \<Longrightarrow> length (snd q) < length (snd p) \<Longrightarrow> matches (RStar r) q t \<Longrightarrow>
    matches (RStar r) p t"
| m_lazy0: "matches (RLazy r) p p"
| m_lazy1: "matches r p q \<Longrightarrow> length (snd q) < length (snd p) \<Longrightarrow> matches (RLazy r) q t \<Longrightarrow>
    matches (RLazy r) p t"
| m_wordb: "word_boundary p \<Longrightarrow> matches RWordB p p"
| m_ls: "at_line_start p \<Longrightarrow> matches RLineStart p p"
| m_le: "at_line_end p \<Longrightarrow> matches RLineEnd p p"
| m_ts: "fst p = None \<Longrightarrow> matches RTextStart p p"
| m_te: "at_text_end p \<Longrightarrow> matches RTextEnd p p"
| m_not: "ends r p = [] \<Longrightarrow> matches (RNot r) p p"

declare matches.intros [intro]

inductive_cases matches_elims [elim!]:
  "matches REps p q"
  "matches (RCh P) p q"
  "matches (RSeq a b) p q"
  "matches (RAlt a b) p q"
  "matches RWordB p q"
  "matches RLineStart p q"
  "matches RLineEnd p q"
  "matches RTextStart p q"
  "matches RTextEnd p q"
  "matches (RNot r) p q"

inductive_cases matches_starE: "matches (RStar r) p q"
inductive_cases matches_lazyE: "matches (RLazy r) p q"

lemma greedy_sound:
  assumes "\<And>p q. q \<in> set (f p) \<Longrightarrow> matches r p q"
  shows "q \<in> set (greedy f n p) \<Longrightarrow> matches (RStar r) p q"
proof (induction n arbitrary: p)
  case 0
  then show ?case by (simp add: m_star0)
next
  case (Suc n)
  from Suc.prems consider "q = p" | u where "u \<in> set (f p)" "length (snd u) < length (snd p)"
      "q \<in> set (greedy f n u)"
    by (simp only: greedy.simps) fastforce
  then show ?case
    by cases (blast intro: m_star0 m_star1 assms Suc.IH)+
qed

lemma lazy_sound:
  assumes "\<And>p q. q \<in> set (f p) \<Longrightarrow> matches r p q"
  shows "q \<in> set (lazy f n p) \<Longrightarrow> matches (RLazy r) p q"
proof (induction n arbitrary: p)
  case 0
  then show ?case by (simp add: m_lazy0)
next
  case (Suc n)
  from Suc.prems consider "q = p" | u where "u \<in> set (f p)" "length (snd u) < length (snd p)"
      "q \<in> set (lazy f n u)"
    by (simp only: lazy.simps) fastforce
  then show ?case
    by cases (blast intro: m_lazy0 m_lazy1 assms Suc.IH)+
qed

lemma ends_sound: "q \<in> set (ends r p) \<Longrightarrow> matches r p q"
proof (induction r arbitrary: p q)
  case (RCh P)
  then show ?case by (cases p) (auto split: list.splits if_splits)
next
  case (RSeq a b)
  then show ?case by (simp only: ends.simps set_concat set_map) (blast intro: m_seq)
next
  case (RStar r)
  then show ?case using greedy_sound [of "ends r" r] by simp
next
  case (RLazy r)
  then show ?case using lazy_sound [of "ends r" r] by simp
qed (auto split: if_splits)

lemma greedy_complete:
  assumes "\<And>p q. matches r p q \<Longrightarrow> q \<in> set (f p)"
  shows "matches (RStar r) p q \<Longrightarrow> length (snd p) \<le> n \<Longrightarrow> q \<in> set (greedy f n p)"
proof (induction n arbitrary: p)
  case 0
  then show ?case by (auto elim: matches_starE)
next
  case (Suc n)
  from Suc.prems(1) consider "q = p"
    | u where "matches r p u" "length (snd u) < length (snd p)" "matches (RStar r) u q"
    by (blast elim: matches_starE)
  then show ?case
  proof cases
    case 2
    with Suc.IH Suc.prems(2) have "q \<in> set (greedy f n u)" by simp
    moreover have "u \<in> set (f p)" using 2(1) by (rule assms)
    ultimately show ?thesis using 2(2) by (cases u) auto
  qed simp
qed

lemma lazy_complete:
  assumes "\<And>p q. matches r p q \<Longrightarrow> q \<in> set (f p)"
  shows "matches (RLazy r) p q \<Longrightarrow> length (snd p) \<le> n \<Longrightarrow> q \<in> set (lazy f n p)"
proof (induction n arbitrary: p)
  case 0
  then show ?case by (auto elim: matches_lazyE)
next
  case (Suc n)
  from Suc.prems(1) consider "q = p"
    | u where "matches r p u" "length (snd u) < length (snd p)" "matches (RLazy r) u q"
    by (blast elim: matches_lazyE)
  then show ?case
  proof cases
    case 2
    with Suc.IH Suc.prems(2) have "q \<in> set (lazy f n u)" by simp
    moreover have "u \<in> set (f p)" using 2(1) by (rule assms)
    ultimately show ?thesis using 2(2) by (cases u) auto
  qed simp
qed

lemma ends_complete: "matches r p q \<Longrightarrow> q \<in> set (ends r p)"
proof (induction r arbitrary: p q)
  case (RStar r)
  then show ?case using greedy_complete [of r "ends r"] by auto
next
  case (RLazy r)
  then show ?case using lazy_complete [of r "ends r"] by auto
qed (fastforce split: list.splits)+

text \<open>
  The fuel of the iterations is enough: the matcher finds exactly the matches of the
  relation.
\<close>

lemma ends_iff: "q \<in> set (ends r p) \<longleftrightarrow> matches r p q"
  using ends_sound ends_complete by blast

lemma ends_nonempty_iff: "ends r p \<noteq> [] \<longleftrightarrow> (\<exists>q. matches r p q)"
  by (metis ends_iff length_greater_0_conv nth_mem length_pos_if_in_set)

section \<open>Positions and search\<close>

definition last_char :: "char option \<Rightarrow> string \<Rightarrow> char option" where
  "last_char pv u = (if u = [] then pv else Some (last u))"

lemma last_char_Nil [simp]: "last_char pv [] = pv"
  and last_char_Cons [simp]: "last_char pv (c # u) = last_char (Some c) u"
  and last_char_append [simp]: "last_char pv (u @ v) = last_char (last_char pv u) v"
  by (simp_all add: last_char_def)

lemma set_positions: "set (positions pv s) = {(last_char pv u, v) | u v. s = u @ v}"
proof (induction s arbitrary: pv)
  case Nil
  then show ?case by auto
next
  case (Cons c cs)
  show ?case
  proof (rule set_eqI)
    fix p
    show "p \<in> set (positions pv (c # cs)) \<longleftrightarrow>
      p \<in> {(last_char pv u, v) | u v. c # cs = u @ v}"
      by (cases p) (fastforce simp: Cons.IH Cons_eq_append_conv)
  qed
qed

lemma search_iff: "search r s \<longleftrightarrow> (\<exists>u v q. s = u @ v \<and> matches r (last_char None u, v) q)"
  by (fastforce simp: search_def list_ex_iff set_positions ends_nonempty_iff)

lemma searchI: "matches r (last_char None u, v) q \<Longrightarrow> search r (u @ v)"
  unfolding search_iff by blast

text \<open>A match moves forward in its text.\<close>

lemma matches_forward:
  "matches r p q \<Longrightarrow> \<exists>u. snd p = u @ snd q \<and> fst q = last_char (fst p) u"
proof (induction rule: matches.induct)
  case (m_ch P c pv cs)
  show ?case by (rule exI [of _ "[c]"]) simp
next
  case (m_seq a p q b t)
  then show ?case by (metis append.assoc last_char_append)
next
  case (m_star1 r p q t)
  then show ?case by (metis append.assoc last_char_append)
next
  case (m_lazy1 r p q t)
  then show ?case by (metis append.assoc last_char_append)
qed (auto intro: exI [of _ "[]"])

section \<open>Matching literals\<close>

lemma matches_rseq_Nil [simp]: "matches (rseq []) p q \<longleftrightarrow> q = p"
  by (auto simp: rseq_def)

lemma matches_rseq_Cons [simp]:
  "matches (rseq (r # rs)) p q \<longleftrightarrow> (\<exists>t. matches r p t \<and> matches (rseq rs) t q)"
  by (auto simp: rseq_def)

lemma matches_ralt: "matches (ralt rs) p q \<longleftrightarrow> (\<exists>r\<in>set rs. matches r p q)"
  by (induction rs rule: ralt.induct) auto

lemma matches_rlit: "matches (rlit w) (pv, w @ v) (last_char pv w, v)"
proof (induction w arbitrary: pv)
  case (Cons c w)
  have "matches (RCh (Is c)) (pv, c # w @ v) (Some c, w @ v)" by (rule m_ch) simp
  from m_seq [OF this Cons [of "Some c"]] show ?case by (simp add: rlit_def)
qed (simp add: rlit_def m_eps)

lemma matches_ilit: "matches (ilit (lower u)) (pv, u @ v) (last_char pv u, v)"
proof (induction u arbitrary: pv)
  case (Cons c u)
  have "matches (RCh (Folded (lower_char c))) (pv, c # u @ v) (Some c, u @ v)"
    by (rule m_ch) simp
  from m_seq [OF this Cons [of "Some c"]] show ?case by (simp add: ilit_def)
qed (simp add: ilit_def m_eps)

lemma matches_star_class:
  "(\<And>c. c \<in> set u \<Longrightarrow> has P c) \<Longrightarrow> matches (RStar (RCh P)) (pv, u @ v) (last_char pv u, v)"
proof (induction u arbitrary: pv)
  case (Cons c u)
  have "matches (RCh P) (pv, c # u @ v) (Some c, u @ v)" by (rule m_ch) (simp add: Cons.prems)
  from m_star1 [OF this _ Cons.IH [of "Some c"]] Cons.prems show ?case by simp
qed (simp add: m_star0)

lemma matches_rplus:
  assumes "u \<noteq> []" "\<And>c. c \<in> set u \<Longrightarrow> has P c"
  shows "matches (rplus (RCh P)) (pv, u @ v) (last_char pv u, v)"
proof -
  from assms(1) obtain c u' where u: "u = c # u'" by (cases u) auto
  have "matches (RCh P) (pv, c # u' @ v) (Some c, u' @ v)" by (rule m_ch) (simp add: assms(2) u)
  from m_seq [OF this matches_star_class [of u' P "Some c"]] assms(2) u
  show ?thesis by (simp add: rplus_def)
qed

lemma word_boundary_start:
  "is_word c \<Longrightarrow> (case pv of None \<Rightarrow> True | Some d \<Rightarrow> \<not> is_word d) \<Longrightarrow> word_boundary (pv, c # cs)"
  by (auto simp: word_boundary_def split: option.splits)

lemma word_boundary_end:
  "is_word c \<Longrightarrow> (case v of [] \<Rightarrow> True | d # _ \<Rightarrow> \<not> is_word d) \<Longrightarrow> word_boundary (Some c, v)"
  by (auto simp: word_boundary_def split: list.splits)

section \<open>Substitution\<close>

text \<open>A pattern that matches nowhere leaves the text alone.\<close>

lemma sub_from_no_match:
  "(\<And>q. q \<in> set (positions pv s) \<Longrightarrow> ends r q = []) \<Longrightarrow> sub_from r w n (pv, s) = s"
proof (induction n arbitrary: pv s)
  case (Suc n)
  then show ?case by (cases s) auto
qed simp

lemma re_sub_no_match: "\<not> search r s \<Longrightarrow> re_sub r w s = s"
  by (auto simp: re_sub_def search_def list_ex_iff intro!: sub_from_no_match)

end
