(* ===== verification/History.thy ===== *)
theory History
  imports PyFloat
begin

text \<open>
  \<^verbatim>\<open>history/sqlite.py\<close>: the execution history, the approval audit trail and the standing
  rules.  Each SQL table is a list of rows in insertion order; a statement of the source is
  an operation on these lists.  JSON columns hold the value they encode, and the creation
  time of a row is not modelled (so neither is \<^verbatim>\<open>recent_runs\<close>, which orders by it).
\<close>

section \<open>Rows and tables\<close>

record rule_row =
  row_id :: int
  row_text :: string
  row_forbid_terms :: "string list"
  row_grants :: "string list"
  row_tags :: "string list"
  row_active :: bool

record run_row =
  run_trace_id :: string
  run_prompt :: string
  run_task_type :: "string option"
  run_complexity :: "pyfloat option"
  run_decision_level :: "string option"
  run_approval_requested :: bool
  run_user_decision :: "string option"
  run_route :: string
  run_policy :: pyval
  run_models :: pyval
  run_input_tokens :: int
  run_output_tokens :: int
  run_cloud_calls :: int
  run_cloud_cost :: pyfloat
  run_retries :: int
  run_escalations :: int
  run_verification_success :: bool
  run_final_success :: bool
  run_metadata :: pyval

record approval_row =
  apr_trace_id :: string
  apr_category :: string
  apr_issue :: string
  apr_recommended_action :: string
  apr_action :: string
  apr_selected_options :: "string list"
  apr_constraints :: "string list"
  apr_authorized :: bool

record event_row =
  evt_trace_id :: string
  evt_component :: string
  evt_message :: string
  evt_fields :: "(string \<times> pyval) list"

text \<open>
  \<open>st_last_id\<close> is the counter behind \<^verbatim>\<open>AUTOINCREMENT\<close>: an identifier is never reused.
\<close>

record store =
  st_runs :: "run_row list"
  st_approvals :: "approval_row list"
  st_rules :: "rule_row list"
  st_events :: "event_row list"
  st_last_id :: int

definition empty_store :: store where
  "empty_store = \<lparr>st_runs = [], st_approvals = [], st_rules = [], st_events = [], st_last_id = 0\<rparr>"

section \<open>Operations\<close>

text \<open>\<^verbatim>\<open>INSERT OR REPLACE INTO runs\<close>: the row with the same trace id, if any, is deleted first.\<close>

definition record_run :: "run_row \<Rightarrow> store \<Rightarrow> store" where
  "record_run run s =
     s\<lparr>st_runs := filter (\<lambda>r. run_trace_id r \<noteq> run_trace_id run) (st_runs s) @ [run]\<rparr>"

definition record_approval :: "approval_row \<Rightarrow> store \<Rightarrow> store" where
  "record_approval row s = s\<lparr>st_approvals := st_approvals s @ [row]\<rparr>"

definition record_event :: "event_row \<Rightarrow> store \<Rightarrow> store" where
  "record_event row s = s\<lparr>st_events := st_events s @ [row]\<rparr>"

definition add_standing_rule ::
  "string \<Rightarrow> string list option \<Rightarrow> string list option \<Rightarrow> string list option \<Rightarrow> store \<Rightarrow> int \<times> store" where
  "add_standing_rule text forbid_terms grants tags s =
     (let i = st_last_id s + 1;
          or_empty = (\<lambda>x. case x of None \<Rightarrow> [] | Some l \<Rightarrow> l);
          row = \<lparr>row_id = i, row_text = text, row_forbid_terms = or_empty forbid_terms,
                 row_grants = or_empty grants, row_tags = or_empty tags, row_active = True\<rparr>
      in (i, s\<lparr>st_rules := st_rules s @ [row], st_last_id := i\<rparr>))"

text \<open>\<^verbatim>\<open>ORDER BY id\<close>: rows are inserted with increasing identifiers.\<close>

definition list_standing_rules :: "bool \<Rightarrow> store \<Rightarrow> rule_row list" where
  "list_standing_rules active_only s =
     sort_key row_id (if active_only then filter row_active (st_rules s) else st_rules s)"

definition deactivate_standing_rule :: "int \<Rightarrow> store \<Rightarrow> bool \<times> store" where
  "deactivate_standing_rule rid s =
     (list_ex (\<lambda>r. row_id r = rid) (st_rules s),
      s\<lparr>st_rules := map (\<lambda>r. if row_id r = rid then r\<lparr>row_active := False\<rparr> else r) (st_rules s)\<rparr>)"

record history_stats =
  hs_runs :: int
  hs_cloud_calls :: int
  hs_cloud_cost :: pyfloat
  hs_successes :: int
  hs_approval_requests :: int
  hs_escalations :: int
  hs_success_rate :: pyfloat

text \<open>
  \<^verbatim>\<open>stats\<close>.  How SQLite adds floating-point columns is its own affair: \<open>sum_real\<close> is a
  parameter.
\<close>

definition stats :: "(pyfloat list \<Rightarrow> pyfloat) \<Rightarrow> store \<Rightarrow> history_stats" where
  "stats sum_real s =
     (let rows = st_runs s; runs = int (length rows);
          successes = int (length (filter run_final_success rows))
      in \<lparr>hs_runs = runs, hs_cloud_calls = sum_list (map run_cloud_calls rows),
          hs_cloud_cost = sum_real (map run_cloud_cost rows), hs_successes = successes,
          hs_approval_requests = int (length (filter run_approval_requested rows)),
          hs_escalations = sum_list (map run_escalations rows),
          hs_success_rate = (if runs = 0 then 0 else fdiv (of_pyint successes) (of_pyint runs))\<rparr>)"

section \<open>Invariant\<close>

text \<open>Identifiers increase with the rows and stay below the counter; trace ids are unique.\<close>

definition store_ok :: "store \<Rightarrow> bool" where
  "store_ok s \<longleftrightarrow> sorted_wrt (<) (map row_id (st_rules s)) \<and>
     (\<forall>r\<in>set (st_rules s). row_id r \<le> st_last_id s) \<and> distinct (map run_trace_id (st_runs s))"

lemma store_ok_empty: "store_ok empty_store"
  by (simp add: store_ok_def empty_store_def)

lemma store_ok_record_run: "store_ok s \<Longrightarrow> store_ok (record_run run s)"
  by (auto simp: store_ok_def record_run_def distinct_map_filter)

lemma store_ok_record_approval: "store_ok s \<Longrightarrow> store_ok (record_approval row s)"
  and store_ok_record_event: "store_ok s \<Longrightarrow> store_ok (record_event ev s)"
  by (simp_all add: store_ok_def record_approval_def record_event_def)

lemma store_ok_add_rule: "store_ok s \<Longrightarrow> store_ok (snd (add_standing_rule t f g tg s))"
  by (fastforce simp: store_ok_def add_standing_rule_def Let_def sorted_wrt_append)

lemma map_row_id_deactivate:
  "map row_id (map (\<lambda>r. if row_id r = rid then r\<lparr>row_active := False\<rparr> else r) rs) = map row_id rs"
  by simp

lemma store_ok_deactivate: "store_ok s \<Longrightarrow> store_ok (snd (deactivate_standing_rule rid s))"
  by (auto simp: store_ok_def deactivate_standing_rule_def comp_def if_distrib cong: if_cong)

lemma sort_key_row_id:
  assumes "sorted_wrt (<) (map row_id rs)"
  shows "sort_key row_id (filter P rs) = filter P rs"
proof -
  have "sorted (map row_id rs)" using assms by (simp add: strict_sorted_imp_sorted)
  then have "sorted (map row_id (filter P rs))" by (rule sorted_filter)
  then show ?thesis by (rule sort_key_id_if_sorted)
qed

lemma list_rules_eq:
  assumes "store_ok s"
  shows "list_standing_rules True s = filter row_active (st_rules s)"
    and "list_standing_rules False s = st_rules s"
  using assms sort_key_row_id [of "st_rules s" row_active] sort_key_row_id [of "st_rules s" "\<lambda>_. True"]
  by (simp_all add: list_standing_rules_def store_ok_def)

section \<open>The interface of the rule engine\<close>

text \<open>
  \<^verbatim>\<open>HistoryStore\<close> as the standing-rule engine uses it: a rule that was added is listed
  last, a deactivated one is listed no more, and every other one stays.
\<close>

locale rule_store =
  fixes add_rule :: "string \<Rightarrow> string list option \<Rightarrow> string list option \<Rightarrow> string list option \<Rightarrow> 's \<Rightarrow> int \<times> 's"
    and list_rules :: "'s \<Rightarrow> rule_row list"
    and deactivate :: "int \<Rightarrow> 's \<Rightarrow> bool \<times> 's"
    and ok :: "'s \<Rightarrow> bool"
  assumes add_listed: "ok s \<Longrightarrow> add_rule t (Some f) (Some g) (Some tg) s = (i, s') \<Longrightarrow>
      list_rules s' = list_rules s @ [\<lparr>row_id = i, row_text = t, row_forbid_terms = f,
        row_grants = g, row_tags = tg, row_active = True\<rparr>]"
    and add_fresh: "ok s \<Longrightarrow> add_rule t f' g' tg' s = (i, s') \<Longrightarrow> i \<notin> row_id ` set (list_rules s)"
    and deactivate_listed: "ok s \<Longrightarrow> list_rules (snd (deactivate i s)) =
      filter (\<lambda>r. row_id r \<noteq> i) (list_rules s)"
    and listed_active: "ok s \<Longrightarrow> r \<in> set (list_rules s) \<Longrightarrow> row_active r"
    and ok_add: "ok s \<Longrightarrow> ok (snd (add_rule t f' g' tg' s))"
    and ok_deactivate: "ok s \<Longrightarrow> ok (snd (deactivate i s))"
begin

lemma add_deactivate:
  assumes "ok s" "add_rule t (Some f) (Some g) (Some tg) s = (i, s')"
  shows "list_rules (snd (deactivate i s')) = list_rules s"
proof -
  have "ok s'" using ok_add [OF assms(1), of t "Some f" "Some g" "Some tg"] assms(2) by simp
  moreover have "filter (\<lambda>r. row_id r \<noteq> i) (list_rules s) = list_rules s"
    using add_fresh [OF assms] by (intro filter_True) auto
  ultimately show ?thesis
    by (simp add: deactivate_listed add_listed [OF assms])
qed

lemma deactivate_idem:
  "ok s \<Longrightarrow> list_rules (snd (deactivate i (snd (deactivate i s)))) = list_rules (snd (deactivate i s))"
  by (simp add: deactivate_listed ok_deactivate)

end

lemma filter_deactivate:
  "filter row_active (map (\<lambda>r. if row_id r = i then r\<lparr>row_active := False\<rparr> else r) rs) =
   filter (\<lambda>r. row_id r \<noteq> i) (filter row_active rs)"
  by (induction rs) auto

lemma deactivate_list:
  "store_ok s \<Longrightarrow> list_standing_rules True (snd (deactivate_standing_rule i s)) =
     filter (\<lambda>r. row_id r \<noteq> i) (list_standing_rules True s)"
  by (simp only: list_rules_eq store_ok_deactivate)
    (simp add: deactivate_standing_rule_def filter_deactivate)

lemma add_list:
  assumes "store_ok s" "add_standing_rule t (Some f) (Some g) (Some tg) s = (i, s')"
  shows "list_standing_rules True s' = list_standing_rules True s @
    [\<lparr>row_id = i, row_text = t, row_forbid_terms = f, row_grants = g, row_tags = tg, row_active = True\<rparr>]"
proof -
  have "store_ok s'" using store_ok_add_rule [OF assms(1), of t "Some f" "Some g" "Some tg"] assms(2) by simp
  then show ?thesis using assms by (auto simp: list_rules_eq add_standing_rule_def Let_def)
qed

lemma add_id_fresh:
  assumes "store_ok s" "add_standing_rule t f g tg s = (i, s')"
  shows "i \<notin> row_id ` set (list_standing_rules True s)"
  using assms by (fastforce simp: list_rules_eq(1) add_standing_rule_def Let_def store_ok_def)

interpretation sqlite: rule_store add_standing_rule "list_standing_rules True"
  deactivate_standing_rule store_ok
  by unfold_locales
    (simp_all add: add_list add_id_fresh deactivate_list store_ok_add_rule store_ok_deactivate,
     simp add: list_rules_eq)

end
