(* ===== verification/Trace.thy ===== *)
theory Trace
  imports History
begin

text \<open>
  \<^verbatim>\<open>metrics/trace.py\<close>: the event log of one run.  An event keeps its component, message and
  fields; every event also goes to the history store when there is one.  Time stamps and
  the lines written to the logger and the sink are not modelled.
\<close>

type_synonym fields = "(string \<times> pyval) list"

record trace_event =
  ev_component :: string
  ev_message :: string
  ev_fields :: fields

definition entry :: "string \<Rightarrow> string \<Rightarrow> fields \<Rightarrow> trace_event" where
  "entry c m fs = \<lparr>ev_component = c, ev_message = m, ev_fields = fs\<rparr>"

record trace =
  trace_id :: string
  tr_events :: "trace_event list"
  tr_history :: "store option"

definition new_trace :: "string \<Rightarrow> store option \<Rightarrow> trace" where
  "new_trace i h = \<lparr>trace_id = i, tr_events = [], tr_history = h\<rparr>"

definition log_entry :: "trace_event \<Rightarrow> trace \<Rightarrow> trace" where
  "log_entry e t = t\<lparr>tr_events := tr_events t @ [e],
     tr_history := map_option (record_event \<lparr>evt_trace_id = trace_id t,
       evt_component = ev_component e, evt_message = ev_message e, evt_fields = ev_fields e\<rparr>)
       (tr_history t)\<rparr>"

definition log_all :: "trace_event list \<Rightarrow> trace \<Rightarrow> trace" where
  "log_all es t = fold log_entry es t"

text \<open>\<^verbatim>\<open>Trace.child\<close>: the same identity and history, an event list of its own.\<close>

definition trace_child :: "trace \<Rightarrow> trace" where
  "trace_child t = t\<lparr>tr_events := []\<rparr>"

lemma log_entry_id [simp]: "trace_id (log_entry e t) = trace_id t"
  and log_entry_events [simp]: "tr_events (log_entry e t) = tr_events t @ [e]"
  by (simp_all add: log_entry_def)

lemma log_all_id [simp]: "trace_id (log_all es t) = trace_id t"
  and log_all_events [simp]: "tr_events (log_all es t) = tr_events t @ es"
  by (induction es arbitrary: t) (simp_all add: log_all_def)

lemma log_entry_store_ok:
  "(\<And>s. tr_history t = Some s \<Longrightarrow> store_ok s) \<Longrightarrow> tr_history (log_entry e t) = Some s \<Longrightarrow> store_ok s"
  by (auto simp: log_entry_def store_ok_record_event)

text \<open>The store holds exactly the events of the trace, in order, after those it held before.\<close>

definition event_row_of :: "string \<Rightarrow> trace_event \<Rightarrow> event_row" where
  "event_row_of i e = \<lparr>evt_trace_id = i, evt_component = ev_component e,
     evt_message = ev_message e, evt_fields = ev_fields e\<rparr>"

lemma log_entry_history:
  "tr_history (log_entry e t) =
   map_option (\<lambda>s. s\<lparr>st_events := st_events s @ [event_row_of (trace_id t) e]\<rparr>) (tr_history t)"
  by (cases "tr_history t") (simp_all add: log_entry_def event_row_of_def record_event_def)

lemma log_all_history:
  "tr_history (log_all es t) =
   map_option (\<lambda>s. s\<lparr>st_events := st_events s @ map (event_row_of (trace_id t)) es\<rparr>) (tr_history t)"
proof (induction es arbitrary: t)
  case Nil
  then show ?case by (cases "tr_history t") (simp_all add: log_all_def)
next
  case (Cons e es)
  have "log_all (e # es) t = log_all es (log_entry e t)" by (simp add: log_all_def)
  with Cons [of "log_entry e t"] show ?case
    by (cases "tr_history t") (simp_all add: log_entry_history)
qed

end
