(* ===== verification/Handoff.thy ===== *)
theory Handoff
  imports Provider PyRegex Trace
begin

text \<open>
  \<^verbatim>\<open>context/handoff.py\<close>: the redactor every text passes before it leaves the machine, and
  the task specifications handed to local workers.  The redactors of the program are built
  without a trace of their own; \<open>redaction_entries\<close> is what one with a trace would log.
\<close>

section \<open>The patterns\<close>

definition private_key_re :: re where
  "private_key_re = rseq [rlit ''-----BEGIN '', RStar (RCh (Either UpperCase (Is (CHR
     0x20)))), rlit ''PRIVATE KEY-----'', RLazy rany, rlit ''-----END '', RStar (RCh (Either
     UpperCase (Is (CHR 0x20)))), rlit ''PRIVATE KEY-----'']"

definition aws_access_key_re :: re where
  "aws_access_key_re = rseq [RWordB, rlit ''AKIA'', rep 16 (RCh (Either Digit UpperCase)),
     RWordB]"

definition github_token_re :: re where
  "github_token_re = rseq [RWordB, rseq [rlit ''gh'', RCh (Either (Is (CHR ''p'')) (Either (Is
     (CHR ''o'')) (Either (Is (CHR ''u'')) (Either (Is (CHR ''s'')) (Is (CHR ''r'')))))), rlit
     ''_'', rep_min 20 (RCh (Either UpperCase (Either LowerCase Digit)))], RWordB]"

definition slack_token_re :: re where
  "slack_token_re = rseq [RWordB, rlit ''xox'', RCh (Either (Is (CHR ''b'')) (Either (Is (CHR
     ''a'')) (Either (Is (CHR ''p'')) (Either (Is (CHR ''r'')) (Is (CHR ''s'')))))), rlit
     ''-'', rep_min 10 (RCh (Either UpperCase (Either LowerCase (Either Digit (Is (CHR
     ''-'')))))), RWordB]"

definition openai_key_re :: re where
  "openai_key_re = rseq [RWordB, rlit ''sk-'', rep_min 16 (RCh (Either UpperCase (Either
     LowerCase Digit))), RWordB]"

definition bearer_token_re :: re where
  "bearer_token_re = rseq [RWordB, ilit ''bearer'', rplus rspace, rep_min 12 (RCh (Either
     UpperCase (Either LowerCase (Either Digit (Either (Is (CHR ''.'')) (Either (Is (CHR
     ''_'')) (Is (CHR ''-''))))))))]"

definition env_assignment_re :: re where
  "env_assignment_re = rseq [RLineStart, RStar rspace, RStar (RCh (Either UpperCase (Either
     LowerCase (Either Digit (Is (CHR ''_'')))))), ralt [ilit ''key'', ilit ''token'', ilit
     ''secret'', ilit ''password'', ilit ''passwd'', ilit ''pwd'', ilit ''credential''], RStar
     (RCh (Either UpperCase (Either LowerCase (Either Digit (Is (CHR ''_'')))))), RStar
     rspace, ilit ''='', RStar rspace, rplus rdot, RLineEnd]"

definition password_field_re :: re where
  "password_field_re = rseq [RWordB, ilit ''password'', RStar rspace, RCh (Either (Is (CHR
     '':'')) (Is (CHR ''=''))), RStar rspace, rep_min 4 (RCh (NotIn (Either Space (Either (Is
     (CHR 0x22)) (Is (CHR 0x27))))))]"

definition connection_string_re :: re where
  "connection_string_re = rseq [RWordB, ralt [rseq [ilit ''postgres'', ropt (ilit ''ql'')],
     ilit ''mysql'', ilit ''mongodb'', ilit ''redis''], ropt (rseq [ilit ''+'', rplus (RCh
     WordChar)]), ilit ''://'', rplus (RCh (NotIn Space))]"

definition secret_patterns :: "(string \<times> re) list" where
  "secret_patterns = [
     (''private_key'', private_key_re),
     (''aws_access_key'', aws_access_key_re),
     (''github_token'', github_token_re),
     (''slack_token'', slack_token_re),
     (''openai_key'', openai_key_re),
     (''bearer_token'', bearer_token_re),
     (''env_assignment'', env_assignment_re),
     (''password_field'', password_field_re),
     (''connection_string'', connection_string_re)]"

section \<open>Redaction\<close>

record redaction =
  red_text :: string
  red_findings :: "string list"

definition redacted :: "redaction \<Rightarrow> bool" where
  "redacted r \<longleftrightarrow> red_findings r \<noteq> []"

definition redaction_mark :: "string \<Rightarrow> string" where
  "redaction_mark name = ''[REDACTED:'' @ name @ '']''"

text \<open>The body of the loop: a pattern that occurs is noted and replaced everywhere.\<close>

definition redact_step :: "string \<times> re \<Rightarrow> redaction \<Rightarrow> redaction" where
  "redact_step np r = (case np of (name, pattern) \<Rightarrow>
     if search pattern (red_text r)
     then \<lparr>red_text = re_sub pattern (redaction_mark name) (red_text r),
           red_findings = red_findings r @ [name]\<rparr>
     else r)"

definition redact :: "bool \<Rightarrow> string \<Rightarrow> redaction" where
  "redact enabled t =
     (if \<not> enabled \<or> t = [] then \<lparr>red_text = t, red_findings = []\<rparr>
      else fold redact_step secret_patterns \<lparr>red_text = t, red_findings = []\<rparr>)"

definition redaction_entries :: "redaction \<Rightarrow> trace_event list" where
  "redaction_entries r =
     (if redacted r
      then [entry ''security'' ''redacted potential secrets before cloud handoff''
              [(''patterns'', PList (map PStr (red_findings r)))]]
      else [])"

text \<open>\<^verbatim>\<open>redact_model_messages\<close>, over the typed messages of a cloud call.\<close>

definition redact_model_messages :: "bool \<Rightarrow> message list \<Rightarrow> message list \<times> string list" where
  "redact_model_messages enabled ms =
     (map (\<lambda>m. m\<lparr>content := red_text (redact enabled (content m))\<rparr>) ms,
      sorted_set (concat (map (\<lambda>m. red_findings (redact enabled (content m))) ms)))"

text \<open>\<^verbatim>\<open>redact_messages\<close>, over dictionaries of strings; a missing content is empty.\<close>

definition redact_messages ::
  "bool \<Rightarrow> (string, string) dict list \<Rightarrow> (string, string) dict list \<times> string list" where
  "redact_messages enabled ms =
     (let body = (\<lambda>m. case dict_get m ''content'' of None \<Rightarrow> [] | Some c \<Rightarrow> c)
      in (map (\<lambda>m. dict_set ''content'' (red_text (redact enabled (body m))) m) ms,
          sorted_set (concat (map (\<lambda>m. red_findings (redact enabled (body m))) ms))))"

section \<open>Local tasks\<close>

record local_task_spec =
  lt_task :: string
  lt_acceptance_criteria :: "string list"
  lt_files_likely_relevant :: "string list"
  lt_constraints :: "string list"
  lt_dependencies :: "string list"
  lt_task_id :: "string option"
  lt_role :: string

definition to_local_task ::
  "string \<Rightarrow> string list option \<Rightarrow> string list option \<Rightarrow> string list option \<Rightarrow> string list option \<Rightarrow>
     string option \<Rightarrow> local_task_spec" where
  "to_local_task task criteria files constraints dependencies task_id =
     (let or_empty = (\<lambda>x. case x of None \<Rightarrow> [] | Some l \<Rightarrow> l)
      in \<lparr>lt_task = task, lt_acceptance_criteria = or_empty criteria,
          lt_files_likely_relevant = or_empty files, lt_constraints = or_empty constraints,
          lt_dependencies = or_empty dependencies, lt_task_id = task_id, lt_role = ''builder''\<rparr>)"

text \<open>
  \<^verbatim>\<open>from_plan\<close> reads the dictionary a model produced.  \<^verbatim>\<open>list(value)\<close> of a string is its
  characters, of a dictionary its keys; the model class then accepts strings only.
\<close>

fun py_list :: "pyval \<Rightarrow> pyval list result" where
  "py_list (PList xs) = Inr xs"
| "py_list (PStr s) = Inr (map (\<lambda>c. PStr [c]) s)"
| "py_list (PDict d) = Inr (map (\<lambda>e. PStr (fst e)) d)"
| "py_list v = Inl (TypeError ''object is not iterable'')"

fun str_field :: "pyval \<Rightarrow> string result" where
  "str_field (PStr s) = Inr s"
| "str_field v = Inl (ValueError ''Input should be a valid string'')"

fun str_fields :: "pyval list \<Rightarrow> string list result" where
  "str_fields [] = Inr []"
| "str_fields (v # vs) = (case str_field v of Inl e \<Rightarrow> Inl e
     | Inr s \<Rightarrow> (case str_fields vs of Inl e \<Rightarrow> Inl e | Inr ss \<Rightarrow> Inr (s # ss)))"

definition str_list_of :: "(string, pyval) dict \<Rightarrow> string \<Rightarrow> pyval list result" where
  "str_list_of d k = py_list (get_default d k (PList []))"

text \<open>\<^verbatim>\<open>f"task-{index + 1:03d}"\<close>\<close>

definition task_number :: "nat \<Rightarrow> string" where
  "task_number index = (let n = show_nat (index + 1)
     in ''task-'' @ replicate (3 - length n) (CHR ''0'') @ n)"

definition plan_item :: "nat \<Rightarrow> pyval \<Rightarrow> local_task_spec result" where
  "plan_item index item = (case item of
     PDict d \<Rightarrow>
       (case (str_list_of d ''acceptance_criteria'', str_list_of d ''files_likely_relevant'',
              str_list_of d ''constraints'', str_list_of d ''dependencies'') of
          (Inr a, Inr f, Inr c, Inr p) \<Rightarrow>
            (let given = get_default d ''id'' PNone;
                 tid = (if truthy given then given else PStr (task_number index))
             in case (str_field (get_default d ''task'' (PStr [])), str_fields a, str_fields f,
                      str_fields c, str_fields p, str_field tid) of
                  (Inr t, Inr a, Inr f, Inr c, Inr p, Inr i) \<Rightarrow>
                    Inr \<lparr>lt_task = t, lt_acceptance_criteria = a, lt_files_likely_relevant = f,
                         lt_constraints = c, lt_dependencies = p, lt_task_id = Some i,
                         lt_role = ''builder''\<rparr>
                | _ \<Rightarrow> Inl (ValueError ''validation error for LocalTaskSpec''))
        | _ \<Rightarrow> Inl (TypeError ''object is not iterable''))
   | _ \<Rightarrow> Inl (AttributeError ''object has no attribute get''))"

fun plan_items :: "nat \<Rightarrow> pyval list \<Rightarrow> local_task_spec list result" where
  "plan_items i [] = Inr []"
| "plan_items i (v # vs) = (case plan_item i v of Inl e \<Rightarrow> Inl e
     | Inr s \<Rightarrow> (case plan_items (i + 1) vs of Inl e \<Rightarrow> Inl e | Inr ss \<Rightarrow> Inr (s # ss)))"

definition from_plan :: "(string, pyval) dict \<Rightarrow> local_task_spec list result" where
  "from_plan plan = (case py_list (get_default plan ''tasks'' (PList [])) of
     Inl e \<Rightarrow> Inl e | Inr items \<Rightarrow> plan_items 0 items)"

section \<open>Facts\<close>

lemma redact_disabled [simp]: "redact False t = \<lparr>red_text = t, red_findings = []\<rparr>"
  and redact_empty [simp]: "redact b [] = \<lparr>red_text = [], red_findings = []\<rparr>"
  by (simp_all add: redact_def)

lemma redact_step_hit: "search p (red_text r) \<Longrightarrow> redact_step (name, p) r =
    \<lparr>red_text = re_sub p (redaction_mark name) (red_text r), red_findings = red_findings r @ [name]\<rparr>"
  and redact_step_miss: "\<not> search p (red_text r) \<Longrightarrow> redact_step (name, p) r = r"
  by (simp_all add: redact_step_def)

lemma redact_step_findings_mono: "\<exists>fs. red_findings (redact_step np r) = red_findings r @ fs"
  by (auto simp: redact_step_def split: prod.split)

lemma fold_redact_findings_mono: "\<exists>fs. red_findings (fold redact_step nps r) = red_findings r @ fs"
proof (induction nps arbitrary: r)
  case (Cons np nps)
  from Cons [of "redact_step np r"] redact_step_findings_mono [of np r] show ?case by fastforce
qed simp

text \<open>A pattern that occurs in the text is found: the findings are empty on clean text only.\<close>

definition clean :: "string \<Rightarrow> bool" where
  "clean t \<longleftrightarrow> (\<forall>np\<in>set secret_patterns. \<not> search (snd np) t)"

lemma fold_redact_no_findings:
  "red_findings (fold redact_step nps r) = red_findings r \<longleftrightarrow>
     (\<forall>np\<in>set nps. \<not> search (snd np) (red_text r))"
proof (induction nps arbitrary: r)
  case (Cons np nps)
  obtain name p where np: "np = (name, p)" by (cases np)
  show ?case
  proof (cases "search p (red_text r)")
    case True
    obtain fs where "red_findings (fold redact_step nps (redact_step np r)) =
        red_findings (redact_step np r) @ fs"
      using fold_redact_findings_mono by blast
    with True show ?thesis by (simp add: np redact_step_hit)
  next
    case False
    with Cons show ?thesis by (simp add: np redact_step_miss)
  qed
qed simp

lemma fold_redact_clean:
  "\<forall>np\<in>set nps. \<not> search (snd np) (red_text r) \<Longrightarrow> fold redact_step nps r = r"
  by (induction nps arbitrary: r) (auto simp: redact_step_def split: prod.splits)

lemma redact_clean: "clean t \<Longrightarrow> redact b t = \<lparr>red_text = t, red_findings = []\<rparr>"
  by (simp add: redact_def clean_def fold_redact_clean)

lemma redact_findings_empty: "t \<noteq> [] \<Longrightarrow> red_findings (redact True t) = [] \<longleftrightarrow> clean t"
  using fold_redact_no_findings [of secret_patterns "\<lparr>red_text = t, red_findings = []\<rparr>"]
  by (simp add: redact_def clean_def)

lemma redact_no_findings: "red_findings (redact b t) = [] \<Longrightarrow> red_text (redact b t) = t"
  by (cases b; cases "t = []") (auto simp: redact_findings_empty redact_clean)

lemma fold_redact_subseq: "\<exists>fs. red_findings (fold redact_step nps r) = red_findings r @ fs \<and> subseq fs (map fst nps)"
proof (induction nps arbitrary: r)
  case (Cons np nps)
  obtain name p where np: "np = (name, p)" by (cases np)
  obtain fs where fs: "red_findings (fold redact_step nps (redact_step np r)) =
      red_findings (redact_step np r) @ fs" "subseq fs (map fst nps)"
    using Cons by blast
  show ?case
  proof (cases "search p (red_text r)")
    case True
    with fs np show ?thesis by (intro exI [of _ "name # fs"]) (simp add: redact_step_hit)
  next
    case False
    with fs np show ?thesis by (intro exI [of _ fs]) (simp add: redact_step_miss list_emb_Cons)
  qed
qed simp

text \<open>The findings are names of the table, in its order, each at most once.\<close>

lemma redact_findings_subseq: "subseq (red_findings (redact b t)) (map fst secret_patterns)"
  using fold_redact_subseq [of secret_patterns "\<lparr>red_text = t, red_findings = []\<rparr>"]
  by (auto simp: redact_def)

section \<open>The interface of an outbound filter\<close>

text \<open>
  What a caller of the redactor relies on: a text without findings is passed on as it is,
  and a dirty one is reported.
\<close>

locale outbound_filter =
  fixes out :: "string \<Rightarrow> string"
    and found :: "string \<Rightarrow> 'f list"
    and ok :: "string \<Rightarrow> bool"
  assumes found_iff: "found t = [] \<longleftrightarrow> ok t"
    and out_ok: "ok t \<Longrightarrow> out t = t"
begin

definition out_messages :: "message list \<Rightarrow> message list" where
  "out_messages ms = map (\<lambda>m. m\<lparr>content := out (content m)\<rparr>) ms"

lemma out_messages_ok: "\<forall>m\<in>set ms. ok (content m) \<Longrightarrow> out_messages ms = ms"
  by (induction ms) (simp_all add: out_messages_def out_ok)

lemma out_messages_found:
  "concat (map (\<lambda>m. found (content m)) ms) = [] \<longleftrightarrow> (\<forall>m\<in>set ms. ok (content m))"
  by (auto simp: found_iff)

lemma out_messages_changed: "out_messages ms \<noteq> ms \<Longrightarrow> concat (map (\<lambda>m. found (content m)) ms) \<noteq> []"
  using out_messages_ok out_messages_found by blast

lemma out_messages_roles: "map msg_role (out_messages ms) = map msg_role ms"
  by (simp add: out_messages_def)

end

lemma clean_Nil [simp]: "clean []"
  by code_simp

interpretation redactor: outbound_filter
  "\<lambda>t. red_text (redact True t)" "\<lambda>t. red_findings (redact True t)" clean
proof unfold_locales
  show "red_findings (redact True t) = [] \<longleftrightarrow> clean t" for t
    by (cases "t = []") (simp_all add: redact_findings_empty)
qed (simp add: redact_clean)

lemma redact_model_messages_out:
  "fst (redact_model_messages True ms) = redactor.out_messages ms"
  by (simp add: redact_model_messages_def redactor.out_messages_def)

lemma redact_model_messages_disabled: "redact_model_messages False ms = (ms, [])"
  by (induction ms) (simp_all add: redact_model_messages_def sorted_set_def)

lemma redact_model_messages_roles:
  "map msg_role (fst (redact_model_messages b ms)) = map msg_role ms"
  "length (fst (redact_model_messages b ms)) = length ms"
  by (simp_all add: redact_model_messages_def)

text \<open>Every content that goes out is a redactor's output.\<close>

lemma redact_model_messages_content:
  "m \<in> set (fst (redact_model_messages b ms)) \<Longrightarrow> \<exists>t. content m = red_text (redact b t)"
  by (auto simp: redact_model_messages_def)

end
