(* ===== verification/Contracts.thy ===== *)
theory Contracts
  imports Handoff
begin

text \<open>
  The validator of contract objects in \<^verbatim>\<open>contracts/python/aa_contracts/v1.py\<close>.  A value is any
  JSON value, so each check says what Python does on a value of the wrong type: \<^verbatim>\<open>len\<close> and a
  regular expression raise \<^verbatim>\<open>TypeError\<close>, \<^verbatim>\<open>.get\<close> on anything but a dictionary
  \<^verbatim>\<open>AttributeError\<close>, membership of a list or dictionary in a set \<^verbatim>\<open>TypeError\<close>.  Where a message
  ends in the \<^verbatim>\<open>repr\<close> of the offending value, the model keeps the message up to it.
\<close>

section \<open>Checks\<close>

type_synonym verdict = "unit result"

definition ok :: verdict where
  "ok = Inr ()"

text \<open>Checks one after the other, up to the first that raises.\<close>

fun checks :: "verdict list \<Rightarrow> verdict" where
  "checks [] = ok"
| "checks (c # cs) = (case c of Inl e \<Rightarrow> Inl e | Inr u \<Rightarrow> checks cs)"

definition bad :: "string \<Rightarrow> string \<Rightarrow> 'a result" where
  "bad field msg = Inl (ValueError (field @ '': '' @ msg))"

text \<open>\<^verbatim>\<open>re.match(r"^...$", s)\<close>: the dollar also matches before a final newline.\<close>

definition at_dollar :: "(string \<Rightarrow> bool) \<Rightarrow> string \<Rightarrow> bool" where
  "at_dollar p s \<longleftrightarrow> p s \<or> (s \<noteq> [] \<and> [last s] = nl \<and> p (butlast s))"

definition ident_start :: "char \<Rightarrow> bool" where
  "ident_start c \<longleftrightarrow> is_upper c \<or> is_lower c \<or> is_digit c"

definition ident_char :: "char \<Rightarrow> bool" where
  "ident_char c \<longleftrightarrow> ident_start c \<or> c \<in> set ''_.:@+-''"

definition identifier_re :: "string \<Rightarrow> bool" where
  "identifier_re = at_dollar (\<lambda>s. s \<noteq> [] \<and> ident_start (hd s) \<and> list_all ident_char (tl s))"

definition version_re :: "string \<Rightarrow> bool" where
  "version_re = at_dollar (\<lambda>s. case after_first (CHR ''.'') s of
     None \<Rightarrow> False
   | Some b \<Rightarrow> (let a = takeWhile (\<lambda>c. c \<noteq> CHR ''.'') s
               in a \<noteq> [] \<and> list_all is_digit a \<and> b \<noteq> [] \<and> list_all is_digit b))"

definition hash_re :: "string \<Rightarrow> bool" where
  "hash_re = at_dollar (\<lambda>s. length s = 64 \<and> list_all (\<lambda>c. is_digit c \<or> is_hex_letter c) s)"

fun len_exceeds :: "nat \<Rightarrow> pyval \<Rightarrow> bool result" where
  "len_exceeds n (PStr s) = Inr (n < length s)"
| "len_exceeds n (PList xs) = Inr (n < length xs)"
| "len_exceeds n (PDict d) = Inr (n < length d)"
| "len_exceeds n v = Inl (TypeError ''object has no len()'')"

definition check_identifier :: "string \<Rightarrow> pyval \<Rightarrow> verdict" where
  "check_identifier field v =
     (if \<not> truthy v then bad field ''identifier is required''
      else case len_exceeds 256 v of
        Inl e \<Rightarrow> Inl e
      | Inr True \<Rightarrow> bad field ''invalid identifier''
      | Inr False \<Rightarrow> (case v of
            PStr s \<Rightarrow> if identifier_re s then ok else bad field ''invalid identifier''
          | _ \<Rightarrow> Inl (TypeError ''expected string or bytes-like object'')))"

definition check_version :: "string \<Rightarrow> pyval \<Rightarrow> verdict" where
  "check_version field v = (case v of
     PStr s \<Rightarrow> if version_re s then ok else bad field ''invalid contract version''
   | _ \<Rightarrow> bad field ''invalid contract version'')"

text \<open>\<^verbatim>\<open>value in allowed\<close> for a set of strings.\<close>

fun in_strings :: "pyval \<Rightarrow> string list \<Rightarrow> bool result" where
  "in_strings (PStr s) allowed = Inr (s \<in> set allowed)"
| "in_strings (PList xs) allowed = Inl (TypeError ''unhashable type'')"
| "in_strings (PDict d) allowed = Inl (TypeError ''unhashable type'')"
| "in_strings v allowed = Inr False"

definition check_enum :: "string \<Rightarrow> pyval \<Rightarrow> string list \<Rightarrow> verdict" where
  "check_enum field v allowed = (case in_strings v allowed of
     Inl e \<Rightarrow> Inl e | Inr b \<Rightarrow> if b then ok else bad field ''invalid value'')"

definition check_required :: "string \<Rightarrow> pyval \<Rightarrow> verdict" where
  "check_required field v = (if v = PNone \<or> v = PStr [] then bad field ''is required'' else ok)"

definition check_optional_hash :: "string \<Rightarrow> pyval \<Rightarrow> verdict" where
  "check_optional_hash field v = (case v of
     PNone \<Rightarrow> ok
   | PStr s \<Rightarrow> if hash_re s then ok else bad field ''invalid sha256 hash''
   | _ \<Rightarrow> Inl (TypeError ''expected string or bytes-like object''))"

text \<open>\<^verbatim>\<open>v.get(key)\<close> and a check of what it gives.\<close>

definition on_get :: "pyval \<Rightarrow> string \<Rightarrow> (pyval \<Rightarrow> verdict) \<Rightarrow> verdict" where
  "on_get v key f = (case v of
     PDict d \<Rightarrow> f (get_default d key PNone)
   | _ \<Rightarrow> Inl (AttributeError ''object has no attribute get''))"

text \<open>\<^verbatim>\<open>for i, x in enumerate(value or [])\<close>\<close>

fun each_from :: "nat \<Rightarrow> (nat \<Rightarrow> pyval \<Rightarrow> verdict) \<Rightarrow> pyval list \<Rightarrow> verdict" where
  "each_from i f [] = ok"
| "each_from i f (x # xs) = (case f i x of Inl e \<Rightarrow> Inl e | Inr u \<Rightarrow> each_from (i + 1) f xs)"

definition each_of :: "pyval \<Rightarrow> (nat \<Rightarrow> pyval \<Rightarrow> verdict) \<Rightarrow> verdict" where
  "each_of v f = (if \<not> truthy v then ok
     else case py_list v of Inl e \<Rightarrow> Inl e | Inr xs \<Rightarrow> each_from 0 f xs)"

definition at_index :: "string \<Rightarrow> nat \<Rightarrow> string \<Rightarrow> string" where
  "at_index key i rest = key @ ''['' @ show_nat i @ '']'' @ rest"

section \<open>The kinds of contract objects\<close>

definition PROJECT_STATES :: "string list" where
  "PROJECT_STATES = [''CREATED'', ''DISCOVERY'', ''PLANNING'', ''EXECUTING'', ''VERIFYING'',
     ''COMPLETE'', ''BLOCKED'', ''FAILED'', ''CANCELLED'', ''PAUSED'']"

definition WORK_PACKAGE_STATES :: "string list" where
  "WORK_PACKAGE_STATES = [''PROPOSED'', ''READY'', ''QUEUED'', ''RUNNING'',
     ''COMPLETE'', ''VERIFYING'', ''VERIFIED'', ''DEFICIENT'']"

definition READINESS_STATES :: "string list" where
  "READINESS_STATES = [''blocked'', ''ready'', ''dispatched'', ''satisfied'']"

definition ISSUE_STATES :: "string list" where
  "ISSUE_STATES = [''open'', ''in_progress'', ''review'', ''closed'', ''deferred'', ''cancelled'']"

definition MEMORY_LIFECYCLES :: "string list" where
  "MEMORY_LIFECYCLES = [''EPHEMERAL'', ''CANDIDATE'', ''VALIDATED'', ''ACTIVE'', ''SUPERSEDED'', ''ARCHIVED'']"

definition EVENT_TYPES :: "string list" where
  "EVENT_TYPES = [
     ''PROJECT_REGISTERED'', ''PROJECT_UPDATED'', ''WORK_PACKAGE_CREATED'', ''WORK_PACKAGE_READY'',
     ''WORK_PACKAGE_COMPLETED'', ''DEPENDENCY_GRAPH_REVISED'',
     ''EXECUTION_PLANNED'', ''EXECUTION_LEASED'', ''EXECUTION_STARTED'', ''EXECUTION_PAUSED'',
     ''EXECUTION_RESUMED'', ''EXECUTION_COMPLETED'', ''EXECUTION_FAILED'', ''EXECUTION_EXPIRED'',
     ''RESULT_RECORDED'', ''TEST_RECORDED'', ''REVIEW_RECORDED'', ''HANDOFF_CREATED'',
     ''ARTIFACT_RECORDED'', ''WORK_ACCEPTED'', ''WORK_REJECTED'', ''DEFICIENCY_RAISED'',
     ''TELEMETRY_RECORDED'', ''MEMORY_CANDIDATE_CREATED'', ''MEMORY_VALIDATED'',
     ''MEMORY_PROMOTED'', ''MEMORY_SUPERSEDED'', ''MEMORY_ARCHIVED'']"

definition CAPABILITIES :: "string list" where
  "CAPABILITIES = [
     ''read_project'', ''write_workspace'', ''execute_command'', ''run_tests'', ''network_access'',
     ''install_dependencies'', ''call_model'', ''read_secrets'', ''create_artifact'',
     ''open_pull_request'', ''merge'', ''deploy'']"

definition ROUTING_POLICIES :: "string list" where
  "ROUTING_POLICIES = [''local_only'', ''cloud_only'', ''local_first'', ''expert_first'', ''adaptive'',
     ''budget_constrained'']"

definition required_fields :: "(string \<times> string list) list" where
  "required_fields = [
     (''event'', [''sequence'', ''occurredAt'', ''type'', ''aggregate'', ''actor'']),
     (''work_package'', [''title'', ''state'', ''acceptance'']),
     (''task_graph'', [''projectId'', ''nodes'', ''revision'']),
     (''execution_contract'', [''workPackageId'', ''assignmentId'', ''capabilities'', ''budget'']),
     (''result_envelope'', [''attemptId'', ''assignmentId'', ''workPackageId'', ''status'']),
     (''telemetry'', [''attemptId'', ''metricVersion'', ''outcome'']),
     (''project_record'', [''name'', ''state'', ''layoutVersion'']),
     (''memory_record'', [''level'', ''lifecycle'', ''content'']),
     (''issue'', [''title'', ''type'', ''status'']),
     (''strategy'', [''title'', ''lifecycle'', ''guidance'']),
     (''route_request'', [''prompt'']),
     (''route_response'', [''requestId'', ''route'', ''decisionLevel'', ''requiresHumanApproval'']),
     (''tool_manifest'', [''name'', ''toolKind'', ''version'', ''capabilities'']),
     (''workflow'', [''version'', ''steps''])]"

definition enum_fields :: "(string \<times> (string \<times> string list) list) list" where
  "enum_fields = [
     (''event'', [(''type'', EVENT_TYPES)]),
     (''work_package'', [(''state'', WORK_PACKAGE_STATES), (''risk'', [''low'', ''moderate'', ''high'', ''critical''])]),
     (''execution_contract'', []),
     (''result_envelope'', [(''status'', [''succeeded'', ''failed'', ''partial'', ''blocked'', ''cancelled''])]),
     (''telemetry'', [(''outcome'', [''succeeded'', ''failed'', ''partial'', ''blocked'', ''cancelled'', ''unknown''])]),
     (''project_record'', [(''state'', PROJECT_STATES)]),
     (''memory_record'', [(''lifecycle'', MEMORY_LIFECYCLES)]),
     (''issue'', [(''status'', ISSUE_STATES), (''severity'', [''P0'', ''P1'', ''P2'', ''P3'', ''none''])]),
     (''strategy'', [(''lifecycle'', MEMORY_LIFECYCLES)]),
     (''route_response'', [(''route'', [''local'', ''hybrid'', ''cloud'', ''blocked'']),
        (''decisionLevel'', [''routine'', ''significant'', ''major'', ''critical''])])]"

text \<open>The further checks of a kind.  A required field is present when they run.\<close>

type_synonym contract = "(string, pyval) dict"

abbreviation field_of :: "contract \<Rightarrow> string \<Rightarrow> pyval" where
  "field_of d k \<equiv> get_default d k PNone"

definition check_references :: "contract \<Rightarrow> string \<Rightarrow> verdict" where
  "check_references data key = each_of (field_of data key) (\<lambda>i ref. checks [
     on_get ref ''kind'' (check_required (at_index key i ''.kind'')),
     on_get ref ''id'' (check_identifier (at_index key i ''.id''))])"

definition validate_event :: "contract \<Rightarrow> verdict" where
  "validate_event data = checks [
     on_get (field_of data ''aggregate'') ''id'' (check_identifier ''aggregate.id''),
     on_get (field_of data ''aggregate'') ''kind'' (\<lambda>v. check_enum ''aggregate.kind'' v
       [''project'', ''work_package'', ''assignment'', ''attempt'', ''artifact'',
        ''issue'', ''strategy'', ''memory'', ''tool'', ''workflow'']),
     on_get (field_of data ''actor'') ''kind'' (\<lambda>v. check_enum ''actor.kind'' v
       [''human'', ''agent'', ''system'', ''service'']),
     on_get (field_of data ''actor'') ''id'' (check_identifier ''actor.id'')]"

definition validate_work_package :: "contract \<Rightarrow> verdict" where
  "validate_work_package data = (if truthy (field_of data ''acceptance'') then ok
     else bad ''acceptance'' ''at least one criterion is required'')"

text \<open>\<^verbatim>\<open>value < 0\<close>\<close>

fun below_zero :: "pyval \<Rightarrow> bool result" where
  "below_zero (PInt i) = Inr (i < 0)"
| "below_zero (PFloat x) = Inr (x < 0)"
| "below_zero (PBool b) = Inr False"
| "below_zero v = Inl (TypeError ''not supported between instances'')"

definition validate_task_graph :: "contract \<Rightarrow> verdict" where
  "validate_task_graph data = checks [
     (case below_zero (get_default data ''revision'' (PInt (- 1))) of
        Inl e \<Rightarrow> Inl e
      | Inr b \<Rightarrow> if b then bad ''revision'' ''is required and must be >= 0'' else ok),
     each_of (field_of data ''nodes'') (\<lambda>i node. checks [
       on_get node ''workPackageId'' (check_identifier (at_index ''nodes'' i ''.workPackageId'')),
       on_get node ''readiness'' (\<lambda>v. check_enum (at_index ''nodes'' i ''.readiness'') v READINESS_STATES)])]"

definition validate_execution_contract :: "contract \<Rightarrow> verdict" where
  "validate_execution_contract data = checks [
     each_of (field_of data ''capabilities'') (\<lambda>i cap. check_enum (at_index ''capabilities'' i []) cap CAPABILITIES),
     each_of (field_of data ''denied'') (\<lambda>i cap. check_enum (at_index ''denied'' i []) cap CAPABILITIES)]"

definition validate_result :: "contract \<Rightarrow> verdict" where
  "validate_result data = checks [
     each_of (field_of data ''artifacts'') (\<lambda>i art.
       on_get art ''hash'' (check_optional_hash (at_index ''artifacts'' i ''.hash''))),
     each_of (field_of data ''tests'') (\<lambda>i test. on_get test ''outcome'' (\<lambda>v.
       check_enum (at_index ''tests'' i ''.outcome'') v [''passed'', ''failed'', ''skipped'', ''error'']))]"

text \<open>\<^verbatim>\<open>0 <= value <= 1\<close>\<close>

fun unit_interval :: "pyval \<Rightarrow> bool result" where
  "unit_interval (PInt i) = Inr (0 \<le> i \<and> i \<le> 1)"
| "unit_interval (PFloat x) = Inr (0 \<le> x \<and> x \<le> 1)"
| "unit_interval (PBool b) = Inr True"
| "unit_interval v = Inl (TypeError ''not supported between instances'')"

definition validate_memory_record :: "contract \<Rightarrow> verdict" where
  "validate_memory_record data = checks [
     check_enum ''level'' (field_of data ''level'') [''session'', ''task'', ''project'', ''role'', ''workforce''],
     on_get (if truthy (field_of data ''content'') then field_of data ''content'' else PDict [])
       ''summary'' (check_required ''content.summary''),
     (if field_of data ''confidence'' = PNone then ok
      else case unit_interval (field_of data ''confidence'') of
        Inl e \<Rightarrow> Inl e
      | Inr b \<Rightarrow> if b then ok else bad ''confidence'' ''must be between 0 and 1'')]"

definition validate_issue :: "contract \<Rightarrow> verdict" where
  "validate_issue data = check_enum ''type'' (field_of data ''type'')
     [''feature'', ''user_story'', ''bug'', ''tech_debt'', ''refactor'', ''test'',
      ''documentation'', ''audit'', ''investigation'', ''deficiency'']"

definition validate_route_request :: "contract \<Rightarrow> verdict" where
  "validate_route_request data = checks [
     check_required ''prompt'' (field_of data ''prompt''),
     (if field_of data ''policy'' = PNone then ok
      else check_enum ''policy'' (field_of data ''policy'') ROUTING_POLICIES)]"

definition validate_route_response :: "contract \<Rightarrow> verdict" where
  "validate_route_response data = checks [
     check_required ''requestId'' (field_of data ''requestId''),
     check_enum ''route'' (field_of data ''route'') [''local'', ''hybrid'', ''cloud'', ''blocked''],
     check_enum ''decisionLevel'' (field_of data ''decisionLevel'') [''routine'', ''significant'', ''major'', ''critical'']]"

definition validate_tool_manifest :: "contract \<Rightarrow> verdict" where
  "validate_tool_manifest data = checks [
     check_enum ''toolKind'' (field_of data ''toolKind'') [''tool'', ''plugin'', ''mcp'', ''builtin''],
     (if truthy (field_of data ''capabilities'') then ok
      else bad ''capabilities'' ''at least one is required'')]"

text \<open>\<^verbatim>\<open>seen\<close> grows with every step whose identifier is valid, and so a string.\<close>

fun workflow_steps :: "nat \<Rightarrow> pyval list \<Rightarrow> pyval list \<Rightarrow> verdict" where
  "workflow_steps i seen [] = ok"
| "workflow_steps i seen (step # steps) =
     (case checks [
        on_get step ''id'' (check_identifier (at_index ''steps'' i ''.id'')),
        on_get step ''id'' (\<lambda>v. if v \<in> set seen then bad (at_index ''steps'' i ''.id'') ''duplicate id'' else ok),
        on_get step ''kind'' (\<lambda>v. check_enum (at_index ''steps'' i ''.kind'') v
          [''task'', ''tool'', ''gate'', ''human_approval'', ''parallel'', ''conditional''])]
      of Inl e \<Rightarrow> Inl e
       | Inr u \<Rightarrow> workflow_steps (i + 1) (case step of PDict d \<Rightarrow> field_of d ''id'' # seen | _ \<Rightarrow> seen) steps)"

definition validate_workflow :: "contract \<Rightarrow> verdict" where
  "validate_workflow data = checks [
     check_required ''version'' (field_of data ''version''),
     (if \<not> truthy (field_of data ''steps'') then bad ''steps'' ''at least one step is required''
      else case py_list (field_of data ''steps'') of
        Inl e \<Rightarrow> Inl e
      | Inr steps \<Rightarrow> workflow_steps 0 [] steps)]"

definition extra_checks :: "(string \<times> (contract \<Rightarrow> verdict)) list" where
  "extra_checks = [
     (''event'', validate_event),
     (''work_package'', validate_work_package),
     (''task_graph'', validate_task_graph),
     (''execution_contract'', validate_execution_contract),
     (''result_envelope'', validate_result),
     (''memory_record'', validate_memory_record),
     (''issue'', validate_issue),
     (''route_request'', validate_route_request),
     (''route_response'', validate_route_response),
     (''tool_manifest'', validate_tool_manifest),
     (''workflow'', validate_workflow)]"

section \<open>Validation\<close>

definition validate_kind :: "string \<Rightarrow> contract \<Rightarrow> verdict" where
  "validate_kind kind data = checks (
     [check_version ''contractVersion'' (field_of data ''contractVersion''),
      check_identifier ''id'' (field_of data ''id'')] @
     map (\<lambda>f. check_required f (field_of data f)) (the (map_of required_fields kind)) @
     map (\<lambda>(f, allowed). if field_of data f = PNone then ok else check_enum f (field_of data f) allowed)
       (case map_of enum_fields kind of None \<Rightarrow> [] | Some fs \<Rightarrow> fs) @
     [(case map_of extra_checks kind of None \<Rightarrow> ok | Some f \<Rightarrow> f data)])"

definition contract_validate :: "pyval \<Rightarrow> contract result" where
  "contract_validate v = (case v of
     PDict data \<Rightarrow> (case in_strings (field_of data ''kind'') (map fst required_fields) of
         Inl e \<Rightarrow> Inl e
       | Inr known \<Rightarrow> (case field_of data ''kind'' of
             PStr kind \<Rightarrow> if known
               then (case validate_kind kind data of Inl e \<Rightarrow> Inl e | Inr u \<Rightarrow> Inr data)
               else bad ''kind'' ''unknown contract kind''
           | _ \<Rightarrow> bad ''kind'' ''unknown contract kind''))
   | _ \<Rightarrow> Inl (ValueError ''contract object must be a mapping''))"

section \<open>Facts\<close>

lemma checks_ok: "checks cs = ok \<longleftrightarrow> (\<forall>c\<in>set cs. c = ok)"
  by (induction cs) (auto simp: ok_def split: sum.splits)

lemma checks_append: "checks (cs @ ds) = (case checks cs of Inl e \<Rightarrow> Inl e | Inr u \<Rightarrow> checks ds)"
  by (induction cs) (auto simp: ok_def split: sum.splits)

lemma hex_ident: "is_hex_letter c \<Longrightarrow> ident_char c" "is_digit c \<Longrightarrow> ident_char c"
  by (auto simp: is_hex_letter_def is_lower_def ident_char_def ident_start_def)

text \<open>What an accepted object looks like.\<close>

lemma check_identifier_ok:
  "check_identifier f v = ok \<Longrightarrow> \<exists>s. v = PStr s \<and> s \<noteq> [] \<and> length s \<le> 256 \<and> identifier_re s"
  by (cases v) (auto simp: check_identifier_def bad_def ok_def split: if_splits bool.splits)

lemma check_required_ok: "check_required f v = ok \<longleftrightarrow> v \<noteq> PNone \<and> v \<noteq> PStr []"
  by (simp add: check_required_def bad_def ok_def)

lemma contract_validate_Inr:
  assumes "contract_validate v = Inr d"
  obtains kind where "v = PDict d" "field_of d ''kind'' = PStr kind" "kind \<in> set (map fst required_fields)"
    "validate_kind kind d = ok"
  using assms unfolding contract_validate_def
  by (auto simp: bad_def ok_def split: pyval.splits sum.splits if_splits)

lemma validate_kind_ok:
  "validate_kind kind d = ok \<longleftrightarrow>
     check_version ''contractVersion'' (field_of d ''contractVersion'') = ok \<and>
     check_identifier ''id'' (field_of d ''id'') = ok \<and>
     (\<forall>f\<in>set (the (map_of required_fields kind)). field_of d f \<noteq> PNone \<and> field_of d f \<noteq> PStr []) \<and>
     (\<forall>(f, allowed)\<in>set (case map_of enum_fields kind of None \<Rightarrow> [] | Some fs \<Rightarrow> fs).
        field_of d f \<noteq> PNone \<longrightarrow> check_enum f (field_of d f) allowed = ok) \<and>
     (case map_of extra_checks kind of None \<Rightarrow> ok | Some f \<Rightarrow> f d) = ok"
  unfolding validate_kind_def checks_ok set_append ball_Un set_map ball_simps
  by (auto simp: check_required_ok split: if_splits)

lemma on_get_ok: "on_get v k f = ok \<longleftrightarrow> (\<exists>d. v = PDict d \<and> f (field_of d k) = ok)"
  by (cases v) (auto simp: on_get_def ok_def)

lemma bad_ok [simp]: "bad f m \<noteq> ok"
  by (simp add: bad_def ok_def)

text \<open>The steps of an accepted workflow are dictionaries with distinct identifiers.\<close>

definition step_ids :: "pyval list \<Rightarrow> pyval list" where
  "step_ids steps = map (\<lambda>s. case s of PDict d \<Rightarrow> field_of d ''id'' | _ \<Rightarrow> PNone) steps"

lemma workflow_steps_ok:
  "workflow_steps i seen steps = ok \<Longrightarrow>
   list_all (\<lambda>s. \<exists>d. s = PDict d) steps \<and> distinct (step_ids steps) \<and> set (step_ids steps) \<inter> set seen = {}"
proof (induction steps arbitrary: i seen)
  case (Cons step steps)
  from Cons.prems have now: "checks [
        on_get step ''id'' (check_identifier (at_index ''steps'' i ''.id'')),
        on_get step ''id'' (\<lambda>v. if v \<in> set seen then bad (at_index ''steps'' i ''.id'') ''duplicate id'' else ok),
        on_get step ''kind'' (\<lambda>v. check_enum (at_index ''steps'' i ''.kind'') v
          [''task'', ''tool'', ''gate'', ''human_approval'', ''parallel'', ''conditional''])] = ok"
    and rest: "workflow_steps (i + 1) (case step of PDict d \<Rightarrow> field_of d ''id'' # seen | _ \<Rightarrow> seen) steps = ok"
    by (auto simp: ok_def split: sum.splits)
  from now obtain d where "step = PDict d" "field_of d ''id'' \<notin> set seen"
    unfolding checks_ok by (auto simp: on_get_ok bad_ok split: if_splits)
  with Cons.IH [OF rest] show ?case by (auto simp: step_ids_def)
qed (simp add: step_ids_def)

lemma py_list_dicts:
  "py_list v = Inr xs \<Longrightarrow> xs \<noteq> [] \<Longrightarrow> list_all (\<lambda>s. \<exists>d. s = PDict d) xs \<Longrightarrow> v = PList xs"
  by (cases v; cases xs) auto

lemma py_list_nonempty: "py_list v = Inr xs \<Longrightarrow> truthy v \<Longrightarrow> xs \<noteq> []"
  by (cases v) auto

lemma accepted_workflow:
  assumes "validate_workflow d = ok"
  shows "\<exists>steps. field_of d ''steps'' = PList steps \<and> steps \<noteq> [] \<and>
    list_all (\<lambda>s. \<exists>d. s = PDict d) steps \<and> distinct (step_ids steps)"
proof -
  from assms obtain steps where "truthy (field_of d ''steps'')" "py_list (field_of d ''steps'') = Inr steps"
    "workflow_steps 0 [] steps = ok"
    unfolding validate_workflow_def checks_ok
    by (auto simp: bad_def ok_def split: if_splits sum.splits)
  with workflow_steps_ok py_list_dicts py_list_nonempty show ?thesis by blast
qed

lemma required_known:
  "kind \<in> set (map fst required_fields) \<Longrightarrow> kind \<noteq> ''workflow'' \<or> map_of extra_checks kind = Some validate_workflow"
  by (simp add: extra_checks_def)

lemma accepted_contract:
  assumes "contract_validate v = Inr d"
  obtains kind i where "v = PDict d" "field_of d ''kind'' = PStr kind" "field_of d ''id'' = PStr i"
    "kind \<in> set (map fst required_fields)" "identifier_re i" "length i \<le> 256"
    "\<forall>f\<in>set (the (map_of required_fields kind)). field_of d f \<noteq> PNone \<and> field_of d f \<noteq> PStr []"
    "kind = ''workflow'' \<longrightarrow> (\<exists>steps. field_of d ''steps'' = PList steps \<and> steps \<noteq> [] \<and>
       list_all (\<lambda>s. \<exists>x. s = PDict x) steps \<and> distinct (step_ids steps))"
proof -
  from assms obtain kind where k: "v = PDict d" "field_of d ''kind'' = PStr kind"
      "kind \<in> set (map fst required_fields)" and ok: "validate_kind kind d = ok"
    by (rule contract_validate_Inr)
  then obtain i where i: "field_of d ''id'' = PStr i" "identifier_re i" "length i \<le> 256"
    unfolding validate_kind_ok using check_identifier_ok by blast
  have req: "\<forall>f\<in>set (the (map_of required_fields kind)). field_of d f \<noteq> PNone \<and> field_of d f \<noteq> PStr []"
    using ok unfolding validate_kind_ok by blast
  have extra: "(case map_of extra_checks kind of None \<Rightarrow> ok | Some f \<Rightarrow> f d) = ok"
    using ok unfolding validate_kind_ok by blast
  have "kind = ''workflow'' \<longrightarrow> (\<exists>steps. field_of d ''steps'' = PList steps \<and> steps \<noteq> [] \<and>
      list_all (\<lambda>s. \<exists>x. s = PDict x) steps \<and> distinct (step_ids steps))"
    using extra required_known [OF k(3)] accepted_workflow by auto
  from that [OF k(1,2) i(1) k(3) i(2,3) req this] show ?thesis by blast
qed

text \<open>
  A field of the wrong shape escapes the validator: \<^verbatim>\<open>validate\<close> promises a \<^verbatim>\<open>ValueError\<close>, but an
  actor that is not an object makes it raise an \<^verbatim>\<open>AttributeError\<close>.
\<close>

definition bad_actor :: contract where
  "bad_actor = [(''kind'', PStr ''event''), (''contractVersion'', PStr ''1.0''), (''id'', PStr ''e1''),
     (''sequence'', PInt 1), (''occurredAt'', PStr ''now''), (''type'', PStr ''WORK_ACCEPTED''),
     (''aggregate'', PDict [(''id'', PStr ''p1''), (''kind'', PStr ''project'')]), (''actor'', PStr ''me'')]"

theorem a_malformed_actor_escapes:
  "contract_validate (PDict bad_actor) = Inl (AttributeError ''object has no attribute get'')"
  by code_simp

end
