(* ===== verification/ContractBridge.thy ===== *)
theory ContractBridge
  imports Contracts PyFloat
begin

text \<open>
  \<^verbatim>\<open>contracts.py\<close> and \<^verbatim>\<open>memory.py\<close>: the bridge between contract objects and the sifter.  Whether
  the bindings could be imported is the argument \<open>available\<close>; the random part of a new
  identifier is the argument \<open>uid\<close>.
\<close>

definition CONTRACT_VERSION :: string where
  "CONTRACT_VERSION = ''1.0''"

definition ROUTE_VALUES :: "string list" where
  "ROUTE_VALUES = [''local'', ''hybrid'', ''cloud'', ''blocked'']"

definition DECISION_LEVELS :: "string list" where
  "DECISION_LEVELS = [''routine'', ''significant'', ''major'', ''critical'']"

definition new_id :: "string \<Rightarrow> string \<Rightarrow> string" where
  "new_id prfx uid = prfx @ ''_'' @ uid"

definition bridge_validate :: "bool \<Rightarrow> pyval \<Rightarrow> pyval result" where
  "bridge_validate available v =
     (if \<not> available then Inr v
      else case contract_validate v of
        Inl (ValueError m) \<Rightarrow> Inl (ContractError m)
      | Inl e \<Rightarrow> Inl e
      | Inr d \<Rightarrow> Inr (PDict d))"

section \<open>Requests\<close>

record route_kwargs =
  rk_prompt :: pyval
  rk_context :: pyval
  rk_policy :: pyval
  rk_max_cloud_cost :: pyval

text \<open>
  \<^verbatim>\<open>dict(value)\<close> of what is not a dictionary: pairs whose first component can be a key.  Only
  whether it raises matters to the callers modelled here.
\<close>

fun pair_error :: "pyval \<Rightarrow> verdict" where
  "pair_error (PList [k, v]) = (case k of PList _ \<Rightarrow> Inl (TypeError ''unhashable type'')
     | PDict _ \<Rightarrow> Inl (TypeError ''unhashable type'') | _ \<Rightarrow> ok)"
| "pair_error (PList xs) = Inl (ValueError ''dictionary update sequence element'')"
| "pair_error (PStr s) = (if length s = 2 then ok else Inl (ValueError ''dictionary update sequence element''))"
| "pair_error (PDict d) = (if length d = 2 then ok else Inl (ValueError ''dictionary update sequence element''))"
| "pair_error v = Inl (TypeError ''cannot convert dictionary update sequence element'')"

definition dict_error :: "pyval \<Rightarrow> verdict" where
  "dict_error v = (case v of
     PDict d \<Rightarrow> ok
   | _ \<Rightarrow> (case py_list v of Inl e \<Rightarrow> Inl e | Inr xs \<Rightarrow> checks (map pair_error xs)))"

definition or_dict :: "pyval \<Rightarrow> pyval" where
  "or_dict v = (if truthy v then v else PDict [])"

definition route_request_kwargs :: "bool \<Rightarrow> pyval \<Rightarrow> route_kwargs result" where
  "route_request_kwargs available v =
     (case bridge_validate available v of
        Inl e \<Rightarrow> Inl e
      | Inr v \<Rightarrow> (case v of
          PDict request \<Rightarrow>
            (case or_dict (field_of request ''budget'') of
               PDict budget \<Rightarrow>
                 (case dict_get request ''prompt'' of
                    None \<Rightarrow> Inl (KeyError ''prompt'')
                  | Some p \<Rightarrow> (case dict_error (or_dict (field_of request ''metadata'')) of
                        Inl e \<Rightarrow> Inl e
                      | Inr u \<Rightarrow> Inr \<lparr>rk_prompt = p, rk_context = field_of request ''context'',
                          rk_policy = field_of request ''policy'',
                          rk_max_cloud_cost = field_of budget ''maxCostUsd''\<rparr>))
             | budget \<Rightarrow> (case dict_get request ''prompt'' of
                   None \<Rightarrow> Inl (KeyError ''prompt'')
                 | Some p \<Rightarrow> Inl (AttributeError ''object has no attribute get'')))
        | _ \<Rightarrow> Inl (AttributeError ''object has no attribute get'')))"

section \<open>Responses\<close>

definition opt_field :: "string \<Rightarrow> ('a \<Rightarrow> pyval) \<Rightarrow> 'a option \<Rightarrow> contract" where
  "opt_field k f x = (case x of None \<Rightarrow> [] | Some v \<Rightarrow> [(k, f v)])"

record route_answer =
  ra_route :: string
  ra_level :: string
  ra_approval :: bool
  ra_reasons :: "string list"
  ra_planner :: "string option"
  ra_executor :: "string option"
  ra_review :: "string option"
  ra_blocked_reason :: "string option"
  ra_cost :: "pyfloat option"

definition route_response_fields :: "string \<Rightarrow> pyval \<Rightarrow> route_answer \<Rightarrow> contract" where
  "route_response_fields uid rid a =
     [(''contractVersion'', PStr CONTRACT_VERSION),
      (''kind'', PStr ''route_response''),
      (''id'', PStr (new_id ''resp'' uid)),
      (''requestId'', rid),
      (''route'', PStr (ra_route a)),
      (''decisionLevel'', PStr (ra_level a)),
      (''requiresHumanApproval'', PBool (ra_approval a)),
      (''reasons'', PList (map PStr (ra_reasons a)))] @
     opt_field ''plannerTier'' PStr (ra_planner a) @
     opt_field ''executorTier'' PStr (ra_executor a) @
     opt_field ''reviewTier'' PStr (ra_review a) @
     opt_field ''blockedReason'' PStr (ra_blocked_reason a) @
     opt_field ''estimatedCostUsd'' (\<lambda>c. PFloat (max 0 c)) (ra_cost a)"

definition make_route_response :: "bool \<Rightarrow> string \<Rightarrow> contract \<Rightarrow> route_answer \<Rightarrow> contract result" where
  "make_route_response available uid request a =
     (if ra_route a \<notin> set ROUTE_VALUES then Inl (ContractError ''route: invalid value'')
      else if ra_level a \<notin> set DECISION_LEVELS then Inl (ContractError ''decisionLevel: invalid value'')
      else case dict_get request ''id'' of
        None \<Rightarrow> Inl (KeyError ''id'')
      | Some rid \<Rightarrow>
          (let response = route_response_fields uid rid a
           in case bridge_validate available (PDict response) of
                Inl e \<Rightarrow> Inl e | Inr v \<Rightarrow> Inr response))"

section \<open>Memory records\<close>

definition title_or :: "string option \<Rightarrow> string \<Rightarrow> string" where
  "title_or x d = (case x of None \<Rightarrow> d | Some [] \<Rightarrow> d | Some s \<Rightarrow> s)"

definition memory_record_fields ::
  "string \<Rightarrow> string \<Rightarrow> string \<Rightarrow> string \<Rightarrow> string option \<Rightarrow> pyfloat \<Rightarrow> pyval list \<Rightarrow> contract \<Rightarrow> contract" where
  "memory_record_fields uid summary level lifecycle title confidence evidence applicability =
     [(''contractVersion'', PStr CONTRACT_VERSION),
      (''kind'', PStr ''memory_record''),
      (''id'', PStr (new_id ''mem'' uid)),
      (''level'', PStr level),
      (''lifecycle'', PStr lifecycle),
      (''title'', PStr (title_or title (take 120 summary))),
      (''content'', PDict [(''summary'', PStr summary)]),
      (''confidence'', PFloat (max 0 (min 1 confidence)))] @
     (if evidence \<noteq> [] then [(''evidence'', PList evidence)] else []) @
     (if applicability \<noteq> [] then [(''applicability'', PDict applicability)] else [])"

definition make_memory_record ::
  "bool \<Rightarrow> string \<Rightarrow> string \<Rightarrow> string \<Rightarrow> string \<Rightarrow> string option \<Rightarrow> pyfloat \<Rightarrow> pyval list \<Rightarrow> contract \<Rightarrow>
     contract result" where
  "make_memory_record available uid summary level lifecycle title confidence evidence applicability =
     (let r = memory_record_fields uid summary level lifecycle title confidence evidence applicability
      in case bridge_validate available (PDict r) of Inl e \<Rightarrow> Inl e | Inr v \<Rightarrow> Inr r)"

definition candidate_summary :: "string \<Rightarrow> string \<Rightarrow> string \<Rightarrow> string" where
  "candidate_summary status route level =
     ''aa-sifter task '' @ status @ '' via '' @ route @ '' at decision level '' @ level"

definition task_candidate ::
  "bool \<Rightarrow> string \<Rightarrow> string \<Rightarrow> string \<Rightarrow> string \<Rightarrow> string \<Rightarrow> bool \<Rightarrow> string \<Rightarrow> int \<Rightarrow> pyfloat \<Rightarrow> contract result" where
  "task_candidate available uid tid status route level approval prompt cloud_calls cloud_cost =
     (case make_memory_record available uid (candidate_summary status route level) ''task'' ''CANDIDATE''
         (Some (route @ '' run: '' @ take 80 prompt))
         (if status = ''completed'' then rnd (6 / 10) else rnd (3 / 10)) []
         [(''route'', PStr route), (''decisionLevel'', PStr level), (''requiresHumanApproval'', PBool approval),
          (''cloudCalls'', PInt cloud_calls), (''cloudCostUsd'', PFloat (fround 6 cloud_cost))] of
       Inl e \<Rightarrow> Inl e
     | Inr record \<Rightarrow> Inr (dict_set ''provenance''
         (PDict [(''source'', PStr ''aa-sifter''), (''traceId'', PStr tid)]) record))"

section \<open>Facts\<close>

definition uid_ok :: "string \<Rightarrow> bool" where
  "uid_ok uid \<longleftrightarrow> length uid = 16 \<and> list_all (\<lambda>c. is_digit c \<or> is_hex_letter c) uid"

lemma new_id_identifier:
  assumes "uid_ok uid" "p \<noteq> []" "ident_start (hd p)" "list_all ident_char (tl p)" "length p < 200"
  shows "check_identifier f (PStr (new_id p uid)) = ok"
proof -
  have "list_all ident_char uid" using assms(1) by (auto simp: uid_ok_def list_all_iff intro: hex_ident)
  moreover have "ident_char (CHR ''_'')" by (simp add: ident_char_def)
  ultimately have "identifier_re (new_id p uid)"
    using assms by (cases p) (auto simp: identifier_re_def at_dollar_def new_id_def list_all_iff)
  moreover have "length (new_id p uid) \<le> 256" using assms(1,5) by (simp add: new_id_def uid_ok_def)
  ultimately show ?thesis using assms(2) by (simp add: check_identifier_def new_id_def)
qed

lemma version_ok: "check_version f (PStr CONTRACT_VERSION) = ok"
  unfolding CONTRACT_VERSION_def by code_simp

lemma resp_prefix: "ident_start (hd ''resp'')" "list_all ident_char (tl ''resp'')"
  "ident_start (hd ''mem'')" "list_all ident_char (tl ''mem'')"
  by code_simp+

lemma response_valid:
  assumes "uid_ok uid" "rid \<noteq> PNone" "rid \<noteq> PStr []" "ra_route a \<in> set ROUTE_VALUES" "ra_level a \<in> set DECISION_LEVELS"
  shows "contract_validate (PDict (route_response_fields uid rid a)) = Inr (route_response_fields uid rid a)"
proof -
  let ?d = "route_response_fields uid rid a"
  have get: "field_of ?d ''kind'' = PStr ''route_response''" "field_of ?d ''id'' = PStr (new_id ''resp'' uid)"
    "field_of ?d ''contractVersion'' = PStr CONTRACT_VERSION" "field_of ?d ''requestId'' = rid"
    "field_of ?d ''route'' = PStr (ra_route a)" "field_of ?d ''decisionLevel'' = PStr (ra_level a)"
    "field_of ?d ''requiresHumanApproval'' = PBool (ra_approval a)"
    by (simp_all add: route_response_fields_def get_default_def)
  have ne: "ra_route a \<noteq> []" "ra_level a \<noteq> []"
    using assms(4,5) by (auto simp: ROUTE_VALUES_def DECISION_LEVELS_def)
  have id: "check_identifier ''id'' (PStr (new_id ''resp'' uid)) = ok"
    by (rule new_id_identifier) (use assms(1) resp_prefix in simp_all)
  have "validate_kind ''route_response'' ?d = ok"
    using assms ne version_ok [of "''contractVersion''"] id
    by (simp add: validate_kind_def required_fields_def enum_fields_def extra_checks_def get
        validate_route_response_def check_required_def check_enum_def ROUTE_VALUES_def DECISION_LEVELS_def ok_def)
  then show ?thesis
    by (simp add: contract_validate_def get required_fields_def ok_def)
qed


lemma unit_clamp: "0 \<le> max 0 (min 1 (c::rat))" "max 0 (min 1 (c::rat)) \<le> 1"
  by simp_all

lemma memory_record_valid:
  assumes "uid_ok uid" "summary \<noteq> []" "level \<in> {''session'', ''task'', ''project'', ''role'', ''workforce''}"
    "lifecycle \<in> set MEMORY_LIFECYCLES"
  shows "contract_validate (PDict (memory_record_fields uid summary level lifecycle title confidence evidence app)) =
     Inr (memory_record_fields uid summary level lifecycle title confidence evidence app)"
proof -
  let ?d = "memory_record_fields uid summary level lifecycle title confidence evidence app"
  have get: "field_of ?d ''kind'' = PStr ''memory_record''" "field_of ?d ''id'' = PStr (new_id ''mem'' uid)"
    "field_of ?d ''contractVersion'' = PStr CONTRACT_VERSION" "field_of ?d ''level'' = PStr level"
    "field_of ?d ''lifecycle'' = PStr lifecycle" "field_of ?d ''content'' = PDict [(''summary'', PStr summary)]"
    "field_of ?d ''confidence'' = PFloat (max 0 (min 1 confidence))"
    by (simp_all add: memory_record_fields_def get_default_def)
  have ne: "level \<noteq> []" "lifecycle \<noteq> []"
    using assms(3,4) by (auto simp: MEMORY_LIFECYCLES_def)
  have id: "check_identifier ''id'' (PStr (new_id ''mem'' uid)) = ok"
    by (rule new_id_identifier) (use assms(1) resp_prefix in simp_all)
  have content: "on_get (PDict [(''summary'', PStr summary)]) ''summary'' (check_required ''content.summary'') = ok"
    using assms(2) by (simp add: on_get_def get_default_def check_required_def)
  have extra: "validate_memory_record ?d = ok"
    using assms(3) content by (auto simp: validate_memory_record_def get check_enum_def ok_def)
  have "validate_kind ''memory_record'' ?d = ok"
    using assms(4) ne version_ok [of "''contractVersion''"] id extra
    by (simp add: validate_kind_def required_fields_def enum_fields_def extra_checks_def get
        check_required_def check_enum_def ok_def)
  then show ?thesis
    by (simp add: contract_validate_def get required_fields_def ok_def)
qed

lemma bridge_validate_ok: "contract_validate v = Inr d \<Longrightarrow> \<exists>r. bridge_validate available v = Inr r"
  by (simp add: bridge_validate_def)

lemma make_route_response_ok:
  assumes "uid_ok uid" "dict_get request ''id'' = Some rid" "rid \<noteq> PNone" "rid \<noteq> PStr []"
    "ra_route a \<in> set ROUTE_VALUES" "ra_level a \<in> set DECISION_LEVELS"
  shows "make_route_response available uid request a = Inr (route_response_fields uid rid a)"
  using assms bridge_validate_ok [OF response_valid [OF assms(1,3,4,5,6)], of available]
  by (auto simp: make_route_response_def)

text \<open>The provenance added to a candidate is a field the validator does not look at.\<close>

lemma validate_extra_field:
  assumes "contract_validate (PDict d) = Inr d" "field_of d ''kind'' = PStr ''memory_record''"
  shows "contract_validate (PDict (dict_set ''provenance'' v d)) = Inr (dict_set ''provenance'' v d)"
proof -
  have get: "k \<noteq> ''provenance'' \<Longrightarrow> field_of (dict_set ''provenance'' v d) k = field_of d k" for k
    by (simp add: get_default_def)
  have "validate_kind ''memory_record'' d = ok"
    using assms by (auto elim: contract_validate_Inr)
  then have "validate_kind ''memory_record'' (dict_set ''provenance'' v d) = ok"
    by (simp add: validate_kind_def required_fields_def enum_fields_def extra_checks_def get
        validate_memory_record_def cong: if_cong)
  then show ?thesis
    by (simp add: contract_validate_def get assms(2) required_fields_def ok_def)
qed

lemma task_candidate_ok:
  assumes "uid_ok uid"
  shows "\<exists>r. task_candidate available uid tid status route level approval prompt calls cost = Inr r \<and>
    contract_validate (PDict r) = Inr r \<and> field_of r ''kind'' = PStr ''memory_record'' \<and>
    field_of r ''lifecycle'' = PStr ''CANDIDATE'' \<and>
    field_of r ''provenance'' = PDict [(''source'', PStr ''aa-sifter''), (''traceId'', PStr tid)]"
proof -
  let ?r = "memory_record_fields uid (candidate_summary status route level) ''task'' ''CANDIDATE''
     (Some (route @ '' run: '' @ take 80 prompt)) (if status = ''completed'' then rnd (6 / 10) else rnd (3 / 10)) []
     [(''route'', PStr route), (''decisionLevel'', PStr level), (''requiresHumanApproval'', PBool approval),
      (''cloudCalls'', PInt calls), (''cloudCostUsd'', PFloat (fround 6 cost))]"
  let ?p = "PDict [(''source'', PStr ''aa-sifter''), (''traceId'', PStr tid)]"
  have valid: "contract_validate (PDict ?r) = Inr ?r"
    by (rule memory_record_valid) (use assms in \<open>simp_all add: candidate_summary_def MEMORY_LIFECYCLES_def\<close>)
  have get: "field_of ?r ''kind'' = PStr ''memory_record''" "field_of ?r ''lifecycle'' = PStr ''CANDIDATE''"
    by (simp_all add: get_default_def memory_record_fields_def)
  have "task_candidate available uid tid status route level approval prompt calls cost =
      Inr (dict_set ''provenance'' ?p ?r)"
    using bridge_validate_ok [OF valid, of available]
    by (auto simp: task_candidate_def make_memory_record_def)
  moreover note validate_extra_field [OF valid get(1), of ?p]
  moreover have "field_of (dict_set ''provenance'' ?p ?r) k = field_of ?r k" if "k \<noteq> ''provenance''" for k
    using that by (simp add: get_default_def)
  moreover have "field_of (dict_set ''provenance'' ?p ?r) ''provenance'' = ?p"
    by (simp add: get_default_def)
  ultimately show ?thesis using get by (intro exI conjI) simp_all
qed

end
