(* ===== verification/PyStr.thy ===== *)
theory PyStr
  imports Prelude
begin

text \<open>
  Python's \<^verbatim>\<open>str\<close> and \<^verbatim>\<open>repr\<close> of JSON values, and the lines of a text.  The shortest decimal of a float is a parameter,
  \<open>fr\<close>: nothing proved here depends on it.
\<close>

definition hex_digit :: "nat \<Rightarrow> char" where
  "hex_digit n = ''0123456789abcdef'' ! n"

definition repr_char :: "char \<Rightarrow> char \<Rightarrow> string" where
  "repr_char q c =
     (if c = q \<or> c = CHR 0x5C then [CHR 0x5C, c]
      else if c = CHR 0x0A then [CHR 0x5C, CHR ''n'']
      else if c = CHR 0x0D then [CHR 0x5C, CHR ''r'']
      else if c = CHR 0x09 then [CHR 0x5C, CHR ''t'']
      else if code_of c < 32 \<or> code_of c = 127
      then [CHR 0x5C, CHR ''x'', hex_digit (code_of c div 16), hex_digit (code_of c mod 16)]
      else [c])"

text \<open>Single quotes, unless the text has one and no double quote.\<close>

definition repr_string :: "string \<Rightarrow> string" where
  "repr_string s =
     (let q = (if CHR 0x27 \<in> set s \<and> dquote \<notin> set s then dquote else CHR 0x27)
      in q # concat (map (repr_char q) s) @ [q])"

fun py_repr :: "(rat \<Rightarrow> string) \<Rightarrow> pyval \<Rightarrow> string" where
  "py_repr fr PNone = ''None''"
| "py_repr fr (PBool b) = (if b then ''True'' else ''False'')"
| "py_repr fr (PInt i) = show_int i"
| "py_repr fr (PFloat x) = fr x"
| "py_repr fr (PStr s) = repr_string s"
| "py_repr fr (PList xs) = ''['' @ join '', '' (map (py_repr fr) xs) @ '']''"
| "py_repr fr (PDict d) =
     ''{'' @ join '', '' (map (\<lambda>e. repr_string (fst e) @ '': '' @ py_repr fr (snd e)) d) @ ''}''"

definition py_str :: "(rat \<Rightarrow> string) \<Rightarrow> pyval \<Rightarrow> string" where
  "py_str fr v = (case v of PStr s \<Rightarrow> s | _ \<Rightarrow> py_repr fr v)"

text \<open>The text of an exception, as Python's \<^verbatim>\<open>str(exc)\<close>: of a \<^verbatim>\<open>KeyError\<close> it is the key's \<^verbatim>\<open>repr\<close>.\<close>

fun err_text :: "py_error \<Rightarrow> string" where
  "err_text (ValueError m) = m"
| "err_text (KeyError k) = repr_string k"
| "err_text (TypeError m) = m"
| "err_text (AttributeError m) = m"
| "err_text (ProviderError m st rt) = m"
| "err_text (BudgetExceeded m k l u) = m"
| "err_text (ContractError m) = m"
| "err_text (ProfileError m) = m"
| "err_text (ApprovalRequired i m) = m"
| "err_text (AssertionFailed m) = m"
| "err_text (IndexError m) = m"
| "err_text (OverflowError m) = m"

lemma py_str_PStr [simp]: "py_str fr (PStr s) = s"
  by (simp add: py_str_def)

section \<open>Lines\<close>

definition is_break :: "char \<Rightarrow> bool" where
  "is_break c \<longleftrightarrow> code_of c \<in> {10, 11, 12, 13, 28, 29, 30, 133}"

text \<open>\<^verbatim>\<open>splitlines\<close>, with the line read so far in reverse.\<close>

function split_lines :: "string \<Rightarrow> string \<Rightarrow> string list" where
  "split_lines acc [] = (if acc = [] then [] else [rev acc])"
| "split_lines acc (c # cs) =
     (if code_of c = 13 \<and> cs \<noteq> [] \<and> code_of (hd cs) = 10 then rev acc # split_lines [] (tl cs)
      else if is_break c then rev acc # split_lines [] cs
      else split_lines (c # acc) cs)"
  by pat_completeness auto
termination by (relation "measure (\<lambda>(acc, s). length s)") (auto simp: neq_Nil_conv)

definition splitlines :: "string \<Rightarrow> string list" where
  "splitlines s = split_lines [] s"

lemma split_lines_line:
  "\<forall>c\<in>set l. \<not> is_break c \<Longrightarrow> split_lines acc (l @ newline # s) = (rev acc @ l) # split_lines [] s"
proof (induction l arbitrary: acc)
  case Nil
  then show ?case by (simp add: is_break_def)
next
  case (Cons c l)
  then have "\<not> is_break c" "code_of c \<noteq> 13" by (auto simp: is_break_def)
  with Cons show ?case by simp
qed

text \<open>Lines with their ends are split back into themselves.\<close>

lemma splitlines_joined:
  "\<forall>l\<in>set ls. \<forall>c\<in>set l. \<not> is_break c \<Longrightarrow> splitlines (concat (map (\<lambda>l. l @ nl) ls) @ s) = ls @ splitlines s"
  by (induction ls) (simp_all add: splitlines_def split_lines_line)

end
