(* ===== verification/Classifier.thy ===== *)
theory Classifier
  imports PyRegex
begin

text \<open>
  \<^verbatim>\<open>decisions/classifier.py\<close>: how significant a decision is.  The pattern tables are
  those of the source, each pattern as the regular expression it denotes; a model or a
  standing rule can raise the level the patterns give and never lower it.
\<close>

section \<open>Levels\<close>

datatype decision_level = ROUTINE | SIGNIFICANT | MAJOR | CRITICAL

fun severity :: "decision_level \<Rightarrow> nat" where
  "severity ROUTINE = 0"
| "severity SIGNIFICANT = 1"
| "severity MAJOR = 2"
| "severity CRITICAL = 3"

fun level_value :: "decision_level \<Rightarrow> string" where
  "level_value ROUTINE = ''routine''"
| "level_value SIGNIFICANT = ''significant''"
| "level_value MAJOR = ''major''"
| "level_value CRITICAL = ''critical''"

text \<open>\<^verbatim>\<open>DecisionLevel(value)\<close>, \<open>None\<close> where it raises.\<close>

definition level_of_value :: "string \<Rightarrow> decision_level option" where
  "level_of_value s = (if s = ''routine'' then Some ROUTINE else if s = ''significant'' then Some SIGNIFICANT
     else if s = ''major'' then Some MAJOR else if s = ''critical'' then Some CRITICAL else None)"

lemma level_of_value_value [simp]: "level_of_value (level_value l) = Some l"
  by (cases l) (simp_all add: level_of_value_def)

lemma level_of_value_Some: "level_of_value s = Some l \<longleftrightarrow> s = level_value l"
  by (cases l) (auto simp: level_of_value_def)

lemma severity_inj: "severity a = severity b \<longleftrightarrow> a = b"
  by (cases a; cases b) auto

text \<open>Levels are ordered by their severity.\<close>

instantiation decision_level :: linorder
begin

definition less_eq_decision_level :: "decision_level \<Rightarrow> decision_level \<Rightarrow> bool" where
  "a \<le> b \<longleftrightarrow> severity a \<le> severity b"

definition less_decision_level :: "decision_level \<Rightarrow> decision_level \<Rightarrow> bool" where
  "a < b \<longleftrightarrow> severity a < severity b"

instance
  by standard (auto simp: less_eq_decision_level_def less_decision_level_def severity_inj)

end

lemmas level_order = less_eq_decision_level_def less_decision_level_def

lemma ROUTINE_least [simp]: "ROUTINE \<le> l" and CRITICAL_greatest [simp]: "l \<le> CRITICAL"
  by (cases l; simp add: level_order)+

lemma le_ROUTINE [simp]: "l \<le> ROUTINE \<longleftrightarrow> l = ROUTINE"
  by (cases l) (simp_all add: level_order)

lemma max_ROUTINE [simp]: "max ROUTINE l = l" "max l ROUTINE = l"
  by (auto simp: max_def)

definition max_level :: "decision_level list \<Rightarrow> decision_level" where
  "max_level levels =
     foldl (\<lambda>result level. if severity level > severity result then level else result) ROUTINE levels"

definition level_at_least :: "decision_level \<Rightarrow> decision_level \<Rightarrow> bool" where
  "level_at_least level flr \<longleftrightarrow> severity level \<ge> severity flr"

lemma level_at_least_iff [simp]: "level_at_least l f \<longleftrightarrow> f \<le> l"
  by (simp add: level_at_least_def less_eq_decision_level_def)

lemma max_level_foldl:
  "foldl (\<lambda>result level. if severity level > severity result then level else result) r ls =
   foldl max r (ls :: decision_level list)"
  by (induction ls arbitrary: r) (auto simp: max_def level_order severity_inj intro: arg_cong2)

lemma max_level_eq: "max_level ls = foldl max ROUTINE ls"
  by (simp add: max_level_def max_level_foldl)

lemma max_level_two [simp]: "max_level [a, b] = max a b"
  by (simp add: max_level_eq max_def)

section \<open>Signals\<close>

text \<open>
  \<^verbatim>\<open>DecisionSignals\<close> is a class whose fields are all truth values: a signal names one of
  its fields, in the order of their declaration, and an instance says which are set.
\<close>

datatype signal =
    Architecture_change
  | Framework_change
  | Database_change
  | Persistence_change
  | Auth_change
  | New_external_service
  | Provider_change
  | Api_incompatible
  | Schema_migration
  | Security_boundary
  | Deployment_change
  | Scope_expansion
  | Remove_functionality
  | New_major_dependency
  | Destructive
  | Data_deletion
  | Irreversible
  | Credential_change
  | Production_action
  | Large_expenditure
  | Confidential_exposure
  | Security_control_removal
  | Cross_file
  | Minor_dependency
  | Refactor
  | Migration_required

type_synonym signals = "signal \<Rightarrow> bool"

fun field_name :: "signal \<Rightarrow> string" where
  "field_name Architecture_change = ''architecture_change''"
| "field_name Framework_change = ''framework_change''"
| "field_name Database_change = ''database_change''"
| "field_name Persistence_change = ''persistence_change''"
| "field_name Auth_change = ''auth_change''"
| "field_name New_external_service = ''new_external_service''"
| "field_name Provider_change = ''provider_change''"
| "field_name Api_incompatible = ''api_incompatible''"
| "field_name Schema_migration = ''schema_migration''"
| "field_name Security_boundary = ''security_boundary''"
| "field_name Deployment_change = ''deployment_change''"
| "field_name Scope_expansion = ''scope_expansion''"
| "field_name Remove_functionality = ''remove_functionality''"
| "field_name New_major_dependency = ''new_major_dependency''"
| "field_name Destructive = ''destructive''"
| "field_name Data_deletion = ''data_deletion''"
| "field_name Irreversible = ''irreversible''"
| "field_name Credential_change = ''credential_change''"
| "field_name Production_action = ''production_action''"
| "field_name Large_expenditure = ''large_expenditure''"
| "field_name Confidential_exposure = ''confidential_exposure''"
| "field_name Security_control_removal = ''security_control_removal''"
| "field_name Cross_file = ''cross_file''"
| "field_name Minor_dependency = ''minor_dependency''"
| "field_name Refactor = ''refactor''"
| "field_name Migration_required = ''migration_required''"

definition signal_fields :: "signal list" where
  "signal_fields = [Architecture_change, Framework_change, Database_change, Persistence_change,
     Auth_change, New_external_service, Provider_change, Api_incompatible,
     Schema_migration, Security_boundary, Deployment_change, Scope_expansion,
     Remove_functionality, New_major_dependency, Destructive, Data_deletion,
     Irreversible, Credential_change, Production_action, Large_expenditure,
     Confidential_exposure, Security_control_removal, Cross_file, Minor_dependency,
     Refactor, Migration_required]"

lemma set_signal_fields: "set signal_fields = UNIV"
proof -
  have "s \<in> set signal_fields" for s
    by (cases s) (simp_all add: signal_fields_def)
  then show ?thesis by blast
qed

definition no_signals :: signals where
  "no_signals = (\<lambda>_. False)"

text \<open>\<^verbatim>\<open>DecisionSignals.names\<close>, the keys of \<^verbatim>\<open>triggered\<close>.\<close>

definition signal_names :: "signals \<Rightarrow> string list" where
  "signal_names s = map field_name (filter s signal_fields)"

definition critical_fields :: "signal list" where
  "critical_fields = [Destructive, Data_deletion, Irreversible,
     Credential_change, Production_action, Large_expenditure,
     Confidential_exposure, Security_control_removal]"

definition major_fields :: "signal list" where
  "major_fields = [Architecture_change, Framework_change, Database_change,
     Persistence_change, Auth_change, New_external_service,
     Provider_change, Api_incompatible, Schema_migration,
     Security_boundary, Deployment_change, Scope_expansion,
     Remove_functionality, New_major_dependency]"

definition significant_fields :: "signal list" where
  "significant_fields = [Refactor, Cross_file, Minor_dependency, Migration_required]"

section \<open>The pattern tables\<close>

abbreviation sp1 :: re where
  "sp1 \<equiv> rplus rspace"

definition critical_patterns :: "(signal \<times> re list) list" where
  "critical_patterns = [
     (Destructive, [
       rseq [RWordB, ilit ''drop'', sp1, ralt [ilit ''table'', ilit ''database'', ilit ''schema'',
         ilit ''column''], RWordB],
       rseq [RWordB, ilit ''truncate'', RWordB],
       rseq [RWordB, ilit ''delete'', sp1, ilit ''from'', RWordB],
       rseq [RWordB, ilit ''rm'', sp1, ilit ''-rf'', RWordB],
       rseq [RWordB, ilit ''destroy'', RWordB],
       rseq [RWordB, ilit ''wipe'', RWordB],
       rseq [RWordB, ilit ''purge'', RWordB, RNot (rseq [sp1, ilit ''cache''])],
       rseq [RWordB, ilit ''reset'', sp1, ilit ''--hard'', RWordB],
       rseq [RWordB, ilit ''force'', RCh (Either (Is (CHR ''-'')) (Is (CHR 0x20))), ilit ''push'',
         RWordB]]),
     (Data_deletion, [
       rseq [RWordB, ilit ''delete'', sp1, ralt [ilit ''all'', ilit ''every'', ilit ''the''],
         RWordB, RStar rdot, RWordB, ralt [ilit ''data'', ilit ''records'', ilit ''rows'',
         ilit ''users'', ilit ''database''], RWordB],
       rseq [RWordB, ilit ''erase'', RWordB, RStar rdot, RWordB, ralt [ilit ''data'', ilit
         ''records'', ilit ''history''], RWordB],
       rseq [RWordB, ilit ''remove'', sp1, ilit ''all'', sp1, ralt [ilit ''data'', ilit
         ''records'', ilit ''users''], RWordB]]),
     (Irreversible, [
       rseq [RWordB, ilit ''irreversible'', RWordB],
       rseq [RWordB, ilit ''cannot be undone'', RWordB],
       rseq [RWordB, ilit ''can't be undone'', RWordB],
       rseq [RWordB, ilit ''no rollback'', RWordB],
       rseq [RWordB, ilit ''unrecoverable'', RWordB],
       rseq [RWordB, ilit ''permanent'', ropt (ilit ''ly''), sp1, ralt [ilit ''delete'', ilit
         ''remove'', ilit ''migrat'']]]),
     (Credential_change, [
       rseq [RWordB, ilit ''rotate'', sp1, ralt [ilit ''credentials'', ilit ''keys'', ilit
         ''secrets''], RWordB],
       rseq [RWordB, ilit ''credential'', sp1, ilit ''model'', RWordB],
       rseq [RWordB, ilit ''api'', sp1, ilit ''key'', ropt (ilit ''s''), RWordB],
       rseq [RWordB, ilit ''private'', sp1, ilit ''key'', RWordB],
       rseq [RWordB, ilit ''secret'', ropt (ilit ''s''), RWordB, RStar rdot, RWordB, ralt [ilit
         ''config'', ilit ''store'', ilit ''rotate''], RWordB]]),
     (Production_action, [
       rseq [RWordB, ilit ''production'', RWordB],
       rseq [RWordB, ilit ''prod'', sp1, ralt [ilit ''environment'', ilit ''server'', ilit
         ''deploy'', ilit ''database''], RWordB],
       rseq [RWordB, ilit ''live'', sp1, ralt [ilit ''system'', ilit ''traffic'', ilit ''users''],
         RWordB]]),
     (Large_expenditure, [
       rseq [RWordB, ilit ''budget'', sp1, ilit ''increase'', RWordB],
       rseq [RWordB, ilit ''large'', sp1, ropt (rseq [ilit ''unexpected'', sp1]), ralt [ilit
         ''cost'', ilit ''expenditure'', ilit ''spend'']],
       rseq [RWordB, ilit ''spend'', sp1, ropt (ilit ''$''), rep_min 3 (RCh Digit)],
       rseq [RWordB, ilit ''cost'', sp1, ilit ''spike'', RWordB]]),
     (Confidential_exposure, [
       rseq [RWordB, ilit ''expose'', sp1, ralt [ilit ''confidential'', ilit ''secrets'', ilit
         ''private'']],
       rseq [RWordB, ilit ''upload'', RWordB, RStar rdot, RWordB, ralt [ilit ''externally'', rseq
         [ilit ''to'', sp1, ilit ''the'', sp1, ilit ''cloud''], rseq [ilit ''third'', RCh
         (Either (Is (CHR ''-'')) (Is (CHR 0x20))), ilit ''party'']], RWordB],
       rseq [RWordB, ilit ''send'', RWordB, RStar rdot, RWordB, ralt [ilit ''secrets'', ilit
         ''credentials'', ilit ''keys''], RWordB],
       rseq [RWordB, ilit ''leak'', RWordB]]),
     (Security_control_removal, [
       rseq [RWordB, ilit ''disable'', sp1, ralt [ilit ''auth'', ilit ''authentication'', ilit
         ''authorization'', ilit ''tls'', ilit ''ssl'', ilit ''https'', ilit ''security''],
         RWordB],
       rseq [RWordB, ilit ''remove'', sp1, ralt [ilit ''auth'', ilit ''authentication'', ilit
         ''authorization'', ilit ''security''], RWordB],
       rseq [RWordB, ilit ''bypass'', sp1, ralt [ilit ''auth'', ilit ''security'', ilit
         ''authentication''], RWordB],
       rseq [RWordB, ralt [ilit ''no'', ilit ''without''], sp1, ilit ''authentication'', RWordB]])]"

definition major_patterns :: "(signal \<times> re list) list" where
  "major_patterns = [
     (Architecture_change, [
       rseq [RWordB, ilit ''architectur'', ralt [ilit ''e'', ilit ''al''], RWordB],
       rseq [RWordB, ilit ''micro'', ropt (RCh (Either (Is (CHR ''-'')) (Is (CHR 0x20)))), ilit
         ''service''],
       rseq [RWordB, ilit ''monolith''],
       rseq [RWordB, ilit ''re'', ropt (RCh (Either (Is (CHR ''-'')) (Is (CHR 0x20)))), ilit
         ''architect'', RWordB],
       rseq [RWordB, ilit ''system'', sp1, ilit ''design'', RWordB]]),
     (Framework_change, [
       rseq [RWordB, ralt [ilit ''change'', ilit ''switch'', ilit ''replace'', ilit ''migrate'',
         ilit ''adopt''], RWordB, RStar rdot, RWordB, ilit ''framework'', RWordB],
       rseq [RWordB, ilit ''new'', sp1, ilit ''framework'', RWordB],
       rseq [RWordB, ralt [ilit ''react'', ilit ''vue'', ilit ''angular'', ilit ''svelte'', rseq
         [ilit ''next'', ropt (ilit ''.''), ilit ''js''], ilit ''django'', ilit ''rails'',
         ilit ''laravel''], RWordB]]),
     (Database_change, [
       rseq [RWordB, ralt [ilit ''changing'', ilit ''change'', ilit ''switch'', ilit ''replace'',
         ilit ''swap'', rseq [ilit ''migrate'', sp1, ilit ''to'']], RWordB, RStar rdot,
         RWordB, ralt [ilit ''database'', ilit ''db''], RWordB],
       rseq [RWordB, ralt [ilit ''database'', ilit ''db''], sp1, ilit ''technology'', RWordB],
       rseq [RWordB, ralt [ilit ''postgres'', ilit ''postgresql'', ilit ''mysql'', ilit
         ''mariadb'', ilit ''mongodb'', ilit ''oracle'', ilit ''dynamodb''], RWordB],
       rseq [RWordB, ilit ''large'', sp1, ilit ''database'', sp1, ilit ''migration'', RWordB],
       rseq [RWordB, ilit ''schema'', sp1, ilit ''redesign'', RWordB],
       rseq [RWordB, ilit ''major'', sp1, ilit ''schema'', RWordB]]),
     (Persistence_change, [
       rseq [RWordB, ilit ''persistence'', sp1, ralt [ilit ''architecture'', ilit ''layer'', ilit
         ''strategy'', ilit ''design''], RWordB],
       rseq [RWordB, ilit ''re'', ropt (RCh (Either (Is (CHR ''-'')) (Is (CHR 0x20)))), ilit
         ''design'', RWordB, RStar rdot, RWordB, ilit ''persistence'', RWordB],
       rseq [RWordB, ilit ''replace'', RWordB, RStar rdot, RWordB, ralt [ilit ''sqlite'', ilit
         ''persistence'', rseq [ilit ''storage'', sp1, ilit ''layer'']], RWordB],
       rseq [RWordB, ilit ''storage'', sp1, ilit ''architecture'', RWordB]]),
     (Auth_change, [
       rseq [RWordB, ilit ''oauth'', RWordB],
       rseq [RWordB, ilit ''oidc'', RWordB],
       rseq [RWordB, ilit ''saml'', RWordB],
       rseq [RWordB, ilit ''sso'', RWordB],
       rseq [RWordB, ilit ''auth'', ropt (ilit ''entication''), sp1, ralt [ilit ''architecture'',
         ilit ''provider'', ilit ''system'', ilit ''strategy'', ilit ''model''], RWordB],
       rseq [RWordB, ralt [ilit ''change'', ilit ''replace'', ilit ''switch'', ilit ''redesign'',
         ilit ''rework''], RWordB, RStar rdot, RWordB, ilit ''auth'', ropt (ralt [ilit
         ''entication'', ilit ''orization'']), RWordB],
       rseq [RWordB, ilit ''auth'', ropt (ralt [ilit ''entication'', ilit ''orization'']), RWordB,
         RStar rdot, RWordB, ralt [ilit ''architecture'', ilit ''provider'', ilit
         ''strategy''], RWordB]]),
     (New_external_service, [
       rseq [RWordB, ilit ''new'', sp1, ralt [ilit ''external'', rseq [ilit ''third'', RCh (Either
         (Is (CHR ''-'')) (Is (CHR 0x20))), ilit ''party''], ilit ''major''], sp1, ralt
         [ilit ''service'', ilit ''provider'', ilit ''api'', ilit ''vendor''], RWordB],
       rseq [RWordB, ilit ''introduc'', ralt [ilit ''e'', ilit ''ing''], RWordB, RStar rdot,
         RWordB, ralt [ilit ''service'', ilit ''vendor'', ilit ''provider''], RWordB],
       rseq [RWordB, ralt [ilit ''stripe'', ilit ''twilio'', ilit ''sendgrid'', ilit ''auth0'',
         ilit ''okta'', ilit ''datadog'', ilit ''sentry''], RWordB]]),
     (Provider_change, [
       rseq [RWordB, ralt [ilit ''cloud'', ilit ''model'', ilit ''inference'', ilit ''llm''], sp1,
         ilit ''provider'', RWordB],
       rseq [RWordB, ilit ''provider'', sp1, ralt [ilit ''layer'', ilit ''strategy'', ilit
         ''change'', ilit ''switch''], RWordB],
       rseq [RWordB, ilit ''replace'', sp1, ralt [ilit ''ollama'', ilit ''openai'', ilit
         ''anthropic'', ilit ''deepseek''], RWordB],
       rseq [RWordB, ilit ''switch'', sp1, ropt (rseq [ilit ''to'', sp1]), ralt [ilit ''openai'',
         ilit ''anthropic'', ilit ''deepseek'', ilit ''bedrock'', ilit ''azure''], RWordB]]),
     (Api_incompatible, [
       rseq [RWordB, ilit ''breaking'', sp1, ralt [ilit ''change'', ilit ''api''], RWordB],
       rseq [RWordB, ilit ''backward'', ropt (ilit ''s''), RCh (Either (Is (CHR ''-'')) (Is (CHR
         0x20))), ilit ''incompatible'', RWordB],
       rseq [RWordB, ilit ''public'', sp1, ilit ''api'', RWordB, RStar rdot, RWordB, ralt [ilit
         ''change'', ilit ''break''], RWordB],
       rseq [RWordB, ilit ''change'', sp1, ilit ''the'', sp1, ilit ''public'', sp1, ilit ''api'',
         RWordB]]),
     (Schema_migration, [
       rseq [RWordB, ralt [ilit ''schema'', ilit ''data''], sp1, ilit ''migration'', RWordB],
       rseq [RWordB, ilit ''migrate'', sp1, ropt (rseq [ilit ''the'', sp1]), ralt [ilit ''schema'',
         ilit ''database''], RWordB],
       rseq [RWordB, ilit ''schema'', sp1, ralt [ilit ''change'', ilit ''version''], RWordB]]),
     (Security_boundary, [
       rseq [RWordB, ilit ''security'', sp1, ralt [ilit ''boundary'', ilit ''boundaries'', ilit
         ''model'', ilit ''posture''], RWordB],
       rseq [RWordB, ilit ''trust'', sp1, ilit ''boundary'', RWordB],
       rseq [RWordB, ilit ''permission'', sp1, ilit ''model'', RWordB]]),
     (Deployment_change, [
       rseq [RWordB, ilit ''deployment'', sp1, ilit ''architecture'', RWordB],
       rseq [RWordB, ilit ''kubernetes'', RWordB],
       rseq [RWordB, ilit ''k8s'', RWordB],
       rseq [RWordB, ralt [rseq [ilit ''docker'', sp1, ilit ''swarm''], ilit ''infrastructure'',
         rseq [ilit ''hosting'', sp1, ilit ''provider'']], RWordB],
       rseq [RWordB, ilit ''deploy'', ropt (ilit ''ment''), sp1, ralt [ilit ''to'', ilit ''on''],
         RWordB, RStar rdot, RWordB, ralt [ilit ''cloud'', ilit ''aws'', ilit ''azure'',
         ilit ''gcp''], RWordB]]),
     (Scope_expansion, [
       rseq [RWordB, ilit ''expandin'', ropt (ilit ''g''), sp1, ropt (rseq [ilit ''the'', sp1]),
         ilit ''scope'', RWordB],
       rseq [RWordB, ilit ''major'', sp1, ilit ''scope'', RWordB],
       rseq [RWordB, ilit ''substantially'', sp1, ralt [ilit ''expand'', ilit ''increase''],
         RWordB],
       rseq [RWordB, ilit ''new'', sp1, ilit ''major'', sp1, ralt [ilit ''feature'', ilit
         ''capability'', ilit ''component''], RWordB]]),
     (Remove_functionality, [
       rseq [RWordB, ilit ''remove'', sp1, ralt [ilit ''major'', ilit ''core'', ilit ''existing''],
         sp1, ralt [ilit ''functionality'', ilit ''feature'', ilit ''module''], RWordB],
       rseq [RWordB, ilit ''delete'', sp1, ropt (rseq [ilit ''the'', sp1]), ralt [ilit ''feature'',
         ilit ''module'', ilit ''subsystem''], RWordB]]),
     (New_major_dependency, [
       rseq [RWordB, ilit ''major'', sp1, ropt (rseq [ilit ''third'', RCh (Either (Is (CHR ''-''))
         (Is (CHR 0x20))), ilit ''party'', sp1]), ralt [ilit ''dependency'', ilit
         ''library'', ilit ''package''], RWordB],
       rseq [RWordB, ilit ''add'', sp1, ropt (rseq [ilit ''a'', sp1]), ralt [ilit ''major'', rseq
         [ilit ''new'', sp1, ilit ''foundational'']], sp1, ralt [ilit ''dependency'', ilit
         ''framework''], RWordB]])]"

definition significant_patterns :: "(signal \<times> re list) list" where
  "significant_patterns = [
     (Refactor, [
       rseq [RWordB, ilit ''refactor'', RWordB],
       rseq [RWordB, ilit ''restructure'', RWordB],
       rseq [RWordB, ilit ''moderate'', sp1, ilit ''refactor'', RWordB]]),
     (Cross_file, [
       rseq [RWordB, ralt [ilit ''several'', ilit ''multiple'', ilit ''many''], sp1, ropt (rseq
         [ilit ''related'', sp1]), ilit ''files'', RWordB],
       rseq [RWordB, ilit ''across'', sp1, ilit ''files'', RWordB],
       rseq [RWordB, ilit ''multiple'', sp1, ilit ''modules'', RWordB]]),
     (Minor_dependency, [
       rseq [RWordB, ilit ''minor'', sp1, ilit ''dependency'', RWordB],
       rseq [RWordB, ilit ''add'', sp1, ropt (rseq [ilit ''a'', sp1]), ralt [ilit ''small'', ilit
         ''minor''], sp1, ralt [ilit ''dependency'', ilit ''library'', ilit ''package''],
         RWordB]]),
     (Migration_required, [
       rseq [RWordB, ilit ''migration'', RWordB]])]"

section \<open>The classifier\<close>

definition search_any :: "re list \<Rightarrow> string \<Rightarrow> bool" where
  "search_any patterns text \<longleftrightarrow> list_ex (\<lambda>r. search r text) patterns"

text \<open>One loop over a table: a field with a matching pattern is set.\<close>

definition mark_signals :: "(signal \<times> re list) list \<Rightarrow> string \<Rightarrow> signals \<Rightarrow> signals" where
  "mark_signals table text signals =
     foldl (\<lambda>s (field, patterns). if search_any patterns text then s(field := True) else s) signals table"

definition detect_signals :: "string \<Rightarrow> signals" where
  "detect_signals text = mark_signals significant_patterns text
     (mark_signals major_patterns text (mark_signals critical_patterns text no_signals))"

definition level_for_signals :: "signals \<Rightarrow> decision_level" where
  "level_for_signals signals =
     (if list_ex signals critical_fields then CRITICAL
      else if list_ex signals major_fields then MAJOR
      else if list_ex signals significant_fields then SIGNIFICANT
      else ROUTINE)"

record classification =
  cls_level :: decision_level
  cls_signals :: signals
  cls_reasons :: "string list"
  cls_requires_human_approval :: bool
  cls_model_assisted :: bool
  cls_conflicts_with_rules :: "string list"

definition is_major :: "classification \<Rightarrow> bool" where
  "is_major c \<longleftrightarrow> level_at_least (cls_level c) MAJOR"

text \<open>
  \<^verbatim>\<open>DecisionClassifier.classify\<close>, statement by statement: each block maps the level and
  the reasons it has so far to the next ones.
\<close>

definition classify ::
  "string \<Rightarrow> decision_level option \<Rightarrow> string option \<Rightarrow> string list option \<Rightarrow> classification" where
  "classify text model_level model_reason rule_conflicts =
     (let signals = detect_signals text;
          level = level_for_signals signals;
          triggered = signal_names signals;
          reasons = (if triggered \<noteq> [] then [''deterministic signals: '' @ join '', '' triggered] else []);
          (level, reasons) = (case model_level of
             None \<Rightarrow> (level, reasons)
           | Some ml \<Rightarrow> (max_level [level, ml],
               reasons @ [''model assessment suggested '' @ level_value ml @
                 (case model_reason of None \<Rightarrow> [] | Some [] \<Rightarrow> []
                  | Some r \<Rightarrow> '' ('' @ r @ '')'')]));
          (level, reasons) = (case rule_conflicts of
             None \<Rightarrow> (level, reasons)
           | Some [] \<Rightarrow> (level, reasons)
           | Some cs \<Rightarrow> (max_level [level, MAJOR],
               reasons @ [''conflicts with standing rule(s): '' @ join ''; '' cs]));
          requires_approval = level_at_least level MAJOR;
          reasons = (if requires_approval then reasons
             else reasons @ [''routine or significant; autonomous execution permitted by default''])
      in \<lparr>cls_level = level, cls_signals = signals, cls_reasons = reasons,
          cls_requires_human_approval = requires_approval,
          cls_model_assisted = (model_level \<noteq> None),
          cls_conflicts_with_rules = (case rule_conflicts of None \<Rightarrow> [] | Some cs \<Rightarrow> cs)\<rparr>)"

section \<open>Facts about the classifier\<close>

lemma mark_signals_iff:
  "mark_signals table text signals f \<longleftrightarrow>
     signals f \<or> (\<exists>patterns. (f, patterns) \<in> set table \<and> search_any patterns text)"
proof (induction table arbitrary: signals)
  case Nil
  then show ?case by (simp add: mark_signals_def)
next
  case (Cons e table)
  obtain g ps where e: "e = (g, ps)" by (cases e)
  have "mark_signals (e # table) text signals =
    mark_signals table text (if search_any ps text then signals(g := True) else signals)"
    by (simp add: mark_signals_def e)
  with Cons show ?case by (cases "search_any ps text") (auto simp: e)
qed

lemma detect_signals_iff:
  "detect_signals text f \<longleftrightarrow>
     (\<exists>patterns. (f, patterns) \<in> set (critical_patterns @ major_patterns @ significant_patterns) \<and>
       search_any patterns text)"
  by (auto simp: detect_signals_def mark_signals_iff no_signals_def)

text \<open>The tables and the field lists agree: a table sets fields of its own severity only.\<close>

lemma pattern_table_fields:
  "map fst critical_patterns = critical_fields" "map fst major_patterns = major_fields"
  "map fst significant_patterns = significant_fields"
  by (simp_all only: critical_patterns_def critical_fields_def major_patterns_def major_fields_def
      significant_patterns_def significant_fields_def list.map fst_conv)

lemma field_lists_disjoint:
  "set critical_fields \<inter> set major_fields = {}" "set critical_fields \<inter> set significant_fields = {}"
  "set major_fields \<inter> set significant_fields = {}"
  by (simp_all add: critical_fields_def major_fields_def significant_fields_def)

definition table_hits :: "(signal \<times> re list) list \<Rightarrow> string \<Rightarrow> bool" where
  "table_hits table text \<longleftrightarrow> list_ex (\<lambda>(field, patterns). search_any patterns text) table"

lemma any_field_iff_hits:
  assumes "set (map fst table) = set fs"
    and "\<And>t. t \<in> {critical_patterns, major_patterns, significant_patterns} - {table} \<Longrightarrow>
      set (map fst t) \<inter> set fs = {}"
    and "table \<in> {critical_patterns, major_patterns, significant_patterns}"
  shows "list_ex (detect_signals text) fs \<longleftrightarrow> table_hits table text"
proof
  assume "list_ex (detect_signals text) fs"
  then obtain f ps where f: "f \<in> set fs" "search_any ps text"
    "(f, ps) \<in> set (critical_patterns @ major_patterns @ significant_patterns)"
    by (auto simp: list_ex_iff detect_signals_iff)
  then have "\<exists>t\<in>{critical_patterns, major_patterns, significant_patterns}. (f, ps) \<in> set t"
    by auto
  with assms(2) f(1) have "(f, ps) \<in> set table" by fastforce
  with f(2) show "table_hits table text" by (auto simp: table_hits_def list_ex_iff)
next
  assume "table_hits table text"
  then obtain f ps where f: "(f, ps) \<in> set table" "search_any ps text"
    by (auto simp: table_hits_def list_ex_iff)
  with assms(1) have "f \<in> set fs" by force
  moreover have "detect_signals text f" using f assms(3) by (auto simp: detect_signals_iff)
  ultimately show "list_ex (detect_signals text) fs" by (auto simp: list_ex_iff)
qed

lemma critical_iff_hits:
  "list_ex (detect_signals text) critical_fields \<longleftrightarrow> table_hits critical_patterns text"
  using pattern_table_fields field_lists_disjoint
  by (intro any_field_iff_hits) (auto simp del: set_map)

lemma major_iff_hits:
  "list_ex (detect_signals text) major_fields \<longleftrightarrow> table_hits major_patterns text"
  using pattern_table_fields field_lists_disjoint
  by (intro any_field_iff_hits) (auto simp del: set_map)

lemma significant_iff_hits:
  "list_ex (detect_signals text) significant_fields \<longleftrightarrow> table_hits significant_patterns text"
  using pattern_table_fields field_lists_disjoint
  by (intro any_field_iff_hits) (auto simp del: set_map)

definition text_level :: "string \<Rightarrow> decision_level" where
  "text_level text = (if table_hits critical_patterns text then CRITICAL
     else if table_hits major_patterns text then MAJOR
     else if table_hits significant_patterns text then SIGNIFICANT else ROUTINE)"

lemma level_for_detected [simp]: "level_for_signals (detect_signals text) = text_level text"
  by (simp add: level_for_signals_def text_level_def critical_iff_hits major_iff_hits
      significant_iff_hits)

lemma level_for_signals_mono: "s \<le> s' \<Longrightarrow> level_for_signals s \<le> level_for_signals s'"
  by (auto simp: level_for_signals_def list_ex_iff le_fun_def level_order)

lemma classify_level:
  "cls_level (classify text ml mr rc) =
     max (max (text_level text) (case ml of None \<Rightarrow> ROUTINE | Some l \<Rightarrow> l))
       (case rc of None \<Rightarrow> ROUTINE | Some [] \<Rightarrow> ROUTINE | Some cs \<Rightarrow> MAJOR)"
  by (cases ml; cases rc; cases "the rc"; simp add: classify_def Let_def)

lemma classify_signals: "cls_signals (classify text ml mr rc) = detect_signals text"
  by (cases ml; cases rc; cases "the rc"; simp add: classify_def Let_def)

lemma classify_conflicts:
  "cls_conflicts_with_rules (classify text ml mr rc) = (case rc of None \<Rightarrow> [] | Some cs \<Rightarrow> cs)"
  by (cases ml; cases rc; cases "the rc"; simp add: classify_def Let_def)

lemma classify_approval:
  "cls_requires_human_approval (classify text ml mr rc) \<longleftrightarrow> MAJOR \<le> cls_level (classify text ml mr rc)"
  by (cases ml; cases rc; cases "the rc"; simp add: classify_def Let_def)

lemmas classify_simps = classify_level classify_signals classify_conflicts

text \<open>A word between boundaries is found wherever it stands, in any case.\<close>

lemma search_word:
  assumes "w \<noteq> []" "is_word (hd w)" "is_word (last w)"
    and "u = [] \<or> \<not> is_word (last u)" "v = [] \<or> \<not> is_word (hd v)"
  shows "search (rseq [RWordB, ilit (lower w), RWordB]) (u @ w @ v)"
proof (rule searchI)
  let ?p = "(last_char None u, w @ v)" and ?q = "(last_char (last_char None u) w, v)"
  have "word_boundary ?p"
    using assms(1,2,4) by (cases w) (auto simp: last_char_def intro!: word_boundary_start)
  moreover have "word_boundary ?q"
    using assms(1,3,5) by (auto simp: last_char_def intro!: word_boundary_end split: list.split)
  ultimately show "matches (rseq [RWordB, ilit (lower w), RWordB]) ?p ?q"
    using matches_ilit [of w "last_char None u" v]
    by (simp only: matches_rseq_Cons matches_rseq_Nil) (blast intro: m_wordb)
qed

end
