(* ===== verification/Approval.thy ===== *)
theory Approval
  imports Classifier
begin

text \<open>
  \<^verbatim>\<open>decisions/approval.py\<close>: the question put to the human, the answer that comes back, and
  the two providers of answers, the console and the automatic one.
\<close>

section \<open>Requests and decisions\<close>

datatype approval_action =
    APPROVE | REJECT | MODIFY | CHOOSE_OPTION | MORE_LOCAL_ANALYSIS | ALLOW_EXPERT_ANALYSIS
  | CONTINUE_CURRENT | STOP

fun action_value :: "approval_action \<Rightarrow> string" where
  "action_value APPROVE = ''approve''"
| "action_value REJECT = ''reject''"
| "action_value MODIFY = ''modify''"
| "action_value CHOOSE_OPTION = ''choose_option''"
| "action_value MORE_LOCAL_ANALYSIS = ''ask_for_more_local_analysis''"
| "action_value ALLOW_EXPERT_ANALYSIS = ''allow_expert_analysis''"
| "action_value CONTINUE_CURRENT = ''continue_with_current_architecture''"
| "action_value STOP = ''stop_task''"

definition AUTHORIZING :: "approval_action set" where
  "AUTHORIZING = {APPROVE, CHOOSE_OPTION, ALLOW_EXPERT_ANALYSIS, CONTINUE_CURRENT}"

definition NON_AUTHORIZING :: "approval_action set" where
  "NON_AUTHORIZING = {REJECT, STOP, MODIFY, MORE_LOCAL_ANALYSIS}"

lemma authorizing_partition:
  "AUTHORIZING \<union> NON_AUTHORIZING = UNIV" "AUTHORIZING \<inter> NON_AUTHORIZING = {}"
proof -
  have "a \<in> AUTHORIZING \<union> NON_AUTHORIZING" for a
    by (cases a) (simp_all add: AUTHORIZING_def NON_AUTHORIZING_def)
  then show "AUTHORIZING \<union> NON_AUTHORIZING = UNIV" by blast
  show "AUTHORIZING \<inter> NON_AUTHORIZING = {}"
    by (simp add: AUTHORIZING_def NON_AUTHORIZING_def)
qed

record approval_option =
  opt_key :: string
  opt_label :: string
  opt_description :: string

record approval_request =
  req_category :: decision_level
  req_issue :: string
  req_why_it_matters :: string
  req_current_approach :: string
  req_options :: "approval_option list"
  req_recommended_action :: string
  req_cloud_reasoning_invoked :: bool
  req_stage :: string
  req_context :: pyval

record human_decision =
  hd_action :: approval_action
  hd_selected_options :: "string list"
  hd_constraints :: "string list"
  hd_note :: string

definition decide_with :: "approval_action \<Rightarrow> human_decision" where
  "decide_with a = \<lparr>hd_action = a, hd_selected_options = [], hd_constraints = [], hd_note = []\<rparr>"

definition authorized :: "human_decision \<Rightarrow> bool" where
  "authorized d \<longleftrightarrow> hd_action d \<in> AUTHORIZING"

definition allows_expert_analysis :: "human_decision \<Rightarrow> bool" where
  "allows_expert_analysis d \<longleftrightarrow> hd_action d = ALLOW_EXPERT_ANALYSIS"

lemma authorized_iff:
  "authorized d \<longleftrightarrow> hd_action d \<in> {APPROVE, CHOOSE_OPTION, ALLOW_EXPERT_ANALYSIS, CONTINUE_CURRENT}"
  by (simp add: authorized_def AUTHORIZING_def)

section \<open>Rendering\<close>

text \<open>Each block appends its lines, as the source's \<^verbatim>\<open>lines.append\<close> does.\<close>

definition render_lines :: "approval_request \<Rightarrow> string list" where
  "render_lines request =
     [upper (level_value (req_category request)) @ '' DECISION REQUIRED'', [], ''Issue:'', req_issue request] @
     (if req_why_it_matters request \<noteq> []
      then [[], ''Why this matters:'', req_why_it_matters request] else []) @
     (if req_current_approach request \<noteq> []
      then [[], ''Current approach:'', req_current_approach request] else []) @
     (if req_options request \<noteq> []
      then [[], ''Possible directions:''] @
        concat (map (\<lambda>o'. [opt_key o' @ ''. '' @ opt_label o'] @
          (if opt_description o' \<noteq> [] then [''   '' @ opt_description o'] else [])) (req_options request))
      else []) @
     (if req_recommended_action request \<noteq> []
      then [[], ''Recommended next step:'', req_recommended_action request] else []) @
     [[], if req_cloud_reasoning_invoked request then ''Cloud reasoning HAS been invoked for analysis.''
          else ''Cloud reasoning has NOT been invoked yet.'', [], ''Choose:''] @
     map (\<lambda>o'. ''['' @ opt_key o' @ ''] '' @ opt_label o') (req_options request) @
     (let existing = map (\<lambda>o'. upper (opt_key o')) (req_options request)
      in (if ''C'' \<notin> set existing then [''[C] Give different instructions''] else []) @
         (if ''D'' \<notin> set existing then [''[D] Stop this work''] else []))"

definition render_request :: "approval_request \<Rightarrow> string" where
  "render_request request = join nl (render_lines request)"

section \<open>Parsing an answer\<close>

definition contains_any :: "string list \<Rightarrow> string \<Rightarrow> bool" where
  "contains_any words text \<longleftrightarrow> list_ex (\<lambda>w. sublist w text) words"

text \<open>The decision for the option whose key was typed, from the words of its label.\<close>

definition option_decision :: "string \<Rightarrow> approval_option \<Rightarrow> human_decision" where
  "option_decision key o' =
     (let label = lower (opt_label o')
      in if sublist ''stop'' label then decide_with STOP
         else if contains_any [''keep'', ''current''] label then decide_with CONTINUE_CURRENT
         else if contains_any [''analysis'', ''analyze'', ''deepseek'', ''expert''] label
              then (decide_with ALLOW_EXPERT_ANALYSIS)\<lparr>hd_selected_options := [key]\<rparr>
         else if contains_any [''different'', ''instruction''] label
              then (decide_with MODIFY)\<lparr>hd_selected_options := [key]\<rparr>
         else (decide_with CHOOSE_OPTION)\<lparr>hd_selected_options := [key]\<rparr>)"

definition starts_with :: "string \<Rightarrow> string \<Rightarrow> bool" where
  "starts_with p s \<longleftrightarrow> prefix p s"

definition parse_constraints :: "string \<Rightarrow> string list" where
  "parse_constraints text = (case after_first (CHR '':'') text of
     None \<Rightarrow> []
   | Some rest \<Rightarrow> filter (\<lambda>p. p \<noteq> []) (map strip (split_char (CHR '';'') rest)))"

definition parse_decision_input :: "string \<Rightarrow> approval_option list \<Rightarrow> human_decision" where
  "parse_decision_input raw options =
     (let text = strip raw; lowered = lower text;
          valid_keys = map (\<lambda>o'. upper (opt_key o')) options
      in if lowered \<in> {''approve'', ''approved'', ''yes'', ''y'', ''ok'', ''a''} \<and> ''A'' \<notin> set valid_keys
         then decide_with APPROVE
         else if lowered \<in> {''reject'', ''no'', ''n''} then decide_with REJECT
         else if lowered \<in> {''stop'', ''d'', ''cancel'', ''abort''} then decide_with STOP
         else if lowered \<in> {''modify'', ''c'', ''change'', ''different''}
              then (decide_with MODIFY)\<lparr>hd_note := text\<rparr>
         else if lowered \<in> {''more'', ''more local'', ''analyze locally'', ''local analysis''}
              then decide_with MORE_LOCAL_ANALYSIS
         else if lowered \<in> {''allow deepseek'', ''allow expert'', ''allow expert analysis'', ''deepseek''}
              then decide_with ALLOW_EXPERT_ANALYSIS
         else if lowered \<in> {''continue'', ''keep'', ''keep current'', ''current''}
              then decide_with CONTINUE_CURRENT
         else case find (\<lambda>o'. upper (opt_key o') = upper text) options of
                Some o' \<Rightarrow> option_decision (upper text) o'
              | None \<Rightarrow>
                  if starts_with ''constraint:'' lowered \<or> starts_with ''constraints:'' lowered
                  then (decide_with APPROVE)\<lparr>hd_constraints := parse_constraints text, hd_note := text\<rparr>
                  else (decide_with MODIFY)\<lparr>hd_note := text\<rparr>)"

section \<open>Providers\<close>

text \<open>
  \<^verbatim>\<open>ConsoleApprovalProvider.request\<close>: what it prints, the prompt it reads with, and the
  decision it makes of the line \<open>raw\<close> the human types.
\<close>

definition console_prompt :: "approval_request \<Rightarrow> string" where
  "console_prompt request =
     (let keys = join '', '' (map opt_key (req_options request));
          prompts = (if keys = [] then ''approve/reject'' else keys)
      in ''Decision ['' @ prompts @ '', C=instructions, D=stop]: '')"

definition console_request :: "string \<Rightarrow> approval_request \<Rightarrow> string list \<times> human_decision" where
  "console_request raw request =
     ([render_request request, console_prompt request], parse_decision_input raw (req_options request))"

record auto_provider =
  auto_significant :: "human_decision option"
  auto_major :: "human_decision option"
  auto_critical :: "human_decision option"
  auto_requests :: "approval_request list"

definition new_auto ::
  "human_decision option \<Rightarrow> human_decision option \<Rightarrow> human_decision option \<Rightarrow> human_decision option \<Rightarrow>
     auto_provider" where
  "new_auto dflt major critical significant =
     \<lparr>auto_significant = significant,
      auto_major = (case major of None \<Rightarrow> dflt | Some d \<Rightarrow> Some d),
      auto_critical = critical, auto_requests = []\<rparr>"

definition auto_request :: "approval_request \<Rightarrow> auto_provider \<Rightarrow> human_decision \<times> auto_provider" where
  "auto_request request p =
     (let p' = p\<lparr>auto_requests := auto_requests p @ [request]\<rparr>
      in ((if req_category request = CRITICAL then
             (case auto_critical p of Some d \<Rightarrow> d
              | None \<Rightarrow> (decide_with STOP)\<lparr>hd_note := ''critical decision not auto-approved''\<rparr>)
           else if req_category request = MAJOR then
             (case auto_major p of Some d \<Rightarrow> d
              | None \<Rightarrow> (decide_with STOP)\<lparr>hd_note := ''major decision not auto-approved''\<rparr>)
           else (case auto_significant p of Some d \<Rightarrow> d
              | None \<Rightarrow> (decide_with APPROVE)\<lparr>hd_note := ''non-interactive routine approval''\<rparr>)), p'))"

text \<open>
  What a run relies on where no human answers: a provider that fails safe for some
  categories never authorizes a request in them, and goes on failing safe.
\<close>

locale fail_safe_provider =
  fixes request :: "approval_request \<Rightarrow> 's \<Rightarrow> human_decision \<times> 's"
    and blocked :: "decision_level set"
    and ok :: "'s \<Rightarrow> bool"
  assumes not_authorized: "ok s \<Longrightarrow> req_category r \<in> blocked \<Longrightarrow> \<not> authorized (fst (request r s))"
    and ok_request: "ok s \<Longrightarrow> ok (snd (request r s))"
begin

fun ask_all :: "approval_request list \<Rightarrow> 's \<Rightarrow> human_decision list" where
  "ask_all [] s = []"
| "ask_all (r # rs) s = fst (request r s) # ask_all rs (snd (request r s))"

lemma never_authorizes:
  "ok s \<Longrightarrow> \<forall>r\<in>set rs. req_category r \<in> blocked \<Longrightarrow> \<forall>d\<in>set (ask_all rs s). \<not> authorized d"
proof (induction rs arbitrary: s)
  case (Cons r rs)
  from ok_request [OF Cons.prems(1)] have "ok (snd (request r s))" .
  with Cons show ?case by (simp add: not_authorized)
qed simp

end

lemma not_authorized_stop [simp]:
  "\<not> authorized (decide_with STOP)" "\<not> authorized ((decide_with STOP)\<lparr>hd_note := n\<rparr>)"
  by (simp_all add: authorized_iff decide_with_def)

interpretation auto_default: fail_safe_provider auto_request "{MAJOR, CRITICAL}"
  "\<lambda>p. auto_major p = None \<and> auto_critical p = None"
  by unfold_locales (auto simp: auto_request_def Let_def)

interpretation auto_critical: fail_safe_provider auto_request "{CRITICAL}"
  "\<lambda>p. auto_critical p = None"
  by unfold_locales (auto simp: auto_request_def Let_def)

section \<open>Facts about parsing\<close>

lemma option_decision_not_approve: "hd_action (option_decision k o') \<notin> {APPROVE, REJECT, MORE_LOCAL_ANALYSIS}"
  by (simp add: option_decision_def decide_with_def Let_def)

text \<open>
  An answer approves outright only where it is an approving word that is no option key, or
  a list of constraints.
\<close>

lemma parse_approve:
  assumes "hd_action (parse_decision_input raw options) = APPROVE"
  shows "lower (strip raw) \<in> {''approve'', ''approved'', ''yes'', ''y'', ''ok'', ''a''} \<or>
    prefix ''constraint:'' (lower (strip raw)) \<or> prefix ''constraints:'' (lower (strip raw))"
proof (rule ccontr)
  assume n: "\<not> ?thesis"
  then have "hd_action (parse_decision_input raw options) \<noteq> APPROVE"
    using option_decision_not_approve
    by (auto simp: parse_decision_input_def Let_def starts_with_def decide_with_def split: option.splits)
  with assms show False by simp
qed

end
