(* ===== verification/Rules.thy ===== *)
theory Rules
  imports Classifier History
begin

text \<open>
  \<^verbatim>\<open>decisions/policy.py\<close>: standing rules, the durable constraints a human set.  A rule can
  waive a cost, grant an autonomy, or force the review of a proposal that leaves the
  technology it approved.  Python sets become lists without regard to order; where the
  source sorts a set, the model sorts the list without duplicates.
\<close>

section \<open>Tables\<close>

definition cost_waiver_pre :: re where
  "cost_waiver_pre = rseq [rlit ''$'', RStar rspace]"

definition cost_waiver_group :: re where
  "cost_waiver_group = rseq [rplus (RCh Digit), ropt (rseq [rlit ''.'', rplus (RCh Digit)])]"

definition approval_framing :: re where
  "approval_framing = rseq [RWordB,
     ralt [ilit ''approved'', ilit ''approve'', rseq [ilit ''use'', sp1, ilit ''only''],
       rseq [ilit ''must'', sp1, ilit ''use''], rseq [ilit ''stick'', sp1, ilit ''with''],
       rseq [ilit ''do'', sp1, ilit ''not''], ilit [CHR ''d'', CHR ''o'', CHR ''n'', quote, CHR ''t''],
       ilit ''never'', rseq [ilit ''no'', sp1, ilit ''other''], ilit ''forbid''],
     RWordB]"

definition tech_families :: "(string \<times> string list) list" where
  "tech_families = [
     (''persistence'', [''sqlite'', ''postgres'', ''postgresql'', ''mysql'', ''mariadb'', ''mongodb'',
        ''dynamodb'', ''oracle'', ''redis'', ''filesystem'']),
     (''frontend'', [''react'', ''vue'', ''svelte'', ''angular'', ''next.js'', ''nextjs'', ''solid'']),
     (''backend'', [''django'', ''fastapi'', ''flask'', ''rails'', ''laravel'', ''express'', ''nestjs'']),
     (''auth'', [''oauth'', ''oidc'', ''saml'', ''sso'', ''jwt'', ''session'', ''basic auth'', ''auth'',
        ''authentication'']),
     (''provider'', [''ollama'', ''openai'', ''anthropic'', ''deepseek'', ''bedrock'', ''azure openai'']),
     (''deployment'', [''kubernetes'', ''k8s'', ''docker'', ''ecs'', ''lambda'', ''serverless'', ''bare metal''])]"

definition known_grants :: "(string \<times> re list) list" where
  "known_grants = [
     (''cloud_debug_failed_tests'',
       [rseq [rlit ''debug'', sp1, ropt (rseq [rlit ''failed'', sp1]), rlit ''tests'', sp1,
          rlit ''automatically''],
        rseq [rlit ''deepseek'', sp1, rlit ''may'', sp1, rlit ''debug'']]),
     (''cloud_auto_escalation'',
       [rseq [rlit ''automatically'', sp1, rlit ''escalate''],
        rseq [rlit ''may'', sp1, rlit ''use'', sp1, rlit ''cloud'', sp1, rlit ''automatically'']])]"

text \<open>\<^verbatim>\<open>float(text)\<close> on the digits the pattern captured: digits, or digits, a point and digits.\<close>

definition read_decimal :: "string \<Rightarrow> pyfloat" where
  "read_decimal s = (case after_first (CHR ''.'') s of
     None \<Rightarrow> rnd (of_nat (read_nat s))
   | Some fr \<Rightarrow> rnd (of_nat (read_nat (takeWhile (\<lambda>c. c \<noteq> CHR ''.'') s @ fr)) / 10 ^ length fr))"

section \<open>Rules and the engine\<close>

record standing_rule =
  rule_id :: "int option"
  rule_text :: string
  forbid_terms :: "string list"
  rule_grants :: "string list"
  rule_tags :: "string list"
  rule_active :: bool

text \<open>\<^verbatim>\<open>StandingRule.from_dict\<close> on a row of the store.\<close>

definition rule_from_row :: "rule_row \<Rightarrow> standing_rule" where
  "rule_from_row r = \<lparr>rule_id = Some (row_id r), rule_text = row_text r,
     forbid_terms = row_forbid_terms r, rule_grants = row_grants r, rule_tags = row_tags r,
     rule_active = row_active r\<rparr>"

definition derive_rule_metadata :: "string \<Rightarrow> string list \<times> string list" where
  "derive_rule_metadata text =
     (let lo = lower text;
          forbid = (if search approval_framing text
                    then concat (map (\<lambda>(_, terms). filter (\<lambda>t. sublist t lo) terms) tech_families)
                    else []);
          grants = map fst (filter (\<lambda>(_, patterns). search_any patterns lo) known_grants)
      in (sorted_set forbid, sorted_set grants))"

record rule_engine =
  eng_store :: "store option"
  eng_rules :: "standing_rule list"

definition complete_rule :: "standing_rule \<Rightarrow> standing_rule" where
  "complete_rule rule =
     (if forbid_terms rule = [] \<and> rule_grants rule = []
      then (let (f, g) = derive_rule_metadata (rule_text rule)
            in rule\<lparr>forbid_terms := f, rule_grants := g\<rparr>)
      else rule)"

definition reload :: "rule_engine \<Rightarrow> rule_engine" where
  "reload e = (case eng_store e of
     None \<Rightarrow> e
   | Some st \<Rightarrow> e\<lparr>eng_rules := map rule_from_row (list_standing_rules True st)\<rparr>)"

definition new_engine :: "store option \<Rightarrow> standing_rule list option \<Rightarrow> rule_engine" where
  "new_engine st rules = (case rules of
     Some rs \<Rightarrow> \<lparr>eng_store = st, eng_rules = map complete_rule rs\<rparr>
   | None \<Rightarrow> reload \<lparr>eng_store = st, eng_rules = []\<rparr>)"

definition add_rule ::
  "string \<Rightarrow> string list option \<Rightarrow> string list option \<Rightarrow> string list option \<Rightarrow> rule_engine \<Rightarrow>
     standing_rule \<times> rule_engine" where
  "add_rule text forbid grants tags e =
     (let (df, dg) = derive_rule_metadata text;
          final_forbid = (case forbid of Some f \<Rightarrow> f | None \<Rightarrow> df);
          final_grants = (case grants of Some g \<Rightarrow> g | None \<Rightarrow> dg);
          rule = \<lparr>rule_id = None, rule_text = text, forbid_terms = final_forbid,
                  rule_grants = final_grants,
                  rule_tags = (case tags of None \<Rightarrow> [] | Some t \<Rightarrow> t), rule_active = True\<rparr>;
          (rule, st) = (case eng_store e of
             None \<Rightarrow> (rule, None)
           | Some s \<Rightarrow> (let (i, s') = add_standing_rule text (Some final_forbid) (Some final_grants) tags s
                       in (rule\<lparr>rule_id := Some i\<rparr>, Some s')))
      in (rule, e\<lparr>eng_store := st, eng_rules := eng_rules e @ [rule]\<rparr>))"

section \<open>What the engine decides\<close>

definition family_for :: "string \<Rightarrow> string option" where
  "family_for trm = map_option fst (find (\<lambda>(_, terms). trm \<in> set terms) tech_families)"

definition family_terms :: "string \<Rightarrow> string list" where
  "family_terms family = (case map_of tech_families family of None \<Rightarrow> [] | Some ts \<Rightarrow> ts)"

text \<open>The body of the loop of \<^verbatim>\<open>detect_conflicts\<close> for one rule.\<close>

definition rule_conflict :: "standing_rule \<Rightarrow> string \<Rightarrow> bool" where
  "rule_conflict rule lo =
     (let known = filter (\<lambda>t. family_for t \<noteq> None) (forbid_terms rule);
          families = remdups (map (\<lambda>t. the (family_for t)) known)
      in list_ex (\<lambda>family. list_ex (\<lambda>c. sublist c lo \<and> c \<notin> set known) (family_terms family)) families)"

definition detect_conflicts :: "rule_engine \<Rightarrow> string \<Rightarrow> string list" where
  "detect_conflicts e proposal_text =
     (let lo = lower proposal_text
      in map rule_text (filter (\<lambda>r. rule_active r \<and> rule_conflict r lo) (eng_rules e)))"

definition has_grant :: "rule_engine \<Rightarrow> string \<Rightarrow> bool" where
  "has_grant e grant \<longleftrightarrow> list_ex (\<lambda>r. grant \<in> set (rule_grants r)) (filter rule_active (eng_rules e))"

text \<open>The value a rule waives: it speaks of approval below an amount, and names one.\<close>

definition rule_waiver :: "standing_rule \<Rightarrow> pyfloat option" where
  "rule_waiver r =
     (let lo = lower (rule_text r)
      in if rule_active r \<and> sublist ''under'' lo \<and> (sublist ''approval'' lo \<or> sublist ''ask'' lo)
         then map_option read_decimal (search_group cost_waiver_pre cost_waiver_group (rule_text r))
         else None)"

definition cost_waiver_threshold :: "rule_engine \<Rightarrow> pyfloat option" where
  "cost_waiver_threshold e =
     foldl (\<lambda>threshold r. case rule_waiver r of
         None \<Rightarrow> threshold
       | Some v \<Rightarrow> Some (max (case threshold of None \<Rightarrow> 0 | Some t \<Rightarrow> t) v))
       None (eng_rules e)"

section \<open>Facts\<close>

lemma tech_families_distinct: "distinct (map fst tech_families)"
  by (simp add: tech_families_def)

lemma family_for_Some: "family_for t = Some f \<Longrightarrow> t \<in> set (family_terms f)"
  using tech_families_distinct
  by (fastforce simp: family_for_def family_terms_def find_Some_iff
      dest!: nth_mem intro!: map_of_is_SomeI split: option.splits)

lemma family_terms_known: "c \<in> set (family_terms f) \<Longrightarrow> family_for c \<noteq> None"
  by (auto simp: family_terms_def family_for_def find_None_iff split: option.splits
      dest!: map_of_SomeD [OF sym])

lemma rule_conflict_iff:
  "rule_conflict rule lo \<longleftrightarrow>
     (\<exists>t\<in>set (forbid_terms rule). \<exists>f. family_for t = Some f \<and>
       (\<exists>c\<in>set (family_terms f). sublist c lo \<and> c \<notin> set (forbid_terms rule)))"
proof -
  have "c \<notin> {t \<in> set (forbid_terms rule). family_for t \<noteq> None} \<longleftrightarrow> c \<notin> set (forbid_terms rule)"
    if "c \<in> set (family_terms f)" for c f
    using family_terms_known [OF that] by blast
  then show ?thesis
    by (fastforce simp: rule_conflict_def Let_def list_ex_iff)
qed

lemma detect_conflicts_nonempty_iff:
  "detect_conflicts e text \<noteq> [] \<longleftrightarrow>
     (\<exists>r\<in>set (eng_rules e). rule_active r \<and> rule_conflict r (lower text))"
  by (auto simp: detect_conflicts_def Let_def filter_empty_conv)

lemma has_grant_iff:
  "has_grant e g \<longleftrightarrow> (\<exists>r\<in>set (eng_rules e). rule_active r \<and> g \<in> set (rule_grants r))"
  by (auto simp: has_grant_def list_ex_iff)

lemma waiver_fold:
  "foldl (\<lambda>threshold r. case rule_waiver r of
       None \<Rightarrow> threshold | Some v \<Rightarrow> Some (max (case threshold of None \<Rightarrow> 0 | Some t \<Rightarrow> t) v)) a rs =
   (case a of
      Some t \<Rightarrow> Some (foldl max t (List.map_filter rule_waiver rs))
    | None \<Rightarrow> (case List.map_filter rule_waiver rs of
        [] \<Rightarrow> None | v # vs \<Rightarrow> Some (foldl max (max 0 v) vs)))"
  by (induction rs arbitrary: a) (auto simp: map_filter_simps split: option.splits list.splits)

lemma read_decimal_nonneg: "0 \<le> read_decimal s"
  by (auto simp: read_decimal_def intro!: rnd_nonneg split: option.splits)

lemma rule_waiver_nonneg: "rule_waiver r = Some v \<Longrightarrow> 0 \<le> v"
  by (auto simp: rule_waiver_def Let_def read_decimal_nonneg split: if_splits)

lemma foldl_max: "foldl max (a :: 'a :: linorder) xs = Max (insert a (set xs))"
proof (induction xs arbitrary: a)
  case (Cons x xs)
  show ?case by (cases "xs = []") (simp_all add: Cons max.assoc)
qed simp

text \<open>
  A rule that is framed as one keeps every technology it names, whether it approves or forbids
  it; what it then objects to is another one of a family it names.
\<close>

lemma derived_forbid:
  assumes "search approval_framing text"
  shows "c \<in> set (fst (derive_rule_metadata text)) \<longleftrightarrow> (\<exists>f. c \<in> set (family_terms f)) \<and> sublist c (lower text)"
proof -
  have "(\<exists>f. c \<in> set (family_terms f)) \<longleftrightarrow> (\<exists>e\<in>set tech_families. c \<in> set (snd e))"
  proof
    assume "\<exists>f. c \<in> set (family_terms f)"
    then obtain f where "c \<in> set (family_terms f)" ..
    then obtain ts where "dict_get tech_families f = Some ts" "c \<in> set ts"
      by (cases "dict_get tech_families f") (auto simp: family_terms_def)
    then show "\<exists>e\<in>set tech_families. c \<in> set (snd e)"
      by (intro bexI [of _ "(f, ts)"]) (simp_all add: map_of_SomeD)
  next
    assume "\<exists>e\<in>set tech_families. c \<in> set (snd e)"
    then obtain f ts where "(f, ts) \<in> set tech_families" "c \<in> set ts" by auto
    then have "dict_get tech_families f = Some ts" using map_of_is_SomeI [OF tech_families_distinct] by blast
    with \<open>c \<in> set ts\<close> show "\<exists>f. c \<in> set (family_terms f)" by (intro exI [of _ f]) (simp add: family_terms_def)
  qed
  moreover have "c \<in> set (fst (derive_rule_metadata text)) \<longleftrightarrow>
      (\<exists>e\<in>set tech_families. c \<in> set (snd e)) \<and> sublist c (lower text)"
    using assms by (force simp: derive_rule_metadata_def Let_def)
  ultimately show ?thesis by simp
qed

definition objects :: "string \<Rightarrow> string \<Rightarrow> bool" where
  "objects text proposal \<longleftrightarrow> (\<exists>t f. family_for t = Some f \<and> sublist t (lower text) \<and>
     (\<exists>c\<in>set (family_terms f). sublist c (lower proposal) \<and> \<not> sublist c (lower text)))"

lemma kept_rule:
  "eng_rules (snd (add_rule text None None None e)) = eng_rules e @ [fst (add_rule text None None None e)]"
  "rule_text (fst (add_rule text None None None e)) = text" "rule_active (fst (add_rule text None None None e))"
  "forbid_terms (fst (add_rule text None None None e)) = fst (derive_rule_metadata text)"
  by (cases "eng_store e"; simp add: add_rule_def case_prod_unfold Let_def)+

lemma named_conflict:
  assumes "search approval_framing text" "forbid_terms r = fst (derive_rule_metadata text)"
  shows "rule_conflict r (lower proposal) \<longleftrightarrow> objects text proposal"
proof -
  have forbid: "c \<in> set (forbid_terms r) \<longleftrightarrow> (\<exists>f. c \<in> set (family_terms f)) \<and> sublist c (lower text)" for c
    unfolding assms(2) by (rule derived_forbid [OF assms(1)])
  show ?thesis
  proof
    assume "rule_conflict r (lower proposal)"
    then obtain t f c where "t \<in> set (forbid_terms r)" "family_for t = Some f" "c \<in> set (family_terms f)"
      "sublist c (lower proposal)" "c \<notin> set (forbid_terms r)"
      unfolding rule_conflict_iff by blast
    moreover from this have "sublist t (lower text)" "\<not> sublist c (lower text)" using forbid by blast+
    ultimately show "objects text proposal" unfolding objects_def by blast
  next
    assume "objects text proposal"
    then obtain t f c where "family_for t = Some f" "sublist t (lower text)" "c \<in> set (family_terms f)"
      "sublist c (lower proposal)" "\<not> sublist c (lower text)"
      unfolding objects_def by blast
    moreover from this have "t \<in> set (forbid_terms r)" "c \<notin> set (forbid_terms r)"
      using forbid family_for_Some by blast+
    ultimately show "rule_conflict r (lower proposal)" unfolding rule_conflict_iff by blast
  qed
qed

lemma added_rule_conflicts:
  assumes "search approval_framing text"
  shows "detect_conflicts (snd (add_rule text None None None e)) proposal =
    detect_conflicts e proposal @ (if objects text proposal then [text] else [])"
  by (simp add: detect_conflicts_def Let_def kept_rule(1-3) named_conflict [OF assms kept_rule(4)])

text \<open>Forbidding a technology is such a framing, for each one the tables know.\<close>

definition all_terms :: "string list" where
  "all_terms = concat (map snd tech_families)"

lemma forbidding_frames: "list_all (\<lambda>t. search approval_framing (''Never use '' @ t)) all_terms"
  by code_simp

lemma named_only:
  assumes "\<forall>c\<in>set all_terms. sublist c (lower proposal) \<longrightarrow> sublist c (lower text)"
  shows "\<not> objects text proposal"
proof -
  have "c \<in> set all_terms" if "c \<in> set (family_terms f)" for c f
    using that map_of_SomeD [of tech_families f]
    by (cases "dict_get tech_families f") (force simp: family_terms_def all_terms_def)+
  with assms show ?thesis by (auto simp: objects_def)
qed

end
