(* ===== verification/Config.thy ===== *)
theory Config
  imports Provider
begin

text \<open>
  \<^verbatim>\<open>models/config.py\<close> and \<^verbatim>\<open>model_defaults.py\<close>: the runtime configuration, the safety
  normalisation every construction and assignment of it runs through, and its derivation
  from environment variables.  The environment is a partial map, after the third-party
  \<^verbatim>\<open>load_dotenv\<close> has run.
\<close>

section \<open>Defaults\<close>

definition DEFAULT_LOCAL_PROVIDER :: string where
  "DEFAULT_LOCAL_PROVIDER = ''ollama''"

definition DEFAULT_LOCAL_MODEL :: string where
  "DEFAULT_LOCAL_MODEL = ''qwen3.5:9b''"

definition DEFAULT_LOCAL_CONTEXT :: int where
  "DEFAULT_LOCAL_CONTEXT = 64000"

definition DEFAULT_LOCAL_MAX_OUTPUT :: int where
  "DEFAULT_LOCAL_MAX_OUTPUT = 4096"

definition DEFAULT_EXPERT_PROVIDER :: string where
  "DEFAULT_EXPERT_PROVIDER = ''deepseek''"

definition DEFAULT_EXPERT_MODEL :: string where
  "DEFAULT_EXPERT_MODEL = ''deepseek-chat''"

definition DEFAULT_EXPERT_ENDPOINT :: string where
  "DEFAULT_EXPERT_ENDPOINT = ''https://api.deepseek.com/v1''"

definition DEFAULT_EXPERT_API_KEY_ENV :: string where
  "DEFAULT_EXPERT_API_KEY_ENV = ''DEEPSEEK_API_KEY''"

definition DEFAULT_EXPERT_CONTEXT :: int where
  "DEFAULT_EXPERT_CONTEXT = 64000"

definition DEFAULT_EXPERT_MAX_OUTPUT :: int where
  "DEFAULT_EXPERT_MAX_OUTPUT = 8192"

definition DEFAULT_EXPERT_INPUT_COST :: pyfloat where
  "DEFAULT_EXPERT_INPUT_COST = rnd (14 / 100)"

definition DEFAULT_EXPERT_OUTPUT_COST :: pyfloat where
  "DEFAULT_EXPERT_OUTPUT_COST = rnd (28 / 100)"

definition DEFAULT_TEMPERATURE :: pyfloat where
  "DEFAULT_TEMPERATURE = rnd (2 / 10)"

definition DEFAULT_ROUTING_POLICY :: string where
  "DEFAULT_ROUTING_POLICY = ''adaptive''"

section \<open>Model configuration\<close>

record model_config =
  mc_name :: string
  mc_provider :: string
  mc_tier :: tier
  mc_context_limit :: int
  mc_input_cost_per_mtok :: pyfloat
  mc_output_cost_per_mtok :: pyfloat
  mc_timeout_seconds :: pyfloat

definition estimate_cost :: "model_config \<Rightarrow> int \<Rightarrow> int \<Rightarrow> pyfloat" where
  "estimate_cost m input_tokens output_tokens =
     fadd (fmul (fdiv (of_pyint input_tokens) 1000000) (mc_input_cost_per_mtok m))
          (fmul (fdiv (of_pyint output_tokens) 1000000) (mc_output_cost_per_mtok m))"

lemma estimate_cost_nonneg:
  "0 \<le> i \<Longrightarrow> 0 \<le> j \<Longrightarrow> 0 \<le> mc_input_cost_per_mtok m \<Longrightarrow> 0 \<le> mc_output_cost_per_mtok m \<Longrightarrow>
   0 \<le> estimate_cost m i j"
  by (simp add: estimate_cost_def fadd_nonneg fmul_nonneg fdiv_nonneg of_pyint_nonneg)

lemma estimate_cost_mono:
  assumes "i \<le> i'" "j \<le> j'" "0 \<le> mc_input_cost_per_mtok m" "0 \<le> mc_output_cost_per_mtok m"
  shows "estimate_cost m i j \<le> estimate_cost m i' j'"
proof -
  have "fmul c (fdiv (of_pyint a) 1000000) \<le> fmul c (fdiv (of_pyint b) 1000000)"
    if "a \<le> b" "0 \<le> c" for a b c
    by (intro fmul_mono fdiv_mono of_pyint_mono) (use that in auto)
  then have "fmul (fdiv (of_pyint a) 1000000) c \<le> fmul (fdiv (of_pyint b) 1000000) c"
    if "a \<le> b" "0 \<le> c" for a b c
    using that by (simp add: fmul_def mult.commute)
  with assms show ?thesis by (simp add: estimate_cost_def fadd_mono)
qed

lemma is_float_estimate_cost [simp]: "is_float (estimate_cost m i j)"
  by (simp add: estimate_cost_def)

section \<open>The runtime configuration\<close>

record config =
  ollama_host :: string
  local_provider :: string
  local_endpoint :: "string option"
  local_api_key_env :: "string option"
  local_model :: string
  local_context_limit :: int
  local_confidence_threshold :: pyfloat
  local_max_retries :: int
  local_max_output_tokens :: "int option"
  local_temperature :: "pyfloat option"
  expert_provider :: string
  expert_endpoint :: "string option"
  expert_api_key_env :: "string option"
  cloud_model :: string
  cloud_context_limit :: int
  cloud_input_cost_per_mtok :: pyfloat
  cloud_output_cost_per_mtok :: pyfloat
  expert_max_output_tokens :: "int option"
  expert_temperature :: "pyfloat option"
  cloud_allowed :: bool
  prefer_local :: bool
  cost_sensitive :: bool
  privacy_sensitive :: bool
  config_profile :: "string option"
  routing_policy :: string
  max_cloud_calls_per_task :: int
  max_cloud_tokens_per_task :: int
  max_cloud_cost_per_task :: pyfloat
  max_parallel_cloud_calls :: int
  max_parallel_local_calls :: int
  request_timeout_seconds :: pyfloat
  human_approval_for_major_decisions :: bool
  human_approval_for_critical_decisions :: bool
  human_approval_for_significant_decisions :: bool
  non_interactive :: bool
  redact_secrets :: bool
  debug :: bool
  database_path :: string

definition default_config :: config where
  "default_config = \<lparr>
     ollama_host = ''http://localhost:11434'',
     local_provider = DEFAULT_LOCAL_PROVIDER, local_endpoint = None, local_api_key_env = None,
     local_model = DEFAULT_LOCAL_MODEL, local_context_limit = DEFAULT_LOCAL_CONTEXT,
     local_confidence_threshold = rnd (72 / 100), local_max_retries = 2,
     local_max_output_tokens = None, local_temperature = Some DEFAULT_TEMPERATURE,
     expert_provider = DEFAULT_EXPERT_PROVIDER, expert_endpoint = None,
     expert_api_key_env = Some DEFAULT_EXPERT_API_KEY_ENV,
     cloud_model = DEFAULT_EXPERT_MODEL, cloud_context_limit = DEFAULT_EXPERT_CONTEXT,
     cloud_input_cost_per_mtok = DEFAULT_EXPERT_INPUT_COST,
     cloud_output_cost_per_mtok = DEFAULT_EXPERT_OUTPUT_COST,
     expert_max_output_tokens = None, expert_temperature = Some DEFAULT_TEMPERATURE,
     cloud_allowed = True, prefer_local = True, cost_sensitive = True, privacy_sensitive = True,
     config_profile = None, routing_policy = DEFAULT_ROUTING_POLICY,
     max_cloud_calls_per_task = 5, max_cloud_tokens_per_task = 200000,
     max_cloud_cost_per_task = 2, max_parallel_cloud_calls = 2, max_parallel_local_calls = 1,
     request_timeout_seconds = 300,
     human_approval_for_major_decisions = True, human_approval_for_critical_decisions = True,
     human_approval_for_significant_decisions = False,
     non_interactive = False, redact_secrets = True, debug = False,
     database_path = ''~/.aa_sifter/aa_sifter.db''\<rparr>"

text \<open>\<^verbatim>\<open>_enforce_safety\<close>, the validator that runs after construction and assignment.\<close>

definition enforce_safety :: "config \<Rightarrow> config" where
  "enforce_safety c =
     (let c = (if \<not> human_approval_for_critical_decisions c
               then c\<lparr>human_approval_for_critical_decisions := True\<rparr> else c);
          c = (if \<not> human_approval_for_major_decisions c
               then c\<lparr>human_approval_for_major_decisions := True\<rparr> else c);
          c = (if local_context_limit c \<le> 0 then c\<lparr>local_context_limit := 64000\<rparr> else c)
      in if max_cloud_cost_per_task c < 0 then c\<lparr>max_cloud_cost_per_task := 0\<rparr> else c)"

definition config_safe :: "config \<Rightarrow> bool" where
  "config_safe c \<longleftrightarrow> human_approval_for_critical_decisions c \<and> human_approval_for_major_decisions c \<and>
     0 < local_context_limit c \<and> 0 \<le> max_cloud_cost_per_task c"

text \<open>Assignment to a field (\<^verbatim>\<open>validate_assignment\<close>) and an unvalidated \<^verbatim>\<open>model_copy\<close>.\<close>

definition assign :: "(config \<Rightarrow> config) \<Rightarrow> config \<Rightarrow> config" where
  "assign f c = enforce_safety (f c)"

definition model_copy :: "(config \<Rightarrow> config) \<Rightarrow> config \<Rightarrow> config" where
  "model_copy f c = f c"

lemma config_safe_enforce [simp]: "config_safe (enforce_safety c)"
  by (simp add: enforce_safety_def config_safe_def Let_def)

lemma enforce_safety_id: "config_safe c \<Longrightarrow> enforce_safety c = c"
  by (simp add: enforce_safety_def config_safe_def Let_def)

lemma enforce_safety_frame:
  "cloud_allowed (enforce_safety c) = cloud_allowed c"
  "routing_policy (enforce_safety c) = routing_policy c"
  "redact_secrets (enforce_safety c) = redact_secrets c"
  by (simp_all add: enforce_safety_def Let_def)

definition local_model_config :: "config \<Rightarrow> model_config" where
  "local_model_config c = \<lparr>mc_name = local_model c, mc_provider = local_provider c, mc_tier = LOCAL,
     mc_context_limit = local_context_limit c, mc_input_cost_per_mtok = 0,
     mc_output_cost_per_mtok = 0, mc_timeout_seconds = request_timeout_seconds c\<rparr>"

definition cloud_model_config :: "config \<Rightarrow> model_config" where
  "cloud_model_config c = \<lparr>mc_name = cloud_model c, mc_provider = expert_provider c, mc_tier = EXPERT,
     mc_context_limit = cloud_context_limit c, mc_input_cost_per_mtok = cloud_input_cost_per_mtok c,
     mc_output_cost_per_mtok = cloud_output_cost_per_mtok c,
     mc_timeout_seconds = request_timeout_seconds c\<rparr>"

section \<open>Environment variables\<close>

type_synonym environ = "string \<rightharpoonup> string"

definition env_get :: "environ \<Rightarrow> string \<Rightarrow> string \<Rightarrow> string option" where
  "env_get env pre name =
     (if pre \<noteq> [] \<and> env (pre @ name) \<noteq> None then env (pre @ name) else env name)"

abbreviation sifter_env :: "environ \<Rightarrow> string \<Rightarrow> string option" where
  "sifter_env env name \<equiv> env_get env ''SIFTER_'' name"

definition env_str :: "environ \<Rightarrow> string \<Rightarrow> string \<Rightarrow> string" where
  "env_str env name dflt = (case sifter_env env name of None \<Rightarrow> dflt | Some s \<Rightarrow> s)"

definition env_bool :: "environ \<Rightarrow> string \<Rightarrow> bool \<Rightarrow> bool" where
  "env_bool env name dflt = (case sifter_env env name of
     None \<Rightarrow> dflt
   | Some raw \<Rightarrow> lower (strip raw) \<in> {''1'', ''true'', ''yes'', ''on''})"

text \<open>
  \<^verbatim>\<open>int(raw)\<close>: blanks around, a sign, digits with single underscores between them.  The
  result is \<open>None\<close> where Python raises \<^verbatim>\<open>ValueError\<close>.
\<close>

definition digits_ok :: "string \<Rightarrow> bool" where
  "digits_ok s \<longleftrightarrow> (\<forall>part\<in>set (split_char (CHR ''_'') s). part \<noteq> [] \<and> list_all is_digit part)"

definition digits_nat :: "string \<Rightarrow> nat" where
  "digits_nat s = read_nat (filter is_digit s)"

definition split_sign :: "string \<Rightarrow> int \<times> string" where
  "split_sign s = (case s of [] \<Rightarrow> (1, [])
     | c # cs \<Rightarrow> if c = CHR ''-'' then (-1, cs) else if c = CHR ''+'' then (1, cs) else (1, s))"

definition parse_int :: "string \<Rightarrow> int option" where
  "parse_int raw = (case split_sign (strip raw) of (sg, ds) \<Rightarrow>
     if digits_ok ds then Some (sg * int (digits_nat ds)) else None)"

definition env_int :: "environ \<Rightarrow> string \<Rightarrow> int \<Rightarrow> int" where
  "env_int env name dflt = (case sifter_env env name of
     None \<Rightarrow> dflt
   | Some raw \<Rightarrow> if strip raw = [] then dflt
       else (case parse_int raw of None \<Rightarrow> dflt | Some i \<Rightarrow> i))"

text \<open>
  \<^verbatim>\<open>float(raw)\<close> on decimal notation: a sign, digits with an optional point, an optional
  exponent.  The words for infinity and NaN are outside the float model.
\<close>

definition split_exp :: "string \<Rightarrow> string \<times> string option" where
  "split_exp s = (let m = takeWhile (\<lambda>c. c \<noteq> CHR ''e'') s in
     (m, if length m < length s then Some (drop (length m + 1) s) else None))"

definition parse_mantissa :: "string \<Rightarrow> rat option" where
  "parse_mantissa m = (case after_first (CHR ''.'') m of
     None \<Rightarrow> if digits_ok m then Some (of_nat (digits_nat m)) else None
   | Some fr \<Rightarrow> (let wh = takeWhile (\<lambda>c. c \<noteq> CHR ''.'') m in
       if (wh \<noteq> [] \<or> fr \<noteq> []) \<and> (wh = [] \<or> digits_ok wh) \<and> (fr = [] \<or> digits_ok fr)
       then Some (of_nat (digits_nat (wh @ fr)) / 10 ^ length (filter is_digit fr)) else None))"

definition parse_float :: "string \<Rightarrow> pyfloat option" where
  "parse_float raw = (case split_sign (lower (strip raw)) of (sg, rest) \<Rightarrow>
     (case split_exp rest of (m, ex) \<Rightarrow>
       (case parse_mantissa m of None \<Rightarrow> None
        | Some v \<Rightarrow> (case ex of None \<Rightarrow> Some (rnd (of_int sg * v))
            | Some e \<Rightarrow> (case split_sign e of (es, ed) \<Rightarrow>
                if digits_ok ed then Some (rnd (of_int sg * v * 10 powi (es * int (digits_nat ed))))
                else None)))))"

definition env_float :: "environ \<Rightarrow> string \<Rightarrow> pyfloat \<Rightarrow> pyfloat" where
  "env_float env name dflt = (case sifter_env env name of
     None \<Rightarrow> dflt
   | Some raw \<Rightarrow> if strip raw = [] then dflt
       else (case parse_float raw of None \<Rightarrow> dflt | Some x \<Rightarrow> x))"

text \<open>\<^verbatim>\<open>_env_int(name, 0) or None\<close>\<close>

definition env_int_opt :: "environ \<Rightarrow> string \<Rightarrow> int option" where
  "env_int_opt env name = (let i = env_int env name 0 in if i = 0 then None else Some i)"

text \<open>\<^verbatim>\<open>SifterConfig.from_env\<close>; \<open>overrides\<close> replaces fields before the validation.\<close>

definition from_env :: "environ \<Rightarrow> (config \<Rightarrow> config) \<Rightarrow> config" where
  "from_env env overrides = enforce_safety (overrides \<lparr>
     ollama_host = (case env_get env [] ''OLLAMA_HOST'' of None \<Rightarrow> ''http://localhost:11434'' | Some h \<Rightarrow> h),
     local_provider = env_str env ''LOCAL_PROVIDER'' DEFAULT_LOCAL_PROVIDER,
     local_endpoint = sifter_env env ''LOCAL_ENDPOINT'',
     local_api_key_env = sifter_env env ''LOCAL_API_KEY_ENV'',
     local_model = env_str env ''LOCAL_MODEL'' DEFAULT_LOCAL_MODEL,
     local_context_limit = env_int env ''LOCAL_CONTEXT_LIMIT'' DEFAULT_LOCAL_CONTEXT,
     local_confidence_threshold = env_float env ''LOCAL_CONFIDENCE_THRESHOLD'' (rnd (72 / 100)),
     local_max_retries = env_int env ''LOCAL_MAX_RETRIES'' 2,
     local_max_output_tokens = env_int_opt env ''LOCAL_MAX_OUTPUT_TOKENS'',
     local_temperature = Some (env_float env ''LOCAL_TEMPERATURE'' DEFAULT_TEMPERATURE),
     expert_provider = env_str env ''EXPERT_PROVIDER'' DEFAULT_EXPERT_PROVIDER,
     expert_endpoint = sifter_env env ''EXPERT_ENDPOINT'',
     expert_api_key_env = Some (env_str env ''EXPERT_API_KEY_ENV'' DEFAULT_EXPERT_API_KEY_ENV),
     cloud_model = env_str env ''CLOUD_MODEL'' DEFAULT_EXPERT_MODEL,
     cloud_context_limit = env_int env ''CLOUD_CONTEXT_LIMIT'' DEFAULT_EXPERT_CONTEXT,
     cloud_input_cost_per_mtok = env_float env ''CLOUD_INPUT_COST_PER_MTOK'' DEFAULT_EXPERT_INPUT_COST,
     cloud_output_cost_per_mtok = env_float env ''CLOUD_OUTPUT_COST_PER_MTOK'' DEFAULT_EXPERT_OUTPUT_COST,
     expert_max_output_tokens = env_int_opt env ''EXPERT_MAX_OUTPUT_TOKENS'',
     expert_temperature = Some (env_float env ''EXPERT_TEMPERATURE'' (rnd (2 / 10))),
     cloud_allowed = env_bool env ''CLOUD_ALLOWED'' True,
     prefer_local = env_bool env ''PREFER_LOCAL'' True,
     cost_sensitive = env_bool env ''COST_SENSITIVE'' True,
     privacy_sensitive = env_bool env ''PRIVACY_SENSITIVE'' True,
     config_profile = None,
     routing_policy = env_str env ''ROUTING_POLICY'' ''adaptive'',
     max_cloud_calls_per_task = env_int env ''MAX_CLOUD_CALLS_PER_TASK'' 5,
     max_cloud_tokens_per_task = env_int env ''MAX_CLOUD_TOKENS_PER_TASK'' 200000,
     max_cloud_cost_per_task = env_float env ''MAX_CLOUD_COST_PER_TASK'' 2,
     max_parallel_cloud_calls = env_int env ''MAX_PARALLEL_CLOUD_CALLS'' 2,
     max_parallel_local_calls = env_int env ''MAX_PARALLEL_LOCAL_CALLS'' 1,
     request_timeout_seconds = env_float env ''REQUEST_TIMEOUT_SECONDS'' 300,
     human_approval_for_major_decisions = env_bool env ''HUMAN_APPROVAL_FOR_MAJOR_DECISIONS'' True,
     human_approval_for_critical_decisions = env_bool env ''HUMAN_APPROVAL_FOR_CRITICAL_DECISIONS'' True,
     human_approval_for_significant_decisions =
       env_bool env ''HUMAN_APPROVAL_FOR_SIGNIFICANT_DECISIONS'' False,
     non_interactive = env_bool env ''NON_INTERACTIVE'' False,
     redact_secrets = env_bool env ''REDACT_SECRETS'' True,
     debug = env_bool env ''DEBUG'' False,
     database_path = env_str env ''DATABASE_PATH'' ''~/.aa_sifter/aa_sifter.db''\<rparr>)"

lemma config_safe_from_env: "config_safe (from_env env ov)"
  by (simp add: from_env_def)

lemma split_char_no_sep: "c \<notin> set s \<Longrightarrow> split_char c s = [s]"
  by (induction s) auto

lemma strip_no_space: "list_all (\<lambda>c. \<not> is_space c) s \<Longrightarrow> strip s = s"
proof -
  assume a: "list_all (\<lambda>c. \<not> is_space c) s"
  have dw: "dropWhile is_space t = t" if "\<forall>c\<in>set t. \<not> is_space c" for t
    using that by (cases t) auto
  have "dropWhile is_space s = s" "dropWhile is_space (rev s) = rev s"
    using a by (intro dw, simp add: list_all_iff)+
  then show ?thesis by (simp only: strip_def rev_rev_ident)
qed

lemma digit_not_space: "is_digit c \<Longrightarrow> \<not> is_space c"
  by (auto simp: is_digit_def is_space_def)

lemma digit_not_sign: "is_digit c \<Longrightarrow> c \<noteq> CHR ''-'' \<and> c \<noteq> CHR ''+'' \<and> c \<noteq> CHR ''_''"
  by (auto simp: is_digit_def)

text \<open>What \<^verbatim>\<open>str\<close> writes, \<^verbatim>\<open>int\<close> reads back.\<close>

lemma parse_show_int: "parse_int (show_int i) = Some i"
proof -
  have ok: "digits_ok (show_nat n)" "digits_nat (show_nat n) = n" for n
  proof -
    have "CHR ''_'' \<notin> set (show_nat n)"
      using show_nat_digits [of n] digit_not_sign by (auto simp: list_all_iff)
    then show "digits_ok (show_nat n)"
      by (simp add: digits_ok_def split_char_no_sep show_nat_digits)
    have "filter is_digit (show_nat n) = show_nat n"
      using show_nat_digits [of n] by (simp add: list_all_iff)
    then show "digits_nat (show_nat n) = n" by (simp add: digits_nat_def read_show_nat)
  qed
  have st: "strip (show_nat n) = show_nat n" for n
    using show_nat_digits [of n] by (intro strip_no_space) (auto simp: list_all_iff digit_not_space)
  have st': "strip (CHR ''-'' # show_nat n) = CHR ''-'' # show_nat n" for n
    using show_nat_digits [of n]
    by (intro strip_no_space) (auto simp: list_all_iff digit_not_space, simp add: is_space_def)
  have sg: "split_sign (show_nat n) = (1, show_nat n)" for n
    using show_nat_digits [of n] digit_not_sign by (cases "show_nat n") (auto simp: split_sign_def)
  show ?thesis
    by (auto simp: parse_int_def show_int_def st st' sg ok) (simp add: split_sign_def ok)
qed

end
