(* ===== verification/Gate.thy ===== *)
theory Gate
  imports Approval Rules Trace Config
begin

text \<open>
  \<^verbatim>\<open>decisions/gate.py\<close>: the one place that decides whether a human must be asked, and that
  asks.  The gate's history is the store its trace writes to, as the application builds
  both.  A provider of answers is a function on a state of its own; the gate may have none.
\<close>

section \<open>Classifying a proposal\<close>

record proposal =
  pr_description :: string
  pr_task_type :: string
  pr_architecture_impact :: bool
  pr_security_sensitive :: bool
  pr_reversible :: bool
  pr_scope_impact :: string
  pr_metadata :: pyval

text \<open>\<^verbatim>\<open>str | Proposal\<close>\<close>

datatype gate_input = Plain string | Proposed proposal

definition approval_needed :: "config \<Rightarrow> classification \<Rightarrow> bool" where
  "approval_needed c cls =
     (if cls_level cls = CRITICAL then human_approval_for_critical_decisions c
      else if cls_level cls = MAJOR then human_approval_for_major_decisions c
      else if cls_level cls = SIGNIFICANT then human_approval_for_significant_decisions c
      else False)"

definition bump :: "decision_level \<Rightarrow> decision_level \<Rightarrow> decision_level" where
  "bump current flr = (if level_at_least flr current then flr else current)"

definition input_text :: "gate_input \<Rightarrow> string" where
  "input_text p = (case p of Plain s \<Rightarrow> s | Proposed q \<Rightarrow> pr_description q)"

definition decision_entry :: "classification \<Rightarrow> trace_event" where
  "decision_entry cls = entry ''decision'' (''level='' @ level_value (cls_level cls))
     [(''requires_approval'', PBool (cls_requires_human_approval cls)),
      (''signals'', PList (map PStr (signal_names (cls_signals cls))))]"

text \<open>\<^verbatim>\<open>DecisionGate.classify\<close>: the classification and the trace with the entry it logs.\<close>

definition gate_classify ::
  "config \<Rightarrow> rule_engine \<Rightarrow> gate_input \<Rightarrow> decision_level option \<Rightarrow> string option \<Rightarrow> trace option \<Rightarrow>
     classification \<times> trace option" where
  "gate_classify c rules p model_level model_reason tr =
     (let text = input_text p;
          cls = classify text model_level model_reason (Some (detect_conflicts rules text));
          cls = (case p of Plain _ \<Rightarrow> cls
                 | Proposed q \<Rightarrow>
                     (let cls = (if pr_architecture_impact q
                                 then cls\<lparr>cls_level := bump (cls_level cls) MAJOR\<rparr> else cls)
                      in if pr_security_sensitive q
                         then cls\<lparr>cls_level := bump (cls_level cls) MAJOR\<rparr> else cls));
          cls = cls\<lparr>cls_requires_human_approval := approval_needed c cls\<rparr>
      in (cls, map_option (log_entry (decision_entry cls)) tr))"

section \<open>Asking\<close>

definition default_action_for :: "decision_level \<Rightarrow> approval_action" where
  "default_action_for category = STOP"

definition approval_row_of :: "string \<Rightarrow> approval_request \<Rightarrow> human_decision \<Rightarrow> approval_row" where
  "approval_row_of i r d = \<lparr>apr_trace_id = i, apr_category = level_value (req_category r),
     apr_issue = req_issue r, apr_recommended_action = req_recommended_action r,
     apr_action = action_value (hd_action d), apr_selected_options = hd_selected_options d,
     apr_constraints = hd_constraints d, apr_authorized = authorized d\<rparr>"

definition waiting_entry :: "approval_request \<Rightarrow> trace_event" where
  "waiting_entry r = entry ''approval'' ''waiting_for_user''
     [(''category'', PStr (level_value (req_category r)))]"

definition answer_entry :: "human_decision \<Rightarrow> trace_event" where
  "answer_entry d = entry ''user'' (action_value (hd_action d))
     [(''authorized'', PBool (authorized d)),
      (''selected'', PList (map PStr (hd_selected_options d))),
      (''constraints'', PList (map PStr (hd_constraints d)))]"

definition store_approval :: "approval_request \<Rightarrow> human_decision \<Rightarrow> trace \<Rightarrow> trace" where
  "store_approval r d t =
     t\<lparr>tr_history := map_option (record_approval (approval_row_of (trace_id t) r d)) (tr_history t)\<rparr>"

type_synonym 's asker = "approval_request \<Rightarrow> 's \<Rightarrow> human_decision \<times> 's"

text \<open>The provider's answer, or the default where there is no provider.\<close>

definition ask :: "'s asker option \<Rightarrow> approval_request \<Rightarrow> 's \<Rightarrow> human_decision \<times> 's" where
  "ask provider r s = (case provider of
     None \<Rightarrow> (decide_with (default_action_for (req_category r)), s)
   | Some request \<Rightarrow> request r s)"

definition require_approval ::
  "'s asker option \<Rightarrow> approval_request \<Rightarrow> 's \<Rightarrow> trace option \<Rightarrow>
     human_decision \<times> 's \<times> trace option" where
  "require_approval provider r s tr =
     (let tr = map_option (log_entry (waiting_entry r)) tr;
          (d, s) = ask provider r s;
          tr = map_option (store_approval r d) tr;
          tr = map_option (log_entry (answer_entry d)) tr
      in (d, s, tr))"

section \<open>Facts\<close>

lemma bump_max: "bump current flr = max current flr"
  by (auto simp: bump_def level_at_least_iff max_def)

lemma bump_ge [simp]: "current \<le> bump current flr" "flr \<le> bump current flr"
  by (simp_all add: bump_max)

lemma approval_needed_safe:
  "config_safe c \<Longrightarrow> MAJOR \<le> cls_level cls \<Longrightarrow> approval_needed c cls"
  by (cases "cls_level cls") (simp_all add: approval_needed_def config_safe_def level_order)

lemma approval_needed_on:
  "human_approval_for_major_decisions c \<Longrightarrow> human_approval_for_critical_decisions c \<Longrightarrow>
   MAJOR \<le> cls_level cls \<Longrightarrow> approval_needed c cls"
  by (cases "cls_level cls") (simp_all add: approval_needed_def level_order)

lemma approval_needed_iff:
  "config_safe c \<Longrightarrow> approval_needed c cls \<longleftrightarrow> MAJOR \<le> cls_level cls \<or>
     cls_level cls = SIGNIFICANT \<and> human_approval_for_significant_decisions c"
  by (cases "cls_level cls") (simp_all add: approval_needed_def config_safe_def level_order)

text \<open>The level the gate gives: the classifier's, raised by the flags of a proposal.\<close>

definition flagged :: "gate_input \<Rightarrow> bool" where
  "flagged p = (case p of Plain _ \<Rightarrow> False
     | Proposed q \<Rightarrow> pr_architecture_impact q \<or> pr_security_sensitive q)"

lemma gate_classify_level:
  "cls_level (fst (gate_classify c e p ml mr tr)) =
     max (cls_level (classify (input_text p) ml mr (Some (detect_conflicts e (input_text p)))))
       (if flagged p then MAJOR else ROUTINE)"
  by (auto simp: gate_classify_def flagged_def bump_max Let_def max_absorb1 split: gate_input.split)

lemma gate_classify_approval:
  "cls_requires_human_approval (fst (gate_classify c e p ml mr tr)) =
     approval_needed c (fst (gate_classify c e p ml mr tr))"
  by (simp add: gate_classify_def Let_def approval_needed_def)

lemma gate_classify_trace:
  "snd (gate_classify c e p ml mr tr) =
     map_option (log_entry (decision_entry (fst (gate_classify c e p ml mr tr)))) tr"
  by (simp add: gate_classify_def Let_def)

lemma require_approval_answer:
  "fst (require_approval provider r s tr) = fst (ask provider r s)"
  "fst (snd (require_approval provider r s tr)) = snd (ask provider r s)"
  by (simp_all add: require_approval_def Let_def split_beta)

text \<open>What asking leaves behind: two entries in the trace, one row and two events in the store.\<close>

lemma require_approval_trace:
  "require_approval provider r s (Some t) = (d, s', tr) \<Longrightarrow>
   \<exists>t'. tr = Some t' \<and> trace_id t' = trace_id t \<and>
     tr_events t' = tr_events t @ [waiting_entry r, answer_entry d]"
  by (auto simp: require_approval_def store_approval_def Let_def split_beta)

lemma require_approval_store:
  assumes "require_approval provider r s (Some t) = (d, s', Some t')" "tr_history t = Some h"
  shows "\<exists>h'. tr_history t' = Some h' \<and>
    st_approvals h' = st_approvals h @ [approval_row_of (trace_id t) r d] \<and>
    st_events h' = st_events h @ map (event_row_of (trace_id t)) [waiting_entry r, answer_entry d]"
  using assms
  by (auto simp: require_approval_def store_approval_def Let_def split_beta log_entry_history
      record_approval_def)

text \<open>A gate with no provider fails safe for every category.\<close>

interpretation no_provider: fail_safe_provider "ask (None :: 's asker option)" UNIV "\<lambda>_. True"
  by unfold_locales (simp_all add: ask_def default_action_for_def)

interpretation gated_auto: fail_safe_provider "ask (Some auto_request)" "{MAJOR, CRITICAL}"
  "\<lambda>p. auto_major p = None \<and> auto_critical p = None"
  using auto_default.not_authorized auto_default.ok_request
  by unfold_locales (simp_all add: ask_def)

end
