(* ===== verification/Usage.thy ===== *)
theory Usage
  imports Config
begin

text \<open>
  \<^verbatim>\<open>metrics/usage.py\<close>: the counters of a run.  The fields that hold durations are left
  out with the clock they come from.
\<close>

record usage =
  local_input_tokens :: int
  local_output_tokens :: int
  cloud_input_tokens :: int
  cloud_output_tokens :: int
  local_calls :: int
  cloud_calls :: int
  cloud_cost :: pyfloat
  subtasks :: int
  escalations :: int
  retries :: int
  human_approval_requests :: int
  human_approved_cloud_analyses :: int
  major_decisions :: int

definition new_usage :: usage where
  "new_usage = \<lparr>local_input_tokens = 0, local_output_tokens = 0, cloud_input_tokens = 0,
     cloud_output_tokens = 0, local_calls = 0, cloud_calls = 0, cloud_cost = 0, subtasks = 0,
     escalations = 0, retries = 0, human_approval_requests = 0,
     human_approved_cloud_analyses = 0, major_decisions = 0\<rparr>"

definition record_generation :: "gen_result \<Rightarrow> model_config option \<Rightarrow> usage \<Rightarrow> usage" where
  "record_generation result cfg u =
     (if gr_tier result = LOCAL then
        u\<lparr>local_calls := local_calls u + 1,
          local_input_tokens := local_input_tokens u + gr_input_tokens result,
          local_output_tokens := local_output_tokens u + gr_output_tokens result\<rparr>
      else
        (let u = u\<lparr>cloud_calls := cloud_calls u + 1,
            cloud_input_tokens := cloud_input_tokens u + gr_input_tokens result,
            cloud_output_tokens := cloud_output_tokens u + gr_output_tokens result\<rparr>
         in case cfg of None \<Rightarrow> u
            | Some c \<Rightarrow> u\<lparr>cloud_cost := fadd (cloud_cost u)
                (estimate_cost c (gr_input_tokens result) (gr_output_tokens result))\<rparr>))"

definition total_tokens :: "usage \<Rightarrow> int" where
  "total_tokens u = local_input_tokens u + local_output_tokens u + cloud_input_tokens u +
     cloud_output_tokens u"

record usage_tracker =
  ut_metrics :: usage
  ut_local_config :: "model_config option"
  ut_cloud_config :: "model_config option"

definition new_tracker :: usage_tracker where
  "new_tracker = \<lparr>ut_metrics = new_usage, ut_local_config = None, ut_cloud_config = None\<rparr>"

definition configure :: "model_config option \<Rightarrow> model_config option \<Rightarrow> usage_tracker \<Rightarrow> usage_tracker" where
  "configure loc cld t = t\<lparr>ut_local_config := loc, ut_cloud_config := cld\<rparr>"

definition tracker_record :: "gen_result \<Rightarrow> usage_tracker \<Rightarrow> usage_tracker" where
  "tracker_record result t =
     (let cfg = (if gr_tier result = LOCAL then ut_local_config t else ut_cloud_config t)
      in t\<lparr>ut_metrics := record_generation result cfg (ut_metrics t)\<rparr>)"

text \<open>The counters stay meaningful: nothing is negative, the cost is a float.\<close>

definition usage_ok :: "usage \<Rightarrow> bool" where
  "usage_ok u \<longleftrightarrow> 0 \<le> local_input_tokens u \<and> 0 \<le> local_output_tokens u \<and> 0 \<le> cloud_input_tokens u \<and>
     0 \<le> cloud_output_tokens u \<and> 0 \<le> local_calls u \<and> 0 \<le> cloud_calls u \<and> 0 \<le> cloud_cost u \<and>
     is_float (cloud_cost u)"

definition result_ok :: "gen_result \<Rightarrow> bool" where
  "result_ok r \<longleftrightarrow> 0 \<le> gr_input_tokens r \<and> 0 \<le> gr_output_tokens r"

definition prices_ok :: "model_config \<Rightarrow> bool" where
  "prices_ok m \<longleftrightarrow> 0 \<le> mc_input_cost_per_mtok m \<and> 0 \<le> mc_output_cost_per_mtok m"

lemma usage_ok_new: "usage_ok new_usage"
  by (simp add: usage_ok_def new_usage_def)

lemma total_tokens_record:
  "total_tokens (record_generation r c u) = total_tokens u + gr_input_tokens r + gr_output_tokens r"
  by (cases c) (simp_all add: record_generation_def total_tokens_def Let_def)

lemma cloud_cost_record_ge:
  "usage_ok u \<Longrightarrow> result_ok r \<Longrightarrow> (\<And>m. c = Some m \<Longrightarrow> prices_ok m) \<Longrightarrow>
   cloud_cost u \<le> cloud_cost (record_generation r c u)"
  by (cases c)
    (auto simp: record_generation_def Let_def usage_ok_def result_ok_def prices_ok_def
      intro!: fadd_ge estimate_cost_nonneg)

lemma usage_ok_record:
  assumes "usage_ok u" "result_ok r" "\<And>m. c = Some m \<Longrightarrow> prices_ok m"
  shows "usage_ok (record_generation r c u)"
proof -
  have "0 \<le> cloud_cost (record_generation r c u)"
    using cloud_cost_record_ge [of u r c] assms by (fastforce simp: usage_ok_def)
  moreover have "is_float (cloud_cost (record_generation r c u))"
    using assms(1) by (cases c) (simp_all add: record_generation_def Let_def usage_ok_def)
  ultimately show ?thesis
    using assms(1,2) by (cases c) (auto simp: record_generation_def Let_def usage_ok_def result_ok_def)
qed

lemma calls_record:
  "local_calls (record_generation r c u) + cloud_calls (record_generation r c u) =
   local_calls u + cloud_calls u + 1"
  by (cases c) (simp_all add: record_generation_def Let_def)

end
