(* ===== verification/Budget.thy ===== *)
theory Budget
  imports Usage Trace
begin

text \<open>
  \<^verbatim>\<open>routing/budget.py\<close>: the cloud budget of one task.  An operation that logs returns the
  entries it appends to the trace the tracker was built with.
\<close>

section \<open>Budgets\<close>

record budget =
  max_calls :: int
  max_tokens :: int
  max_cost :: pyfloat
  max_parallel :: int
  calls :: int
  tokens :: int
  cost :: pyfloat

definition can_call :: "budget \<Rightarrow> bool" where
  "can_call b \<longleftrightarrow> calls b < max_calls b"

definition would_exceed :: "int \<Rightarrow> pyfloat \<Rightarrow> budget \<Rightarrow> string option" where
  "would_exceed estimated_tokens estimated_cost b =
     (if max_calls b < calls b + 1 then Some ''max_cloud_calls''
      else if max_tokens b < tokens b + estimated_tokens then Some ''max_cloud_tokens''
      else if max_cost b < fadd (cost b) estimated_cost then Some ''max_cloud_cost''
      else None)"

record budget_tracker =
  waiver_ceiling :: "pyfloat option"
  bt_budget :: budget
  exhausted :: bool
  exhausted_reason :: "string option"

definition new_budget_tracker ::
  "config \<Rightarrow> pyfloat option \<Rightarrow> pyfloat option \<Rightarrow> budget_tracker \<times> trace_event list" where
  "new_budget_tracker config cost_cap waiver =
     (let configured = (case cost_cap of None \<Rightarrow> max_cloud_cost_per_task config | Some c \<Rightarrow> c);
          (effective, entries) = (case waiver of
             None \<Rightarrow> (configured, [])
           | Some w \<Rightarrow> if configured < w
               then (w, [entry ''budget'' ''standing rule raised the cloud cost cap''
                      [(''configured'', PFloat configured), (''waived_ceiling'', PFloat w)]])
               else (configured, []))
      in (\<lparr>waiver_ceiling = waiver,
           bt_budget = \<lparr>max_calls = max_cloud_calls_per_task config,
             max_tokens = max_cloud_tokens_per_task config, max_cost = effective,
             max_parallel = max_parallel_cloud_calls config, calls = 0, tokens = 0, cost = 0\<rparr>,
           exhausted = False, exhausted_reason = None\<rparr>, entries))"

text \<open>The limit and the use the error reports, chosen by the reason.\<close>

definition limit_of :: "string \<Rightarrow> budget \<Rightarrow> rat" where
  "limit_of reason b = (if reason = ''max_cloud_calls'' then of_int (max_calls b)
     else if reason = ''max_cloud_tokens'' then of_int (max_tokens b) else max_cost b)"

definition used_of :: "string \<Rightarrow> budget \<Rightarrow> rat" where
  "used_of reason b = (if reason = ''max_cloud_calls'' then of_int (calls b)
     else if reason = ''max_cloud_tokens'' then of_int (tokens b) else cost b)"

definition check ::
  "int \<Rightarrow> pyfloat \<Rightarrow> budget_tracker \<Rightarrow> unit result \<times> budget_tracker \<times> trace_event list" where
  "check estimated_tokens estimated_cost t =
     (case would_exceed estimated_tokens estimated_cost (bt_budget t) of
        None \<Rightarrow> (Inr (), t, [])
      | Some reason \<Rightarrow>
          (Inl (BudgetExceeded (''Cloud budget exceeded: '' @ reason) reason
             (limit_of reason (bt_budget t)) (used_of reason (bt_budget t))),
           t\<lparr>exhausted := True, exhausted_reason := Some reason\<rparr>,
           [entry ''budget'' (''cloud request denied ('' @ reason @ '')'')
              [(''used_cost'', PFloat (fround 4 (cost (bt_budget t)))),
               (''limit_cost'', PFloat (max_cost (bt_budget t))),
               (''calls'', PInt (calls (bt_budget t)))]]))"

definition record_call :: "gen_result \<Rightarrow> model_config \<Rightarrow> budget_tracker \<Rightarrow> budget_tracker" where
  "record_call result config t =
     (let b = bt_budget t
      in t\<lparr>bt_budget := b\<lparr>calls := calls b + 1,
            tokens := tokens b + (gr_input_tokens result + gr_output_tokens result),
            cost := fadd (cost b) (estimate_cost config (gr_input_tokens result) (gr_output_tokens result))\<rparr>\<rparr>)"

definition cost_waiver :: "pyfloat option \<Rightarrow> budget_tracker \<Rightarrow> bool" where
  "cost_waiver rules_cost_threshold t = (case rules_cost_threshold of
     None \<Rightarrow> False | Some w \<Rightarrow> cost (bt_budget t) \<le> w)"

definition remaining_cost :: "budget_tracker \<Rightarrow> pyfloat" where
  "remaining_cost t = max 0 (fsub (max_cost (bt_budget t)) (cost (bt_budget t)))"

definition remaining_calls :: "budget_tracker \<Rightarrow> int" where
  "remaining_calls t = max 0 (max_calls (bt_budget t) - calls (bt_budget t))"

definition needs_increase_approval :: "pyfloat \<Rightarrow> pyfloat option \<Rightarrow> budget_tracker \<Rightarrow> bool" where
  "needs_increase_approval projected_cost waiver t =
     (if (case waiver of None \<Rightarrow> False | Some w \<Rightarrow> projected_cost \<le> w) then False
      else (let expected = max (cost (bt_budget t)) (rnd (1 / 100))
            in fmul expected 10 < projected_cost \<and> max_cost (bt_budget t) < projected_cost))"

section \<open>The interface of a budget\<close>

text \<open>
  What a caller relies on: a passed check leaves room for one more call and changes
  nothing, a call takes exactly one unit, and the limit is fixed.
\<close>

locale call_budget =
  fixes try_check :: "'q \<Rightarrow> 'b \<Rightarrow> 'e + unit"
    and after_check :: "'q \<Rightarrow> 'b \<Rightarrow> 'b"
    and spend :: "'r \<Rightarrow> 'b \<Rightarrow> 'b"
    and used :: "'b \<Rightarrow> int"
    and limit :: "'b \<Rightarrow> int"
  assumes passed: "try_check q b = Inr () \<Longrightarrow> used b < limit b"
    and check_used: "used (after_check q b) = used b"
    and check_limit: "limit (after_check q b) = limit b"
    and spend_used: "used (spend r b) = used b + 1"
    and spend_limit: "limit (spend r b) = limit b"
begin

text \<open>One guarded call: a denied check ends it, a passed one is followed by the spending.\<close>

definition guarded :: "'q \<times> 'r \<Rightarrow> 'b \<Rightarrow> 'b" where
  "guarded qr b = (case try_check (fst qr) b of
     Inl _ \<Rightarrow> after_check (fst qr) b
   | Inr _ \<Rightarrow> spend (snd qr) (after_check (fst qr) b))"

lemma guarded_limit: "limit (guarded qr b) = limit b"
  by (simp add: guarded_def check_limit spend_limit split: sum.split)

lemma guarded_used: "used b \<le> limit b \<Longrightarrow> used (guarded qr b) \<le> limit b"
  using passed [of "fst qr" b]
  by (auto simp: guarded_def check_used spend_used split: sum.split)

lemma run_limit: "limit (fold guarded qrs b) = limit b"
  by (induction qrs arbitrary: b) (simp_all add: guarded_limit)

lemma run_within: "used b \<le> limit b \<Longrightarrow> used (fold guarded qrs b) \<le> limit b"
proof (induction qrs arbitrary: b)
  case (Cons qr qrs)
  then show ?case using Cons.IH [of "guarded qr b"] by (simp add: guarded_limit guarded_used)
qed simp

lemma denied_when_full: "used b = limit b \<Longrightarrow> try_check q b \<noteq> Inr ()"
  using passed [of q b] by auto

end

lemma would_exceed_None:
  "would_exceed et ec b = None \<longleftrightarrow>
     calls b < max_calls b \<and> tokens b + et \<le> max_tokens b \<and> fadd (cost b) ec \<le> max_cost b"
  by (auto simp: would_exceed_def)

lemma check_ok_iff:
  "fst (check et ec t) = Inr () \<longleftrightarrow> would_exceed et ec (bt_budget t) = None"
  by (simp add: check_def split: option.split)

lemma check_budget [simp]: "bt_budget (fst (snd (check et ec t))) = bt_budget t"
  by (simp add: check_def split: option.split)

interpretation cloud_budget: call_budget
  "\<lambda>q t. fst (check (fst q) (snd q) t)" "\<lambda>q t. fst (snd (check (fst q) (snd q) t))"
  "\<lambda>r t. record_call (fst r) (snd r) t" "\<lambda>t. calls (bt_budget t)" "\<lambda>t. max_calls (bt_budget t)"
  by unfold_locales (auto simp: check_ok_iff would_exceed_None record_call_def Let_def)

text \<open>One call as a caller makes it: the check, and the call only where the check passes.\<close>

definition guarded_call :: "(int \<times> pyfloat) \<times> (gen_result \<times> model_config) \<Rightarrow> budget_tracker \<Rightarrow> budget_tracker" where
  "guarded_call qr t = (case check (fst (fst qr)) (snd (fst qr)) t of
     (Inl _, t', _) \<Rightarrow> t'
   | (Inr _, t', _) \<Rightarrow> record_call (fst (snd qr)) (snd (snd qr)) t')"

lemma guarded_call_eq: "guarded_call = cloud_budget.guarded"
  by (auto simp: fun_eq_iff guarded_call_def cloud_budget.guarded_def split: prod.split sum.split)

section \<open>Invariant\<close>

text \<open>A budget within its number of calls, with non-negative counters and a float cost.\<close>

definition budget_ok :: "budget \<Rightarrow> bool" where
  "budget_ok b \<longleftrightarrow> 0 \<le> calls b \<and> calls b \<le> max 0 (max_calls b) \<and> 0 \<le> tokens b \<and> 0 \<le> cost b \<and>
     is_float (cost b)"

lemma budget_ok_new: "budget_ok (bt_budget (fst (new_budget_tracker c mc w)))"
  by (auto simp: new_budget_tracker_def budget_ok_def Let_def split: option.splits)

lemma budget_ok_check: "budget_ok (bt_budget t) \<Longrightarrow> budget_ok (bt_budget (fst (snd (check et ec t))))"
  by simp

lemma record_call_cost_ge:
  "budget_ok (bt_budget t) \<Longrightarrow> result_ok r \<Longrightarrow> prices_ok m \<Longrightarrow>
   cost (bt_budget t) \<le> cost (bt_budget (record_call r m t))"
  by (auto simp: record_call_def Let_def budget_ok_def result_ok_def prices_ok_def
      intro!: fadd_ge estimate_cost_nonneg)

lemma budget_ok_record:
  assumes "budget_ok (bt_budget t)" "calls (bt_budget t) < max_calls (bt_budget t)"
    and "result_ok r" "prices_ok m"
  shows "budget_ok (bt_budget (record_call r m t))"
  using assms record_call_cost_ge [OF assms(1,3,4)]
  by (auto simp: budget_ok_def record_call_def Let_def result_ok_def)

lemma new_tracker_max_cost:
  "max_cost (bt_budget (fst (new_budget_tracker c mc w))) =
     (let configured = (case mc of None \<Rightarrow> max_cloud_cost_per_task c | Some x \<Rightarrow> x)
      in case w of None \<Rightarrow> configured | Some v \<Rightarrow> max configured v)"
  by (auto simp: new_budget_tracker_def Let_def max_def split: option.splits)

end
