(* ===== verification/Preflight.thy ===== *)
theory Preflight
  imports Handoff Classifier Config
begin

text \<open>
  \<^verbatim>\<open>routing/preflight.py\<close>: the deterministic assessment of a task and the merge of a model's
  own assessment into it.  The arithmetic is that of binary64 floats, in the order of the
  source.  \<open>render\<close> stands for Python's \<^verbatim>\<open>str\<close> of a value that is not a string; the names of
  infinity and NaN are outside the float model.
\<close>

section \<open>The assessment\<close>

record assessment =
  as_task_type :: string
  as_complexity :: pyfloat
  as_local_success_probability :: pyfloat
  as_reasoning_difficulty :: pyfloat
  as_context_requirement :: int
  as_estimated_subtasks :: int
  as_architecture_impact :: bool
  as_security_sensitive :: bool
  as_decision_level :: decision_level
  as_requires_human_approval :: bool
  as_requires_cloud :: bool
  as_recommended_route :: string
  as_reason :: string
  as_model_assisted :: bool
  as_signals :: "(string, pyval) dict"

definition task_types :: "(string \<times> string list) list" where
  "task_types = [
     (''testing'', [''test'', ''pytest'', ''unit test'', ''coverage'']),
     (''debugging'', [''debug'', ''bug'', ''failing'', ''failure'', ''traceback'', ''error'', ''broken'']),
     (''implementation'', [''implement'', ''add'', ''build'', ''create'', ''write'', ''feature'']),
     (''refactor'', [''refactor'', ''restructure'', ''cleanup'', ''clean up'']),
     (''documentation'', [''document'', ''readme'', ''docstring'', ''comment'']),
     (''review'', [''review'', ''audit'', ''inspect'', ''analyze'']),
     (''architecture'', [''architecture'', ''design'', ''plan'', ''migration''])]"

definition complexity_signals :: "string list" where
  "complexity_signals = [''concurrency'', ''distributed'', ''performance'', ''algorithm'', ''optimize'',
     ''security'', ''crypto'', ''migration'', ''refactor'', ''architecture'', ''asynchronous'', ''async'',
     ''race condition'', ''deadlock'']"

definition security_signals :: "string list" where
  "security_signals = [''auth'', ''oauth'', ''password'', ''credential'', ''secret'', ''encryption'',
     ''security'']"

definition contains_some :: "string list \<Rightarrow> string \<Rightarrow> bool" where
  "contains_some ws t \<longleftrightarrow> list_ex (\<lambda>w. sublist w t) ws"

definition task_type_of :: "string \<Rightarrow> string" where
  "task_type_of t = (case find (\<lambda>(_, kws). contains_some kws t) task_types of
     None \<Rightarrow> ''general'' | Some (tt, _) \<Rightarrow> tt)"

definition clamp :: "pyfloat \<Rightarrow> pyfloat" where
  "clamp value = max 0 (min 1 value)"

text \<open>\<^verbatim>\<open>context or ""\<close>\<close>

definition or_empty :: "string option \<Rightarrow> string" where
  "or_empty c = (case c of None \<Rightarrow> [] | Some s \<Rightarrow> s)"

definition assess_text :: "string \<Rightarrow> string option \<Rightarrow> string" where
  "assess_text prompt ctx = lower (prompt @ nl @ or_empty ctx)"

definition context_need :: "string \<Rightarrow> string option \<Rightarrow> int" where
  "context_need prompt ctx =
     max 1 (int (length prompt) div 4) + max 0 (int (length (or_empty ctx)) div 4)"

definition length_factor :: "string \<Rightarrow> pyfloat" where
  "length_factor prompt = min 1 (fdiv (of_pyint (int (length prompt))) 4000)"

definition matching_signals :: "string \<Rightarrow> int" where
  "matching_signals t = int (length (filter (\<lambda>w. sublist w t) complexity_signals))"

definition complexity_of :: "int \<Rightarrow> pyfloat \<Rightarrow> pyfloat" where
  "complexity_of matching lf =
     clamp (fadd (fadd (rnd (15 / 100)) (fmul (rnd (1 / 10)) (of_pyint matching))) (fmul (1 / 2) lf))"

definition difficulty_of :: "int \<Rightarrow> pyfloat \<Rightarrow> pyfloat" where
  "difficulty_of matching lf =
     clamp (fadd (fadd (rnd (2 / 10)) (fmul (rnd (12 / 100)) (of_pyint matching))) (fmul (rnd (4 / 10)) lf))"

text \<open>The statements that compute \<^verbatim>\<open>local_probability\<close>, one after the other.\<close>

definition local_probability_of :: "pyfloat \<Rightarrow> pyfloat \<Rightarrow> int \<Rightarrow> int \<Rightarrow> bool \<Rightarrow> pyfloat" where
  "local_probability_of complexity difficulty failed_attempts retry_count architecture_impact =
     (let p = fsub (fsub (rnd (92 / 100)) (fmul (1 / 2) complexity)) (fmul (1 / 4) difficulty);
          p = fsub p (min (rnd (4 / 10)) (fmul (rnd (2 / 10)) (of_pyint failed_attempts)));
          p = fsub p (min (rnd (2 / 10)) (fmul (rnd (5 / 100)) (of_pyint retry_count)));
          p = (if architecture_impact then fsub p (rnd (15 / 100)) else p)
      in clamp p)"

definition subtasks_of :: "string \<Rightarrow> pyfloat \<Rightarrow> int" where
  "subtasks_of task_type complexity =
     (let n = 1 + trunc (fmul complexity 4)
      in if task_type \<in> {''architecture'', ''implementation''} \<and> 1 / 2 < complexity then max n 3 else n)"

definition high_stakes :: "decision_level \<Rightarrow> bool" where
  "high_stakes l \<longleftrightarrow> l \<in> {MAJOR, CRITICAL}"

definition reasons_of :: "decision_level \<Rightarrow> bool \<Rightarrow> int \<Rightarrow> int \<Rightarrow> int \<Rightarrow> string list" where
  "reasons_of level context_pressure need limit failed_attempts =
     (let rs = (if level \<noteq> ROUTINE then [''decision level '' @ level_value level] else []) @
        (if context_pressure
         then [''context ~'' @ show_int need @ '' tokens exceeds local limit '' @ show_int limit] else []) @
        (if failed_attempts \<noteq> 0 then [show_int failed_attempts @ '' prior failed attempt(s)''] else [])
      in if rs = [] then [''localized work within local model capability''] else rs)"

definition route_hint :: "bool \<Rightarrow> bool \<Rightarrow> bool \<Rightarrow> pyfloat \<Rightarrow> string" where
  "route_hint requires_cloud architecture_impact context_pressure p =
     (if requires_cloud \<or> architecture_impact
      then (if context_pressure then ''cloud'' else if rnd (4 / 10) < p then ''hybrid'' else ''cloud'')
      else ''local'')"

definition assess ::
  "config \<Rightarrow> string \<Rightarrow> string option \<Rightarrow> int \<Rightarrow> int \<Rightarrow> (string, pyval) dict option \<Rightarrow>
     classification option \<Rightarrow> assessment" where
  "assess config prompt ctx failed_attempts retry_count metadata given =
     (let t = assess_text prompt ctx;
          need = context_need prompt ctx;
          task_type = task_type_of t;
          matching = matching_signals t;
          lf = length_factor prompt;
          complexity = complexity_of matching lf;
          difficulty = difficulty_of matching lf;
          cls = (case given of Some c \<Rightarrow> c | None \<Rightarrow> classify prompt None None None);
          impact = cls_signals cls Architecture_change;
          sensitive = cls_signals cls Security_boundary \<or> contains_some security_signals t;
          p = local_probability_of complexity difficulty failed_attempts retry_count impact;
          pressure = local_context_limit config < need;
          requires_cloud = p < local_confidence_threshold config \<or> pressure \<or> high_stakes (cls_level cls)
      in \<lparr>as_task_type = task_type, as_complexity = fround 3 complexity,
          as_local_success_probability = fround 3 p, as_reasoning_difficulty = fround 3 difficulty,
          as_context_requirement = need, as_estimated_subtasks = subtasks_of task_type complexity,
          as_architecture_impact = impact, as_security_sensitive = sensitive,
          as_decision_level = cls_level cls,
          as_requires_human_approval = cls_requires_human_approval cls,
          as_requires_cloud = requires_cloud,
          as_recommended_route = route_hint requires_cloud impact pressure p,
          as_reason = join ''; '' (reasons_of (cls_level cls) pressure need (local_context_limit config) failed_attempts),
          as_model_assisted = False,
          as_signals = (case metadata of None \<Rightarrow> [] | Some [] \<Rightarrow> []
            | Some m \<Rightarrow> [(''metadata'', PDict m)])\<rparr>)"

section \<open>Merging a model's assessment\<close>

text \<open>\<^verbatim>\<open>float(candidate)\<close>, \<open>None\<close> where it raises.\<close>

definition to_float :: "pyval \<Rightarrow> pyfloat option" where
  "to_float v = (case v of
     PBool b \<Rightarrow> Some (if b then 1 else 0)
   | PInt i \<Rightarrow> Some (of_pyint i)
   | PFloat x \<Rightarrow> Some x
   | PStr s \<Rightarrow> parse_float s
   | _ \<Rightarrow> None)"

text \<open>\<^verbatim>\<open>int(value or 0)\<close>, \<open>None\<close> where it raises.\<close>

definition to_int_or_zero :: "pyval \<Rightarrow> int option" where
  "to_int_or_zero v =
     (if \<not> truthy v then Some 0
      else case v of
        PBool b \<Rightarrow> Some 1
      | PInt i \<Rightarrow> Some i
      | PFloat x \<Rightarrow> Some (trunc x)
      | PStr s \<Rightarrow> parse_int s
      | _ \<Rightarrow> None)"

definition merge_float :: "pyfloat \<Rightarrow> pyval \<Rightarrow> bool \<Rightarrow> pyfloat" where
  "merge_float base candidate higher =
     (case to_float candidate of
        None \<Rightarrow> base
      | Some v \<Rightarrow> (let value = clamp v in if higher then max base value else min base value))"

definition render_reason :: "(pyval \<Rightarrow> string) \<Rightarrow> pyval \<Rightarrow> string" where
  "render_reason render v = (case v of PStr s \<Rightarrow> s | _ \<Rightarrow> render v)"

definition pget :: "(string, pyval) dict \<Rightarrow> string \<Rightarrow> pyval" where
  "pget d k = (case dict_get d k of None \<Rightarrow> PNone | Some v \<Rightarrow> v)"

definition merge_level :: "decision_level \<Rightarrow> pyval \<Rightarrow> decision_level" where
  "merge_level base raw = (case raw of
     PStr s \<Rightarrow> (case level_of_value s of
       Some l \<Rightarrow> if severity base < severity l then l else base
     | None \<Rightarrow> base)
   | _ \<Rightarrow> base)"

definition merge_assessment ::
  "(pyval \<Rightarrow> string) \<Rightarrow> assessment \<Rightarrow> (string, pyval) dict \<Rightarrow> assessment" where
  "merge_assessment render base parsed = base\<lparr>
     as_model_assisted := True,
     as_decision_level := merge_level (as_decision_level base) (pget parsed ''decision_level''),
     as_complexity := merge_float (as_complexity base) (pget parsed ''complexity'') True,
     as_reasoning_difficulty :=
       merge_float (as_reasoning_difficulty base) (pget parsed ''reasoning_difficulty'') True,
     as_local_success_probability :=
       merge_float (as_local_success_probability base) (pget parsed ''local_success_probability'') False,
     as_context_requirement := (case to_int_or_zero (pget parsed ''context_requirement'') of
         None \<Rightarrow> as_context_requirement base
       | Some i \<Rightarrow> max (as_context_requirement base) i),
     as_architecture_impact := (as_architecture_impact base \<or> truthy (pget parsed ''architecture_impact'')),
     as_security_sensitive := (as_security_sensitive base \<or> truthy (pget parsed ''security_sensitive'')),
     as_requires_cloud := (as_requires_cloud base \<or> truthy (pget parsed ''requires_cloud'')),
     as_reason := (if truthy (pget parsed ''reason'')
       then as_reason base @ ''; model: '' @ render_reason render (pget parsed ''reason'')
       else as_reason base)\<rparr>"

section \<open>Asking a model\<close>

text \<open>
  \<^verbatim>\<open>assess_with_model\<close>.  \<open>gen\<close> is the provider's structured generation: the model's name,
  the messages and the state of the world give a result or an error and the next state.
  A provider error keeps the deterministic assessment; every other error propagates.
\<close>

definition assess_messages :: "string \<Rightarrow> message list" where
  "assess_messages body =
     [system_msg (''You assess software tasks. Respond ONLY with JSON matching the schema. '' @
        ''Be conservative: if unsure whether a decision is significant or major, choose major.''),
      user_msg body]"

definition assess_content :: "string \<Rightarrow> string option \<Rightarrow> string" where
  "assess_content prompt ctx = ''Assess this task.'' @ nl @ nl @ ''Task:'' @ nl @ prompt @
     (if or_empty ctx \<noteq> [] then nl @ nl @ ''Context (truncated):'' @ nl @ take 4000 (or_empty ctx) else [])"

definition assess_with_model ::
  "(pyval \<Rightarrow> string) \<Rightarrow> (string \<Rightarrow> message list \<Rightarrow> 's \<Rightarrow> gen_result result \<times> 's) \<Rightarrow> config \<Rightarrow> bool \<Rightarrow>
     model_config \<Rightarrow> string \<Rightarrow> string option \<Rightarrow> assessment option \<Rightarrow> classification option \<Rightarrow> 's \<Rightarrow>
     assessment result \<times> trace_event list \<times> 's" where
  "assess_with_model render gen config enabled model prompt ctx base cls s =
     (let base = (case base of Some b \<Rightarrow> b | None \<Rightarrow> assess config prompt ctx 0 0 None cls);
          r = redact enabled (assess_content prompt ctx);
          entries = (if redacted r
            then [entry ''security'' ''redacted secrets before cloud handoff''
              [(''purpose'', PStr ''preflight''), (''patterns'', PList (map PStr (red_findings r)))]]
            else [])
      in case gen (mc_name model) (assess_messages (red_text r)) s of
           (Inl (ProviderError m st rt), s) \<Rightarrow>
             (Inr base, entries @ [entry ''preflight'' (''model assessment failed: '' @ m) []], s)
         | (Inl e, s) \<Rightarrow> (Inl e, entries, s)
         | (Inr result, s) \<Rightarrow>
             (case gr_structured result of
                Some (PDict (kv # d)) \<Rightarrow> (Inr (merge_assessment render base (kv # d)), entries, s)
              | _ \<Rightarrow> (Inr base,
                  entries @ [entry ''preflight'' ''model assessment returned no structured output'' []], s)))"

section \<open>Facts\<close>

lemma clamp_range [simp]: "0 \<le> clamp x" "clamp x \<le> 1"
  by (auto simp: clamp_def)

lemma clamp_mono: "x \<le> y \<Longrightarrow> clamp x \<le> clamp y"
  by (auto simp: clamp_def min_def max_def)

lemma complexity_range [simp]: "0 \<le> complexity_of m l" "complexity_of m l \<le> 1"
  and difficulty_range [simp]: "0 \<le> difficulty_of m l" "difficulty_of m l \<le> 1"
  by (simp_all add: complexity_of_def difficulty_of_def)

lemma probability_range [simp]: "0 \<le> local_probability_of c d f r a" "local_probability_of c d f r a \<le> 1"
  by (simp_all add: local_probability_of_def Let_def)

definition unit_range :: "pyfloat \<Rightarrow> bool" where
  "unit_range x \<longleftrightarrow> 0 \<le> x \<and> x \<le> 1"

definition assessment_ok :: "assessment \<Rightarrow> bool" where
  "assessment_ok a \<longleftrightarrow> unit_range (as_complexity a) \<and> unit_range (as_local_success_probability a) \<and>
     unit_range (as_reasoning_difficulty a) \<and> 1 \<le> as_context_requirement a"

lemmas assess_simps = assess_def Let_def

lemma context_need_pos: "1 \<le> context_need p c"
  by (simp add: context_need_def)

lemma assess_ok: "assessment_ok (assess c p ctx f r md g)"
  using fround_range [OF complexity_range] fround_range [OF difficulty_range]
    fround_range [OF probability_range]
  by (simp add: assessment_ok_def unit_range_def assess_simps context_need_pos)

lemma subtasks_bounds:
  assumes "0 \<le> x" "x \<le> 1"
  shows "1 \<le> subtasks_of t x" "subtasks_of t x \<le> 5"
proof -
  have "fmul x 4 \<le> rnd (of_int 4)"
    unfolding fmul_def using assms by (intro rnd_mono) simp
  then have "fmul x 4 \<le> of_int 4" by (subst (asm) rnd_of_int) simp_all
  moreover have "0 \<le> fmul x 4" using assms by (simp add: fmul_nonneg)
  ultimately have "0 \<le> trunc (fmul x 4)" "trunc (fmul x 4) \<le> 4"
    using trunc_le [of "fmul x 4" 4] by (simp_all add: trunc_nonneg)
  then show "1 \<le> subtasks_of t x" "subtasks_of t x \<le> 5" by (auto simp: subtasks_of_def Let_def)
qed

text \<open>More failures or retries never make local success likelier.\<close>

lemma probability_antimono:
  assumes "f \<le> f'" "r \<le> r'"
  shows "local_probability_of c d f' r' a \<le> local_probability_of c d f r a"
proof -
  have m: "fmul (rnd q) (of_pyint i) \<le> fmul (rnd q) (of_pyint j)" if "i \<le> j" "0 \<le> q" for q i j
    using that by (intro fmul_mono of_pyint_mono rnd_nonneg) auto
  have "fsub (fsub x (min (rnd (4 / 10)) (fmul (rnd (2 / 10)) (of_pyint f'))))
      (min (rnd (2 / 10)) (fmul (rnd (5 / 100)) (of_pyint r'))) \<le>
    fsub (fsub x (min (rnd (4 / 10)) (fmul (rnd (2 / 10)) (of_pyint f))))
      (min (rnd (2 / 10)) (fmul (rnd (5 / 100)) (of_pyint r)))" for x
    by (intro fsub_mono min.mono order_refl m assms) simp_all
  then show ?thesis
    unfolding local_probability_of_def Let_def by (intro clamp_mono) (simp add: fsub_mono)
qed

lemma merge_float_range:
  "unit_range b \<Longrightarrow> unit_range (merge_float b v h)"
  by (auto simp: merge_float_def unit_range_def Let_def max_def min_def split: option.split)

lemma merge_float_higher: "b \<le> merge_float b v True"
  and merge_float_lower: "merge_float b v False \<le> b"
  by (auto simp: merge_float_def Let_def split: option.split)

lemma merge_level_ge: "base \<le> merge_level base raw"
  by (auto simp: merge_level_def level_order split: pyval.split option.split)

text \<open>The order of concern: a merge moves up in it, whatever the model answered.\<close>

definition at_least_as_wary :: "assessment \<Rightarrow> assessment \<Rightarrow> bool" where
  "at_least_as_wary b a \<longleftrightarrow>
     as_decision_level a \<le> as_decision_level b \<and> as_complexity a \<le> as_complexity b \<and>
     as_reasoning_difficulty a \<le> as_reasoning_difficulty b \<and>
     as_local_success_probability b \<le> as_local_success_probability a \<and>
     as_context_requirement a \<le> as_context_requirement b \<and>
     (as_architecture_impact a \<longrightarrow> as_architecture_impact b) \<and>
     (as_security_sensitive a \<longrightarrow> as_security_sensitive b) \<and>
     (as_requires_cloud a \<longrightarrow> as_requires_cloud b) \<and>
     as_requires_human_approval b = as_requires_human_approval a"

lemma at_least_as_wary_refl [simp]: "at_least_as_wary a a"
  by (simp add: at_least_as_wary_def)

lemma merge_wary: "at_least_as_wary (merge_assessment render base parsed) base"
  by (simp add: at_least_as_wary_def merge_assessment_def merge_float_higher merge_float_lower
      merge_level_ge split: option.split)

lemma merge_ok: "assessment_ok base \<Longrightarrow> assessment_ok (merge_assessment render base parsed)"
  by (auto simp: assessment_ok_def merge_assessment_def merge_float_range split: option.split)

end
