(* ===== verification/Routing.thy ===== *)
theory Routing
  imports Preflight
begin

text \<open>
  \<^verbatim>\<open>routing/policy.py\<close> and \<^verbatim>\<open>routing/escalation.py\<close>: which tier plans, executes and reviews a
  task, and what a failed local attempt leads to.  Both are built without a trace of their
  own by the application; the entries one with a trace would log are separate definitions.
\<close>

section \<open>Routes\<close>

datatype route_kind = LocalRoute | HybridRoute | CloudRoute

fun kind_value :: "route_kind \<Rightarrow> string" where
  "kind_value LocalRoute = ''local''"
| "kind_value HybridRoute = ''hybrid''"
| "kind_value CloudRoute = ''cloud''"

datatype routing_policy =
    LOCAL_ONLY | CLOUD_ONLY | LOCAL_FIRST | EXPERT_FIRST | ADAPTIVE | BUDGET_CONSTRAINED

fun policy_value :: "routing_policy \<Rightarrow> string" where
  "policy_value LOCAL_ONLY = ''local_only''"
| "policy_value CLOUD_ONLY = ''cloud_only''"
| "policy_value LOCAL_FIRST = ''local_first''"
| "policy_value EXPERT_FIRST = ''expert_first''"
| "policy_value ADAPTIVE = ''adaptive''"
| "policy_value BUDGET_CONSTRAINED = ''budget_constrained''"

text \<open>\<^verbatim>\<open>_coerce\<close>: an unknown name means adaptive.\<close>

definition coerce_policy :: "string \<Rightarrow> routing_policy" where
  "coerce_policy value =
     (case find (\<lambda>p. policy_value p = value)
        [LOCAL_ONLY, CLOUD_ONLY, LOCAL_FIRST, EXPERT_FIRST, ADAPTIVE, BUDGET_CONSTRAINED] of
        Some p \<Rightarrow> p | None \<Rightarrow> ADAPTIVE)"

record route_decision =
  rt_kind :: route_kind
  rt_planner_tier :: "tier option"
  rt_executor_tier :: tier
  rt_review_tier :: "tier option"
  rt_reasons :: "string list"
  rt_forced_cloud :: bool

definition uses_cloud :: "route_decision \<Rightarrow> bool" where
  "uses_cloud d \<longleftrightarrow> rt_executor_tier d = EXPERT \<or> rt_planner_tier d = Some EXPERT \<or>
     rt_review_tier d = Some EXPERT"

definition local_route :: "string \<Rightarrow> route_decision" where
  "local_route why = \<lparr>rt_kind = LocalRoute, rt_planner_tier = None, rt_executor_tier = LOCAL,
     rt_review_tier = None, rt_reasons = [why], rt_forced_cloud = False\<rparr>"

definition cloud_route :: "tier option \<Rightarrow> string \<Rightarrow> route_decision" where
  "cloud_route review why = \<lparr>rt_kind = CloudRoute, rt_planner_tier = Some EXPERT,
     rt_executor_tier = EXPERT, rt_review_tier = review, rt_reasons = [why], rt_forced_cloud = True\<rparr>"

definition hybrid_route :: "tier option \<Rightarrow> bool \<Rightarrow> string \<Rightarrow> route_decision" where
  "hybrid_route review forced why = \<lparr>rt_kind = HybridRoute, rt_planner_tier = Some EXPERT,
     rt_executor_tier = LOCAL, rt_review_tier = review, rt_reasons = [why], rt_forced_cloud = forced\<rparr>"

section \<open>The policy engine\<close>

definition local_viable :: "config \<Rightarrow> assessment \<Rightarrow> bool" where
  "local_viable c a \<longleftrightarrow> local_confidence_threshold c \<le> as_local_success_probability a \<and>
     as_context_requirement a \<le> local_context_limit c"

definition adaptive :: "assessment \<Rightarrow> bool \<Rightarrow> int \<Rightarrow> route_decision" where
  "adaptive a viable failed_attempts =
     (if 0 < failed_attempts then
        (if as_architecture_impact a \<and> high_stakes (as_decision_level a)
         then cloud_route (Some EXPERT) ''local failed and change is decision-significant''
         else cloud_route None (show_int failed_attempts @ '' local failure(s); expert escalation''))
      else if viable \<and> \<not> as_requires_cloud a
      then local_route ''adaptive: task within local capability''
      else if rnd (65 / 100) \<le> as_reasoning_difficulty a \<or> \<not> viable
      then hybrid_route (Some EXPERT) True ''adaptive: cloud planning/review with local execution''
      else hybrid_route (Some EXPERT) True
             ''adaptive: decision requires expert planning, local execution'')"

text \<open>\<^verbatim>\<open>policy or self.config.routing_policy\<close>\<close>

definition selected_policy :: "config \<Rightarrow> string option \<Rightarrow> routing_policy" where
  "selected_policy c p = coerce_policy (case p of None \<Rightarrow> routing_policy c | Some [] \<Rightarrow> routing_policy c
     | Some s \<Rightarrow> s)"

definition decide ::
  "config \<Rightarrow> assessment \<Rightarrow> string option \<Rightarrow> int \<Rightarrow> bool \<Rightarrow> route_decision" where
  "decide c a p failed_attempts cloud_budget_available =
     (let selected = selected_policy c p;
          viable = local_viable c a;
          decision = (case selected of
             LOCAL_ONLY \<Rightarrow> local_route ''policy local_only''
           | CLOUD_ONLY \<Rightarrow> cloud_route (Some EXPERT) ''policy cloud_only''
           | EXPERT_FIRST \<Rightarrow> cloud_route None ''policy expert_first''
           | BUDGET_CONSTRAINED \<Rightarrow>
               (if \<not> cloud_budget_available \<or> viable
                then local_route ''policy budget_constrained; local preferred''
                else hybrid_route None False ''policy budget_constrained; cloud plan only'')
           | LOCAL_FIRST \<Rightarrow>
               (if viable \<and> failed_attempts = 0
                then local_route ''policy local_first; local viable''
                else cloud_route None ''policy local_first; escalating to expert'')
           | ADAPTIVE \<Rightarrow> adaptive a viable failed_attempts)
      in if \<not> cloud_budget_available \<and> uses_cloud decision \<and>
            selected \<in> {ADAPTIVE, LOCAL_FIRST, BUDGET_CONSTRAINED}
         then local_route ''cloud budget unavailable; local fallback''
         else decision)"

definition route_entry :: "config \<Rightarrow> assessment \<Rightarrow> string option \<Rightarrow> route_decision \<Rightarrow> trace_event" where
  "route_entry c a p d = entry ''router'' (''route='' @ kind_value (rt_kind d))
     [(''policy'', PStr (policy_value (selected_policy c p))),
      (''local_success_probability'', PFloat (as_local_success_probability a)),
      (''executor'', PStr (tier_value (rt_executor_tier d))),
      (''reasons'', PList (map PStr (rt_reasons d)))]"

section \<open>Escalation\<close>

datatype escalation_action =
    NONE | CLOUD_DEBUG | CLOUD_REVIEW | CLOUD_PLAN | CLOUD_SYNTHESIS | USER_DECISION | ABORT

fun escalation_value :: "escalation_action \<Rightarrow> string" where
  "escalation_value NONE = ''none''"
| "escalation_value CLOUD_DEBUG = ''cloud_debug''"
| "escalation_value CLOUD_REVIEW = ''cloud_review''"
| "escalation_value CLOUD_PLAN = ''cloud_plan''"
| "escalation_value CLOUD_SYNTHESIS = ''cloud_synthesis''"
| "escalation_value USER_DECISION = ''user_decision''"
| "escalation_value ABORT = ''abort''"

record escalation_request =
  er_reason :: string
  er_failed_attempts :: int
  er_needed_context :: "string list"
  er_recommended_action :: escalation_action
  er_potential_major_decision :: bool

record escalation_outcome =
  eo_escalate :: bool
  eo_action :: escalation_action
  eo_requires_human_approval :: bool
  eo_reason :: string

definition evaluate :: "escalation_request \<Rightarrow> bool \<Rightarrow> escalation_outcome" where
  "evaluate request force_user_if_major =
     (let requires_approval = er_potential_major_decision request \<and> force_user_if_major
      in if requires_approval
         then \<lparr>eo_escalate = True, eo_action = USER_DECISION, eo_requires_human_approval = True,
               eo_reason = er_reason request\<rparr>
         else \<lparr>eo_escalate = True, eo_action = er_recommended_action request,
               eo_requires_human_approval = False, eo_reason = er_reason request\<rparr>)"

definition escalation_entry :: "escalation_request \<Rightarrow> escalation_outcome \<Rightarrow> trace_event" where
  "escalation_entry request outcome = entry ''escalation'' (''action='' @ escalation_value (eo_action outcome))
     [(''requires_approval'', PBool (eo_requires_human_approval outcome)),
      (''reason'', PStr (er_reason request))]"

definition should_escalate :: "config \<Rightarrow> int \<Rightarrow> bool option \<Rightarrow> bool \<Rightarrow> bool" where
  "should_escalate c failed_attempts verification_passed wrote_new_plan =
     (if local_max_retries c < failed_attempts then True
      else if verification_passed = Some False then True
      else if wrote_new_plan then True
      else False)"

definition is_architecture_like :: "string \<Rightarrow> bool" where
  "is_architecture_like t = contains_some
     [''architecture'', ''replace the'', ''persistence layer'', ''database'', ''rearchitect'', ''redesign'',
      ''migration'', ''security model'', ''framework''] (lower t)"

section \<open>Facts\<close>

lemma coerce_policy_value [simp]: "coerce_policy (policy_value p) = p"
  by (cases p) (simp_all add: coerce_policy_def)

lemma uses_cloud_routes [simp]:
  "\<not> uses_cloud (local_route w)" "uses_cloud (cloud_route r w)" "uses_cloud (hybrid_route r f w)"
  by (simp_all add: uses_cloud_def local_route_def cloud_route_def hybrid_route_def)

lemma route_kinds [simp]:
  "rt_kind (local_route w) = LocalRoute" "rt_kind (cloud_route r w) = CloudRoute"
  "rt_kind (hybrid_route r f w) = HybridRoute"
  "rt_executor_tier (local_route w) = LOCAL" "rt_executor_tier (cloud_route r w) = EXPERT"
  "rt_executor_tier (hybrid_route r f w) = LOCAL"
  by (simp_all add: local_route_def cloud_route_def hybrid_route_def)

text \<open>A decision the engine can make: the kind and the tiers agree.\<close>

definition route_ok :: "route_decision \<Rightarrow> bool" where
  "route_ok d \<longleftrightarrow>
     (rt_kind d = LocalRoute \<longleftrightarrow> \<not> uses_cloud d) \<and> (rt_kind d = CloudRoute \<longleftrightarrow> rt_executor_tier d = EXPERT) \<and>
     (uses_cloud d \<longrightarrow> rt_planner_tier d = Some EXPERT) \<and> (rt_forced_cloud d \<longrightarrow> uses_cloud d) \<and>
     rt_reasons d \<noteq> []"

lemma route_ok_routes [simp]:
  "route_ok (local_route w)" "route_ok (cloud_route r w)" "route_ok (hybrid_route r f w)"
  by (simp_all add: route_ok_def uses_cloud_def local_route_def cloud_route_def hybrid_route_def)

lemma route_ok_adaptive: "route_ok (adaptive a v f)"
  by (simp add: adaptive_def)

lemma route_ok_decide: "route_ok (decide c a p f b)"
  by (simp add: decide_def Let_def route_ok_adaptive split: routing_policy.split)

lemma adaptive_uses_cloud:
  "uses_cloud (adaptive a v f) \<longleftrightarrow> 0 < f \<or> \<not> v \<or> as_requires_cloud a"
  by (auto simp: adaptive_def)

text \<open>When the engine sends work to the cloud, for every policy.\<close>

lemma decide_uses_cloud:
  "uses_cloud (decide c a p f b) \<longleftrightarrow>
     (case selected_policy c p of
        LOCAL_ONLY \<Rightarrow> False
      | CLOUD_ONLY \<Rightarrow> True
      | EXPERT_FIRST \<Rightarrow> True
      | BUDGET_CONSTRAINED \<Rightarrow> b \<and> \<not> local_viable c a
      | LOCAL_FIRST \<Rightarrow> b \<and> (\<not> local_viable c a \<or> f \<noteq> 0)
      | ADAPTIVE \<Rightarrow> b \<and> (0 < f \<or> \<not> local_viable c a \<or> as_requires_cloud a))"
  by (cases b) (auto simp: decide_def Let_def adaptive_uses_cloud split: routing_policy.split)

lemma selected_local_only [simp]: "selected_policy c (Some ''local_only'') = LOCAL_ONLY"
  using coerce_policy_value [of LOCAL_ONLY] by (simp add: selected_policy_def)

lemma decide_local_only: "decide c a (Some ''local_only'') f b = local_route ''policy local_only''"
  by (simp add: decide_def Let_def)

text \<open>A more worrying assessment is never routed away from the cloud it was routed to.\<close>

lemma local_viable_wary: "at_least_as_wary b a \<Longrightarrow> local_viable c b \<Longrightarrow> local_viable c a"
  by (auto simp: at_least_as_wary_def local_viable_def)

lemma decide_wary:
  assumes "at_least_as_wary a' a" "uses_cloud (decide c a p f b)"
  shows "uses_cloud (decide c a' p f b)"
  using assms local_viable_wary [OF assms(1), of c]
  by (auto simp: decide_uses_cloud at_least_as_wary_def split: routing_policy.splits)

end
