(* ===== verification/Context.thy ===== *)
theory Context
  imports Provider Classifier
begin

text \<open>
  \<^verbatim>\<open>context/compression.py\<close> and \<^verbatim>\<open>context/packet.py\<close>: the size of a prompt, the loop that fits
  a conversation into a context window, and the packet handed to the expert model.
\<close>

section \<open>Sizes\<close>

definition estimate_tokens :: "string \<Rightarrow> int" where
  "estimate_tokens text = max 1 (int (length text) div 4)"

definition total_estimate :: "message list \<Rightarrow> int" where
  "total_estimate ms = sum_list (map (\<lambda>m. estimate_tokens (content m)) ms)"

lemma estimate_tokens_pos [simp]: "1 \<le> estimate_tokens t" "0 < estimate_tokens t" "0 \<le> estimate_tokens t"
  by (simp_all add: estimate_tokens_def)

lemma total_estimate_simps [simp]:
  "total_estimate [] = 0"
  "total_estimate (m # ms) = estimate_tokens (content m) + total_estimate ms"
  "total_estimate (ms @ ns) = total_estimate ms + total_estimate ns"
  by (simp_all add: total_estimate_def)

lemma total_estimate_nonneg [simp]: "0 \<le> total_estimate ms"
  by (induction ms) simp_all

lemma total_estimate_le: "\<forall>m\<in>set ms. estimate_tokens (content m) \<le> k \<Longrightarrow> total_estimate ms \<le> k * int (length ms)"
  by (induction ms) (auto simp: algebra_simps)

section \<open>Compaction\<close>

definition summary_line :: "message \<Rightarrow> string" where
  "summary_line m = role_value (msg_role m) @ '': '' @
     take 160 (replace_char newline '' '' (strip (content m)))"

definition compress_messages :: "message list \<Rightarrow> int \<Rightarrow> int \<Rightarrow> message list" where
  "compress_messages messages max_tokens keep_recent =
     (if messages = [] then []
      else if total_estimate messages \<le> max_tokens then messages
      else
        (let system = filter (\<lambda>m. msg_role m = SYSTEM) messages;
             rest = filter (\<lambda>m. msg_role m \<noteq> SYSTEM) messages;
             recent = slice_from (- keep_recent) rest;
             older = (if keep_recent < int (length rest) then slice_to (- keep_recent) rest else [])
         in if older = [] then system @ recent
            else system @
              [system_msg (''Compressed earlier context:'' @ nl @ join nl (map summary_line older))] @
              recent))"

section \<open>Truncation\<close>

definition trunc_marker :: string where
  "trunc_marker = nl @ ''...[truncated]...'' @ nl"

definition head_chars :: "int \<Rightarrow> int" where
  "head_chars max_chars = trunc (fmul (of_pyint max_chars) (rnd (7 / 10)))"

definition truncate :: "string \<Rightarrow> int \<Rightarrow> string" where
  "truncate text max_tokens =
     (if estimate_tokens text \<le> max_tokens then text
      else
        (let max_chars = max_tokens * 4;
             head = head_chars max_chars;
             tail = max_chars - head
         in slice_to head text @ trunc_marker @ slice_from (- tail) text))"

lemma rnd_7_10: "0 \<le> rnd (7 / 10)" "rnd (7 / 10) \<le> 71 / 100"
  by code_simp+

lemma head_chars_bounds:
  assumes "0 \<le> n"
  shows "0 \<le> head_chars n" "rat_of_int (head_chars n) \<le> of_int n * (72 / 100)"
proof -
  have nn: "0 \<le> fmul (of_pyint n) (rnd (7 / 10))"
    using assms rnd_7_10 by (simp add: fmul_nonneg of_pyint_nonneg)
  then show "0 \<le> head_chars n" by (simp add: head_chars_def trunc_nonneg)
  let ?e = "1 + 1 / 2 ^ 52 :: rat"
  have "fmul (of_pyint n) (rnd (7 / 10)) \<le> of_pyint n * rnd (7 / 10) * ?e"
    unfolding fmul_def by (rule rnd_rel_upper) (use assms rnd_7_10 in \<open>simp add: of_pyint_nonneg\<close>)
  also have "\<dots> \<le> (of_int n * ?e) * (71 / 100) * ?e"
    using assms rnd_7_10 rnd_rel_upper [of "of_int n"]
    by (intro mult_right_mono mult_mono) (simp_all add: of_pyint_def rnd_nonneg)
  also have "\<dots> = of_int n * (71 / 100 * ?e * ?e)" by simp
  also have "\<dots> \<le> of_int n * (72 / 100)"
    using assms by (intro mult_left_mono) simp_all
  finally have "fmul (of_pyint n) (rnd (7 / 10)) \<le> of_int n * (72 / 100)" .
  moreover have "rat_of_int (head_chars n) \<le> fmul (of_pyint n) (rnd (7 / 10))"
    using nn by (simp add: head_chars_def trunc_def)
  ultimately show "rat_of_int (head_chars n) \<le> of_int n * (72 / 100)" by linarith
qed

lemma head_chars_less: "0 < n \<Longrightarrow> head_chars n < n"
  using head_chars_bounds(2) [of n] by (simp add: field_simps)

lemma length_slice_to: "0 \<le> i \<Longrightarrow> i \<le> int (length xs) \<Longrightarrow> int (length (slice_to i xs)) = i"
  by (simp add: slice_to_def)

lemma length_slice_from_neg: "0 < i \<Longrightarrow> i \<le> int (length xs) \<Longrightarrow> int (length (slice_from (- i) xs)) = i"
  by (simp add: slice_from_def)

text \<open>A text over the limit shrinks to the limit and the marker, of 19 characters.\<close>

lemma truncate_length:
  assumes "1 \<le> m" "m < estimate_tokens text"
  shows "int (length (truncate text m)) = 4 * m + 19"
proof -
  let ?h = "head_chars (m * 4)"
  have len: "m * 4 \<le> int (length text)"
    using assms by (auto simp: estimate_tokens_def max_def split: if_splits)
  have h: "0 \<le> ?h" "?h < m * 4"
    using assms(1) by (auto simp: head_chars_bounds head_chars_less)
  have "int (length (slice_to ?h text)) = ?h"
    by (rule length_slice_to) (use h len in auto)
  moreover have "int (length (slice_from (- (m * 4 - ?h)) text)) = m * 4 - ?h"
    by (rule length_slice_from_neg) (use h len in auto)
  moreover have "truncate text m =
      slice_to ?h text @ trunc_marker @ slice_from (- (m * 4 - ?h)) text"
    using assms(2) unfolding truncate_def Let_def by simp
  ultimately show ?thesis by (simp add: trunc_marker_def)
qed

lemma truncate_estimate:
  "1 \<le> m \<Longrightarrow> m < estimate_tokens text \<Longrightarrow> estimate_tokens (truncate text m) = m + 4"
  using truncate_length [of m "text"] by (simp add: estimate_tokens_def)

lemma truncate_fits: "estimate_tokens text \<le> m \<Longrightarrow> truncate text m = text"
  by (simp add: truncate_def)

section \<open>Fitting\<close>

text \<open>\<^verbatim>\<open>max(range(len(result)), key=...)\<close>: the first index with the largest estimate.\<close>

definition largest_index :: "message list \<Rightarrow> nat" where
  "largest_index ms =
     foldl (\<lambda>b i. if estimate_tokens (content (ms ! b)) < estimate_tokens (content (ms ! i)) then i else b)
       0 [1..<length ms]"

text \<open>One turn of the loop: \<open>None\<close> where it breaks.\<close>

definition shrink_step :: "message list \<Rightarrow> message list option" where
  "shrink_step result =
     (let index = largest_index result;
          current = estimate_tokens (content (result ! index))
      in if current \<le> 1 then None
         else (let reduced = truncate (content (result ! index)) (max 1 (current div 2))
               in if current \<le> estimate_tokens reduced then None
                  else Some (result[index := (result ! index)\<lparr>content := reduced\<rparr>])))"

lemma foldl_argmax:
  "b = foldl (\<lambda>b i. if (f b :: int) < f i then i else b) b0 is \<Longrightarrow>
   b \<in> set (b0 # is) \<and> (\<forall>i\<in>set (b0 # is). f i \<le> f b)"
proof (induction "is" arbitrary: b0 b)
  case (Cons i "is")
  show ?case using Cons.IH [OF refl, of "if f b0 < f i then i else b0"] Cons.prems
    by (cases "f b0 < f i") fastforce+
qed simp

lemma largest_index:
  assumes "ms \<noteq> []"
  shows "largest_index ms < length ms"
    and "i < length ms \<Longrightarrow> estimate_tokens (content (ms ! i)) \<le> estimate_tokens (content (ms ! largest_index ms))"
proof -
  have s: "set (0 # [1..<length ms]) = {0..<length ms}"
    using assms by (cases ms) auto
  note m = foldl_argmax [OF largest_index_def, of ms, unfolded s]
  from m show "largest_index ms < length ms" by simp
  from m show "i < length ms \<Longrightarrow>
    estimate_tokens (content (ms ! i)) \<le> estimate_tokens (content (ms ! largest_index ms))" by simp
qed

lemma total_estimate_update:
  "i < length ms \<Longrightarrow> total_estimate (ms[i := m]) =
     total_estimate ms - estimate_tokens (content (ms ! i)) + estimate_tokens (content m)"
  by (induction ms arbitrary: i) (auto split: nat.splits)

lemma shrink_step_Some:
  assumes "ms \<noteq> []" "shrink_step ms = Some ms'"
  shows "total_estimate ms' < total_estimate ms" "length ms' = length ms"
    "map msg_role ms' = map msg_role ms"
proof -
  let ?i = "largest_index ms"
  obtain t where t: "ms' = ms[?i := (ms ! ?i)\<lparr>content := t\<rparr>]"
    "estimate_tokens t < estimate_tokens (content (ms ! ?i))"
    using assms(2) by (auto simp: shrink_step_def Let_def split: if_splits)
  show "total_estimate ms' < total_estimate ms"
    using t largest_index(1) [OF assms(1)] by (simp add: total_estimate_update)
  show "length ms' = length ms" using t by simp
  show "map msg_role ms' = map msg_role ms"
    using t largest_index(1) [OF assms(1)] by (simp add: map_update list_update_same_conv)
qed

text \<open>The loop stops only where every message is already at most eight tokens.\<close>

lemma shrink_step_None:
  assumes "ms \<noteq> []" "shrink_step ms = None"
  shows "\<forall>m\<in>set ms. estimate_tokens (content m) \<le> 8"
proof -
  let ?c = "estimate_tokens (content (ms ! largest_index ms))"
  have "?c \<le> 8"
  proof (rule ccontr)
    assume "\<not> ?thesis"
    then have "1 \<le> ?c div 2" "?c div 2 < ?c" "?c div 2 + 4 < ?c" by auto
    with assms(2) truncate_estimate [of "?c div 2" "content (ms ! largest_index ms)"]
    show False by (simp add: shrink_step_def Let_def max_def split: if_splits)
  qed
  then show ?thesis
    using largest_index(2) [OF assms(1)] by (fastforce simp: in_set_conv_nth)
qed

function fit_loop :: "int \<Rightarrow> message list \<Rightarrow> message list" where
  "fit_loop max_tokens result =
     (if result \<noteq> [] \<and> max_tokens < total_estimate result
      then (case shrink_step result of None \<Rightarrow> result | Some r \<Rightarrow> fit_loop max_tokens r)
      else result)"
  by auto
termination
  by (relation "measure (\<lambda>(_, ms). nat (total_estimate ms))")
    (auto dest: shrink_step_Some(1) intro: order_le_less_trans [OF total_estimate_nonneg])

declare fit_loop.simps [simp del]

definition fit_messages :: "message list \<Rightarrow> int \<Rightarrow> int \<Rightarrow> message list" where
  "fit_messages messages max_tokens keep_recent =
     (let compacted = compress_messages messages max_tokens keep_recent
      in if total_estimate compacted \<le> max_tokens then compacted else fit_loop max_tokens compacted)"

lemma fit_loop_shape: "map msg_role (fit_loop k ms) = map msg_role ms"
proof (induction k ms rule: fit_loop.induct)
  case (1 k ms)
  then show ?case
    using shrink_step_Some(3) by (subst fit_loop.simps) (auto split: option.split)
qed

lemma fit_loop_bound: "total_estimate (fit_loop k ms) \<le> max k (8 * int (length ms))"
proof (induction k ms rule: fit_loop.induct)
  case (1 k ms)
  show ?case
  proof (cases "ms \<noteq> [] \<and> k < total_estimate ms")
    case True
    show ?thesis
    proof (cases "shrink_step ms")
      case None
      with True have "fit_loop k ms = ms" by (simp add: fit_loop.simps)
      moreover have "total_estimate ms \<le> 8 * int (length ms)"
        using True None by (intro total_estimate_le shrink_step_None) auto
      ultimately show ?thesis by simp
    next
      case (Some r)
      with True have "fit_loop k ms = fit_loop k r" by (simp add: fit_loop.simps [of k ms])
      with 1 [OF True Some] shrink_step_Some(2) [of ms r] True Some show ?thesis by simp
    qed
  qed (auto simp: fit_loop.simps [of k ms])
qed

lemma fit_messages_id: "total_estimate ms \<le> k \<Longrightarrow> fit_messages ms k r = ms"
  by (auto simp: fit_messages_def compress_messages_def)

lemma compress_length: "length (compress_messages ms k r) \<le> length ms"
proof -
  have split: "length (filter P ms) + length (filter (\<lambda>m. \<not> P m) ms) = length ms" for P
    using sum_length_filter_compl [of P ms] .
  show ?thesis
  proof (cases "r < int (length (filter (\<lambda>m. msg_role m \<noteq> SYSTEM) ms)) \<and>
      slice_to (- r) (filter (\<lambda>m. msg_role m \<noteq> SYSTEM) ms) \<noteq> []")
    case True
    let ?rest = "filter (\<lambda>m. msg_role m \<noteq> SYSTEM) ms"
    have "length (slice_to (- r) ?rest) + length (slice_from (- r) ?rest) = length ?rest"
      by (metis slice_to_from length_append)
    moreover have "0 < length (slice_to (- r) ?rest)" using True by simp
    ultimately have "Suc (length (filter (\<lambda>m. msg_role m = SYSTEM) ms) + length (slice_from (- r) ?rest))
        \<le> length ms"
      using split [of "\<lambda>m. msg_role m = SYSTEM"] by linarith
    then show ?thesis by (simp add: compress_messages_def Let_def)
  next
    case False
    have "length (slice_from (- r) xs) \<le> length xs" for xs :: "message list"
      by (simp add: slice_from_def)
    from this [of "filter (\<lambda>m. msg_role m \<noteq> SYSTEM) ms"] False
    show ?thesis using split [of "\<lambda>m. msg_role m = SYSTEM"]
      by (auto simp: compress_messages_def Let_def)
  qed
qed

lemma fit_messages_bound:
  "total_estimate (fit_messages ms k r) \<le> max k (8 * int (length ms))"
  using fit_loop_bound [of k "compress_messages ms k r"] compress_length [of ms k r]
  by (auto simp: fit_messages_def Let_def max_def split: if_splits)

section \<open>The escalation packet\<close>

record escalation_packet =
  pk_original_task :: string
  pk_current_plan :: string
  pk_completed_work :: string
  pk_relevant_files :: "string list"
  pk_failed_attempts :: "string list"
  pk_test_results :: string
  pk_open_questions :: "string list"
  pk_reason_for_escalation :: string
  pk_human_constraints :: "string list"
  pk_approved_decisions :: "string list"
  pk_decision_level :: decision_level
  pk_constraints_are_authoritative :: bool

definition new_packet :: "string \<Rightarrow> escalation_packet" where
  "new_packet task = \<lparr>pk_original_task = task, pk_current_plan = [], pk_completed_work = [],
     pk_relevant_files = [], pk_failed_attempts = [], pk_test_results = [], pk_open_questions = [],
     pk_reason_for_escalation = [], pk_human_constraints = [], pk_approved_decisions = [],
     pk_decision_level = ROUTINE, pk_constraints_are_authoritative = True\<rparr>"

text \<open>A titled section, left out when its text is empty, and a bulleted one.\<close>

definition text_section :: "string \<Rightarrow> string \<Rightarrow> string list" where
  "text_section title t = (if t \<noteq> [] then [title @ nl @ t] else [])"

definition bullets :: "string list \<Rightarrow> string" where
  "bullets xs = join nl (map (\<lambda>x. ''- '' @ x) xs)"

definition list_section :: "string \<Rightarrow> string list \<Rightarrow> string list" where
  "list_section title xs = (if xs \<noteq> [] then [title @ nl @ bullets xs] else [])"

definition constraints_title :: string where
  "constraints_title = ''HUMAN CONSTRAINTS (authoritative, must not be reinterpreted as optional):''"

definition decisions_title :: string where
  "decisions_title = ''APPROVED DECISIONS (authoritative):''"

definition to_prompt :: "escalation_packet \<Rightarrow> string" where
  "to_prompt p = join (nl @ nl)
     ([''Original task:'' @ nl @ pk_original_task p] @
      text_section ''Current plan:'' (pk_current_plan p) @
      text_section ''Completed work:'' (pk_completed_work p) @
      list_section ''Relevant files:'' (pk_relevant_files p) @
      list_section ''Failed attempts:'' (pk_failed_attempts p) @
      text_section ''Test results:'' (pk_test_results p) @
      list_section ''Open questions:'' (pk_open_questions p) @
      text_section ''Reason for escalation:'' (pk_reason_for_escalation p) @
      list_section constraints_title (pk_human_constraints p) @
      list_section decisions_title (pk_approved_decisions p))"

lemma sublist_bullets: "x \<in> set xs \<Longrightarrow> sublist x (bullets xs)"
  unfolding bullets_def
  by (rule sublist_append_left [of "''- ''"], rule sublist_join) simp

lemma sublist_list_section: "x \<in> set xs \<Longrightarrow> list_section title xs = [title @ nl @ bullets xs]"
  by (auto simp: list_section_def)

lemma bullets_in_section:
  assumes "x \<in> set xs" "sublist (title @ nl @ bullets xs) t"
  shows "sublist x t"
proof -
  have "sublist (bullets xs) t"
    by (rule sublist_append_left [of "title @ nl"]) (use assms(2) in simp)
  moreover note sublist_bullets [OF assms(1)]
  ultimately show ?thesis by (rule sublist_order.order_trans [rotated])
qed

text \<open>What the human laid down reaches the expert's prompt word for word.\<close>

lemma constraint_in_prompt:
  assumes "c \<in> set (pk_human_constraints p)"
  shows "sublist c (to_prompt p)"
proof (rule bullets_in_section [OF assms])
  show "sublist (constraints_title @ nl @ bullets (pk_human_constraints p)) (to_prompt p)"
    unfolding to_prompt_def by (rule sublist_join) (simp add: sublist_list_section [OF assms])
qed

lemma decision_in_prompt:
  assumes "d \<in> set (pk_approved_decisions p)"
  shows "sublist d (to_prompt p)"
proof (rule bullets_in_section [OF assms])
  show "sublist (decisions_title @ nl @ bullets (pk_approved_decisions p)) (to_prompt p)"
    unfolding to_prompt_def by (rule sublist_join) (simp add: sublist_list_section [OF assms])
qed

end
