(* ===== verification/Verifier.thy ===== *)
theory Verifier
  imports Trace
begin

text \<open>
  \<^verbatim>\<open>verification/verifier.py\<close> and \<^verbatim>\<open>verification/command.py\<close>: the objective checks of an
  answer.  A verifier maps an answer and the state of the world to a result, the entries it
  logs and the next state.  Running a process and looking at the file system are the
  world's; what the code makes of their outcome is modelled.
\<close>

section \<open>Results\<close>

record verification_check =
  vc_name :: string
  vc_passed :: bool
  vc_detail :: string

record verification_result =
  vr_passed :: bool
  vr_checks :: "verification_check list"

definition summary :: "verification_result \<Rightarrow> string" where
  "summary r = (if vr_checks r = [] then ''no checks were run''
     else join '', '' (map (\<lambda>c. vc_name c @ ''='' @ (if vc_passed c then ''pass'' else ''FAIL'')) (vr_checks r)))"

type_synonym 'w verifier = "string \<Rightarrow> 'w \<Rightarrow> verification_result \<times> trace_event list \<times> 'w"

section \<open>Commands\<close>

text \<open>
  What the operating system reports of a process: an exit code with its two outputs, or
  that it was killed at the timeout.  The code is absent where the process has none.
\<close>

datatype process_outcome = Finished "int option" string string | TimedOut "int option"

record command_result =
  cr_command :: string
  cr_exit_code :: int
  cr_stdout :: string
  cr_stderr :: string
  cr_timed_out :: bool

definition cr_passed :: "command_result \<Rightarrow> bool" where
  "cr_passed r \<longleftrightarrow> cr_exit_code r = 0 \<and> \<not> cr_timed_out r"

definition or_minus_one :: "int option \<Rightarrow> int" where
  "or_minus_one c = (case c of None \<Rightarrow> -1 | Some i \<Rightarrow> i)"

definition run_command :: "string \<Rightarrow> process_outcome \<Rightarrow> command_result" where
  "run_command command outcome = (case outcome of
     Finished code out err \<Rightarrow>
       \<lparr>cr_command = command, cr_exit_code = or_minus_one code,
        cr_stdout = slice_from (-8000) out, cr_stderr = slice_from (-8000) err, cr_timed_out = False\<rparr>
   | TimedOut code \<Rightarrow>
       \<lparr>cr_command = command, cr_exit_code = or_minus_one code,
        cr_stdout = [], cr_stderr = [], cr_timed_out = True\<rparr>)"

section \<open>Verifiers\<close>

definition null_verifier :: "'w verifier" where
  "null_verifier answer w = (\<lparr>vr_passed = True, vr_checks = []\<rparr>, [], w)"

text \<open>\<^verbatim>\<open>all(c.passed for c in checks) if checks else True\<close>\<close>

definition all_passed :: "verification_check list \<Rightarrow> bool" where
  "all_passed checks = (if checks \<noteq> [] then list_all vc_passed checks else True)"

fun run_commands ::
  "(string \<Rightarrow> 'w \<Rightarrow> process_outcome \<times> 'w) \<Rightarrow> string list \<Rightarrow> 'w \<Rightarrow>
     verification_check list \<times> trace_event list \<times> 'w" where
  "run_commands os [] w = ([], [], w)"
| "run_commands os (command # cs) w =
     (let (outcome, w) = os command w;
          result = run_command command outcome;
          e = entry ''verify'' (''$ '' @ command @ '' -> exit '' @ show_int (cr_exit_code result))
                [(''passed'', PBool (cr_passed result))];
          check = \<lparr>vc_name = command, vc_passed = cr_passed result,
                   vc_detail = slice_from (-500)
                     (if cr_stderr result \<noteq> [] then cr_stderr result else cr_stdout result)\<rparr>;
          (checks, es, w) = run_commands os cs w
      in (check # checks, e # es, w))"

definition command_verifier ::
  "(string \<Rightarrow> 'w \<Rightarrow> process_outcome \<times> 'w) \<Rightarrow> string list \<Rightarrow> 'w verifier" where
  "command_verifier os commands answer w =
     (let (checks, es, w) = run_commands os commands w
      in (\<lparr>vr_passed = all_passed checks, vr_checks = checks\<rparr>, es, w))"

definition file_change_verifier ::
  "(string \<Rightarrow> 'w \<Rightarrow> bool) \<Rightarrow> string list \<Rightarrow> 'w verifier" where
  "file_change_verifier exists_file expected_files answer w =
     (let checks = map (\<lambda>n. \<lparr>vc_name = ''exists:'' @ n, vc_passed = exists_file n w, vc_detail = []\<rparr>)
            expected_files;
          passed = list_all vc_passed checks
      in (\<lparr>vr_passed = passed, vr_checks = checks\<rparr>,
          [entry ''verify'' ''expected files checked'' [(''passed'', PBool passed)]], w))"

text \<open>A validator answers with a truth value, or with one and a detail.\<close>

definition callable_verifier ::
  "string \<Rightarrow> (string \<Rightarrow> bool + bool \<times> string) \<Rightarrow> 'w verifier" where
  "callable_verifier name validator answer w =
     (let (passed, detail) = (case validator answer of Inl b \<Rightarrow> (b, []) | Inr pd \<Rightarrow> pd)
      in (\<lparr>vr_passed = passed,
           vr_checks = [\<lparr>vc_name = name, vc_passed = passed, vc_detail = detail\<rparr>]\<rparr>,
          [entry ''verify'' (name @ ''='' @ (if passed then ''pass'' else ''FAIL'')) [(''detail'', PStr detail)]],
          w))"

fun run_verifiers ::
  "'w verifier list \<Rightarrow> string \<Rightarrow> 'w \<Rightarrow> verification_check list \<times> trace_event list \<times> 'w" where
  "run_verifiers [] answer w = ([], [], w)"
| "run_verifiers (v # vs) answer w =
     (let (r, es, w) = v answer w;
          (checks, es', w) = run_verifiers vs answer w
      in (vr_checks r @ checks, es @ es', w))"

definition composite_verifier :: "'w verifier list \<Rightarrow> 'w verifier" where
  "composite_verifier verifiers answer w =
     (if verifiers = [] then (\<lparr>vr_passed = True, vr_checks = []\<rparr>, [], w)
      else (let (checks, es, w) = run_verifiers verifiers answer w
            in (\<lparr>vr_passed = all_passed checks, vr_checks = checks\<rparr>, es, w)))"

section \<open>The contract of a verifier\<close>

text \<open>A verifier is sound when what it reports agrees with the checks it ran.\<close>

locale sound_verifier =
  fixes verify :: "'w verifier"
  assumes passed_iff: "verify answer w = (r, es, w') \<Longrightarrow> vr_passed r \<longleftrightarrow> list_all vc_passed (vr_checks r)"
begin

lemma failing_check: "verify answer w = (r, es, w') \<Longrightarrow> c \<in> set (vr_checks r) \<Longrightarrow> \<not> vc_passed c \<Longrightarrow> \<not> vr_passed r"
  by (auto simp: passed_iff list_all_iff)

lemma no_checks: "verify answer w = (r, es, w') \<Longrightarrow> vr_checks r = [] \<Longrightarrow> vr_passed r"
  by (auto simp: passed_iff)

end

lemma all_passed_iff [simp]: "all_passed checks \<longleftrightarrow> list_all vc_passed checks"
  by (simp add: all_passed_def)

interpretation null_sound: sound_verifier null_verifier
  by unfold_locales (simp add: null_verifier_def)

interpretation command_sound: sound_verifier "command_verifier os commands"
  by unfold_locales (auto simp: command_verifier_def split: prod.splits)

interpretation file_sound: sound_verifier "file_change_verifier ex files"
  by unfold_locales (auto simp: file_change_verifier_def Let_def)

interpretation callable_sound: sound_verifier "callable_verifier name f"
  by unfold_locales (auto simp: callable_verifier_def split: sum.splits)

text \<open>Composition needs no soundness of its parts: it looks at their checks only.\<close>

interpretation composite_sound: sound_verifier "composite_verifier vs"
  by unfold_locales (auto simp: composite_verifier_def split: prod.splits if_splits)

lemma run_commands_checks:
  "run_commands os cs w = (checks, es, w') \<Longrightarrow>
   map vc_name checks = cs \<and> length es = length cs"
  by (induction cs arbitrary: w checks es w') (auto simp: Let_def split: prod.splits)

lemma timed_out_fails: "\<not> cr_passed (run_command c (TimedOut code))"
  and no_code_fails: "\<not> cr_passed (run_command c (Finished None out err))"
  by (simp_all add: cr_passed_def run_command_def or_minus_one_def)

lemma run_command_passed: "cr_passed (run_command c oc) \<longleftrightarrow> (\<exists>out err. oc = Finished (Some 0) out err)"
  by (cases oc) (auto simp: cr_passed_def run_command_def or_minus_one_def split: option.splits)

end
