(* ===== verification/Sifter.thy ===== *)
theory Sifter
  imports Gate Budget Routing Context Verifier
begin

text \<open>
  \<^verbatim>\<open>app.py\<close>: one run of the sifter, from the prompt to the result.  The providers, the human
  and the verifier act on a world outside the process; everything else a run changes is in
  \<open>run_state\<close>.  \<open>rs_effects\<close> is a ghost: it records the questions put to the human and the
  calls made to a provider, in order, so that theorems can speak of them; no definition
  reads it.  Cancellation, clocks and the progress callback are not modelled.
\<close>

section \<open>The state of a run\<close>

text \<open>One call of a provider; an absent temperature or limit is the provider's default.\<close>

record gen_call =
  gc_model :: string
  gc_messages :: "message list"
  gc_temperature :: "pyfloat option"
  gc_max_tokens :: "int option"
  gc_timeout :: pyfloat

record approval_note =
  an_stage :: string
  an_action :: approval_action
  an_selected_options :: "string list"
  an_constraints :: "string list option"

datatype effect =
    EAsk approval_request human_decision
  | ECall tier string gen_call

record 'w run_state =
  rs_world :: 'w
  rs_trace :: trace
  rs_usage :: usage
  rs_tracker :: usage_tracker
  rs_budget :: budget_tracker
  rs_approvals :: "approval_note list"
  rs_effects :: "effect list"

type_synonym ('w, 'a) action = "('w run_state, 'a) prog"

record ('p, 'w) sifter =
  sf_config :: config
  sf_registry :: "'p registry"
  sf_generate :: "'p \<Rightarrow> gen_call \<Rightarrow> 'w \<Rightarrow> gen_result result \<times> 'w"
  sf_asker :: "'w asker"
  sf_rules :: rule_engine
  sf_verify :: "'w verifier"

definition local_config :: "('p, 'w) sifter \<Rightarrow> model_config" where
  "local_config S = local_model_config (sf_config S)"

definition cloud_config :: "('p, 'w) sifter \<Rightarrow> model_config" where
  "cloud_config S = cloud_model_config (sf_config S)"

section \<open>Elementary steps\<close>

definition log :: "string \<Rightarrow> string \<Rightarrow> fields \<Rightarrow> ('w, unit) action" where
  "log c m fs = modify (\<lambda>s. s\<lparr>rs_trace := log_entry (entry c m fs) (rs_trace s)\<rparr>)"

definition update_usage :: "(usage \<Rightarrow> usage) \<Rightarrow> ('w, unit) action" where
  "update_usage f = modify (\<lambda>s. s\<lparr>rs_usage := f (rs_usage s)\<rparr>)"

definition note_approval :: "approval_note \<Rightarrow> ('w, unit) action" where
  "note_approval n = modify (\<lambda>s. s\<lparr>rs_approvals := rs_approvals s @ [n]\<rparr>)"

definition ask_human :: "('p, 'w) sifter \<Rightarrow> approval_request \<Rightarrow> ('w, human_decision) action" where
  "ask_human S r = (\<lambda>s. case require_approval (Some (sf_asker S)) r (rs_world s) (Some (rs_trace s)) of
     (d, w, t) \<Rightarrow> (Inr d, s\<lparr>rs_world := w, rs_trace := the t,
       rs_effects := rs_effects s @ [EAsk r d]\<rparr>))"

definition check_budget :: "int \<Rightarrow> pyfloat \<Rightarrow> ('w, unit) action" where
  "check_budget estimated_tokens estimated_cost = (\<lambda>s.
     case check estimated_tokens estimated_cost (rs_budget s) of
       (r, b, es) \<Rightarrow> (r, s\<lparr>rs_budget := b, rs_trace := log_all es (rs_trace s)\<rparr>))"

definition lift_result :: "'a result \<Rightarrow> ('w, 'a) action" where
  "lift_result r = (case r of Inl e \<Rightarrow> raise e | Inr x \<Rightarrow> ret x)"

definition call_provider ::
  "('p, 'w) sifter \<Rightarrow> tier \<Rightarrow> string \<Rightarrow> 'p \<Rightarrow> gen_call \<Rightarrow> ('w, gen_result) action" where
  "call_provider S tr purpose p call = (\<lambda>s. case sf_generate S p call (rs_world s) of
     (r, w) \<Rightarrow> (r, s\<lparr>rs_world := w, rs_effects := rs_effects s @ [ECall tr purpose call]\<rparr>))"

definition verify_answer :: "('p, 'w) sifter \<Rightarrow> string \<Rightarrow> ('w, verification_result) action" where
  "verify_answer S answer = (\<lambda>s. case sf_verify S answer (rs_world s) of
     (r, es, w) \<Rightarrow> (Inr r, s\<lparr>rs_world := w\<rparr>))"

text \<open>\<^verbatim>\<open>except ProviderError\<close> and \<^verbatim>\<open>except BudgetExceeded\<close>.\<close>

definition on_provider_error :: "('w, 'a) action \<Rightarrow> (string \<Rightarrow> ('w, 'a) action) \<Rightarrow> ('w, 'a) action" where
  "on_provider_error m h = handle m (\<lambda>e. case e of ProviderError msg st rt \<Rightarrow> h msg | _ \<Rightarrow> raise e)"

definition on_budget_exceeded :: "('w, 'a) action \<Rightarrow> (string \<Rightarrow> ('w, 'a) action) \<Rightarrow> ('w, 'a) action" where
  "on_budget_exceeded m h = handle m (\<lambda>e. case e of BudgetExceeded msg _ _ _ \<Rightarrow> h msg | _ \<Rightarrow> raise e)"

section \<open>Calling a tier\<close>

definition is_cloud_bound :: "tier \<Rightarrow> model_config \<Rightarrow> bool" where
  "is_cloud_bound t m \<longleftrightarrow> t = EXPERT \<or> suffix '':cloud'' (mc_name m)"

definition redact_cloud_messages :: "('p, 'w) sifter \<Rightarrow> message list \<Rightarrow> string \<Rightarrow> ('w, message list) action" where
  "redact_cloud_messages S ms purpose =
     (let (out, findings) = redact_model_messages (redact_secrets (sf_config S)) ms
      in andthen
           (if findings \<noteq> []
            then log ''security'' ''redacted secrets before cloud handoff''
                   [(''purpose'', PStr purpose), (''patterns'', PList (map PStr findings))]
            else ret ())
           (ret out))"

definition fit_to_context :: "message list \<Rightarrow> model_config \<Rightarrow> int \<Rightarrow> message list" where
  "fit_to_context ms m max_output =
     (let limit = mc_context_limit m
      in if limit \<le> 0 then ms else fit_messages ms (max 1024 (limit - max 0 max_output)) 6)"

text \<open>\<^verbatim>\<open>value or default\<close> on an optional integer.\<close>

definition or_default :: "int option \<Rightarrow> int \<Rightarrow> int" where
  "or_default v d = (case v of None \<Rightarrow> d | Some i \<Rightarrow> if i = 0 then d else i)"

definition tier_model :: "('p, 'w) sifter \<Rightarrow> tier \<Rightarrow> model_config" where
  "tier_model S t = (if t = LOCAL then local_config S else cloud_config S)"

definition tier_max_output :: "('p, 'w) sifter \<Rightarrow> tier \<Rightarrow> int" where
  "tier_max_output S t =
     (if t = LOCAL then or_default (local_max_output_tokens (sf_config S)) DEFAULT_LOCAL_MAX_OUTPUT
      else or_default (expert_max_output_tokens (sf_config S)) DEFAULT_EXPERT_MAX_OUTPUT)"

definition tier_temperature :: "('p, 'w) sifter \<Rightarrow> tier \<Rightarrow> pyfloat" where
  "tier_temperature S t =
     (case (if t = LOCAL then local_temperature (sf_config S) else expert_temperature (sf_config S)) of
        None \<Rightarrow> rnd (2 / 10) | Some x \<Rightarrow> x)"

text \<open>What goes to the cloud is refused where the profile disables it, and redacted otherwise.\<close>

definition outbound_messages ::
  "('p, 'w) sifter \<Rightarrow> tier \<Rightarrow> message list \<Rightarrow> string \<Rightarrow> ('w, message list) action" where
  "outbound_messages S t ms purpose =
     (if is_cloud_bound t (tier_model S t)
      then (if \<not> cloud_allowed (sf_config S)
            then raise (provider_error ''cloud is disabled by the active profile (cloud_allowed = false)'')
            else redact_cloud_messages S ms purpose)
      else ret ms)"

definition check_expert_budget :: "('p, 'w) sifter \<Rightarrow> tier \<Rightarrow> message list \<Rightarrow> ('w, unit) action" where
  "check_expert_budget S t ms =
     (if t = EXPERT
      then (let input_tokens = total_estimate ms
            in check_budget input_tokens (estimate_cost (tier_model S t) input_tokens 0))
      else ret ())"

definition record_result :: "('p, 'w) sifter \<Rightarrow> tier \<Rightarrow> string \<Rightarrow> gen_result \<Rightarrow> ('w, unit) action" where
  "record_result S t purpose result =
     andthen (modify (\<lambda>s. s\<lparr>rs_usage := record_generation result (Some (tier_model S t)) (rs_usage s),
                rs_tracker := tracker_record result (rs_tracker s),
                rs_budget := (if t = EXPERT then record_call result (tier_model S t) (rs_budget s)
                              else rs_budget s)\<rparr>))
       (log (if t = LOCAL then ''local'' else ''expert'') purpose
          [(''input_tokens'', PInt (gr_input_tokens result)),
           (''output_tokens'', PInt (gr_output_tokens result))])"

definition call_tier :: "('p, 'w) sifter \<Rightarrow> tier \<Rightarrow> message list \<Rightarrow> string \<Rightarrow> ('w, string) action" where
  "call_tier S t ms purpose =
     (let model = tier_model S t; max_output = tier_max_output S t
      in bnd (lift_result (provider_for (sf_registry S) (mc_name model) (Some (mc_provider model)))) (\<lambda>provider.
         bnd (outbound_messages S t (fit_to_context ms model max_output) purpose) (\<lambda>prepared.
         andthen (check_expert_budget S t prepared)
         (bnd (call_provider S t purpose provider
                 \<lparr>gc_model = mc_name model, gc_messages = prepared,
                  gc_temperature = Some (tier_temperature S t), gc_max_tokens = Some max_output,
                  gc_timeout = mc_timeout_seconds model\<rparr>) (\<lambda>result.
         andthen (record_result S t purpose result)
         (ret (gr_text result)))))))"

section \<open>A major decision\<close>

definition major_options :: "approval_option list" where
  "major_options = [
     \<lparr>opt_key = ''A'', opt_label = ''Keep the current approach'',
      opt_description = ''Proceed with the existing design and work around the limitation.''\<rparr>,
     \<lparr>opt_key = ''B'', opt_label = ''Allow DeepSeek to analyze these options'',
      opt_description = ''Cloud reasoning compares options and recommends, but does NOT implement.''\<rparr>,
     \<lparr>opt_key = ''C'', opt_label = ''Give different instructions'',
      opt_description = ''Provide explicit constraints or a different direction.''\<rparr>,
     \<lparr>opt_key = ''D'', opt_label = ''Stop this work'', opt_description = []\<rparr>]"

definition build_approval_request :: "string \<Rightarrow> string option \<Rightarrow> classification \<Rightarrow> approval_request" where
  "build_approval_request prompt ctx cls =
     \<lparr>req_category = cls_level cls, req_issue = prompt,
      req_why_it_matters = (if cls_level cls = CRITICAL
        then ''This is a critical, potentially destructive or irreversible action. '' @
             ''Compute Sifter will default to the safest non-destructive behavior until you decide.''
        else ''This decision materially affects architecture, security, data, scope, '' @
             ''external dependencies or cost. DeepSeek must not make it implicitly.''),
      req_current_approach = (if or_empty ctx \<noteq> [] then take 1500 (or_empty ctx) else ''Not specified.''),
      req_options = major_options,
      req_recommended_action =
        ''Ask DeepSeek to compare the options and recommend; no implementation '' @
        ''will occur until you separately approve it.'',
      req_cloud_reasoning_invoked = False, req_stage = ''analysis'',
      req_context = PDict [(''signals'', PList (map PStr (signal_names (cls_signals cls)))),
        (''reasons'', PList (map PStr (cls_reasons cls)))]\<rparr>"

definition analysis_packet :: "string \<Rightarrow> string list \<Rightarrow> escalation_packet" where
  "analysis_packet prompt constraints = (new_packet prompt)\<lparr>
     pk_current_plan := ''Human has permitted expert analysis of major options.'',
     pk_reason_for_escalation := ''Major decision requires expert comparison of approved options.'',
     pk_human_constraints := constraints,
     pk_open_questions := [''Which option best fits the stated constraints?'']\<rparr>"

definition expert_analysis ::
  "('p, 'w) sifter \<Rightarrow> string \<Rightarrow> string option \<Rightarrow> string list \<Rightarrow> ('w, string \<times> decision_level) action" where
  "expert_analysis S prompt ctx constraints =
     (let r = redact (redact_secrets (sf_config S)) (to_prompt (analysis_packet prompt constraints));
          ms = [system_msg (
                  ''You are a senior engineer. Compare the options, state tradeoffs, and '' @
                  ''recommend ONE direction. Do NOT implement code. Respect the human '' @
                  ''constraints as authoritative and non-negotiable. End with a clear recommendation.''),
                user_msg (red_text r @ (if or_empty ctx \<noteq> []
                  then nl @ nl @ ''Additional context:'' @ nl @ take 4000 (or_empty ctx) else []))]
      in andthen
           (if redacted r
            then log ''security'' ''redacted secrets before cloud handoff''
                   [(''patterns'', PList (map PStr (red_findings r)))]
            else ret ())
           (bnd (call_tier S EXPERT ms ''expert_analysis'') (\<lambda>answer. ret (answer, MAJOR))))"

definition implement_request :: "string \<Rightarrow> decision_level \<Rightarrow> approval_request" where
  "implement_request analysis level =
     \<lparr>req_category = level,
      req_issue = ''DeepSeek has analyzed the options and produced a recommendation.'',
      req_why_it_matters =
        ''Implementing this recommendation changes project direction. Permission '' @
        ''to analyze is not permission to implement.'',
      req_current_approach = ''No implementation changes have been made yet.'',
      req_options = [
        \<lparr>opt_key = ''A'', opt_label = ''Approve implementing the recommendation'', opt_description = []\<rparr>,
        \<lparr>opt_key = ''B'', opt_label = ''Give different instructions'', opt_description = []\<rparr>,
        \<lparr>opt_key = ''C'', opt_label = ''Stop this work'', opt_description = []\<rparr>],
      req_recommended_action = take 2000 analysis, req_cloud_reasoning_invoked = True,
      req_stage = ''implementation'',
      req_context = PDict [(''recommendation'', PStr (take 4000 analysis))]\<rparr>"

text \<open>The human's answer as the run keeps it.\<close>

definition decision_note :: "string \<Rightarrow> human_decision \<Rightarrow> approval_note" where
  "decision_note stage d = \<lparr>an_stage = stage, an_action = hd_action d,
     an_selected_options = hd_selected_options d, an_constraints = Some (hd_constraints d)\<rparr>"

record permission =
  pm_constraints :: "string list"
  pm_decisions :: "string list"
  pm_allow_cloud :: bool
  pm_force_local :: bool

definition permit :: "string list \<Rightarrow> string list \<Rightarrow> bool \<Rightarrow> bool \<Rightarrow> permission option" where
  "permit cs ds a f = Some \<lparr>pm_constraints = cs, pm_decisions = ds, pm_allow_cloud = a, pm_force_local = f\<rparr>"

definition count_request :: "usage \<Rightarrow> usage" where
  "count_request u = u\<lparr>human_approval_requests := human_approval_requests u + 1\<rparr>"

definition ask_to_implement ::
  "('p, 'w) sifter \<Rightarrow> string \<Rightarrow> decision_level \<Rightarrow> string list \<Rightarrow> ('w, permission option) action" where
  "ask_to_implement S analysis level constraints =
     bnd (ask_human S (implement_request analysis level)) (\<lambda>second.
     andthen (note_approval (decision_note ''implementation'' second))
     (andthen (update_usage count_request)
     (if hd_action second \<notin> {APPROVE, CHOOSE_OPTION} then ret None
      else ret (permit (constraints @ hd_constraints second)
                  [''DeepSeek-recommended direction approved: '' @ take 500 analysis] True False))))"

definition analyse_and_ask ::
  "('p, 'w) sifter \<Rightarrow> string \<Rightarrow> string option \<Rightarrow> string list \<Rightarrow> ('w, permission option) action" where
  "analyse_and_ask S prompt ctx constraints =
     andthen (log ''deepseek'' ''comparing approved alternatives'' [])
     (bnd (expert_analysis S prompt ctx constraints) (\<lambda>(analysis, level).
      andthen (update_usage (\<lambda>u. u\<lparr>human_approved_cloud_analyses := human_approved_cloud_analyses u + 1\<rparr>))
      (ask_to_implement S analysis level constraints)))"

text \<open>What a first answer leads to, before any analysis.\<close>

definition after_decision ::
  "('p, 'w) sifter \<Rightarrow> string \<Rightarrow> string option \<Rightarrow> human_decision \<Rightarrow> ('w, permission option) action" where
  "after_decision S prompt ctx d =
     (if hd_action d \<in> {STOP, REJECT} then ret None
      else if hd_action d = MODIFY then ret None
      else if hd_action d = MORE_LOCAL_ANALYSIS
      then andthen (log ''aa_sifter'' ''continuing with local-only analysis per user'' [])
             (ret (permit (hd_constraints d) [] False True))
      else if hd_action d = CONTINUE_CURRENT
      then ret (permit (hd_constraints d) [''keep current architecture''] False True)
      else if hd_action d \<in> {APPROVE, CHOOSE_OPTION}
      then ret (permit (hd_constraints d @ map (\<lambda>o'. ''Selected option '' @ o') (hd_selected_options d))
                  [] True False)
      else analyse_and_ask S prompt ctx (hd_constraints d))"

definition handle_major_decision ::
  "('p, 'w) sifter \<Rightarrow> string \<Rightarrow> string option \<Rightarrow> classification \<Rightarrow> ('w, permission option) action" where
  "handle_major_decision S prompt ctx cls =
     bnd (ask_human S (build_approval_request prompt ctx cls)) (\<lambda>d.
     andthen (note_approval (decision_note ''analysis'' d))
     (andthen (update_usage (\<lambda>u. (count_request u)\<lparr>major_decisions := major_decisions u + 1\<rparr>))
     (after_decision S prompt ctx d)))"

section \<open>Executing a route\<close>

definition execution_intro :: string where
  "execution_intro = ''You are a capable local software engineer. Follow existing project patterns. '' @
     ''Return a complete, coherent answer.''"

definition execution_messages :: "string \<Rightarrow> string option \<Rightarrow> string list \<Rightarrow> string list \<Rightarrow> message list" where
  "execution_messages prompt ctx human_constraints approved_decisions =
     (let base = execution_intro;
          authoritative = list_section constraints_title human_constraints @
            list_section decisions_title approved_decisions;
          system = (if human_constraints \<noteq> [] \<or> approved_decisions \<noteq> []
            then base @ nl @ nl @ join (nl @ nl) authoritative else base)
      in [system_msg system] @
         (if or_empty ctx \<noteq> [] then [user_msg (''Context:'' @ nl @ or_empty ctx)] else []) @
         [user_msg prompt])"

record outcome =
  oc_answer :: string
  oc_verification :: verification_result
  oc_failed_attempts :: int

definition outcome_of :: "string \<Rightarrow> verification_result \<Rightarrow> int \<Rightarrow> outcome" where
  "outcome_of a v n = \<lparr>oc_answer = a, oc_verification = v, oc_failed_attempts = n\<rparr>"

definition execute_cloud :: "('p, 'w) sifter \<Rightarrow> message list \<Rightarrow> ('w, outcome) action" where
  "execute_cloud S base =
     bnd (call_tier S EXPERT base ''cloud_execute'') (\<lambda>answer.
     bnd (verify_answer S answer) (\<lambda>v. ret (outcome_of answer v 0)))"

definition plan_messages :: "string \<Rightarrow> message list" where
  "plan_messages prompt = [system_msg (
       ''Produce a concise implementation plan with acceptance criteria and '' @
       ''likely files. Do NOT write the final answer yet. Respect human constraints.''),
     user_msg prompt]"

definition review_messages :: "string \<Rightarrow> string \<Rightarrow> message list" where
  "review_messages plan answer = [system_msg
       ''Review the implementation against the plan. Point out concrete issues only.'',
     user_msg (''Plan:'' @ nl @ plan @ nl @ nl @ ''Implementation:'' @ nl @ answer)]"

definition review :: "('p, 'w) sifter \<Rightarrow> string \<Rightarrow> string \<Rightarrow> ('w, string) action" where
  "review S plan answer =
     on_budget_exceeded
       (bnd (call_tier S EXPERT (review_messages plan answer) ''cloud_review'') (\<lambda>rev.
          ret (answer @ nl @ nl @ ''---'' @ nl @ ''Expert review:'' @ nl @ rev)))
       (\<lambda>_. andthen (log ''budget'' ''skipping expert review'' []) (ret answer))"

definition execute_hybrid ::
  "('p, 'w) sifter \<Rightarrow> string \<Rightarrow> string option \<Rightarrow> string list \<Rightarrow> string list \<Rightarrow> ('w, outcome) action" where
  "execute_hybrid S prompt ctx human_constraints approved_decisions =
     bnd (call_tier S EXPERT (plan_messages prompt) ''cloud_plan'') (\<lambda>plan.
     bnd (call_tier S LOCAL (execution_messages prompt ctx human_constraints
            (approved_decisions @ [''Plan: '' @ plan])) ''local_execute'') (\<lambda>answer.
     bnd (verify_answer S answer) (\<lambda>v.
     if \<not> vr_passed v then ret (outcome_of answer v 1)
     else bnd (review S plan answer) (\<lambda>answer. ret (outcome_of answer v 0)))))"

definition retry_messages :: "message list \<Rightarrow> string \<Rightarrow> int \<Rightarrow> message list" where
  "retry_messages base answer attempt =
     (if 1 < attempt
      then base @ [assistant_msg answer, user_msg (
        ''The previous attempt did not pass verification. Fix the specific '' @
        ''problem and return a corrected complete answer.'')]
      else base)"

text \<open>
  The loop over \<^verbatim>\<open>range(1, max_attempts + 1)\<close>.  A failed call yields no answer: the loop goes on
  with the message of the error for an answer and the verification it had.
\<close>

fun local_attempts ::
  "('p, 'w) sifter \<Rightarrow> message list \<Rightarrow> int list \<Rightarrow> outcome \<Rightarrow> ('w, outcome) action" where
  "local_attempts S base [] oc = ret oc"
| "local_attempts S base (attempt # rest) oc =
     andthen (log ''qwen'' (''attempt='' @ show_int attempt) [])
     (bnd (on_provider_error
             (bnd (call_tier S LOCAL (retry_messages base (oc_answer oc) attempt) ''local_execute'')
                (\<lambda>answer. ret (Inr answer)))
             (\<lambda>msg. andthen (log ''qwen'' (''local inference failed: '' @ msg) []) (ret (Inl msg))))
        (\<lambda>r. case r of
           Inl msg \<Rightarrow> local_attempts S base rest
             (outcome_of (''Local model error: '' @ msg) (oc_verification oc) (oc_failed_attempts oc + 1))
         | Inr answer \<Rightarrow>
             bnd (verify_answer S answer) (\<lambda>v.
             if vr_passed v then ret (outcome_of answer v (oc_failed_attempts oc))
             else andthen (update_usage (\<lambda>u. u\<lparr>retries := retries u + 1\<rparr>))
               (local_attempts S base rest (outcome_of answer v (oc_failed_attempts oc + 1))))))"

definition execute_route ::
  "('p, 'w) sifter \<Rightarrow> string \<Rightarrow> string option \<Rightarrow> route_decision \<Rightarrow> string list \<Rightarrow> string list \<Rightarrow>
     ('w, outcome) action" where
  "execute_route S prompt ctx route human_constraints approved_decisions =
     (let base = execution_messages prompt ctx human_constraints approved_decisions
      in case rt_kind route of
           CloudRoute \<Rightarrow> execute_cloud S base
         | HybridRoute \<Rightarrow> execute_hybrid S prompt ctx human_constraints approved_decisions
         | LocalRoute \<Rightarrow> local_attempts S base [1..local_max_retries (sf_config S) + 1]
             (outcome_of [] \<lparr>vr_passed = False, vr_checks = []\<rparr> 0))"

section \<open>Escalation after a failure\<close>

definition failure_request :: "string \<Rightarrow> verification_result \<Rightarrow> int \<Rightarrow> classification \<Rightarrow> escalation_request" where
  "failure_request prompt v failed_attempts cls =
     (let architecture_like = is_architecture_like prompt
      in \<lparr>er_reason = ''local verification failed: '' @ summary v,
          er_failed_attempts = failed_attempts, er_needed_context = [],
          er_recommended_action = (if architecture_like then CLOUD_PLAN else CLOUD_DEBUG),
          er_potential_major_decision = (architecture_like \<and> is_major cls)\<rparr>)"

definition escalation_approval :: approval_request where
  "escalation_approval = \<lparr>req_category = MAJOR,
     req_issue = ''The local model failed repeatedly and the failure appears to imply '' @
       ''an architectural change.'',
     req_why_it_matters = ''This exceeds routine debugging and may change project direction.'',
     req_current_approach = [], req_options = major_options,
     req_recommended_action = ''Ask DeepSeek to diagnose, but do not implement architectural changes '' @
       ''without a separate approval.'',
     req_cloud_reasoning_invoked = False, req_stage = ''escalation'', req_context = PDict []\<rparr>"

definition escalation_note :: "human_decision \<Rightarrow> approval_note" where
  "escalation_note d = \<lparr>an_stage = ''escalation'', an_action = hd_action d,
     an_selected_options = hd_selected_options d, an_constraints = None\<rparr>"

definition failure_packet ::
  "string \<Rightarrow> outcome \<Rightarrow> string \<Rightarrow> string list \<Rightarrow> string list \<Rightarrow> decision_level \<Rightarrow> escalation_packet" where
  "failure_packet prompt oc reason human_constraints approved_decisions level =
     (new_packet prompt)\<lparr>
       pk_current_plan := ''Local execution attempted and failed verification.'',
       pk_completed_work := oc_answer oc,
       pk_failed_attempts := map (\<lambda>i. ''attempt '' @ show_int (i + 1) @ '' failed'') [0..oc_failed_attempts oc - 1],
       pk_test_results := summary (oc_verification oc),
       pk_reason_for_escalation := reason,
       pk_human_constraints := human_constraints,
       pk_approved_decisions := approved_decisions,
       pk_decision_level := level\<rparr>"

definition diagnose ::
  "('p, 'w) sifter \<Rightarrow> string \<Rightarrow> escalation_packet \<Rightarrow> ('w, string \<times> bool) action" where
  "diagnose S answer packet =
     (let r = redact (redact_secrets (sf_config S)) (to_prompt packet);
          ms = [system_msg (
                  ''You are a senior engineer diagnosing a failed attempt. Identify the concrete '' @
                  ''root cause and provide corrected complete work. Respect authoritative constraints.''),
                user_msg (red_text r)]
      in on_budget_exceeded
           (bnd (call_tier S EXPERT ms ''cloud_escalation'') (\<lambda>diagnosis.
              ret (answer @ nl @ nl @ ''---'' @ nl @ ''Expert escalation:'' @ nl @ diagnosis, True)))
           (\<lambda>msg. ret (answer @ nl @ nl @ ''[Escalation skipped: '' @ msg @ '']'', False)))"

definition escalate_if ::
  "('p, 'w) sifter \<Rightarrow> bool \<Rightarrow> string \<Rightarrow> escalation_packet \<Rightarrow> ('w, string \<times> bool) action" where
  "escalate_if S allowed answer packet =
     (if \<not> allowed
      then ret (answer @ nl @ nl @ ''[Local-only policy: cloud escalation not permitted.]'', False)
      else diagnose S answer packet)"

definition escalate_after_failure ::
  "('p, 'w) sifter \<Rightarrow> string \<Rightarrow> outcome \<Rightarrow> classification \<Rightarrow> string list \<Rightarrow> string list \<Rightarrow> bool \<Rightarrow> bool \<Rightarrow>
     ('w, string \<times> bool) action" where
  "escalate_after_failure S prompt oc cls human_constraints approved_decisions allowed autonomy_grant =
     (let request = failure_request prompt (oc_verification oc) (oc_failed_attempts oc) cls;
          out = evaluate request True;
          answer = oc_answer oc;
          packet = failure_packet prompt oc (er_reason request) human_constraints approved_decisions
                     (cls_level cls)
      in andthen (update_usage (\<lambda>u. u\<lparr>escalations := escalations u + 1\<rparr>))
         (if eo_requires_human_approval out \<and> \<not> autonomy_grant
          then andthen (log ''decision'' ''escalation implies architecture change; asking user'' [])
               (bnd (ask_human S escalation_approval) (\<lambda>d.
                andthen (note_approval (escalation_note d))
                (andthen (update_usage count_request)
                (if \<not> authorized d
                 then ret (answer @ nl @ nl @ ''[Blocked: architectural escalation requires human approval.]'',
                           False)
                 else escalate_if S (hd_action d = ALLOW_EXPERT_ANALYSIS) answer packet))))
          else andthen (if eo_requires_human_approval out
                        then log ''decision'' ''standing rule grants autonomous cloud escalation'' []
                        else ret ())
               (escalate_if S allowed answer packet)))"

section \<open>The result\<close>

record sifter_result =
  sr_trace_id :: string
  sr_status :: string
  sr_answer :: string
  sr_route :: string
  sr_decision_level :: decision_level
  sr_requires_human_approval :: bool
  sr_blocked_reason :: "string option"
  sr_assessment :: "assessment option"
  sr_usage :: usage
  sr_approvals :: "approval_note list"
  sr_metadata :: "(string, pyval) dict"
  sr_trace_events :: "trace_event list"

definition run_ok :: "sifter_result \<Rightarrow> bool" where
  "run_ok r \<longleftrightarrow> sr_status r \<in> {''completed'', ''done''}"

definition run_row_of ::
  "('p, 'w) sifter \<Rightarrow> sifter_result \<Rightarrow> classification option \<Rightarrow> (string, pyval) dict \<Rightarrow> run_row" where
  "run_row_of S r cls metadata =
     \<lparr>run_trace_id = sr_trace_id r,
      run_prompt = (case dict_get metadata ''prompt'' of Some (PStr p) \<Rightarrow> p | _ \<Rightarrow> []),
      run_task_type = map_option as_task_type (sr_assessment r),
      run_complexity = map_option as_complexity (sr_assessment r),
      run_decision_level = map_option (\<lambda>c. level_value (cls_level c)) cls,
      run_approval_requested = (case cls of None \<Rightarrow> False | Some c \<Rightarrow> cls_requires_human_approval c),
      run_user_decision = (if sr_approvals r \<noteq> [] then Some (action_value (an_action (last (sr_approvals r))))
        else None),
      run_route = sr_route r,
      run_policy = pget metadata ''policy'',
      run_models = PDict [(''local'', PStr (local_model (sf_config S))), (''cloud'', PStr (cloud_model (sf_config S)))],
      run_input_tokens = local_input_tokens (sr_usage r) + cloud_input_tokens (sr_usage r),
      run_output_tokens = local_output_tokens (sr_usage r) + cloud_output_tokens (sr_usage r),
      run_cloud_calls = cloud_calls (sr_usage r), run_cloud_cost = cloud_cost (sr_usage r),
      run_retries = retries (sr_usage r), run_escalations = escalations (sr_usage r),
      run_verification_success = run_ok r, run_final_success = run_ok r,
      run_metadata = PDict metadata\<rparr>"

text \<open>\<^verbatim>\<open>_finish\<close>, without the memory sink, whose failures and effects stay outside a run.\<close>

definition finish ::
  "('p, 'w) sifter \<Rightarrow> string \<Rightarrow> string \<Rightarrow> classification option \<Rightarrow> assessment option \<Rightarrow>
     (string, pyval) dict \<Rightarrow> string option \<Rightarrow> string option \<Rightarrow> ('w, sifter_result) action" where
  "finish S status answer cls asmt metadata blocked_reason route =
     andthen (\<lambda>s. log ''aa_sifter'' ''complete''
                [(''status'', PStr status), (''cloud_calls'', PInt (cloud_calls (rs_usage s))),
                 (''cost'', PFloat (fround 6 (cloud_cost (rs_usage s))))] s)
     (\<lambda>s. let r = \<lparr>sr_trace_id = trace_id (rs_trace s), sr_status = status, sr_answer = answer,
              sr_route = (case route of Some k \<Rightarrow> k
                | None \<Rightarrow> (case asmt of Some a \<Rightarrow> as_recommended_route a | None \<Rightarrow> ''local'')),
              sr_decision_level = (case cls of Some c \<Rightarrow> cls_level c | None \<Rightarrow> ROUTINE),
              sr_requires_human_approval =
                (case cls of Some c \<Rightarrow> cls_requires_human_approval c | None \<Rightarrow> False),
              sr_blocked_reason = blocked_reason, sr_assessment = asmt, sr_usage = rs_usage s,
              sr_approvals = rs_approvals s,
              sr_metadata = dict_set ''cloud_cost'' (PFloat (fround 6 (cloud_cost (rs_usage s)))) metadata,
              sr_trace_events = (if debug (sf_config S) then tr_events (rs_trace s) else [])\<rparr>
          in (Inr r, s\<lparr>rs_trace := (rs_trace s)\<lparr>tr_history :=
                map_option (record_run (run_row_of S r cls metadata)) (tr_history (rs_trace s))\<rparr>\<rparr>))"

section \<open>A run\<close>

definition run_metadata_of ::
  "('p, 'w) sifter \<Rightarrow> string \<Rightarrow> string option \<Rightarrow> (string, pyval) dict \<Rightarrow> (string, pyval) dict" where
  "run_metadata_of S prompt policy metadata =
     (let setdefault = (\<lambda>k v d. if dict_get d k = None then dict_set k v d else d)
      in setdefault ''policy'' (PStr (case policy of None \<Rightarrow> routing_policy (sf_config S)
             | Some [] \<Rightarrow> routing_policy (sf_config S) | Some p \<Rightarrow> p))
           (setdefault ''prompt'' (PStr prompt) metadata))"

definition autonomy_grant :: "rule_engine \<Rightarrow> bool" where
  "autonomy_grant e \<longleftrightarrow> has_grant e ''cloud_auto_escalation'' \<or> has_grant e ''cloud_debug_failed_tests''"

text \<open>The budget and the trace a run starts with.\<close>

definition start_state ::
  "('p, 'w) sifter \<Rightarrow> string \<Rightarrow> pyfloat option \<Rightarrow> store option \<Rightarrow> 'w \<Rightarrow> 'w run_state" where
  "start_state S tid max_cloud_cost history w =
     (let waiver = (case max_cloud_cost of Some _ \<Rightarrow> None
            | None \<Rightarrow> cost_waiver_threshold (sf_rules S));
          (b, es) = new_budget_tracker (sf_config S) max_cloud_cost waiver
      in \<lparr>rs_world = w, rs_trace = log_all es (new_trace tid history), rs_usage = new_usage,
          rs_tracker = configure (Some (local_config S)) (Some (cloud_config S)) new_tracker,
          rs_budget = b, rs_approvals = [], rs_effects = []\<rparr>)"

definition gate_prompt :: "('p, 'w) sifter \<Rightarrow> string \<Rightarrow> ('w, classification) action" where
  "gate_prompt S prompt = (\<lambda>s.
     case gate_classify (sf_config S) (sf_rules S) (Plain prompt) None None (Some (rs_trace s)) of
       (cls, t) \<Rightarrow> (Inr cls, s\<lparr>rs_trace := the t\<rparr>))"

definition effective_policy :: "('p, 'w) sifter \<Rightarrow> string option \<Rightarrow> bool \<Rightarrow> string option" where
  "effective_policy S policy force_local =
     (let p = (if force_local then Some ''local_only'' else policy)
      in if \<not> cloud_allowed (sf_config S) then Some ''local_only'' else p)"

text \<open>\<^verbatim>\<open>(effective_policy or self.config.routing_policy) != "local_only"\<close>\<close>

definition cloud_permitted :: "('p, 'w) sifter \<Rightarrow> string option \<Rightarrow> bool" where
  "cloud_permitted S p \<longleftrightarrow> (case p of None \<Rightarrow> routing_policy (sf_config S)
     | Some [] \<Rightarrow> routing_policy (sf_config S) | Some q \<Rightarrow> q) \<noteq> ''local_only''"

definition route_of ::
  "('p, 'w) sifter \<Rightarrow> assessment \<Rightarrow> string option \<Rightarrow> ('w, route_decision) action" where
  "route_of S asmt policy =
     bnd (gets rs_budget) (\<lambda>b.
       (let d = decide (sf_config S) asmt policy 0 (0 < remaining_calls b \<and> \<not> exhausted b)
        in andthen (log ''router'' (''route='' @ kind_value (rt_kind d))
                      [(''reason'', PList (map PStr (rt_reasons d)))])
             (ret d)))"

text \<open>What follows the human's permission: route, execute, escalate, finish.\<close>

definition proceed ::
  "('p, 'w) sifter \<Rightarrow> string \<Rightarrow> string option \<Rightarrow> string option \<Rightarrow> (string, pyval) dict \<Rightarrow> classification \<Rightarrow>
     assessment \<Rightarrow> permission \<Rightarrow> ('w, sifter_result) action" where
  "proceed S prompt ctx policy metadata cls asmt pm =
     (let policy = effective_policy S policy (pm_force_local pm);
          grant = autonomy_grant (sf_rules S);
          allowed = cloud_permitted S policy \<and> (pm_allow_cloud pm \<or> \<not> is_major cls \<or> grant);
          metadata' = dict_set ''human_constraints'' (PList (map PStr (pm_constraints pm)))
            (dict_set ''approved_decisions'' (PList (map PStr (pm_decisions pm))) metadata)
      in bnd (route_of S asmt policy) (\<lambda>route.
         bnd (execute_route S prompt ctx route (pm_constraints pm) (pm_decisions pm)) (\<lambda>oc.
         bnd (if vr_passed (oc_verification oc) then ret (oc_answer oc, True)
              else escalate_after_failure S prompt oc cls (pm_constraints pm) (pm_decisions pm) allowed grant)
           (\<lambda>(answer, resolved).
         finish S (if resolved then ''completed'' else ''failed'') answer (Some cls) (Some asmt) metadata' None
           (Some (kind_value (rt_kind route)))))))"

definition no_permission :: permission where
  "no_permission = \<lparr>pm_constraints = [], pm_decisions = [], pm_allow_cloud = False, pm_force_local = False\<rparr>"

definition decide_and_proceed ::
  "('p, 'w) sifter \<Rightarrow> string \<Rightarrow> string option \<Rightarrow> string option \<Rightarrow> (string, pyval) dict \<Rightarrow> classification \<Rightarrow>
     assessment \<Rightarrow> ('w, sifter_result) action" where
  "decide_and_proceed S prompt ctx policy metadata cls asmt =
     (if cls_requires_human_approval cls
      then bnd (handle_major_decision S prompt ctx cls) (\<lambda>out. case out of
             None \<Rightarrow> finish S ''stopped'' ''No action taken. The decision requires human authorization.''
                       (Some cls) (Some asmt) metadata (Some ''awaiting human decision'') None
           | Some pm \<Rightarrow> proceed S prompt ctx policy metadata cls
                 (assess (sf_config S) prompt ctx 0 0 None (Some cls)) pm)
      else proceed S prompt ctx policy metadata cls asmt no_permission)"

definition run_impl ::
  "('p, 'w) sifter \<Rightarrow> string \<Rightarrow> string option \<Rightarrow> string option \<Rightarrow> (string, pyval) dict \<Rightarrow>
     ('w, sifter_result) action" where
  "run_impl S prompt ctx policy metadata =
     andthen (log ''aa_sifter'' ''start'' [(''prompt'', PStr (take 200 prompt))])
     (bnd (gate_prompt S prompt) (\<lambda>cls.
      (let asmt = assess (sf_config S) prompt ctx 0 0 None (Some cls)
       in handle (decide_and_proceed S prompt ctx policy metadata cls asmt)
            (\<lambda>e. case e of
               BudgetExceeded msg _ _ _ \<Rightarrow>
                 finish S ''blocked'' (''Cloud budget limit reached: '' @ msg) (Some cls) (Some asmt) metadata
                   (Some msg) None
             | ProviderError msg st rt \<Rightarrow>
                 finish S ''error'' (''Model provider error: '' @ msg) (Some cls) (Some asmt) metadata
                   (Some msg) None
             | _ \<Rightarrow> raise e))))"

definition run ::
  "('p, 'w) sifter \<Rightarrow> string \<Rightarrow> string \<Rightarrow> string option \<Rightarrow> string option \<Rightarrow> pyfloat option \<Rightarrow>
     (string, pyval) dict \<Rightarrow> store option \<Rightarrow> 'w \<Rightarrow> sifter_result result \<times> 'w run_state" where
  "run S tid prompt ctx policy max_cloud_cost metadata history w =
     run_impl S prompt ctx policy (run_metadata_of S prompt policy metadata)
       (start_state S tid max_cloud_cost history w)"

text \<open>\<^verbatim>\<open>generate\<close>, the entry point that bypasses the gate; \<open>tier_name\<close> in any case.\<close>

definition generate ::
  "('p, 'w) sifter \<Rightarrow> message list \<Rightarrow> string \<Rightarrow> ('w, gen_result) action" where
  "generate S ms tier_name =
     (let t = (if lower tier_name \<in> {''expert'', ''cloud''} then EXPERT else LOCAL);
          model = tier_model S t;
          call = (\<lambda>prepared. \<lparr>gc_model = mc_name model, gc_messages = prepared, gc_temperature = None,
            gc_max_tokens = None, gc_timeout = mc_timeout_seconds model\<rparr>)
      in bnd (lift_result (provider_for (sf_registry S) (mc_name model) (Some (mc_provider model)))) (\<lambda>provider.
         if is_cloud_bound t model
         then (if \<not> cloud_allowed (sf_config S)
               then raise (provider_error ''cloud is disabled by the active profile (cloud_allowed = false)'')
               else call_provider S t ''generate'' provider
                      (call (fst (redact_model_messages (redact_secrets (sf_config S)) ms))))
         else call_provider S t ''generate'' provider (call ms)))"

end
