(* ===== verification/Rpc.thy ===== *)
theory Rpc
  imports ContractBridge PyStr Sifter
begin

text \<open>
  \<^verbatim>\<open>rpc/envelope.py\<close> and \<^verbatim>\<open>rpc/service.py\<close>: the JSON-RPC service over a sifter.  The service
  keeps the payloads it has generated by their idempotency key; the rest of its state is the
  sifter's.  \<^verbatim>\<open>sifter.recommend\<close> decodes its parameters with pydantic and may probe the host:
  it is the argument \<open>recommend\<close>.
\<close>

section \<open>Envelopes\<close>

definition RPC_VERSION :: string where
  "RPC_VERSION = ''1.0''"

definition INVALID_PARAMS :: pyval where
  "INVALID_PARAMS = PInt (- 32602)"

definition METHOD_NOT_FOUND :: pyval where
  "METHOD_NOT_FOUND = PInt (- 32601)"

definition INTERNAL_ERROR :: pyval where
  "INTERNAL_ERROR = PInt (- 32603)"

definition INCOMPATIBLE :: pyval where
  "INCOMPATIBLE = PStr ''aa.incompatible''"

definition UNAVAILABLE :: pyval where
  "UNAVAILABLE = PStr ''aa.unavailable''"

definition success :: "pyval \<Rightarrow> pyval \<Rightarrow> contract" where
  "success request_id r = [(''jsonrpc'', PStr ''2.0''), (''id'', request_id), (''result'', r)]"

definition failure :: "pyval \<Rightarrow> pyval \<Rightarrow> string \<Rightarrow> contract option \<Rightarrow> contract" where
  "failure request_id code msg data =
     [(''jsonrpc'', PStr ''2.0''), (''id'', request_id),
      (''error'', PDict ([(''code'', code), (''message'', PStr msg)] @ opt_field ''data'' PDict data))]"

text \<open>\<^verbatim>\<open>aa.get\<close> raises on what is neither false nor a dictionary.\<close>

definition major_of :: "string \<Rightarrow> string" where
  "major_of s = takeWhile (\<lambda>c. c \<noteq> CHR ''.'') s"

definition is_compatible :: "(rat \<Rightarrow> string) \<Rightarrow> pyval \<Rightarrow> bool result" where
  "is_compatible fr aa =
     (if \<not> truthy aa then Inr True
      else case aa of
        PDict d \<Rightarrow> Inr (major_of (py_str fr (get_default d ''rpcVersion'' (PStr RPC_VERSION))) = major_of RPC_VERSION)
      | _ \<Rightarrow> Inl (AttributeError ''object has no attribute get''))"

section \<open>Routing\<close>

definition tier_name :: "tier option \<Rightarrow> string" where
  "tier_name t = (case t of None \<Rightarrow> ''none'' | Some t \<Rightarrow> tier_value t)"

definition estimated_cost :: "('p, 'w) sifter \<Rightarrow> int \<Rightarrow> pyfloat" where
  "estimated_cost S input_tokens =
     (let output = (case expert_max_output_tokens (sf_config S) of
            None \<Rightarrow> DEFAULT_EXPERT_MAX_OUTPUT
          | Some n \<Rightarrow> if n = 0 then DEFAULT_EXPERT_MAX_OUTPUT else n)
      in estimate_cost (cloud_config S) (max 0 input_tokens) output)"

text \<open>
  The classifier, the assessor and the engine take texts.  A prompt of another type fails in
  the classifier's regular expressions, a context of another type in \<^verbatim>\<open>len\<close>; only a context
  that is a list or a dictionary, which the schema excludes, would get past it, and the model
  lets it fail as well.  A policy that is not a string is coerced like an unknown one.
\<close>

fun prompt_text :: "pyval \<Rightarrow> string result" where
  "prompt_text (PStr s) = Inr s"
| "prompt_text v = Inl (TypeError ''expected string or bytes-like object'')"

definition context_text :: "pyval \<Rightarrow> string option result" where
  "context_text v = (if \<not> truthy v then Inr None
     else case v of PStr s \<Rightarrow> Inr (Some s) | _ \<Rightarrow> Inl (TypeError ''object has no len()''))"

definition effective_policy_of :: "config \<Rightarrow> pyval \<Rightarrow> string" where
  "effective_policy_of c v =
     (if \<not> cloud_allowed c then ''local_only''
      else if truthy v then (case v of PStr s \<Rightarrow> s | _ \<Rightarrow> ''not a policy'') else routing_policy c)"

definition route_answer_of ::
  "('p, 'w) sifter \<Rightarrow> string \<Rightarrow> string option \<Rightarrow> string \<Rightarrow> route_answer" where
  "route_answer_of S prompt ctx policy =
     (let c = sf_config S;
          cls = classify prompt None None None;
          asmt = assess c prompt ctx 0 0 None (Some cls);
          d = decide c asmt (Some policy) 0 True;
          blocked = (uses_cloud d \<and> \<not> cloud_allowed c)
      in \<lparr>ra_route = (if blocked then ''blocked'' else kind_value (rt_kind d)),
          ra_level = level_value (cls_level cls),
          ra_approval = cls_requires_human_approval cls,
          ra_reasons = rt_reasons d @ cls_reasons cls,
          ra_planner = Some (tier_name (rt_planner_tier d)),
          ra_executor = Some (tier_name (Some (rt_executor_tier d))),
          ra_review = Some (tier_name (rt_review_tier d)),
          ra_blocked_reason = (if blocked then Some ''cloud is disabled by the active profile'' else None),
          ra_cost = Some (estimated_cost S (as_context_requirement asmt))\<rparr>)"

definition rpc_route :: "('p, 'w) sifter \<Rightarrow> bool \<Rightarrow> string \<Rightarrow> pyval \<Rightarrow> contract result" where
  "rpc_route S available uid request =
     (case route_request_kwargs available request of
        Inl e \<Rightarrow> Inl e
      | Inr k \<Rightarrow> (case prompt_text (rk_prompt k) of
          Inl e \<Rightarrow> Inl e
        | Inr prompt \<Rightarrow> (case context_text (rk_context k) of
            Inl e \<Rightarrow> Inl e
          | Inr ctx \<Rightarrow> (case request of
              PDict d \<Rightarrow> make_route_response available uid d
                (route_answer_of S prompt ctx (effective_policy_of (sf_config S) (rk_policy k)))
            | _ \<Rightarrow> Inl (AttributeError ''object has no attribute get'')))))"

section \<open>Generation\<close>

text \<open>Python's equality of keys: numbers and truth values compare by value.\<close>

fun key_of :: "pyval \<Rightarrow> pyval result" where
  "key_of (PBool b) = Inr (PFloat (if b then 1 else 0))"
| "key_of (PInt i) = Inr (PFloat (of_int i))"
| "key_of (PList xs) = Inl (TypeError ''unhashable type'')"
| "key_of (PDict d) = Inl (TypeError ''unhashable type'')"
| "key_of v = Inr v"

definition message_of :: "(rat \<Rightarrow> string) \<Rightarrow> pyval \<Rightarrow> message result" where
  "message_of fr item = (case item of
     PDict d \<Rightarrow>
       (case dict_get d ''content'' of
          None \<Rightarrow> Inl (ContractError ''messages: each message needs role and content'')
        | Some c \<Rightarrow>
            (let role = py_str fr (get_default d ''role'' (PStr ''user''))
             in case role_of_value role of
                  None \<Rightarrow> Inl (ContractError (''messages: invalid role '' @ repr_string role))
                | Some r \<Rightarrow> Inr \<lparr>msg_role = r, content = py_str fr c\<rparr>))
   | _ \<Rightarrow> Inl (ContractError ''messages: each message needs role and content''))"

fun messages_of :: "(rat \<Rightarrow> string) \<Rightarrow> pyval list \<Rightarrow> message list result" where
  "messages_of fr [] = Inr []"
| "messages_of fr (v # vs) = (case message_of fr v of Inl e \<Rightarrow> Inl e
     | Inr m \<Rightarrow> (case messages_of fr vs of Inl e \<Rightarrow> Inl e | Inr ms \<Rightarrow> Inr (m # ms)))"

definition payload_of :: "gen_result \<Rightarrow> pyval" where
  "payload_of r = PDict [(''text'', PStr (gr_text r)), (''usage'', PDict [
     (''model'', PStr (gr_model r)), (''tier'', PStr (tier_value (gr_tier r))),
     (''inputTokens'', PInt (gr_input_tokens r)), (''outputTokens'', PInt (gr_output_tokens r))])]"

record 'w service_state =
  sv_idempotent :: "(pyval, pyval) dict"
  sv_run :: "'w run_state"

definition generate_fresh ::
  "(rat \<Rightarrow> string) \<Rightarrow> ('p, 'w) sifter \<Rightarrow> contract \<Rightarrow> ('w, pyval) action" where
  "generate_fresh fr S params =
     (case field_of params ''messages'' of
        PList (v # vs) \<Rightarrow>
          bnd (lift_result (messages_of fr (v # vs))) (\<lambda>ms.
          bnd (generate S ms (py_str fr (get_default params ''tier'' (PStr ''local'')))) (\<lambda>r.
          ret (payload_of r)))
      | _ \<Rightarrow> raise (ContractError ''messages: at least one message is required''))"

definition rpc_generate ::
  "(rat \<Rightarrow> string) \<Rightarrow> ('p, 'w) sifter \<Rightarrow> pyval \<Rightarrow> 'w service_state \<Rightarrow> pyval result \<times> 'w service_state" where
  "rpc_generate fr S v s = (case v of
     PDict params \<Rightarrow>
       (if field_of params ''idempotencyKey'' = PNone
        then (case generate_fresh fr S params (sv_run s) of (r, rs) \<Rightarrow> (r, s\<lparr>sv_run := rs\<rparr>))
        else case key_of (field_of params ''idempotencyKey'') of
          Inl e \<Rightarrow> (Inl e, s)
        | Inr key \<Rightarrow> (case dict_get (sv_idempotent s) key of
            Some payload \<Rightarrow> (Inr payload, s)
          | None \<Rightarrow> (case generate_fresh fr S params (sv_run s) of
              (Inl e, rs) \<Rightarrow> (Inl e, s\<lparr>sv_run := rs\<rparr>)
            | (Inr payload, rs) \<Rightarrow> (Inr payload,
                \<lparr>sv_idempotent = dict_set key payload (sv_idempotent s), sv_run = rs\<rparr>))))
   | _ \<Rightarrow> (Inl (AttributeError ''object has no attribute get''), s))"

section \<open>Health and dispatch\<close>

definition or_text :: "string option \<Rightarrow> string \<Rightarrow> string" where
  "or_text x d = (case x of None \<Rightarrow> d | Some [] \<Rightarrow> d | Some s \<Rightarrow> s)"

definition rpc_health :: "config \<Rightarrow> bool \<Rightarrow> pyval" where
  "rpc_health c available = PDict [
     (''available'', PBool True),
     (''providers'', PList [
        PDict [(''name'', PStr (local_provider c)), (''tier'', PStr ''local''), (''available'', PBool True),
               (''endpoint'', PStr (or_text (local_endpoint c) (ollama_host c)))],
        PDict [(''name'', PStr (expert_provider c)), (''tier'', PStr ''expert''),
               (''available'', PBool (cloud_allowed c)),
               (''keyEnv'', case expert_api_key_env c of None \<Rightarrow> PNone | Some k \<Rightarrow> PStr k)]]),
     (''rpcVersion'', PStr RPC_VERSION),
     (''contractVersion'', PStr CONTRACT_VERSION),
     (''contractsAvailable'', PBool available),
     (''capabilities'', PList (map PStr [''route'', ''generate'', ''health'', ''recommend'']))]"

text \<open>The \<^verbatim>\<open>except\<close> clauses.\<close>

fun error_response :: "pyval \<Rightarrow> py_error \<Rightarrow> contract" where
  "error_response i (ContractError m) = failure i INVALID_PARAMS m None"
| "error_response i (ProviderError m st rt) =
     failure i UNAVAILABLE m (Some [(''retryable'', PBool rt)])"
| "error_response i e = failure i INTERNAL_ERROR (err_text e) None"

definition respond :: "pyval \<Rightarrow> pyval result \<Rightarrow> contract" where
  "respond i r = (case r of Inl e \<Rightarrow> error_response i e | Inr v \<Rightarrow> success i v)"

definition rpc_handle ::
  "(rat \<Rightarrow> string) \<Rightarrow> (pyval \<Rightarrow> pyval result) \<Rightarrow> ('p, 'w) sifter \<Rightarrow> bool \<Rightarrow> string \<Rightarrow> contract \<Rightarrow>
     'w service_state \<Rightarrow> contract result \<times> 'w service_state" where
  "rpc_handle fr recommend S available uid message s =
     (let request_id = field_of message ''id'';
          rpc_method = field_of message ''method'';
          params = or_dict (field_of message ''params'');
          aa = or_dict (field_of message ''aa'')
      in case is_compatible fr aa of
           Inl e \<Rightarrow> (Inl e, s)
         | Inr False \<Rightarrow> (Inr (failure request_id INCOMPATIBLE ''unsupported RPC major''
             (Some [(''rpcVersion'', case aa of PDict d \<Rightarrow> field_of d ''rpcVersion'' | _ \<Rightarrow> PNone)])), s)
         | Inr True \<Rightarrow>
             (if rpc_method = PStr ''sifter.route''
              then (Inr (respond request_id (map_sum id PDict (rpc_route S available uid params))), s)
              else if rpc_method = PStr ''sifter.generate''
              then (case rpc_generate fr S params s of (r, s) \<Rightarrow> (Inr (respond request_id r), s))
              else if rpc_method = PStr ''sifter.health''
              then (Inr (respond request_id (Inr (rpc_health (sf_config S) available))), s)
              else if rpc_method = PStr ''sifter.recommend''
              then (Inr (respond request_id (recommend params)), s)
              else (Inr (failure request_id METHOD_NOT_FOUND (''unknown method '' @ py_repr fr rpc_method) None), s)))"

end
