(* ===== verification/SifterFacts.thy ===== *)
theory SifterFacts
  imports Sifter
begin

text \<open>
  What a run of the sifter can and cannot do.  \<open>emits A m\<close> says that \<open>m\<close> only appends to the
  effects, and only effects in \<open>A\<close>; it composes along the structure of a program.  The facts
  about consent are invariants on the effects: some calls have an answer of the human before
  them.
\<close>

named_theorems emits_intros \<open>the effects of a program\<close>

section \<open>What a program appends\<close>

definition emits :: "(effect \<Rightarrow> bool) \<Rightarrow> ('w, 'a) action \<Rightarrow> bool" where
  "emits A m \<longleftrightarrow> (\<forall>s. \<exists>es. rs_effects (snd (m s)) = rs_effects s @ es \<and> list_all A es)"

lemma emitsD: "emits A m \<Longrightarrow> \<exists>es. rs_effects (snd (m s)) = rs_effects s @ es \<and> list_all A es"
  by (simp add: emits_def)

lemma emits_mono: "emits A m \<Longrightarrow> (\<And>e. A e \<Longrightarrow> B e) \<Longrightarrow> emits B m"
  unfolding emits_def by (meson list.pred_mono_strong)

lemma emits_same: "(\<And>s. rs_effects (snd (m s)) = rs_effects s) \<Longrightarrow> emits A m"
  by (simp add: emits_def)

lemma emits_ret [emits_intros]: "emits A (ret x)"
  and emits_raise [emits_intros]: "emits A (raise e)"
  and emits_gets [emits_intros]: "emits A (gets f)"
  by (simp_all add: emits_def prog_defs)

lemma emits_bnd [emits_intros]:
  assumes "emits A m" "\<And>x. emits A (f x)"
  shows "emits A (bnd m f)"
  unfolding emits_def
proof
  fix s
  obtain r t where m: "m s = (r, t)" by (cases "m s")
  obtain es where es: "rs_effects t = rs_effects s @ es" "list_all A es"
    using emitsD [OF assms(1), of s] m by auto
  show "\<exists>es. rs_effects (snd (bnd m f s)) = rs_effects s @ es \<and> list_all A es"
  proof (cases r)
    case (Inl e)
    with m es show ?thesis by (simp add: bnd_def)
  next
    case (Inr x)
    obtain fs where "rs_effects (snd (f x t)) = rs_effects t @ fs" "list_all A fs"
      using emitsD [OF assms(2), of x t] by auto
    with m es Inr show ?thesis by (auto simp: bnd_def)
  qed
qed

lemma emits_andthen [emits_intros]: "emits A m \<Longrightarrow> emits A n \<Longrightarrow> emits A (andthen m n)"
  unfolding andthen_def by (rule emits_bnd)

lemma emits_handle [emits_intros]:
  assumes "emits A m" "\<And>e. emits A (h e)"
  shows "emits A (handle m h)"
  unfolding emits_def
proof
  fix s
  obtain r t where m: "m s = (r, t)" by (cases "m s")
  obtain es where es: "rs_effects t = rs_effects s @ es" "list_all A es"
    using emitsD [OF assms(1), of s] m by auto
  show "\<exists>es. rs_effects (snd (handle m h s)) = rs_effects s @ es \<and> list_all A es"
  proof (cases r)
    case (Inl e)
    obtain fs where "rs_effects (snd (h e t)) = rs_effects t @ fs" "list_all A fs"
      using emitsD [OF assms(2), of e t] by auto
    with m es Inl show ?thesis by (auto simp: handle_def)
  next
    case (Inr x)
    with m es show ?thesis by (simp add: handle_def)
  qed
qed

lemma emits_if [emits_intros]:
  "(b \<Longrightarrow> emits A m) \<Longrightarrow> (\<not> b \<Longrightarrow> emits A n) \<Longrightarrow> emits A (if b then m else n)"
  by simp

lemma emits_log [emits_intros]: "emits A (log c m fs)"
  and emits_usage [emits_intros]: "emits A (update_usage f)"
  and emits_note [emits_intros]: "emits A (note_approval n)"
  and emits_verify [emits_intros]: "emits A (verify_answer S answer)"
  and emits_check [emits_intros]: "emits A (check_budget i x)"
  and emits_record [emits_intros]: "emits A (record_result S t p g)"
  and emits_lift [emits_intros]: "emits A (lift_result r)"
  by (simp_all add: emits_def log_def update_usage_def note_approval_def verify_answer_def
      check_budget_def record_result_def lift_result_def prog_defs split: prod.splits sum.splits)

lemma emits_finish [emits_intros]: "emits A (finish S st a c asm md br rt)"
  by (simp add: emits_def finish_def log_def prog_defs Let_def)

lemma emits_on_provider_error [emits_intros]:
  "emits A m \<Longrightarrow> (\<And>msg. emits A (h msg)) \<Longrightarrow> emits A (on_provider_error m h)"
  unfolding on_provider_error_def
  by (rule emits_handle) (auto intro: emits_raise split: py_error.split)

lemma emits_on_budget_exceeded [emits_intros]:
  "emits A m \<Longrightarrow> (\<And>msg. emits A (h msg)) \<Longrightarrow> emits A (on_budget_exceeded m h)"
  unfolding on_budget_exceeded_def
  by (rule emits_handle) (auto intro: emits_raise split: py_error.split)

lemma emits_redact [emits_intros]: "emits A (redact_cloud_messages S ms p)"
  unfolding redact_cloud_messages_def Let_def split_beta by (intro emits_intros)

lemma emits_outbound [emits_intros]: "emits A (outbound_messages S t ms p)"
  unfolding outbound_messages_def by (intro emits_intros)

lemma emits_expert_budget [emits_intros]: "emits A (check_expert_budget S t ms)"
  unfolding check_expert_budget_def Let_def by (intro emits_intros)

lemma emits_ask: "emits (\<lambda>e. \<exists>d. e = EAsk r d) (ask_human S r)"
  by (auto simp: emits_def ask_human_def split: prod.split)

lemma emits_gate [emits_intros]: "emits A (gate_prompt S p)"
  by (simp add: emits_def gate_prompt_def split: prod.split)

lemma emits_route [emits_intros]: "emits A (route_of S a p)"
  unfolding route_of_def Let_def by (intro emits_intros)

section \<open>Calls\<close>

text \<open>
  A call the sifter makes: the model of its tier, and, where it can leave the machine,
  a profile that allows it and messages that are the redactor's output.
\<close>

definition disciplined :: "('p, 'w) sifter \<Rightarrow> tier \<Rightarrow> gen_call \<Rightarrow> bool" where
  "disciplined S t c \<longleftrightarrow>
     gc_model c = mc_name (tier_model S t) \<and>
     (is_cloud_bound t (tier_model S t) \<longrightarrow> cloud_allowed (sf_config S) \<and>
        (\<exists>ms. gc_messages c = fst (redact_model_messages (redact_secrets (sf_config S)) ms)))"

definition call_ok :: "('p, 'w) sifter \<Rightarrow> tier \<Rightarrow> string \<Rightarrow> effect \<Rightarrow> bool" where
  "call_ok S t purpose e \<longleftrightarrow> (\<exists>c. e = ECall t purpose c \<and> disciplined S t c)"

lemma outbound_value:
  "outbound_messages S t ms p s = (Inr out, s') \<Longrightarrow>
   is_cloud_bound t (tier_model S t) \<longrightarrow> cloud_allowed (sf_config S) \<and>
     (\<exists>ms. out = fst (redact_model_messages (redact_secrets (sf_config S)) ms))"
  by (auto simp: outbound_messages_def redact_cloud_messages_def log_def prog_defs Let_def split_beta
      split: if_splits)

lemma emits_bnd_value:
  assumes "\<And>B. emits B m" "\<And>x s t. m s = (Inr x, t) \<Longrightarrow> P x" "\<And>x. P x \<Longrightarrow> emits A (f x)"
  shows "emits A (bnd m f)"
  unfolding emits_def
proof
  fix s
  obtain r t where m: "m s = (r, t)" by (cases "m s")
  have same: "rs_effects t = rs_effects s"
    using emitsD [OF assms(1) [of "\<lambda>_. False"], of s] m by (auto simp: list_all_iff)
  show "\<exists>es. rs_effects (snd (bnd m f s)) = rs_effects s @ es \<and> list_all A es"
  proof (cases r)
    case (Inl e)
    with m same show ?thesis by (simp add: bnd_def)
  next
    case (Inr x)
    from emitsD [OF assms(3) [OF assms(2)], OF m [unfolded Inr], of t] m same Inr
    show ?thesis by (simp add: bnd_def)
  qed
qed

lemma emits_call_provider:
  "A (ECall t p c) \<Longrightarrow> emits A (call_provider S t p prov c)"
  by (simp add: emits_def call_provider_def split: prod.split)

lemma emits_call_tier: "emits (call_ok S t p) (call_tier S t ms p)"
  unfolding call_tier_def Let_def
  by (rule emits_bnd [OF emits_lift],
      rule emits_bnd_value [OF emits_outbound, OF outbound_value], assumption,
      intro emits_intros emits_call_provider)
    (simp add: call_ok_def disciplined_def)

section \<open>The steps of a run\<close>

definition effect_ok :: "('p, 'w) sifter \<Rightarrow> effect \<Rightarrow> bool" where
  "effect_ok S e = (case e of EAsk _ _ \<Rightarrow> True | ECall t _ c \<Rightarrow> disciplined S t c)"

definition local_call :: "effect \<Rightarrow> bool" where
  "local_call e \<longleftrightarrow> (\<exists>p c. e = ECall LOCAL p c)"

lemma call_ok_effect_ok: "call_ok S t p e \<Longrightarrow> effect_ok S e"
  by (auto simp: call_ok_def effect_ok_def)

lemma call_ok_local: "call_ok S LOCAL p e \<Longrightarrow> local_call e"
  by (auto simp: call_ok_def local_call_def)

lemma emits_call_ok [emits_intros]: "emits (effect_ok S) (call_tier S t ms p)"
  by (rule emits_mono [OF emits_call_tier call_ok_effect_ok])

lemma emits_ask_ok [emits_intros]: "emits (effect_ok S) (ask_human S' r)"
  by (rule emits_mono [OF emits_ask]) (auto simp: effect_ok_def)

lemma emits_analysis: "emits (call_ok S EXPERT ''expert_analysis'') (expert_analysis S p c cs)"
  unfolding expert_analysis_def Let_def by (intro emits_intros emits_call_tier)

lemma emits_attempts:
  "emits (call_ok S LOCAL ''local_execute'') (local_attempts S base as oc)"
proof (induction "as" arbitrary: oc)
  case Nil
  show ?case by (simp add: emits_ret)
next
  case (Cons a "as")
  show ?case
    by (simp only: local_attempts.simps, intro emits_intros emits_call_tier)
      (auto intro!: emits_intros Cons split: sum.split)
qed

lemma emits_attempts_ok [emits_intros]: "emits (effect_ok S) (local_attempts S base as oc)"
  by (rule emits_mono [OF emits_attempts call_ok_effect_ok])

lemma emits_analysis_ok [emits_intros]: "emits (effect_ok S) (expert_analysis S p c cs)"
  by (rule emits_mono [OF emits_analysis call_ok_effect_ok])

lemma emits_ask_to_implement [emits_intros]: "emits (effect_ok S) (ask_to_implement S a l cs)"
  unfolding ask_to_implement_def by (intro emits_intros)

lemma emits_analyse [emits_intros]: "emits (effect_ok S) (analyse_and_ask S p c cs)"
  unfolding analyse_and_ask_def split_beta by (intro emits_intros)

lemma emits_after_decision [emits_intros]: "emits (effect_ok S) (after_decision S p c d)"
  unfolding after_decision_def by (intro emits_intros)

lemma emits_major [emits_intros]: "emits (effect_ok S) (handle_major_decision S p c cls)"
  unfolding handle_major_decision_def by (intro emits_intros)

lemma emits_review [emits_intros]: "emits (effect_ok S) (review S plan a)"
  unfolding review_def by (intro emits_intros)

lemma emits_execute [emits_intros]: "emits (effect_ok S) (execute_route S p c r cs ds)"
  unfolding execute_route_def execute_cloud_def execute_hybrid_def Let_def
  by (cases "rt_kind r") (simp_all only: route_kind.case, (intro emits_intros)+)

lemma emits_escalate_if [emits_intros]: "emits (effect_ok S) (escalate_if S al a pk)"
  unfolding escalate_if_def diagnose_def Let_def by (intro emits_intros)

lemma emits_escalate [emits_intros]: "emits (effect_ok S) (escalate_after_failure S p oc cls cs ds al g)"
  unfolding escalate_after_failure_def Let_def by (intro emits_intros)

lemma emits_proceed [emits_intros]: "emits (effect_ok S) (proceed S p c pol md cls a pm)"
  unfolding proceed_def Let_def split_beta by (intro emits_intros)

lemma emits_decide [emits_intros]: "emits (effect_ok S) (decide_and_proceed S p c pol md cls a)"
  unfolding decide_and_proceed_def
  by (intro emits_intros) (auto intro: emits_intros split: option.split)

lemma emits_run_impl: "emits (effect_ok S) (run_impl S p c pol md)"
  unfolding run_impl_def Let_def
  by (intro emits_intros) (auto intro: emits_intros split: py_error.split)

lemma run_effects_ok: "list_all (effect_ok S) (rs_effects (snd (run S tid p c pol mc md h w)))"
  using emitsD [OF emits_run_impl, of S p c pol "run_metadata_of S p pol md" "start_state S tid mc h w"]
  by (auto simp: run_def start_state_def Let_def split: prod.split)

section \<open>Consent\<close>

text \<open>
  \<open>preceded b P Q es\<close>: every effect in \<open>Q\<close> comes after one in \<open>P\<close>, unless \<open>b\<close> says that one
  came already.
\<close>

fun preceded :: "bool \<Rightarrow> (effect \<Rightarrow> bool) \<Rightarrow> (effect \<Rightarrow> bool) \<Rightarrow> effect list \<Rightarrow> bool" where
  "preceded b P Q [] = True"
| "preceded b P Q (e # es) = ((Q e \<longrightarrow> b) \<and> preceded (b \<or> P e) P Q es)"

lemma preceded_append:
  "preceded b P Q (es @ fs) \<longleftrightarrow> preceded b P Q es \<and> preceded (b \<or> list_ex P es) P Q fs"
  by (induction es arbitrary: b) (auto simp: disj_assoc)

lemma preceded_True [simp]: "preceded True P Q es"
  by (induction es) auto

lemma preceded_quiet: "list_all (\<lambda>e. \<not> Q e) es \<Longrightarrow> preceded b P Q es"
  by (induction es arbitrary: b) auto

lemma preceded_iff:
  "preceded b P Q es \<longleftrightarrow> (\<forall>us e vs. es = us @ e # vs \<longrightarrow> Q e \<longrightarrow> b \<or> list_ex P us)"
proof
  show "preceded b P Q es \<Longrightarrow> \<forall>us e vs. es = us @ e # vs \<longrightarrow> Q e \<longrightarrow> b \<or> list_ex P us"
    by (auto simp: preceded_append)
  assume "\<forall>us e vs. es = us @ e # vs \<longrightarrow> Q e \<longrightarrow> b \<or> list_ex P us"
  then show "preceded b P Q es"
  proof (induction es arbitrary: b)
    case (Cons x xs)
    have "Q x \<longrightarrow> b" using Cons.prems [rule_format, of "[]" x xs] by auto
    moreover have "preceded (b \<or> P x) P Q xs"
      by (rule Cons.IH) (use Cons.prems [rule_format, of "x # us" for us] in fastforce)
    ultimately show ?case by simp
  qed simp
qed

definition J :: "(effect \<Rightarrow> bool) \<Rightarrow> (effect \<Rightarrow> bool) \<Rightarrow> bool \<Rightarrow> 'w run_state \<Rightarrow> bool" where
  "J P Q b s \<longleftrightarrow> preceded False P Q (rs_effects s) \<and> (b \<longrightarrow> list_ex P (rs_effects s))"

lemma J_weaken: "J P Q b s \<Longrightarrow> J P Q False s"
  by (simp add: J_def)

lemma keeps_J_quiet:
  assumes "emits A m" "\<And>e. A e \<Longrightarrow> \<not> Q e"
  shows "keeps (J P Q b) m"
proof (rule keepsI)
  fix s :: "'a run_state"
  assume J: "J P Q b s"
  obtain es where "rs_effects (snd (m s)) = rs_effects s @ es" "list_all A es"
    using emitsD [OF assms(1)] by blast
  moreover then have "list_all (\<lambda>e. \<not> Q e) es"
    using assms(2) by (auto simp: list_all_iff)
  ultimately show "J P Q b (snd (m s))"
    using J by (auto simp: J_def preceded_append preceded_quiet)
qed

lemma keeps_J_done:
  assumes "emits A m"
  shows "keeps (J P Q True) m"
proof (rule keepsI)
  fix s :: "'a run_state"
  assume J: "J P Q True s"
  obtain es where "rs_effects (snd (m s)) = rs_effects s @ es"
    using emitsD [OF assms] by blast
  with J show "J P Q True (snd (m s))" by (simp add: J_def preceded_append)
qed

lemma triple_J_ask:
  "(\<And>d. \<not> Q (EAsk r d)) \<Longrightarrow>
   triple (J P Q b) (ask_human S r) (\<lambda>d. J P Q (b \<or> P (EAsk r d))) E"
  by (auto simp: triple_def ask_human_def J_def preceded_append split: prod.split)

lemma triple_keeps: "keeps (J P Q b) m \<Longrightarrow> triple (J P Q b) m (\<lambda>_. J P Q b) (\<lambda>_. J P Q False)"
  unfolding keeps_def by (erule triple_conseq) (auto intro: J_weaken)

lemma triple_done:
  "emits A m \<Longrightarrow> (\<And>x s. J P Q True s \<Longrightarrow> R x s) \<Longrightarrow> triple (J P Q True) m R (\<lambda>_. J P Q False)"
  by (rule triple_conseq [OF triple_keeps [OF keeps_J_done]]) auto

lemma triple_quiet:
  "emits A m \<Longrightarrow> (\<And>e. A e \<Longrightarrow> \<not> Q e) \<Longrightarrow>
   triple (J P Q b) m (\<lambda>_. J P Q b) (\<lambda>_. J P Q False)"
  by (rule triple_keeps [OF keeps_J_quiet])

lemma triple_silent:
  "emits (\<lambda>_. False) m \<Longrightarrow> triple (J P Q b) m (\<lambda>_. J P Q b) (\<lambda>_. J P Q False)"
  by (rule triple_quiet [where A = "\<lambda>_. False"]) auto

lemma triple_const: "triple I m (\<lambda>_. K) (\<lambda>_. K) \<Longrightarrow> I s \<Longrightarrow> K (snd (m s))"
  by (cases "m s") (auto simp: triple_def split: prod.splits sum.splits)

lemma triple_pure: "(p \<Longrightarrow> triple P m Q E) \<Longrightarrow> triple (\<lambda>s. P s \<and> p) m Q E"
  by (auto simp: triple_def)

lemma triple_or: "triple A m Q E \<Longrightarrow> triple B m Q E \<Longrightarrow> triple (\<lambda>s. A s \<or> B s) m Q E"
  by (auto simp: triple_def)

lemma keeps_finish: "triple (J P Q b) (finish S st a c asm md br rt) (\<lambda>_. J P Q b) (\<lambda>_. J P Q False)"
  by (rule triple_silent [OF emits_finish])

lemma triple_forget:
  "triple A m (\<lambda>_. J P Q b) (\<lambda>_. J P Q False) \<Longrightarrow> triple A m (\<lambda>_. J P Q False) (\<lambda>_. J P Q False)"
  by (erule triple_conseq) (auto intro: J_weaken)

subsection \<open>The expert is called with the human's authority\<close>

definition authorizes :: "effect \<Rightarrow> bool" where
  "authorizes e = (case e of EAsk _ d \<Rightarrow> authorized d | ECall _ _ _ \<Rightarrow> False)"

definition expert_call :: "effect \<Rightarrow> bool" where
  "expert_call e = (case e of EAsk _ _ \<Rightarrow> False | ECall t _ _ \<Rightarrow> t = EXPERT)"

lemma effect_kinds [simp]:
  "authorizes (EAsk r d) = authorized d" "\<not> authorizes (ECall t p c)"
  "\<not> expert_call (EAsk r d)" "expert_call (ECall t p c) \<longleftrightarrow> t = EXPERT"
  by (simp_all add: authorizes_def expert_call_def)

lemma local_call_not_expert: "call_ok S LOCAL p e \<Longrightarrow> \<not> expert_call e"
  by (auto simp: call_ok_def)

abbreviation consent :: "bool \<Rightarrow> 'w run_state \<Rightarrow> bool" where
  "consent \<equiv> J authorizes expert_call"

lemma not_authorized_cases:
  "\<not> authorized d \<Longrightarrow> hd_action d \<in> {REJECT, STOP, MODIFY, MORE_LOCAL_ANALYSIS}"
  by (cases "hd_action d") (simp_all add: authorized_iff)

lemma consent_major:
  "triple (consent False) (handle_major_decision S p c cls)
     (\<lambda>r s. case r of None \<Rightarrow> consent False s
        | Some pm \<Rightarrow> consent True s \<or> consent False s \<and> pm_force_local pm) (\<lambda>_. consent False)"
  unfolding handle_major_decision_def
proof (rule triple_bnd [OF triple_J_ask], simp, simp only: simp_thms effect_kinds)
  fix d
  have fin: "triple (consent (authorized d)) (after_decision S p c d)
     (\<lambda>r s. case r of None \<Rightarrow> consent False s
        | Some pm \<Rightarrow> consent True s \<or> consent False s \<and> pm_force_local pm) (\<lambda>_. consent False)"
  proof (cases "authorized d")
    case True
    then show ?thesis
      by (simp only:) (rule triple_done [OF emits_after_decision], auto dest: J_weaken split: option.split)
  next
    case False
    then consider "hd_action d \<in> {STOP, REJECT}" | "hd_action d = MODIFY" | "hd_action d = MORE_LOCAL_ANALYSIS"
      using not_authorized_cases by blast
    moreover have b: "consent (authorized d) = consent False" using False by simp
    ultimately show ?thesis
      unfolding b
      by cases (auto simp: after_decision_def permit_def
          intro!: triple_ret triple_andthen [OF triple_silent [OF emits_log]])
  qed
  show "triple (consent (authorized d))
     (andthen (note_approval (decision_note ''analysis'' d))
       (andthen (update_usage (\<lambda>u. (count_request u)\<lparr>major_decisions := major_decisions u + 1\<rparr>))
         (after_decision S p c d)))
     (\<lambda>r s. case r of None \<Rightarrow> consent False s
        | Some pm \<Rightarrow> consent True s \<or> consent False s \<and> pm_force_local pm) (\<lambda>_. consent False)"
    by (intro triple_andthen [OF triple_silent] emits_intros fin)
qed

lemma effective_policy_force [simp]: "effective_policy S pol True = Some ''local_only''"
  by (simp add: effective_policy_def)

lemma cloud_permitted_local_only [simp]: "\<not> cloud_permitted S (Some ''local_only'')"
  by (simp add: cloud_permitted_def)

lemma route_local_only:
  "triple (J P Q b) (route_of S a (Some ''local_only''))
     (\<lambda>d s. J P Q b s \<and> rt_kind d = LocalRoute) (\<lambda>_. J P Q False)"
  by (auto simp: triple_def route_of_def decide_local_only log_def J_def prog_defs Let_def)

lemma consent_escalate_closed:
  "triple (consent False) (escalate_after_failure S p oc cls cs ds False g)
     (\<lambda>_. consent False) (\<lambda>_. consent False)"
proof -
  have closed: "triple (consent b) (escalate_if S False a pk) (\<lambda>_. consent b) (\<lambda>_. consent False)"
    for b a pk by (auto simp: escalate_if_def intro: triple_ret)
  have answered: "triple (consent (False \<or> authorizes (EAsk r d)))
      (if \<not> authorized d then ret x else escalate_if S (hd_action d = ALLOW_EXPERT_ANALYSIS) a pk)
      (\<lambda>_. consent False) (\<lambda>_. consent False)" for r d x a pk
    by (cases "authorized d")
      (auto intro: triple_ret triple_forget [OF triple_keeps [OF keeps_J_done [OF emits_escalate_if]]])
  show ?thesis
    unfolding escalate_after_failure_def Let_def
  proof (rule triple_andthen [OF triple_silent [OF emits_usage]], rule triple_if, goal_cases)
    case 1
    show ?case
      by (rule triple_andthen [OF triple_silent [OF emits_log]], rule triple_bnd [OF triple_J_ask], simp)
        (intro triple_andthen [OF triple_silent] emits_note emits_usage answered)
  next
    case 2
    show ?case by (intro triple_andthen [OF triple_silent] emits_intros closed)
  qed
qed

lemma consent_proceed:
  "triple (\<lambda>s. consent True s \<or> consent False s \<and> pm_force_local pm)
     (proceed S p c pol md cls a pm) (\<lambda>_. consent False) (\<lambda>_. consent False)"
proof (rule triple_or)
  show "triple (consent True) (proceed S p c pol md cls a pm) (\<lambda>_. consent False) (\<lambda>_. consent False)"
    by (rule triple_done [OF emits_proceed J_weaken])
  show "triple (\<lambda>s. consent False s \<and> pm_force_local pm) (proceed S p c pol md cls a pm)
      (\<lambda>_. consent False) (\<lambda>_. consent False)"
  proof (rule triple_pure)
    assume force: "pm_force_local pm"
    show "triple (consent False) (proceed S p c pol md cls a pm) (\<lambda>_. consent False) (\<lambda>_. consent False)"
      unfolding proceed_def Let_def
    proof (simp only: force effective_policy_force cloud_permitted_local_only simp_thms,
        rule triple_bnd [OF route_local_only], rule triple_pure)
      fix route :: route_decision
      assume kind: "rt_kind route = LocalRoute"
      show "triple (consent False)
        (bnd (execute_route S p c route (pm_constraints pm) (pm_decisions pm)) (\<lambda>oc.
          bnd (if vr_passed (oc_verification oc) then ret (oc_answer oc, True)
               else escalate_after_failure S p oc cls (pm_constraints pm) (pm_decisions pm) False
                      (autonomy_grant (sf_rules S)))
            (\<lambda>(answer, resolved). finish S (if resolved then ''completed'' else ''failed'') answer (Some cls)
               (Some a) (dict_set ''human_constraints'' (PList (map PStr (pm_constraints pm)))
                 (dict_set ''approved_decisions'' (PList (map PStr (pm_decisions pm))) md)) None
               (Some (kind_value (rt_kind route))))))
        (\<lambda>_. consent False) (\<lambda>_. consent False)"
        unfolding execute_route_def kind route_kind.case Let_def split_beta
        by (intro triple_bnd [OF triple_quiet [OF emits_attempts local_call_not_expert]]
            triple_bnd [where R = "\<lambda>_. consent False"] triple_if triple_ret consent_escalate_closed
            keeps_finish) simp_all
    qed
  qed
qed

definition prompt_classification :: "('p, 'w) sifter \<Rightarrow> string \<Rightarrow> classification" where
  "prompt_classification S prompt =
     fst (gate_classify (sf_config S) (sf_rules S) (Plain prompt) None None None)"

lemma gate_prompt_value:
  "gate_prompt S p s =
     (Inr (prompt_classification S p),
      s\<lparr>rs_trace := log_entry (decision_entry (prompt_classification S p)) (rs_trace s)\<rparr>)"
  by (simp add: gate_prompt_def prompt_classification_def gate_classify_def Let_def)

text \<open>A run after its first two entries: what is decided and done about the prompt.\<close>

definition handled ::
  "('p, 'w) sifter \<Rightarrow> string \<Rightarrow> string option \<Rightarrow> string option \<Rightarrow> (string, pyval) dict \<Rightarrow> classification \<Rightarrow>
     ('w, sifter_result) action" where
  "handled S p c pol md cls =
     (let a = assess (sf_config S) p c 0 0 None (Some cls)
      in handle (decide_and_proceed S p c pol md cls a)
            (\<lambda>e. case e of
               BudgetExceeded msg _ _ _ \<Rightarrow>
                 finish S ''blocked'' (''Cloud budget limit reached: '' @ msg) (Some cls) (Some a) md (Some msg) None
             | ProviderError msg st rt \<Rightarrow>
                 finish S ''error'' (''Model provider error: '' @ msg) (Some cls) (Some a) md (Some msg) None
             | _ \<Rightarrow> raise e))"

definition entry_state ::
  "('p, 'w) sifter \<Rightarrow> string \<Rightarrow> string \<Rightarrow> pyfloat option \<Rightarrow> store option \<Rightarrow> 'w \<Rightarrow> 'w run_state" where
  "entry_state S tid p mc h w =
     (let s = start_state S tid mc h w
      in s\<lparr>rs_trace := log_entry (decision_entry (prompt_classification S p))
             (log_entry (entry ''aa_sifter'' ''start'' [(''prompt'', PStr (take 200 p))]) (rs_trace s))\<rparr>)"

lemma run_handled:
  "run S tid p c pol mc md h w =
     handled S p c pol (run_metadata_of S p pol md) (prompt_classification S p) (entry_state S tid p mc h w)"
  by (simp add: run_def run_impl_def handled_def log_def bnd_def andthen_def modify_def gate_prompt_value
      entry_state_def Let_def)

lemma entry_state_simps [simp]:
  "rs_effects (entry_state S tid p mc h w) = []" "rs_approvals (entry_state S tid p mc h w) = []"
  "rs_world (entry_state S tid p mc h w) = w" "trace_id (rs_trace (entry_state S tid p mc h w)) = tid"
  "rs_usage (entry_state S tid p mc h w) = new_usage"
  "rs_budget (entry_state S tid p mc h w) = rs_budget (start_state S tid mc h w)"
  by (simp_all add: entry_state_def start_state_def new_trace_def Let_def split: prod.split)

lemma handled_triple:
  assumes "triple I (decide_and_proceed S p c pol md cls (assess (sf_config S) p c 0 0 None (Some cls)))
      (\<lambda>_. J P Q False) (\<lambda>_. J P Q False)"
  shows "triple I (handled S p c pol md cls) (\<lambda>_. J P Q False) (\<lambda>_. J P Q False)"
  unfolding handled_def Let_def
proof (rule triple_handle [OF assms])
  show "triple (J P Q False) (case e of
         BudgetExceeded msg _ _ _ \<Rightarrow>
           finish S ''blocked'' (''Cloud budget limit reached: '' @ msg) (Some cls)
             (Some (assess (sf_config S) p c 0 0 None (Some cls))) md (Some msg) None
       | ProviderError msg st rt \<Rightarrow>
           finish S ''error'' (''Model provider error: '' @ msg) (Some cls)
             (Some (assess (sf_config S) p c 0 0 None (Some cls))) md (Some msg) None
       | _ \<Rightarrow> raise e) (\<lambda>_. J P Q False) (\<lambda>_. J P Q False)" for e
    by (cases e) (simp_all add: keeps_finish triple_raise)
qed

lemma run_J:
  assumes "triple (J P Q False) (decide_and_proceed S p c pol (run_metadata_of S p pol md)
      (prompt_classification S p) (assess (sf_config S) p c 0 0 None (Some (prompt_classification S p))))
      (\<lambda>_. J P Q False) (\<lambda>_. J P Q False)"
  shows "preceded False P Q (rs_effects (snd (run S tid p c pol mc md h w)))"
proof -
  have "J P Q False (entry_state S tid p mc h w)" by (simp add: J_def)
  from triple_const [OF handled_triple [OF assms] this] show ?thesis
    by (simp add: run_handled J_def)
qed

lemma consent_decide:
  assumes "cls_requires_human_approval cls"
  shows "triple (consent False) (decide_and_proceed S p c pol md cls a) (\<lambda>_. consent False) (\<lambda>_. consent False)"
  unfolding decide_and_proceed_def if_P [OF assms]
proof (rule triple_bnd [OF consent_major])
  show "triple (\<lambda>s. case r of None \<Rightarrow> consent False s
        | Some pm \<Rightarrow> consent True s \<or> consent False s \<and> pm_force_local pm)
     (case r of
        None \<Rightarrow> finish S ''stopped'' ''No action taken. The decision requires human authorization.''
                 (Some cls) (Some a) md (Some ''awaiting human decision'') None
      | Some pm \<Rightarrow> proceed S p c pol md cls (assess (sf_config S) p c 0 0 None (Some cls)) pm)
     (\<lambda>_. consent False) (\<lambda>_. consent False)" for r
    by (cases r) (simp_all add: keeps_finish consent_proceed)
qed

lemma run_consent:
  "cls_requires_human_approval (prompt_classification S p) \<Longrightarrow>
   preceded False authorizes expert_call (rs_effects (snd (run S tid p c pol mc md h w)))"
  by (rule run_J [OF consent_decide])

subsection \<open>Permission to analyse is not permission to implement\<close>

text \<open>
  The answers that let work start: an approval, or, to the first question only, the wish to
  go on locally.  An expert's analysis is the only call made without one.
\<close>

definition permits_work :: "effect \<Rightarrow> bool" where
  "permits_work e = (case e of
     EAsk r d \<Rightarrow> hd_action d \<in> {APPROVE, CHOOSE_OPTION} \<or>
       req_stage r = ''analysis'' \<and> hd_action d \<in> {MORE_LOCAL_ANALYSIS, CONTINUE_CURRENT}
   | ECall _ _ _ \<Rightarrow> False)"

definition work_call :: "effect \<Rightarrow> bool" where
  "work_call e = (case e of EAsk _ _ \<Rightarrow> False | ECall _ purpose _ \<Rightarrow> purpose \<noteq> ''expert_analysis'')"

abbreviation permission_first :: "bool \<Rightarrow> 'w run_state \<Rightarrow> bool" where
  "permission_first \<equiv> J permits_work work_call"

lemma work_call_ask [simp]: "\<not> work_call (EAsk r d)"
  by (simp add: work_call_def)

lemma analysis_not_work: "call_ok S t ''expert_analysis'' e \<Longrightarrow> \<not> work_call e"
  by (auto simp: call_ok_def work_call_def)

lemma permission_implement:
  "triple (permission_first False) (ask_to_implement S an l cs)
     (\<lambda>r. permission_first (r \<noteq> None)) (\<lambda>_. permission_first False)"
  unfolding ask_to_implement_def
proof (rule triple_bnd [OF triple_J_ask], simp)
  fix d
  show "triple (permission_first (False \<or> permits_work (EAsk (implement_request an l) d)))
     (andthen (note_approval (decision_note ''implementation'' d))
       (andthen (update_usage count_request)
         (if hd_action d \<notin> {APPROVE, CHOOSE_OPTION} then ret None
          else ret (permit (cs @ hd_constraints d)
                     [''DeepSeek-recommended direction approved: '' @ take 500 an] True False))))
     (\<lambda>r. permission_first (r \<noteq> None)) (\<lambda>_. permission_first False)"
    by (intro triple_andthen [OF triple_silent] emits_intros)
      (auto simp: permit_def permits_work_def intro!: triple_ret intro: J_weaken)
qed

lemma permission_analyse:
  "triple (permission_first False) (analyse_and_ask S p c cs)
     (\<lambda>r. permission_first (r \<noteq> None)) (\<lambda>_. permission_first False)"
  unfolding analyse_and_ask_def split_beta
  by (intro triple_andthen [OF triple_silent] triple_bnd [OF triple_quiet [OF emits_analysis analysis_not_work]]
      emits_intros permission_implement)

lemma permission_major:
  "triple (permission_first False) (handle_major_decision S p c cls)
     (\<lambda>r. permission_first (r \<noteq> None)) (\<lambda>_. permission_first False)"
  unfolding handle_major_decision_def
proof (rule triple_bnd [OF triple_J_ask], simp)
  fix d
  let ?b = "permits_work (EAsk (build_approval_request p c cls) d)"
  have stage: "req_stage (build_approval_request p c cls) = ''analysis''"
    by (simp add: build_approval_request_def)
  have fin: "triple (permission_first (False \<or> ?b)) (after_decision S p c d)
     (\<lambda>r. permission_first (r \<noteq> None)) (\<lambda>_. permission_first False)"
  proof (cases ?b)
    case True
    then show ?thesis
      by (simp only: simp_thms) (rule triple_done [OF emits_after_decision], auto simp: J_def)
  next
    case False
    then consider "hd_action d \<in> {STOP, REJECT}" | "hd_action d = MODIFY" | "hd_action d = ALLOW_EXPERT_ANALYSIS"
      by (cases "hd_action d") (simp_all add: permits_work_def stage)
    then show ?thesis
      using False by cases (simp_all add: after_decision_def triple_ret permission_analyse del: not_None_eq)
  qed
  show "triple (permission_first (False \<or> ?b))
     (andthen (note_approval (decision_note ''analysis'' d))
       (andthen (update_usage (\<lambda>u. (count_request u)\<lparr>major_decisions := major_decisions u + 1\<rparr>))
         (after_decision S p c d)))
     (\<lambda>r. permission_first (r \<noteq> None)) (\<lambda>_. permission_first False)"
    by (intro triple_andthen [OF triple_silent] emits_intros fin)
qed

lemma permission_decide:
  assumes "cls_requires_human_approval cls"
  shows "triple (permission_first False) (decide_and_proceed S p c pol md cls a)
    (\<lambda>_. permission_first False) (\<lambda>_. permission_first False)"
  unfolding decide_and_proceed_def if_P [OF assms]
proof (rule triple_bnd [OF permission_major])
  show "triple (permission_first (r \<noteq> None))
     (case r of
        None \<Rightarrow> finish S ''stopped'' ''No action taken. The decision requires human authorization.''
                 (Some cls) (Some a) md (Some ''awaiting human decision'') None
      | Some pm \<Rightarrow> proceed S p c pol md cls (assess (sf_config S) p c 0 0 None (Some cls)) pm)
     (\<lambda>_. permission_first False) (\<lambda>_. permission_first False)" for r
    by (cases r) (auto simp: keeps_finish intro: triple_done [OF emits_proceed J_weaken])
qed

lemma run_permission:
  "cls_requires_human_approval (prompt_classification S p) \<Longrightarrow>
   preceded False permits_work work_call (rs_effects (snd (run S tid p c pol mc md h w)))"
  by (rule run_J [OF permission_decide])

section \<open>The budget bounds the calls of the expert\<close>

definition expert_calls :: "effect list \<Rightarrow> nat" where
  "expert_calls es = length (filter expert_call es)"

lemma expert_calls_append [simp]: "expert_calls (es @ fs) = expert_calls es + expert_calls fs"
  by (simp add: expert_calls_def)

lemma expert_calls_quiet: "list_all (\<lambda>e. \<not> expert_call e) es \<Longrightarrow> expert_calls es = 0"
  by (simp add: expert_calls_def list_all_iff)

text \<open>Every call is counted; after a failing one, the bound is all that is left.\<close>

definition in_limit :: "int \<Rightarrow> 'w run_state \<Rightarrow> bool" where
  "in_limit k s \<longleftrightarrow> int (expert_calls (rs_effects s)) \<le> max 0 k"

definition counted :: "int \<Rightarrow> 'w run_state \<Rightarrow> bool" where
  "counted k s \<longleftrightarrow> max_calls (bt_budget (rs_budget s)) = k \<and>
     calls (bt_budget (rs_budget s)) = int (expert_calls (rs_effects s)) \<and> in_limit k s"

lemma counted_in_limit: "counted k s \<Longrightarrow> in_limit k s"
  by (simp add: counted_def)

definition budget_frame :: "('w, 'a) action \<Rightarrow> bool" where
  "budget_frame m \<longleftrightarrow> (\<forall>s. rs_budget (snd (m s)) = rs_budget s \<and> rs_effects (snd (m s)) = rs_effects s)"

text \<open>\<open>bounded m\<close>: every call \<open>m\<close> makes is counted, unless it raises.\<close>

definition bounded :: "int \<Rightarrow> ('w, 'a) action \<Rightarrow> bool" where
  "bounded k m \<longleftrightarrow> triple (counted k) m (\<lambda>_. counted k) (\<lambda>_. in_limit k)"

named_theorems bounded_intros \<open>programs whose calls are counted\<close>

lemma bounded_keeps: "keeps (counted k) m \<Longrightarrow> bounded k m"
  unfolding keeps_def bounded_def by (erule triple_conseq) (auto intro: counted_in_limit)

lemma bounded_bnd [bounded_intros]: "bounded k m \<Longrightarrow> (\<And>x. bounded k (f x)) \<Longrightarrow> bounded k (bnd m f)"
  unfolding bounded_def by (rule triple_bnd)

lemma bounded_andthen [bounded_intros]: "bounded k m \<Longrightarrow> bounded k n \<Longrightarrow> bounded k (andthen m n)"
  unfolding bounded_def by (rule triple_andthen)

lemma bounded_if [bounded_intros]:
  "(b \<Longrightarrow> bounded k m) \<Longrightarrow> (\<not> b \<Longrightarrow> bounded k n) \<Longrightarrow> bounded k (if b then m else n)"
  by simp

lemma keeps_counted_steps [keeps_intros]:
  "keeps (counted k) (log c m fs)" "keeps (counted k) (update_usage f)"
  "keeps (counted k) (note_approval n)" "keeps (counted k) (verify_answer S a)"
  "keeps (counted k) (ask_human S r)" "keeps (counted k) (check_budget i x)"
  "keeps (counted k) (lift_result v)" "keeps (counted k) (gets g)"
  by (auto intro!: keepsI simp: counted_def in_limit_def log_def update_usage_def note_approval_def
      verify_answer_def ask_human_def check_budget_def lift_result_def expert_calls_def prog_defs
      split: prod.splits sum.splits dest!: arg_cong [where f = "\<lambda>x. bt_budget (fst (snd x))"])

lemma keeps_counted_finish [keeps_intros]: "keeps (counted k) (finish S st a c asm md br rt)"
  by (rule keepsI) (simp add: counted_def in_limit_def finish_def log_def prog_defs Let_def)

lemma keeps_counted_outbound [keeps_intros]: "keeps (counted k) (outbound_messages S t ms p)"
  unfolding outbound_messages_def redact_cloud_messages_def Let_def split_beta
  by (intro keeps_intros)

lemma keeps_counted_local_call: "keeps (counted k) (call_provider S LOCAL p prov c)"
  by (rule keepsI) (simp add: counted_def in_limit_def call_provider_def expert_calls_def split: prod.split)

lemma keeps_counted_local_record: "keeps (counted k) (record_result S LOCAL p g)"
  unfolding record_result_def
  by (intro keeps_intros keeps_modify) (simp add: counted_def in_limit_def)

lemma keeps_counted_local: "keeps (counted k) (call_tier S LOCAL ms p)"
  unfolding call_tier_def check_expert_budget_def Let_def
  by (simp, intro keeps_intros keeps_counted_local_call keeps_counted_local_record)

text \<open>A passed check leaves room for the call that follows it.\<close>

lemma expert_call_counted:
  "triple (counted k) (andthen (check_expert_budget S EXPERT ms)
      (bnd (call_provider S EXPERT p prov c) (\<lambda>g. andthen (record_result S EXPERT p g) (ret (gr_text g)))))
     (\<lambda>_. counted k) (\<lambda>_. in_limit k)"
proof (rule triple_andthen [where R = "\<lambda>s. counted k s \<and> calls (bt_budget (rs_budget s)) < k"])
  show "triple (counted k) (check_expert_budget S EXPERT ms)
      (\<lambda>_ s. counted k s \<and> calls (bt_budget (rs_budget s)) < k) (\<lambda>_. in_limit k)"
    using cloud_budget.passed
    by (auto simp: triple_def check_expert_budget_def check_budget_def counted_def in_limit_def Let_def
        split: prod.splits sum.splits)
      (metis check_budget fst_conv snd_conv cloud_budget.passed)+
  show "triple (\<lambda>s. counted k s \<and> calls (bt_budget (rs_budget s)) < k)
      (bnd (call_provider S EXPERT p prov c) (\<lambda>g. andthen (record_result S EXPERT p g) (ret (gr_text g))))
      (\<lambda>_. counted k) (\<lambda>_. in_limit k)"
    by (auto simp: triple_def call_provider_def record_result_def record_call_def log_def prog_defs
        counted_def in_limit_def expert_calls_def Let_def split: prod.splits sum.splits)
qed

lemma bounded_call [bounded_intros]: "bounded k (call_tier S t ms p)"
proof (cases t)
  case LOCAL
  then show ?thesis by (simp add: bounded_keeps keeps_counted_local)
next
  case EXPERT
  then show ?thesis
    unfolding call_tier_def Let_def
    by (simp only:, intro bounded_bnd bounded_keeps [OF keeps_counted_steps(7)]
        bounded_keeps [OF keeps_counted_outbound])
      (simp add: bounded_def expert_call_counted)
qed

lemmas bounded_steps [bounded_intros] =
  keeps_counted_steps [THEN bounded_keeps] keeps_ret [THEN bounded_keeps] keeps_raise [THEN bounded_keeps]
  keeps_counted_finish [THEN bounded_keeps]

lemma keeps_in_limit: "emits (\<lambda>_. False) m \<Longrightarrow> keeps (in_limit k) m"
proof (rule keepsI)
  fix s :: "'a run_state"
  assume "emits (\<lambda>_. False) m" "in_limit k s"
  with emitsD [of "\<lambda>_. False" m s] show "in_limit k (snd (m s))"
    by (auto simp: in_limit_def list_all_iff)
qed

lemma in_limit_silent: "emits (\<lambda>_. False) m \<Longrightarrow> triple (in_limit k) m (\<lambda>_. in_limit k) (\<lambda>_. in_limit k)"
  using keeps_in_limit unfolding keeps_def .

lemma in_limit_bounded: "bounded k m \<Longrightarrow> triple (counted k) m (\<lambda>_. in_limit k) (\<lambda>_. in_limit k)"
  unfolding bounded_def by (erule triple_conseq) (auto intro: counted_in_limit)

lemma in_limit_budget_exceeded:
  assumes "triple P m (\<lambda>_. in_limit k) (\<lambda>_. in_limit k)" "\<And>msg. emits (\<lambda>_. False) (h msg)"
  shows "triple P (on_budget_exceeded m h) (\<lambda>_. in_limit k) (\<lambda>_. in_limit k)"
  unfolding on_budget_exceeded_def
  by (rule triple_handle [OF assms(1)])
    (auto intro!: in_limit_silent assms(2) emits_raise split: py_error.split)

lemma keeps_counted_attempts: "keeps (counted k) (local_attempts S base as oc)"
proof (induction "as" arbitrary: oc)
  case (Cons a "as")
  have err: "keeps (counted k) (case e of ProviderError msg st rt \<Rightarrow>
      andthen (log ''qwen'' (''local inference failed: '' @ msg) []) (ret (Inl msg)) | _ \<Rightarrow> raise e)"
    for e :: py_error by (cases e) (auto intro!: keeps_intros)
  show ?case
    unfolding local_attempts.simps on_provider_error_def
    by (intro keeps_andthen keeps_bnd keeps_handle keeps_counted_steps keeps_counted_local keeps_ret err)
      (auto intro!: keeps_intros Cons split: sum.split)
qed (simp add: keeps_ret)

lemma in_limit_review: "triple (counted k) (review S plan a) (\<lambda>_. in_limit k) (\<lambda>_. in_limit k)"
  unfolding review_def
  by (intro in_limit_budget_exceeded in_limit_bounded bounded_intros emits_intros)

text \<open>A route ends within the limit, and with every call counted where it did not pass.\<close>

definition after_route :: "int \<Rightarrow> outcome \<Rightarrow> 'w run_state \<Rightarrow> bool" where
  "after_route k oc s \<longleftrightarrow> in_limit k s \<and> (\<not> vr_passed (oc_verification oc) \<longrightarrow> counted k s)"

lemma after_route_counted: "counted k s \<Longrightarrow> after_route k oc s"
  by (simp add: after_route_def counted_in_limit)

lemma bounded_after_route: "bounded k m \<Longrightarrow> triple (counted k) m (after_route k) (\<lambda>_. in_limit k)"
  unfolding bounded_def by (erule triple_conseq) (auto intro: after_route_counted)

lemma execute_hybrid_limit:
  "triple (counted k) (execute_hybrid S p c cs ds) (after_route k) (\<lambda>_. in_limit k)"
proof -
  have tail: "triple (counted k) (if \<not> vr_passed v then ret (outcome_of answer v 1)
       else bnd (review S plan answer) (\<lambda>answer. ret (outcome_of answer v 0)))
     (after_route k) (\<lambda>_. in_limit k)" for v plan answer
    by (rule triple_if)
      (auto simp: after_route_counted intro!: triple_ret triple_bnd [OF in_limit_review],
       simp add: after_route_def outcome_of_def)
  show ?thesis
    unfolding execute_hybrid_def
    by (intro triple_bnd [OF bounded_call [unfolded bounded_def]]
        triple_bnd [OF bounded_steps(4) [unfolded bounded_def]] tail)
qed

lemma execute_route_limit:
  "triple (counted k) (execute_route S p c r cs ds) (after_route k) (\<lambda>_. in_limit k)"
  unfolding execute_route_def execute_cloud_def Let_def
  by (cases "rt_kind r")
    (auto simp: execute_hybrid_limit intro!: bounded_after_route bounded_intros
      bounded_keeps [OF keeps_counted_attempts])

lemma escalate_if_limit: "triple (counted k) (escalate_if S al a pk) (\<lambda>_. in_limit k) (\<lambda>_. in_limit k)"
  unfolding escalate_if_def diagnose_def Let_def
  by (intro triple_if in_limit_budget_exceeded in_limit_bounded bounded_intros emits_intros)

lemma escalate_limit:
  "triple (counted k) (escalate_after_failure S p oc cls cs ds al g) (\<lambda>_. in_limit k) (\<lambda>_. in_limit k)"
  unfolding escalate_after_failure_def Let_def
  by (intro triple_if triple_andthen [OF bounded_steps(2) [unfolded bounded_def]]
      triple_andthen [OF bounded_steps(1) [unfolded bounded_def]]
      triple_andthen [OF bounded_steps(3) [unfolded bounded_def]]
      triple_bnd [OF bounded_steps(5) [unfolded bounded_def]]
      triple_andthen [OF bounded_if [OF bounded_steps(1) bounded_steps(9), unfolded bounded_def]]
      escalate_if_limit triple_ret counted_in_limit)

lemma bounded_major: "bounded k (handle_major_decision S p c cls)"
proof -
  have an: "bounded k (expert_analysis S p c cs)" for cs
    unfolding expert_analysis_def Let_def by (intro bounded_intros)
  have im: "bounded k (ask_to_implement S a l cs)" for a l cs
    unfolding ask_to_implement_def by (intro bounded_intros)
  show ?thesis
    unfolding handle_major_decision_def after_decision_def analyse_and_ask_def split_beta
    by (intro bounded_intros an im)
qed

lemma proceed_limit:
  "triple (counted k) (proceed S p c pol md cls a pm) (\<lambda>_. in_limit k) (\<lambda>_. in_limit k)"
proof -
  have route: "bounded k (route_of S a q)" for q
    unfolding route_of_def Let_def by (intro bounded_intros)
  have rest: "triple (after_route k oc)
     (bnd (if vr_passed (oc_verification oc) then ret (oc_answer oc, True)
           else escalate_after_failure S p oc cls cs ds al g)
       (\<lambda>x. finish S (st x) (fst x) (Some cls) (Some a) md' None rt))
     (\<lambda>_. in_limit k) (\<lambda>_. in_limit k)" for oc cs ds al g st md' rt
  proof (rule triple_bnd [where R = "\<lambda>_. in_limit k"])
    show "triple (after_route k oc) (if vr_passed (oc_verification oc) then ret (oc_answer oc, True)
           else escalate_after_failure S p oc cls cs ds al g) (\<lambda>_. in_limit k) (\<lambda>_. in_limit k)"
      by (rule triple_if)
        (auto simp: after_route_def intro!: triple_ret intro: triple_conseq [OF escalate_limit])
  qed (intro in_limit_silent emits_intros)
  show ?thesis
    unfolding proceed_def Let_def split_beta
    by (intro triple_bnd [OF route [unfolded bounded_def]] triple_bnd [OF execute_route_limit] rest)
qed

lemma run_in_limit:
  "int (expert_calls (rs_effects (snd (run S tid p c pol mc md h w)))) \<le>
     max 0 (max_cloud_calls_per_task (sf_config S))"
proof -
  let ?k = "max_cloud_calls_per_task (sf_config S)" and ?cls = "prompt_classification S p"
  have none: "triple (counted k) (finish S st an c' as' md' br rt) (\<lambda>_. in_limit k) (\<lambda>_. in_limit k)"
    for k st an c' as' md' br rt by (rule in_limit_bounded [OF bounded_steps(11)])
  have dec: "triple (counted k) (decide_and_proceed S p c pol md' cls a) (\<lambda>_. in_limit k) (\<lambda>_. in_limit k)"
    for k md' cls a
    unfolding decide_and_proceed_def
    by (intro triple_if triple_bnd [OF bounded_major [unfolded bounded_def]] proceed_limit)
      (auto simp: none proceed_limit split: option.split)
  have hd: "triple (counted k) (handled S p c pol md' cls) (\<lambda>_. in_limit k) (\<lambda>_. in_limit k)" for k md' cls
    unfolding handled_def Let_def
    by (rule triple_handle [OF dec])
      (auto intro!: in_limit_silent emits_intros split: py_error.split)
  have "counted ?k (entry_state S tid p mc h w)"
    by (simp add: counted_def in_limit_def expert_calls_def start_state_def new_budget_tracker_def Let_def
        split: prod.split option.split)
  from triple_const [OF hd [of ?k] this] show ?thesis by (simp add: in_limit_def run_handled)
qed

section \<open>Refusal, local policies, errors\<close>

text \<open>A first answer that refuses ends the run before any call.\<close>

lemma finish_value:
  "finish S st a c asm md br rt s = (Inr r, t) \<Longrightarrow>
   sr_status r = st \<and> sr_answer r = a \<and> sr_blocked_reason r = br \<and> rs_effects t = rs_effects s \<and>
   rs_approvals t = rs_approvals s \<and> sr_approvals r = rs_approvals t \<and> rs_usage t = rs_usage s \<and>
   sr_usage r = rs_usage t \<and> sr_trace_id r = trace_id (rs_trace t)"
  by (auto simp: finish_def log_def prog_defs Let_def)

lemma finish_returns: "\<exists>r t. finish S st a c asm md br rt s = (Inr r, t)"
  by (simp add: finish_def log_def prog_defs Let_def)

lemma ask_human_value:
  "ask_human S r s = (Inr (fst (sf_asker S r (rs_world s))), snd (ask_human S r s))"
  "rs_effects (snd (ask_human S r s)) = rs_effects s @ [EAsk r (fst (sf_asker S r (rs_world s)))]"
  by (simp_all add: ask_human_def split_beta require_approval_answer ask_def)

lemma run_refused:
  fixes S :: "('p, 'w) sifter" and p :: string and c :: "string option" and w :: 'w
  defines "cls \<equiv> prompt_classification S p"
  defines "d \<equiv> fst (sf_asker S (build_approval_request p c cls) w)"
  assumes "cls_requires_human_approval cls" "hd_action d \<in> {STOP, REJECT, MODIFY}"
  shows "\<exists>r s. run S tid p c pol mc md h w = (Inr r, s) \<and> sr_status r = ''stopped'' \<and>
    rs_effects s = [EAsk (build_approval_request p c cls) d]"
proof -
  let ?req = "build_approval_request p c cls" and ?e = "entry_state S tid p mc h w"
  let ?a = "assess (sf_config S) p c 0 0 None (Some cls)" and ?md = "run_metadata_of S p pol md"
  obtain s1 where ask: "ask_human S ?req ?e = (Inr d, s1)" "rs_effects s1 = [EAsk ?req d]"
    using ask_human_value [of S ?req ?e] by (simp add: d_def prod_eq_iff)
  have refused: "after_decision S p c d = ret None"
    using assms(4) by (auto simp: after_decision_def)
  obtain s2 where major: "handle_major_decision S p c cls ?e = (Inr None, s2)" "rs_effects s2 = [EAsk ?req d]"
    using ask by (simp add: handle_major_decision_def refused note_approval_def update_usage_def prog_defs)
  obtain r t where fin: "finish S ''stopped'' ''No action taken. The decision requires human authorization.''
      (Some cls) (Some ?a) ?md (Some ''awaiting human decision'') None s2 = (Inr r, t)"
    using finish_returns by blast
  have "handled S p c pol ?md cls ?e = (Inr r, t)"
    using major(1) fin assms(3)
    by (simp add: handled_def handle_def decide_and_proceed_def bnd_def Let_def)
  with finish_value [OF fin] major(2) show ?thesis by (simp add: run_handled cls_def)
qed

text \<open>No expert is called under a local policy, unless a major decision intervenes.\<close>

lemma not_permitted_selected: "\<not> cloud_permitted S q \<Longrightarrow> selected_policy (sf_config S) q = LOCAL_ONLY"
  using coerce_policy_value [of LOCAL_ONLY]
  by (auto simp: cloud_permitted_def selected_policy_def split: option.splits list.splits)

abbreviation no_expert :: "'w run_state \<Rightarrow> bool" where
  "no_expert \<equiv> J (\<lambda>_. False) expert_call False"

lemma no_expert_iff: "no_expert s \<longleftrightarrow> (\<forall>e\<in>set (rs_effects s). \<not> expert_call e)"
proof -
  have "preceded False (\<lambda>_. False) expert_call es \<longleftrightarrow> (\<forall>e\<in>set es. \<not> expert_call e)" for es
    by (induction es) auto
  then show ?thesis by (simp add: J_def)
qed

lemma route_not_permitted:
  "\<not> cloud_permitted S q \<Longrightarrow>
   triple (J P Q b) (route_of S a q) (\<lambda>d s. J P Q b s \<and> rt_kind d = LocalRoute) (\<lambda>_. J P Q False)"
  using not_permitted_selected [of S q]
  by (auto simp: triple_def route_of_def decide_def log_def J_def prog_defs Let_def)

lemma no_expert_escalate:
  assumes "\<not> is_major cls"
  shows "triple no_expert (escalate_after_failure S p oc cls cs ds False g) (\<lambda>_. no_expert) (\<lambda>_. no_expert)"
proof -
  have "\<not> eo_requires_human_approval
      (evaluate (failure_request p (oc_verification oc) (oc_failed_attempts oc) cls) True)"
    using assms by (simp add: failure_request_def evaluate_def Let_def)
  then show ?thesis
    unfolding escalate_after_failure_def escalate_if_def Let_def
    by (simp, intro triple_andthen [OF triple_silent [OF emits_usage]]
        triple_andthen [OF triple_silent [OF emits_ret]] triple_ret)
qed

lemma no_expert_proceed:
  assumes "\<not> cloud_permitted S (effective_policy S pol (pm_force_local pm))" "\<not> is_major cls"
  shows "triple no_expert (proceed S p c pol md cls a pm) (\<lambda>_. no_expert) (\<lambda>_. no_expert)"
  unfolding proceed_def Let_def
proof (rule triple_bnd [OF route_not_permitted [OF assms(1)]], rule triple_pure)
  fix route :: route_decision
  assume kind: "rt_kind route = LocalRoute"
  have not_allowed: "(cloud_permitted S (effective_policy S pol (pm_force_local pm)) \<and> q) = False" for q
    using assms(1) by simp
  have tail: "triple no_expert
    (bnd (execute_route S p c route cs ds) (\<lambda>oc.
      bnd (if vr_passed (oc_verification oc) then ret (oc_answer oc, True)
           else escalate_after_failure S p oc cls cs ds False g)
        (\<lambda>x. finish S (st x) (fst x) (Some cls) (Some a) md' None rt)))
    (\<lambda>_. no_expert) (\<lambda>_. no_expert)" for cs ds g st md' rt
    unfolding execute_route_def kind route_kind.case Let_def
    by (intro triple_bnd [OF triple_quiet [OF emits_attempts local_call_not_expert]]
        triple_bnd [where R = "\<lambda>_. no_expert"] triple_if triple_ret no_expert_escalate [OF assms(2)]
        keeps_finish) simp_all
  show "triple no_expert
    (bnd (execute_route S p c route (pm_constraints pm) (pm_decisions pm)) (\<lambda>oc.
      bnd (if vr_passed (oc_verification oc) then ret (oc_answer oc, True)
           else escalate_after_failure S p oc cls (pm_constraints pm) (pm_decisions pm)
             (cloud_permitted S (effective_policy S pol (pm_force_local pm)) \<and>
              (pm_allow_cloud pm \<or> \<not> is_major cls \<or> autonomy_grant (sf_rules S))) (autonomy_grant (sf_rules S)))
        (\<lambda>(answer, resolved). finish S (if resolved then ''completed'' else ''failed'') answer (Some cls)
           (Some a) (dict_set ''human_constraints'' (PList (map PStr (pm_constraints pm)))
             (dict_set ''approved_decisions'' (PList (map PStr (pm_decisions pm))) md)) None
           (Some (kind_value (rt_kind route))))))
    (\<lambda>_. no_expert) (\<lambda>_. no_expert)"
    by (subst not_allowed, unfold split_beta, rule tail)
qed

lemma run_local_only:
  assumes "\<not> cloud_permitted S (effective_policy S pol False)"
    and "\<not> cls_requires_human_approval (prompt_classification S p)" "\<not> is_major (prompt_classification S p)"
  shows "\<forall>e\<in>set (rs_effects (snd (run S tid p c pol mc md h w))). \<not> expert_call e"
proof -
  have "preceded False (\<lambda>_. False) expert_call (rs_effects (snd (run S tid p c pol mc md h w)))"
    by (rule run_J)
      (simp add: decide_and_proceed_def assms(2) no_expert_proceed no_permission_def assms(1,3))
  then show ?thesis by (simp add: no_expert_iff [unfolded J_def, simplified])
qed

text \<open>Provider and budget errors become results; nothing else is swallowed.\<close>

lemma run_errors:
  assumes "run S tid p c pol mc md h w = (Inl e, s)"
  shows "\<not> (\<exists>m st rt. e = ProviderError m st rt) \<and> \<not> (\<exists>m k l u. e = BudgetExceeded m k l u)"
proof -
  let ?cls = "prompt_classification S p" and ?e = "entry_state S tid p mc h w"
  let ?a = "assess (sf_config S) p c 0 0 None (Some ?cls)" and ?md = "run_metadata_of S p pol md"
  obtain r t where d: "decide_and_proceed S p c pol ?md ?cls ?a ?e = (r, t)" by fastforce
  have fin: "finish S st an cl as' md' br rt t \<noteq> (Inl e, s)" for st an cl as' md' br rt
    using finish_returns [of S st an cl as' md' br rt t] by auto
  show ?thesis
  proof (cases r)
    case (Inl e')
    with assms d fin show ?thesis
      by (cases e') (auto simp: run_handled handled_def handle_def raise_def Let_def)
  next
    case (Inr x)
    with assms d show ?thesis by (simp add: run_handled handled_def handle_def Let_def)
  qed
qed

section \<open>The accounts of a run\<close>

definition asked :: "effect list \<Rightarrow> nat" where
  "asked es = length (filter (\<lambda>e. case e of EAsk _ _ \<Rightarrow> True | ECall _ _ _ \<Rightarrow> False) es)"

lemma asked_simps [simp]:
  "asked [] = 0" "asked (es @ fs) = asked es + asked fs" "asked [EAsk r d] = 1" "asked [ECall t p c] = 0"
  by (simp_all add: asked_def)

text \<open>Every question is noted and counted, wherever the run stops.\<close>

definition accounted :: "'w run_state \<Rightarrow> bool" where
  "accounted s \<longleftrightarrow> length (rs_approvals s) = asked (rs_effects s) \<and>
     human_approval_requests (rs_usage s) = int (asked (rs_effects s))"

lemma record_generation_requests [simp]:
  "human_approval_requests (record_generation g c u) = human_approval_requests u"
  by (cases c) (simp_all add: record_generation_def Let_def)

lemma keeps_accounted_steps [keeps_intros]:
  "keeps accounted (log c m fs)" "keeps accounted (verify_answer S a)"
  "keeps accounted (check_budget i x)" "keeps accounted (lift_result v)"
  "keeps accounted (record_result S t p g)" "keeps accounted (call_provider S t p prov gc)"
  "keeps accounted (finish S st an cl as' md br rt)"
  by (auto intro!: keepsI simp: accounted_def log_def verify_answer_def finish_def record_result_def
      call_provider_def check_budget_def lift_result_def prog_defs Let_def split: prod.splits sum.splits)

lemma keeps_accounted_usage:
  "(\<And>u. human_approval_requests (f u) = human_approval_requests u) \<Longrightarrow> keeps accounted (update_usage f)"
  by (rule keepsI) (simp add: accounted_def update_usage_def prog_defs)

lemma keeps_accounted_ask:
  assumes "\<And>u. human_approval_requests (f u) = human_approval_requests u + 1" "\<And>d. keeps accounted (k d)"
  shows "keeps accounted (bnd (ask_human S r) (\<lambda>d. andthen (note_approval (n d)) (andthen (update_usage f) (k d))))"
proof (rule keepsI)
  fix s :: "'a run_state"
  assume "accounted s"
  obtain d s1 where ask: "ask_human S r s = (Inr d, s1)" by (cases "ask_human S r s") (auto simp: ask_human_def split: prod.splits)
  let ?t = "s1\<lparr>rs_approvals := rs_approvals s1 @ [n d], rs_usage := f (rs_usage s1)\<rparr>"
  have "accounted ?t"
    using \<open>accounted s\<close> ask by (auto simp: accounted_def ask_human_def assms(1) split: prod.splits)
  moreover have "snd (bnd (ask_human S r) (\<lambda>d. andthen (note_approval (n d)) (andthen (update_usage f) (k d))) s)
      = snd (k d ?t)"
    by (simp add: ask bnd_def andthen_def note_approval_def update_usage_def modify_def)
  ultimately show "accounted (snd (bnd (ask_human S r)
      (\<lambda>d. andthen (note_approval (n d)) (andthen (update_usage f) (k d))) s))"
    using keepsD [OF assms(2)] by simp
qed

lemma keeps_accounted_call [keeps_intros]: "keeps accounted (call_tier S t ms p)"
  unfolding call_tier_def outbound_messages_def redact_cloud_messages_def check_expert_budget_def
    Let_def split_beta
  by (intro keeps_intros)

lemma keeps_on_error [keeps_intros]:
  "keeps I m \<Longrightarrow> (\<And>msg. keeps I (h msg)) \<Longrightarrow> keeps I (on_provider_error m h)"
  "keeps I m \<Longrightarrow> (\<And>msg. keeps I (h msg)) \<Longrightarrow> keeps I (on_budget_exceeded m h)"
  unfolding on_provider_error_def on_budget_exceeded_def
  by (rule keeps_handle; auto intro!: keeps_raise split: py_error.split)+

lemma keeps_accounted_attempts [keeps_intros]: "keeps accounted (local_attempts S base as oc)"
proof (induction "as" arbitrary: oc)
  case (Cons a "as")
  show ?case
    unfolding local_attempts.simps
    by (intro keeps_intros) (auto intro!: keeps_intros keeps_accounted_usage Cons split: sum.split)
qed (simp add: keeps_ret)

lemma keeps_accounted_execute [keeps_intros]: "keeps accounted (execute_route S p c r cs ds)"
  unfolding execute_route_def execute_cloud_def execute_hybrid_def review_def Let_def
  by (cases "rt_kind r") (simp_all only: route_kind.case, (intro keeps_intros)+)

lemma keeps_accounted_escalate [keeps_intros]:
  "keeps accounted (escalate_after_failure S p oc cls cs ds al g)"
  unfolding escalate_after_failure_def escalate_if_def diagnose_def Let_def
  by (intro keeps_andthen [OF keeps_accounted_usage] keeps_if keeps_andthen [OF keeps_accounted_steps(1)]
      keeps_accounted_ask keeps_intros)
    (simp_all add: count_request_def)

lemma keeps_accounted_proceed [keeps_intros]: "keeps accounted (proceed S p c pol md cls a pm)"
  unfolding proceed_def route_of_def Let_def split_beta by (intro keeps_intros)

lemma keeps_accounted_major: "keeps accounted (handle_major_decision S p c cls)"
proof -
  have implement: "keeps accounted (ask_to_implement S an l cs)" for an l cs
    unfolding ask_to_implement_def
    by (intro keeps_accounted_ask keeps_intros) (simp add: count_request_def)
  have analyse: "keeps accounted (analyse_and_ask S p c cs)" for cs
    unfolding analyse_and_ask_def expert_analysis_def Let_def split_beta
    by (intro keeps_andthen [OF keeps_accounted_usage] keeps_intros implement) simp_all
  show ?thesis
    unfolding handle_major_decision_def after_decision_def
    by (intro keeps_accounted_ask keeps_intros analyse) (simp add: count_request_def)
qed

lemma run_accounted: "accounted (snd (run S tid p c pol mc md h w))"
proof -
  have dec: "keeps accounted (decide_and_proceed S p c pol md' cls a)" for md' cls a
    unfolding decide_and_proceed_def
    by (intro keeps_if keeps_bnd [OF keeps_accounted_major])
      (auto intro!: keeps_intros split: option.split)
  have "keeps accounted (handled S p c pol md' cls)" for md' cls
    unfolding handled_def Let_def
    by (rule keeps_handle [OF dec]) (auto intro!: keeps_intros split: py_error.split)
  then show ?thesis
    unfolding run_handled
    by (rule keepsD) (simp add: accounted_def new_usage_def)
qed

section \<open>What a run leaves in the store\<close>

text \<open>The store holds one row for the run, and it says how the run ended.\<close>

definition recorded :: "sifter_result \<Rightarrow> 'w run_state \<Rightarrow> bool" where
  "recorded r s \<longleftrightarrow> sr_usage r = rs_usage s \<and> sr_approvals r = rs_approvals s \<and>
     sr_trace_id r = trace_id (rs_trace s) \<and>
     (\<forall>st. tr_history (rs_trace s) = Some st \<longrightarrow>
        (\<exists>row. filter (\<lambda>x. run_trace_id x = sr_trace_id r) (st_runs st) = [row] \<and>
           run_final_success row = run_ok r \<and> run_route row = sr_route r \<and>
           run_cloud_calls row = cloud_calls (sr_usage r) \<and> run_cloud_cost row = cloud_cost (sr_usage r)))"

lemma filter_none: "\<forall>x\<in>set xs. \<not> P x \<Longrightarrow> filter P xs = []"
  by (induction xs) auto

lemma finish_recorded: "finish S st a c asm md br rt s = (Inr r, t) \<Longrightarrow> recorded r t"
  by (auto simp: finish_def log_def prog_defs recorded_def record_run_def run_row_of_def Let_def filter_none
      log_entry_history)

definition only_recorded :: "('w, sifter_result) action \<Rightarrow> bool" where
  "only_recorded m \<longleftrightarrow> (\<forall>s r t. m s = (Inr r, t) \<longrightarrow> recorded r t)"

lemma only_recorded_bnd: "(\<And>x. only_recorded (f x)) \<Longrightarrow> only_recorded (bnd m f)"
  by (auto simp: only_recorded_def bnd_def split: prod.splits sum.splits)

lemma only_recorded_finish: "only_recorded (finish S st a c asm md br rt)"
  by (simp add: only_recorded_def finish_recorded)

lemma only_recorded_handle:
  "only_recorded m \<Longrightarrow> (\<And>e. only_recorded (h e)) \<Longrightarrow> only_recorded (handle m h)"
  by (auto simp: only_recorded_def handle_def split: prod.splits sum.splits)

lemma run_recorded:
  assumes "run S tid p c pol mc md h w = (Inr r, s)"
  shows "recorded r s"
proof -
  have pr: "only_recorded (proceed S p c pol md' cls a pm)" for md' cls a pm
    unfolding proceed_def Let_def split_beta by (intro only_recorded_bnd only_recorded_finish)
  have dec: "only_recorded (decide_and_proceed S p c pol md' cls a)" for md' cls a
    unfolding decide_and_proceed_def
    by (simp, intro conjI impI only_recorded_bnd)
      (auto intro: pr only_recorded_finish only_recorded_bnd split: option.split)
  have "only_recorded (handled S p c pol md' cls)" for md' cls
    unfolding handled_def Let_def
    by (rule only_recorded_handle [OF dec])
      (auto intro: only_recorded_finish simp: only_recorded_def raise_def
        dest: finish_recorded split: py_error.splits)
  with assms show ?thesis by (simp add: only_recorded_def run_handled)
qed

section \<open>How a run ends\<close>

text \<open>The status of a result, with what it says of the reason and of the answer.\<close>

definition ended_well :: "sifter_result \<Rightarrow> bool" where
  "ended_well r \<longleftrightarrow>
     (case sr_blocked_reason r of
        None \<Rightarrow> sr_status r \<in> {''completed'', ''failed''}
      | Some msg \<Rightarrow>
          sr_status r = ''stopped'' \<and> msg = ''awaiting human decision'' \<and> sr_requires_human_approval r \<or>
          sr_status r = ''blocked'' \<and> sr_answer r = ''Cloud budget limit reached: '' @ msg \<or>
          sr_status r = ''error'' \<and> sr_answer r = ''Model provider error: '' @ msg)"

definition handled_error :: "py_error \<Rightarrow> bool" where
  "handled_error e \<longleftrightarrow> (case e of BudgetExceeded _ _ _ _ \<Rightarrow> True | ProviderError _ _ _ \<Rightarrow> True | _ \<Rightarrow> False)"

lemma triple_top: "triple P m (\<lambda>_ _. True) (\<lambda>_ _. True)"
  by (simp add: triple_def split: prod.split sum.split)

lemma triple_finish:
  "(\<And>r. sr_status r = st \<Longrightarrow> sr_answer r = a \<Longrightarrow> sr_blocked_reason r = br \<Longrightarrow>
     sr_requires_human_approval r = (case c of Some k \<Rightarrow> cls_requires_human_approval k | None \<Rightarrow> False) \<Longrightarrow> Q r) \<Longrightarrow>
   triple P (finish S st a c asm md br rt) (\<lambda>r _. Q r) E"
  by (simp add: triple_def finish_def log_def prog_defs Let_def)

lemma proceed_ends_well:
  "triple P (proceed S p c pol md cls a pm) (\<lambda>r _. ended_well r) (\<lambda>_ _. True)"
  unfolding proceed_def Let_def
  by (intro triple_bnd [OF triple_top])
    (auto simp: ended_well_def split: prod.split intro!: triple_finish)

lemma decide_ends_well:
  "triple P (decide_and_proceed S p c pol md cls a) (\<lambda>r _. ended_well r) (\<lambda>_ _. True)"
proof (cases "cls_requires_human_approval cls")
  case True
  have "triple Q (case out of
        None \<Rightarrow> finish S ''stopped'' ''No action taken. The decision requires human authorization.''
                 (Some cls) (Some a) md (Some ''awaiting human decision'') None
      | Some pm \<Rightarrow> proceed S p c pol md cls (assess (sf_config S) p c 0 0 None (Some cls)) pm)
      (\<lambda>r _. ended_well r) (\<lambda>_ _. True)" for Q out
  proof (cases out)
    case None
    then show ?thesis by (auto simp: ended_well_def True intro!: triple_finish)
  qed (simp add: proceed_ends_well)
  then show ?thesis
    unfolding decide_and_proceed_def if_P [OF True] by (rule triple_bnd [OF triple_top])
qed (simp add: decide_and_proceed_def proceed_ends_well)

lemma handled_ends_well:
  "triple P (handled S p c pol md cls) (\<lambda>r _. ended_well r) (\<lambda>e _. \<not> handled_error e)"
  unfolding handled_def Let_def
proof (rule triple_handle [OF decide_ends_well])
  let ?a = "assess (sf_config S) p c 0 0 None (Some cls)"
  show "triple (\<lambda>_. True) (case e of
         BudgetExceeded msg _ _ _ \<Rightarrow>
           finish S ''blocked'' (''Cloud budget limit reached: '' @ msg) (Some cls) (Some ?a) md (Some msg) None
       | ProviderError msg st rt \<Rightarrow>
           finish S ''error'' (''Model provider error: '' @ msg) (Some cls) (Some ?a) md (Some msg) None
       | _ \<Rightarrow> raise e) (\<lambda>r _. ended_well r) (\<lambda>e _. \<not> handled_error e)" for e
    by (cases e) (auto simp: ended_well_def handled_error_def intro!: triple_finish triple_raise)
qed

lemma run_ends_well:
  "case fst (run S tid p c pol mc md h w) of Inr r \<Rightarrow> ended_well r | Inl e \<Rightarrow> \<not> handled_error e"
proof -
  let ?m = "handled S p c pol (run_metadata_of S p pol md) (prompt_classification S p)"
  have "triple (\<lambda>_. True) ?m (\<lambda>r _. ended_well r) (\<lambda>e _. \<not> handled_error e)" by (rule handled_ends_well)
  then show ?thesis
    by (cases "?m (entry_state S tid p mc h w)") (simp add: run_handled triple_def, metis (mono_tags, lifting) case_prod_conv)
qed

end
