(* ===== verification/RpcFacts.thy ===== *)
theory RpcFacts
  imports Rpc SifterFacts
begin

text \<open>
  What the RPC service guarantees: its answers to route requests are valid contracts and
  never blocked, no sequence of messages makes an undisciplined call or forgets a payload,
  and every message gets one well-formed response unless its version field is malformed.
\<close>

section \<open>Routing\<close>

lemma kind_value_route: "kind_value k \<in> set ROUTE_VALUES" "kind_value k \<noteq> ''blocked''"
  by (cases k; simp add: ROUTE_VALUES_def)+

lemma level_value_level: "level_value l \<in> set DECISION_LEVELS"
  by (cases l) (simp_all add: DECISION_LEVELS_def)

lemma route_never_blocked:
  "ra_route (route_answer_of S p c (effective_policy_of (sf_config S) pol)) =
     kind_value (rt_kind (decide (sf_config S)
       (assess (sf_config S) p c 0 0 None (Some (classify p None None None)))
       (Some (effective_policy_of (sf_config S) pol)) 0 True))"
  by (auto simp: route_answer_of_def Let_def effective_policy_of_def decide_local_only)

lemma route_local_when_offline:
  "\<not> cloud_allowed (sf_config S) \<Longrightarrow>
   ra_route (route_answer_of S p c (effective_policy_of (sf_config S) pol)) = ''local''"
  unfolding route_never_blocked by (simp add: effective_policy_of_def decide_local_only local_route_def)

definition plain_request :: "contract \<Rightarrow> string \<Rightarrow> string option \<Rightarrow> bool" where
  "plain_request d prompt ctx \<longleftrightarrow> field_of d ''kind'' = PStr ''route_request'' \<and>
     field_of d ''prompt'' = PStr prompt \<and>
     field_of d ''context'' = (case ctx of None \<Rightarrow> PNone | Some c \<Rightarrow> PStr c) \<and>
     (\<forall>k\<in>{''budget'', ''metadata''}. field_of d k = PNone \<or> (\<exists>x. field_of d k = PDict x))"

lemma field_of_Some: "field_of d k = v \<Longrightarrow> v \<noteq> PNone \<Longrightarrow> dict_get d k = Some v"
  by (auto simp: get_default_def split: option.splits)

lemma dict_error_ok: "v = PNone \<or> (\<exists>x. v = PDict x) \<Longrightarrow> dict_error (or_dict v) = ok"
  by (auto simp: dict_error_def or_dict_def)

lemma or_dict_PDict: "v = PNone \<or> (\<exists>x. v = PDict x) \<Longrightarrow> \<exists>x. or_dict v = PDict x"
  by (auto simp: or_dict_def)

lemma rpc_route_answers:
  assumes "uid_ok uid" "contract_validate (PDict d) = Inr d" "plain_request d prompt ctx"
  shows "\<exists>rid. field_of d ''id'' = PStr rid \<and> rpc_route S available uid (PDict d) =
    Inr (route_response_fields uid (PStr rid) (route_answer_of S prompt (case ctx of Some [] \<Rightarrow> None | _ \<Rightarrow> ctx)
      (effective_policy_of (sf_config S) (field_of d ''policy''))))"
proof -
  from assms(2) obtain kind where "field_of d ''kind'' = PStr kind" "validate_kind kind d = ok"
    by (rule contract_validate_Inr) simp
  then obtain rid where rid: "field_of d ''id'' = PStr rid" "rid \<noteq> []"
    unfolding validate_kind_ok using check_identifier_ok by blast
  have prompt: "dict_get d ''prompt'' = Some (PStr prompt)"
    using assms(3) by (auto simp: plain_request_def intro: field_of_Some)
  obtain b where b: "or_dict (field_of d ''budget'') = PDict b"
    using assms(3) or_dict_PDict by (auto simp: plain_request_def)
  have meta: "dict_error (or_dict (field_of d ''metadata'')) = ok"
    using assms(3) dict_error_ok by (auto simp: plain_request_def)
  have "bridge_validate available (PDict d) = Inr (PDict d)"
    using assms(2) by (simp add: bridge_validate_def)
  then have kw: "route_request_kwargs available (PDict d) = Inr \<lparr>rk_prompt = PStr prompt,
      rk_context = field_of d ''context'', rk_policy = field_of d ''policy'',
      rk_max_cloud_cost = field_of b ''maxCostUsd''\<rparr>"
    using prompt b meta by (simp add: route_request_kwargs_def ok_def)
  have ctx: "context_text (field_of d ''context'') = Inr (case ctx of Some [] \<Rightarrow> None | _ \<Rightarrow> ctx)"
    using assms(3) by (auto simp: plain_request_def context_text_def split: option.splits list.splits)
  have "ra_route (route_answer_of S prompt c (effective_policy_of (sf_config S) p)) \<in> set ROUTE_VALUES"
    "ra_level (route_answer_of S prompt c (effective_policy_of (sf_config S) p)) \<in> set DECISION_LEVELS" for c p
    unfolding route_never_blocked by (rule kind_value_route) (simp add: route_answer_of_def Let_def level_value_level)
  with rid make_route_response_ok [OF assms(1) field_of_Some [OF rid(1)]]
  have "make_route_response available uid d (route_answer_of S prompt c (effective_policy_of (sf_config S) p)) =
    Inr (route_response_fields uid (PStr rid) (route_answer_of S prompt c (effective_policy_of (sf_config S) p)))" for c p
    by simp
  with rid ctx show ?thesis by (simp add: rpc_route_def kw)
qed

lemma route_answer_values:
  "ra_route (route_answer_of S prompt c (effective_policy_of (sf_config S) p)) \<in> set ROUTE_VALUES"
  "ra_level (route_answer_of S prompt c (effective_policy_of (sf_config S) p)) \<in> set DECISION_LEVELS"
  unfolding route_never_blocked by (rule kind_value_route) (simp add: route_answer_of_def Let_def level_value_level)

lemma rpc_route_valid:
  assumes "uid_ok uid" "contract_validate (PDict d) = Inr d" "plain_request d prompt ctx"
  obtains r c where "rpc_route S available uid (PDict d) = Inr r" "contract_validate (PDict r) = Inr r"
    "field_of r ''requestId'' = field_of d ''id''"
    "field_of r ''route'' = PStr (ra_route (route_answer_of S prompt c
       (effective_policy_of (sf_config S) (field_of d ''policy''))))"
    "field_of r ''route'' \<noteq> PStr ''blocked''"
proof -
  let ?a = "\<lambda>c. route_answer_of S prompt c (effective_policy_of (sf_config S) (field_of d ''policy''))"
  obtain rid where rid: "field_of d ''id'' = PStr rid" "rid \<noteq> []"
    using assms(2) by (auto elim!: contract_validate_Inr simp: validate_kind_ok dest!: check_identifier_ok)
  from rpc_route_answers [OF assms, of S available] rid(1) obtain c where
    r: "rpc_route S available uid (PDict d) = Inr (route_response_fields uid (PStr rid) (?a c))" by auto
  have "contract_validate (PDict (route_response_fields uid (PStr rid) (?a c))) =
      Inr (route_response_fields uid (PStr rid) (?a c))"
    by (rule response_valid [OF assms(1)]) (use rid route_answer_values in auto)
  moreover have "field_of (route_response_fields uid (PStr rid) (?a c)) ''requestId'' = field_of d ''id''"
    "field_of (route_response_fields uid (PStr rid) (?a c)) ''route'' = PStr (ra_route (?a c))"
    unfolding rid(1) by (simp_all add: route_response_fields_def get_default_def)
  moreover have "ra_route (?a c) \<noteq> ''blocked''"
    unfolding route_never_blocked by (rule kind_value_route)
  ultimately show ?thesis by (intro that [OF r]) auto
qed

section \<open>Generation\<close>

lemma emits_generate: "emits (effect_ok S) (generate S ms tier_nm)"
proof -
  obtain t where t: "(if lower tier_nm \<in> {''expert'', ''cloud''} then EXPERT else LOCAL) = t" by simp
  show ?thesis
    unfolding generate_def Let_def t
    by (intro emits_intros emits_call_provider) (auto simp: effect_ok_def disciplined_def)
qed

lemma emits_generate_fresh: "emits (effect_ok S) (generate_fresh fr S params)"
  unfolding generate_fresh_def
  by (cases "field_of params ''messages''")
    (auto intro!: emits_intros emits_generate split: list.split)

definition extends_ok :: "('p, 'w) sifter \<Rightarrow> 'w service_state \<Rightarrow> 'w service_state \<Rightarrow> bool" where
  "extends_ok S s s' \<longleftrightarrow>
     (\<exists>es. rs_effects (sv_run s') = rs_effects (sv_run s) @ es \<and> list_all (effect_ok S) es) \<and>
     (\<forall>k p. dict_get (sv_idempotent s) k = Some p \<longrightarrow> dict_get (sv_idempotent s') k = Some p)"

lemma extends_ok_refl: "extends_ok S s s"
  by (simp add: extends_ok_def)

lemma extends_ok_trans: "extends_ok S a b \<Longrightarrow> extends_ok S b c \<Longrightarrow> extends_ok S a c"
  unfolding extends_ok_def by (metis append.assoc list_all_append)

lemma rpc_generate_extends: "extends_ok S s (snd (rpc_generate fr S v s))"
proof (cases v)
  case (PDict params)
  obtain r rs where f: "generate_fresh fr S params (sv_run s) = (r, rs)" by fastforce
  with emitsD [OF emits_generate_fresh [of S fr params], of "sv_run s"]
  have eff: "\<exists>es. rs_effects rs = rs_effects (sv_run s) @ es \<and> list_all (effect_ok S) es" by simp
  show ?thesis
  proof (cases "field_of params ''idempotencyKey'' = PNone")
    case True
    with PDict f eff show ?thesis by (simp add: rpc_generate_def extends_ok_def)
  next
    case False
    with PDict f eff show ?thesis
      by (cases r) (auto simp: rpc_generate_def extends_ok_def split: sum.split option.split)
  qed
qed (simp_all add: rpc_generate_def extends_ok_refl)

text \<open>A session: any sequence of messages, each with the random part of the next identifier.\<close>

fun serve ::
  "(rat \<Rightarrow> string) \<Rightarrow> (pyval \<Rightarrow> pyval result) \<Rightarrow> ('p, 'w) sifter \<Rightarrow> bool \<Rightarrow> (string \<times> contract) list \<Rightarrow>
     'w service_state \<Rightarrow> 'w service_state" where
  "serve fr rec S available [] s = s"
| "serve fr rec S available ((uid, m) # ms) s =
     serve fr rec S available ms (snd (rpc_handle fr rec S available uid m s))"

lemma rpc_handle_extends: "extends_ok S s (snd (rpc_handle fr rec S available uid m s))"
  using rpc_generate_extends [of S s fr "or_dict (field_of m ''params'')"]
  by (auto simp: rpc_handle_def Let_def extends_ok_refl split: sum.split bool.split prod.split)

lemma serve_extends: "extends_ok S s (serve fr rec S available ms s)"
proof (induction ms arbitrary: s)
  case (Cons m ms)
  obtain uid msg where m: "m = (uid, msg)" by fastforce
  show ?case unfolding m serve.simps
    by (rule extends_ok_trans [OF rpc_handle_extends Cons.IH])
qed (simp add: extends_ok_refl)

lemma rpc_generate_repeats:
  assumes "rpc_generate fr S (PDict params) s = (Inr payload, s1)"
    and "field_of params ''idempotencyKey'' \<noteq> PNone" "extends_ok S s1 s2"
  shows "rpc_generate fr S (PDict params) s2 = (Inr payload, s2)"
proof -
  obtain key where key: "key_of (field_of params ''idempotencyKey'') = Inr key"
    using assms(1,2) by (auto simp: rpc_generate_def split: sum.splits)
  with assms(1,2) have "dict_get (sv_idempotent s1) key = Some payload"
    by (auto simp: rpc_generate_def split: sum.splits prod.splits option.splits)
  with assms(3) have "dict_get (sv_idempotent s2) key = Some payload"
    by (simp add: extends_ok_def)
  with assms(2) key show ?thesis by (simp add: rpc_generate_def)
qed

section \<open>Dispatch\<close>

lemma rpc_handle_raises:
  "(\<exists>e. fst (rpc_handle fr rec S available uid m s) = Inl e) \<longleftrightarrow>
     truthy (field_of m ''aa'') \<and> (\<forall>d. field_of m ''aa'' \<noteq> PDict d)"
proof -
  have "(\<exists>e. is_compatible fr (or_dict (field_of m ''aa'')) = Inl e) \<longleftrightarrow>
     truthy (field_of m ''aa'') \<and> (\<forall>d. field_of m ''aa'' \<noteq> PDict d)"
    by (cases "field_of m ''aa''") (auto simp: is_compatible_def or_dict_def)
  then show ?thesis
    by (auto simp: rpc_handle_def Let_def split: sum.splits bool.splits prod.splits if_splits)
qed

definition well_formed_response :: "pyval \<Rightarrow> contract \<Rightarrow> bool" where
  "well_formed_response i r \<longleftrightarrow> field_of r ''jsonrpc'' = PStr ''2.0'' \<and> dict_get r ''id'' = Some i \<and>
     (dict_get r ''result'' = None) \<noteq> (dict_get r ''error'' = None)"

lemma well_formed_success: "well_formed_response i (success i r)"
  and well_formed_failure: "well_formed_response i (failure i c msg d)"
  by (simp_all add: well_formed_response_def success_def failure_def get_default_def)

lemma well_formed_respond: "well_formed_response i (respond i r)"
  by (auto simp: respond_def well_formed_success split: sum.split)
    (metis error_response.simps well_formed_failure py_error.exhaust)

lemma rpc_handle_well_formed:
  assumes "fst (rpc_handle fr rec S available uid m s) = Inr r"
  shows "well_formed_response (field_of m ''id'') r"
  using assms
  by (auto simp: rpc_handle_def Let_def well_formed_respond well_formed_failure
      split: sum.splits bool.splits prod.splits if_splits)

end
