(* ===== verification/Schema.thy ===== *)
theory Schema
  imports Provider
begin

text \<open>
  \<^verbatim>\<open>config/schema.py\<close>: the records of compute profiles, and what a goal asks of a model.
\<close>

record hardware_profile =
  hw_cpu_name :: "string option"
  hw_cpu_cores :: "int option"
  hw_cpu_threads :: "int option"
  hw_gpu_name :: "string option"
  hw_gpu_vendor :: "string option"
  hw_gpu_vram_gb :: "pyfloat option"
  hw_system_ram_gb :: "pyfloat option"
  hw_operating_system :: "string option"
  hw_architecture :: "string option"
  hw_source :: string

definition new_hardware :: hardware_profile where
  "new_hardware = \<lparr>hw_cpu_name = None, hw_cpu_cores = None, hw_cpu_threads = None, hw_gpu_name = None,
     hw_gpu_vendor = None, hw_gpu_vram_gb = None, hw_system_ram_gb = None, hw_operating_system = None,
     hw_architecture = None, hw_source = ''manual''\<rparr>"

definition has_gpu :: "hardware_profile \<Rightarrow> bool" where
  "has_gpu h \<longleftrightarrow> (case hw_gpu_name h of None \<Rightarrow> False | Some n \<Rightarrow> n \<noteq> []) \<and>
     0 < (case hw_gpu_vram_gb h of None \<Rightarrow> 0 | Some v \<Rightarrow> v)"

record user_goal =
  ug_workload :: "string list"
  ug_quality_priority :: pyfloat
  ug_speed_priority :: pyfloat
  ug_cost_priority :: pyfloat
  ug_privacy_priority :: pyfloat
  ug_cloud_allowed :: bool
  ug_preferred_context :: "int option"

definition new_goal :: "string list \<Rightarrow> user_goal" where
  "new_goal workload = \<lparr>ug_workload = workload, ug_quality_priority = rnd (1 / 2),
     ug_speed_priority = rnd (1 / 2), ug_cost_priority = rnd (1 / 2), ug_privacy_priority = rnd (1 / 2),
     ug_cloud_allowed = True, ug_preferred_context = None\<rparr>"

text \<open>The set of capabilities, as a list without repetitions.\<close>

definition asks_for :: "string list \<Rightarrow> string list \<Rightarrow> bool" where
  "asks_for workload names \<longleftrightarrow> list_ex (\<lambda>w. lower w \<in> set names) workload"

definition required_capabilities :: "user_goal \<Rightarrow> string list" where
  "required_capabilities g =
     (let w = ug_workload g;
          caps = (if asks_for w [''coding'', ''software development'', ''code generation'',
                    ''software engineering'', ''software engineering agents'', ''local autonomous agents'',
                    ''multi-agent orchestration''] then [''coding''] else []) @
                 (if asks_for w [''agents'', ''agent workflows'', ''software engineering agents'',
                    ''local autonomous agents'', ''multi-agent orchestration'']
                  then [''tool_use'', ''agentic''] else []) @
                 (if asks_for w [''reasoning'', ''research''] then [''reasoning''] else []) @
                 (if asks_for w [''large repository analysis'', ''summarization''] then [''long_context''] else []) @
                 (if asks_for w [''data analysis''] then [''structured_output''] else [])
      in if caps = [] then [''general''] else caps)"

record budget_config =
  bc_max_cloud_calls_per_task :: int
  bc_max_cloud_tokens_per_task :: int
  bc_max_cloud_cost_per_task :: pyfloat
  bc_max_parallel_cloud_calls :: int
  bc_max_parallel_local_calls :: int

definition default_budget_config :: budget_config where
  "default_budget_config = \<lparr>bc_max_cloud_calls_per_task = 5, bc_max_cloud_tokens_per_task = 200000,
     bc_max_cloud_cost_per_task = 2, bc_max_parallel_cloud_calls = 2, bc_max_parallel_local_calls = 1\<rparr>"

record approval_config =
  ac_major :: bool
  ac_critical :: bool
  ac_significant :: bool
  ac_non_interactive :: bool

text \<open>The validator that runs after construction and after every assignment.\<close>

definition protect_gates :: "approval_config \<Rightarrow> approval_config" where
  "protect_gates a = a\<lparr>ac_major := True, ac_critical := True\<rparr>"

definition default_approval_config :: approval_config where
  "default_approval_config = protect_gates
     \<lparr>ac_major = True, ac_critical = True, ac_significant = False, ac_non_interactive = False\<rparr>"

record preferences =
  up_local_first :: bool
  up_cost_sensitive :: bool
  up_privacy_sensitive :: bool
  up_cloud_allowed :: bool
  up_preferred_context :: "int option"

definition default_preferences :: preferences where
  "default_preferences = \<lparr>up_local_first = True, up_cost_sensitive = True, up_privacy_sensitive = True,
     up_cloud_allowed = True, up_preferred_context = None\<rparr>"

record tier_config =
  tc_provider :: string
  tc_model :: string
  tc_endpoint :: "string option"
  tc_api_key_env :: "string option"
  tc_context_limit :: "int option"
  tc_max_output_tokens :: "int option"
  tc_temperature :: "pyfloat option"
  tc_input_cost_per_mtok :: "pyfloat option"
  tc_output_cost_per_mtok :: "pyfloat option"
  tc_enabled :: bool
  tc_options :: "(string, pyval) dict"

definition new_tier :: "string \<Rightarrow> string \<Rightarrow> tier_config" where
  "new_tier provider model = \<lparr>tc_provider = provider, tc_model = model, tc_endpoint = None,
     tc_api_key_env = None, tc_context_limit = None, tc_max_output_tokens = None, tc_temperature = None,
     tc_input_cost_per_mtok = None, tc_output_cost_per_mtok = None, tc_enabled = True, tc_options = []\<rparr>"

record profile =
  cp_name :: string
  cp_local :: "tier_config option"
  cp_expert :: "tier_config option"
  cp_local_fallbacks :: "tier_config list"
  cp_routing_policy :: string
  cp_budget :: budget_config
  cp_approval :: approval_config
  cp_preferences :: preferences
  cp_hardware :: "hardware_profile option"
  cp_goal :: "user_goal option"

definition new_profile :: "string \<Rightarrow> profile" where
  "new_profile name = \<lparr>cp_name = name, cp_local = None, cp_expert = None, cp_local_fallbacks = [],
     cp_routing_policy = ''adaptive'', cp_budget = default_budget_config,
     cp_approval = default_approval_config, cp_preferences = default_preferences,
     cp_hardware = None, cp_goal = None\<rparr>"

definition CONFIG_VERSION :: int where
  "CONFIG_VERSION = 1"

record app_config =
  app_version :: int
  app_active_profile :: string
  app_active_hardware :: "string option"
  app_profiles :: "(string, profile) dict"
  app_hardware :: "(string, hardware_profile) dict"

definition active_profile :: "app_config \<Rightarrow> profile result" where
  "active_profile app = (case dict_get (app_profiles app) (app_active_profile app) of
     None \<Rightarrow> Inl (KeyError (''active profile '' @ app_active_profile app @ '' is not defined''))
   | Some p \<Rightarrow> Inr p)"

record recommendation =
  rec_profile :: profile
  rec_reasons :: "string list"
  rec_local_alternatives :: "tier_config list"
  rec_expert_alternatives :: "tier_config list"
  rec_confidence :: string
  rec_notes :: "string list"

section \<open>Facts\<close>

lemma required_capabilities_nonempty: "required_capabilities g \<noteq> []"
  by (simp add: required_capabilities_def Let_def)

lemma required_capabilities_distinct: "distinct (required_capabilities g)"
  by (simp add: required_capabilities_def Let_def)

lemma protect_gates_idem [simp]: "protect_gates (protect_gates a) = protect_gates a"
  by (simp add: protect_gates_def)

lemma protect_gates_on: "ac_major (protect_gates a)" "ac_critical (protect_gates a)"
  by (simp_all add: protect_gates_def)

text \<open>An approval configuration that exists has been through the validator.\<close>

definition approval_ok :: "profile \<Rightarrow> bool" where
  "approval_ok p \<longleftrightarrow> protect_gates (cp_approval p) = cp_approval p"

lemma approval_okD: "approval_ok p \<Longrightarrow> ac_major (cp_approval p) \<and> ac_critical (cp_approval p)"
  unfolding approval_ok_def by (metis protect_gates_on)

lemma approval_ok_new: "approval_ok (new_profile n)"
  by (simp add: approval_ok_def new_profile_def default_approval_config_def)

end
