(* ===== verification/Catalog.thy ===== *)
theory Catalog
  imports Provider
begin

text \<open>
  \<^verbatim>\<open>catalog/models.py\<close> and \<^verbatim>\<open>catalog/catalog.py\<close>: advisory metadata about known models.  The
  entries of the bundled \<^verbatim>\<open>data/catalog.toml\<close> are an argument wherever a catalog is used.
\<close>

record cost_metadata =
  cm_input_per_mtok :: pyfloat
  cm_output_per_mtok :: pyfloat

record model_metadata =
  mm_provider :: string
  mm_model_id :: string
  mm_display_name :: string
  mm_parameter_count_b :: "pyfloat option"
  mm_minimum_vram_gb :: "pyfloat option"
  mm_recommended_vram_gb :: "pyfloat option"
  mm_minimum_ram_gb :: "pyfloat option"
  mm_context_window :: "int option"
  mm_capabilities :: "string list"
  mm_local :: bool
  mm_cloud :: bool
  mm_cost :: "cost_metadata option"

type_synonym catalog = "model_metadata list"

definition has_capabilities :: "model_metadata \<Rightarrow> string list \<Rightarrow> bool" where
  "has_capabilities m required \<longleftrightarrow> required = [] \<or> set required \<subseteq> set (mm_capabilities m)"

definition supports :: "model_metadata \<Rightarrow> string \<Rightarrow> bool" where
  "supports m c \<longleftrightarrow> c \<in> set (mm_capabilities m)"

definition model_key :: "model_metadata \<Rightarrow> string" where
  "model_key m = mm_provider m @ ''/'' @ mm_model_id m"

text \<open>\<^verbatim>\<open>{model.key: model for model in models}\<close>: the last entry of a key counts.\<close>

definition catalog_get :: "catalog \<Rightarrow> string \<Rightarrow> string \<Rightarrow> model_metadata option" where
  "catalog_get cat provider model_id =
     map_of (map (\<lambda>m. (model_key m, m)) (rev cat)) (provider @ ''/'' @ model_id)"

definition local_models :: "catalog \<Rightarrow> model_metadata list" where
  "local_models cat = filter mm_local cat"

definition cloud_models :: "catalog \<Rightarrow> model_metadata list" where
  "cloud_models cat = filter mm_cloud cat"

definition catalog_filter ::
  "catalog \<Rightarrow> bool option \<Rightarrow> bool option \<Rightarrow> string list option \<Rightarrow> string list \<Rightarrow> model_metadata list" where
  "catalog_filter cat loc cld providers required =
     filter (\<lambda>m. (case loc of None \<Rightarrow> True | Some b \<Rightarrow> mm_local m = b) \<and>
                 (case cld of None \<Rightarrow> True | Some b \<Rightarrow> mm_cloud m = b) \<and>
                 (case providers of None \<Rightarrow> True | Some ps \<Rightarrow> mm_provider m \<in> set ps) \<and>
                 (required = [] \<or> has_capabilities m required)) cat"

lemma catalog_get_key: "catalog_get cat p i = Some m \<Longrightarrow> m \<in> set cat \<and> model_key m = p @ ''/'' @ i"
  by (auto simp: catalog_get_def dest!: map_of_SomeD)

lemma catalog_filter_mem:
  "m \<in> set (catalog_filter cat loc cld ps req) \<longleftrightarrow> m \<in> set cat \<and>
     (\<forall>b. loc = Some b \<longrightarrow> mm_local m = b) \<and> (\<forall>b. cld = Some b \<longrightarrow> mm_cloud m = b) \<and>
     (\<forall>l. ps = Some l \<longrightarrow> mm_provider m \<in> set l) \<and> set req \<subseteq> set (mm_capabilities m)"
  by (auto simp: catalog_filter_def has_capabilities_def split: option.splits)

end
