(* ===== verification/Profiles.thy ===== *)
theory Profiles
  imports Schema Catalog Config PyStr
begin

text \<open>
  \<^verbatim>\<open>config/profiles.py\<close>, \<^verbatim>\<open>config/defaults.py\<close> and \<^verbatim>\<open>config/validation.py\<close>: the operations on
  the profiles of an application, the shipped profile, and the validation of a profile.
  An operation returns the changed application; writing it to its file is left out.
\<close>

section \<open>The shipped profile\<close>

definition default_local_tier :: tier_config where
  "default_local_tier = (new_tier DEFAULT_LOCAL_PROVIDER DEFAULT_LOCAL_MODEL)
     \<lparr>tc_context_limit := Some DEFAULT_LOCAL_CONTEXT, tc_max_output_tokens := Some DEFAULT_LOCAL_MAX_OUTPUT,
      tc_temperature := Some DEFAULT_TEMPERATURE\<rparr>"

definition default_expert_tier :: tier_config where
  "default_expert_tier = (new_tier DEFAULT_EXPERT_PROVIDER DEFAULT_EXPERT_MODEL)
     \<lparr>tc_endpoint := Some DEFAULT_EXPERT_ENDPOINT, tc_api_key_env := Some DEFAULT_EXPERT_API_KEY_ENV,
      tc_context_limit := Some DEFAULT_EXPERT_CONTEXT, tc_max_output_tokens := Some DEFAULT_EXPERT_MAX_OUTPUT,
      tc_temperature := Some DEFAULT_TEMPERATURE,
      tc_input_cost_per_mtok := Some DEFAULT_EXPERT_INPUT_COST,
      tc_output_cost_per_mtok := Some DEFAULT_EXPERT_OUTPUT_COST\<rparr>"

definition default_profile :: "string \<Rightarrow> profile" where
  "default_profile name = (new_profile name)
     \<lparr>cp_local := Some default_local_tier, cp_expert := Some default_expert_tier,
      cp_routing_policy := DEFAULT_ROUTING_POLICY\<rparr>"

definition default_application :: app_config where
  "default_application = \<lparr>app_version = CONFIG_VERSION, app_active_profile = ''default'',
     app_active_hardware = None, app_profiles = [(''default'', default_profile ''default'')],
     app_hardware = []\<rparr>"

section \<open>Operations\<close>

text \<open>\<^verbatim>\<open>name or app.active_profile\<close>\<close>

definition selected_profile :: "app_config \<Rightarrow> string option \<Rightarrow> string" where
  "selected_profile app name = (case name of None \<Rightarrow> app_active_profile app
     | Some [] \<Rightarrow> app_active_profile app | Some n \<Rightarrow> n)"

definition get_profile :: "app_config \<Rightarrow> string option \<Rightarrow> profile result" where
  "get_profile app name = (case dict_get (app_profiles app) (selected_profile app name) of
     None \<Rightarrow> Inl (ProfileError (''profile '' @ [quote] @ selected_profile app name @ [quote] @ '' does not exist''))
   | Some p \<Rightarrow> Inr p)"

definition put_profile :: "app_config \<Rightarrow> string \<Rightarrow> profile \<Rightarrow> app_config" where
  "put_profile app name p = app\<lparr>app_profiles := dict_set name p (app_profiles app)\<rparr>"

definition activate_profile :: "app_config \<Rightarrow> string \<Rightarrow> (profile \<times> app_config) result" where
  "activate_profile app name = (case get_profile app (Some name) of
     Inl e \<Rightarrow> Inl e | Inr p \<Rightarrow> Inr (p, app\<lparr>app_active_profile := name\<rparr>))"

definition create_profile ::
  "app_config \<Rightarrow> string \<Rightarrow> string option \<Rightarrow> bool \<Rightarrow> (profile \<times> app_config) result" where
  "create_profile app name source force =
     (if dict_get (app_profiles app) name \<noteq> None \<and> \<not> force
      then Inl (ProfileError (''profile '' @ [quote] @ name @ [quote] @ '' already exists''))
      else case get_profile app (Some (selected_profile app source)) of
        Inl e \<Rightarrow> Inl e
      | Inr p \<Rightarrow> (let p = p\<lparr>cp_name := name\<rparr> in Inr (p, put_profile app name p)))"

definition copy_profile ::
  "app_config \<Rightarrow> string \<Rightarrow> string \<Rightarrow> bool \<Rightarrow> (profile \<times> app_config) result" where
  "copy_profile app source target force = create_profile app target (Some source) force"

definition delete_profile :: "app_config \<Rightarrow> string \<Rightarrow> (string \<times> app_config) result" where
  "delete_profile app name =
     (case get_profile app (Some name) of
        Inl e \<Rightarrow> Inl e
      | Inr p \<Rightarrow>
          if length (app_profiles app) = 1 then Inl (ProfileError ''cannot delete the last profile'')
          else if dict_get (app_profiles app) name = None then Inl (KeyError name)
          else (let ps = dict_del name (app_profiles app);
                    active = (if app_active_profile app = name then fst (hd ps) else app_active_profile app)
                in Inr (active, app\<lparr>app_active_profile := active, app_profiles := ps\<rparr>)))"

definition set_if :: "('a \<Rightarrow> bool) \<Rightarrow> 'a option \<Rightarrow> (('b \<Rightarrow> 'b) \<Rightarrow> 't \<Rightarrow> 't) \<Rightarrow> ('a \<Rightarrow> 'b) \<Rightarrow> 't \<Rightarrow> 't" where
  "set_if test x upd wrap t = (case x of None \<Rightarrow> t | Some v \<Rightarrow> if test v then upd (\<lambda>_. wrap v) t else t)"

definition retier ::
  "tier_config option \<Rightarrow> string \<Rightarrow> string \<Rightarrow> int option \<Rightarrow> int option \<Rightarrow> string option \<Rightarrow> string option \<Rightarrow>
     tier_config" where
  "retier t provider model context_limit max_output endpoint api_key =
     (let t = (case t of None \<Rightarrow> new_tier provider model
                | Some t \<Rightarrow> t\<lparr>tc_provider := provider, tc_model := model\<rparr>);
          t = set_if (\<lambda>_. True) context_limit tc_context_limit_update Some t;
          t = set_if (\<lambda>_. True) max_output tc_max_output_tokens_update Some t;
          t = set_if (\<lambda>s. s \<noteq> []) endpoint tc_endpoint_update Some t
      in set_if (\<lambda>s. s \<noteq> []) api_key tc_api_key_env_update Some t)"

definition set_tier ::
  "app_config \<Rightarrow> string \<Rightarrow> string \<Rightarrow> string \<Rightarrow> string option \<Rightarrow> int option \<Rightarrow> int option \<Rightarrow> string option \<Rightarrow>
     string option \<Rightarrow> (profile \<times> app_config) result" where
  "set_tier app tier_nm provider model profile_name context_limit max_output endpoint api_key =
     (case get_profile app profile_name of
        Inl e \<Rightarrow> Inl e
      | Inr p \<Rightarrow>
          if tier_nm \<notin> {''local'', ''expert''} then Inl (ProfileError (''unknown tier '' @ [quote] @ tier_nm @ [quote]))
          else (let p = (if tier_nm = ''local''
                  then p\<lparr>cp_local := Some (retier (cp_local p) provider model context_limit max_output endpoint api_key)\<rparr>
                  else p\<lparr>cp_expert := Some (retier (cp_expert p) provider model context_limit max_output endpoint api_key)\<rparr>)
                in Inr (p, put_profile app (selected_profile app profile_name) p)))"

record profile_update =
  pu_local_model :: "string option"
  pu_expert_model :: "string option"
  pu_routing :: "string option"
  pu_cloud :: "bool option"
  pu_local_first :: "bool option"
  pu_context_limit :: "int option"

definition is_given :: "string option \<Rightarrow> bool" where
  "is_given x \<longleftrightarrow> (case x of None \<Rightarrow> False | Some s \<Rightarrow> s \<noteq> [])"

definition apply_update :: "profile_update \<Rightarrow> profile \<Rightarrow> profile" where
  "apply_update u p =
     (let p = (if is_given (pu_local_model u)
            then p\<lparr>cp_local := Some (case cp_local p of None \<Rightarrow> new_tier ''ollama'' (the (pu_local_model u))
                    | Some t \<Rightarrow> t\<lparr>tc_model := the (pu_local_model u)\<rparr>)\<rparr> else p);
          p = (if is_given (pu_expert_model u)
            then p\<lparr>cp_expert := Some (case cp_expert p of None \<Rightarrow> new_tier ''deepseek'' (the (pu_expert_model u))
                    | Some t \<Rightarrow> t\<lparr>tc_model := the (pu_expert_model u)\<rparr>)\<rparr> else p);
          p = (if is_given (pu_routing u) then p\<lparr>cp_routing_policy := the (pu_routing u)\<rparr> else p);
          p = (case pu_cloud u of None \<Rightarrow> p
            | Some b \<Rightarrow> p\<lparr>cp_preferences := (cp_preferences p)\<lparr>up_cloud_allowed := b\<rparr>,
                          cp_expert := map_option (\<lambda>t. t\<lparr>tc_enabled := b\<rparr>) (cp_expert p)\<rparr>);
          p = (case pu_local_first u of None \<Rightarrow> p
            | Some b \<Rightarrow> p\<lparr>cp_preferences := (cp_preferences p)\<lparr>up_local_first := b\<rparr>\<rparr>)
      in case pu_context_limit u of None \<Rightarrow> p
         | Some n \<Rightarrow> p\<lparr>cp_local := map_option (\<lambda>t. t\<lparr>tc_context_limit := Some n\<rparr>) (cp_local p)\<rparr>)"

definition update_profile ::
  "app_config \<Rightarrow> string option \<Rightarrow> profile_update \<Rightarrow> (profile \<times> app_config) result" where
  "update_profile app profile_name u =
     (case get_profile app profile_name of
        Inl e \<Rightarrow> Inl e
      | Inr p \<Rightarrow> (let p = apply_update u p in Inr (p, put_profile app (selected_profile app profile_name) p)))"

section \<open>Validation of a profile\<close>

definition KNOWN_PROVIDERS :: "string list" where
  "KNOWN_PROVIDERS = [''ollama'', ''deepseek'', ''openai-compatible'']"

definition KEYED_PROVIDERS :: "string list" where
  "KEYED_PROVIDERS = [''deepseek'', ''openai-compatible'']"

definition KNOWN_POLICIES :: "string list" where
  "KNOWN_POLICIES = [''local_only'', ''cloud_only'', ''local_first'', ''expert_first'', ''adaptive'',
     ''budget_constrained'']"

record validation =
  va_errors :: "string list"
  va_warnings :: "string list"

definition va_ok :: "validation \<Rightarrow> bool" where
  "va_ok v \<longleftrightarrow> va_errors v = []"

definition err :: "bool \<Rightarrow> string \<Rightarrow> validation" where
  "err b msg = \<lparr>va_errors = (if b then [msg] else []), va_warnings = []\<rparr>"

definition warning :: "bool \<Rightarrow> string \<Rightarrow> validation" where
  "warning b msg = \<lparr>va_errors = [], va_warnings = (if b then [msg] else [])\<rparr>"

definition va_all :: "validation list \<Rightarrow> validation" where
  "va_all vs = \<lparr>va_errors = concat (map va_errors vs), va_warnings = concat (map va_warnings vs)\<rparr>"

definition exceeds :: "pyfloat option \<Rightarrow> pyfloat option \<Rightarrow> bool" where
  "exceeds needed available = (case (needed, available) of (Some n, Some a) \<Rightarrow> a < n | _ \<Rightarrow> False)"

definition check_credentials ::
  "(string, string) dict \<Rightarrow> bool \<Rightarrow> string \<Rightarrow> tier_config \<Rightarrow> validation" where
  "check_credentials env require label t =
     (if tc_provider t \<notin> set KEYED_PROVIDERS then va_all []
      else if \<not> is_given (tc_api_key_env t)
      then err True (label @ '' provider '' @ [quote] @ tc_provider t @ [quote] @ '' requires api_key_env to be set'')
      else if is_given (dict_get env (the (tc_api_key_env t))) then va_all []
      else (let msg = the (tc_api_key_env t) @ '' is required for the '' @ label @
              '' provider but is not configured''
            in if require then err True msg else warning True msg))"

definition check_metadata ::
  "(pyfloat \<Rightarrow> string) \<Rightarrow> hardware_profile option \<Rightarrow> model_metadata \<Rightarrow> validation" where
  "check_metadata fmt hw m =
     (case hw of None \<Rightarrow> va_all []
      | Some h \<Rightarrow> va_all [
          warning (exceeds (mm_minimum_vram_gb m) (hw_gpu_vram_gb h))
            (''model '' @ [quote] @ mm_display_name m @ [quote] @ '' needs ~'' @ fmt (the (mm_minimum_vram_gb m)) @
             '' GB VRAM but only '' @ fmt (the (hw_gpu_vram_gb h)) @ '' GB is available; expect CPU offload''),
          warning (exceeds (mm_minimum_ram_gb m) (hw_system_ram_gb h))
            (''model '' @ [quote] @ mm_display_name m @ [quote] @ '' wants ~'' @ fmt (the (mm_minimum_ram_gb m)) @
             '' GB RAM but '' @ fmt (the (hw_system_ram_gb h)) @ '' GB is available'')])"

definition check_tier ::
  "(pyfloat \<Rightarrow> string) \<Rightarrow> catalog \<Rightarrow> hardware_profile option \<Rightarrow> (string, string) dict \<Rightarrow> bool \<Rightarrow> string \<Rightarrow>
     tier_config \<Rightarrow> validation" where
  "check_tier fmt cat hw env require label t = va_all [
     err (tc_provider t = []) (label @ '' provider is missing''),
     err (tc_model t = []) (label @ '' model is missing''),
     warning (tc_provider t \<noteq> [] \<and> tc_provider t \<notin> set KNOWN_PROVIDERS)
       (label @ '' provider '' @ [quote] @ tc_provider t @ [quote] @ '' is not a built-in provider; ensure it is registered at runtime''),
     err (case tc_context_limit t of None \<Rightarrow> False | Some n \<Rightarrow> n \<le> 0) (label @ '' context_limit must be positive''),
     check_credentials env require label t,
     (case catalog_get cat (tc_provider t) (tc_model t) of
        None \<Rightarrow> warning True (label @ '' model '' @ [quote] @ tc_provider t @ ''/'' @ tc_model t @ [quote] @
          '' has no catalog metadata (configuration is still allowed)'')
      | Some m \<Rightarrow> check_metadata fmt hw m)]"

definition profile_cloud_allowed :: "profile \<Rightarrow> bool" where
  "profile_cloud_allowed p \<longleftrightarrow> up_cloud_allowed (cp_preferences p) \<and>
     (case cp_goal p of None \<Rightarrow> True | Some g \<Rightarrow> ug_cloud_allowed g)"

definition active_tier :: "tier_config option \<Rightarrow> bool" where
  "active_tier t \<longleftrightarrow> (case t of None \<Rightarrow> False | Some t \<Rightarrow> tc_enabled t)"

definition validate_profile ::
  "(pyfloat \<Rightarrow> string) \<Rightarrow> catalog \<Rightarrow> hardware_profile option \<Rightarrow> (string, string) dict \<Rightarrow> bool \<Rightarrow> profile \<Rightarrow>
     validation" where
  "validate_profile fmt cat hw env require p = va_all [
     err (cp_routing_policy p \<notin> set KNOWN_POLICIES) (''unknown routing policy '' @ [quote] @ cp_routing_policy p @ [quote] @ ''; expected one of '' @
       py_repr (\<lambda>x. []) (PList (map PStr (sort KNOWN_POLICIES)))),
     (if active_tier (cp_local p) then check_tier fmt cat hw env require ''local'' (the (cp_local p))
      else err True ''no local model tier is configured''),
     (if profile_cloud_allowed p \<and> active_tier (cp_expert p)
      then check_tier fmt cat hw env require ''expert'' (the (cp_expert p)) else va_all []),
     err (bc_max_cloud_cost_per_task (cp_budget p) < 0) ''max_cloud_cost_per_task cannot be negative'',
     err (bc_max_cloud_calls_per_task (cp_budget p) < 0) ''max_cloud_calls_per_task cannot be negative'',
     err (bc_max_cloud_tokens_per_task (cp_budget p) < 0) ''max_cloud_tokens_per_task cannot be negative'']"

section \<open>Facts\<close>

text \<open>The invariant of an application: its active profile is one of its profiles.\<close>

definition gated :: "app_config \<Rightarrow> bool" where
  "gated app \<longleftrightarrow> dict_ok (app_profiles app) \<and>
     (\<forall>k p. dict_get (app_profiles app) k = Some p \<longrightarrow> approval_ok p)"

definition active_defined :: "app_config \<Rightarrow> bool" where
  "active_defined app \<longleftrightarrow> dict_get (app_profiles app) (app_active_profile app) \<noteq> None"

definition app_ok :: "app_config \<Rightarrow> bool" where
  "app_ok app \<longleftrightarrow> dict_ok (app_profiles app) \<and>
     dict_get (app_profiles app) (app_active_profile app) \<noteq> None \<and>
     (\<forall>k p. dict_get (app_profiles app) k = Some p \<longrightarrow> approval_ok p)"

lemma app_ok_split: "app_ok app \<longleftrightarrow> gated app \<and> active_defined app"
  by (auto simp: app_ok_def gated_def active_defined_def)

lemma approval_ok_default: "approval_ok (default_profile n)"
  by (simp add: default_profile_def approval_ok_def new_profile_def default_approval_config_def)

lemma default_application_ok: "app_ok default_application"
  by (simp add: app_ok_def default_application_def dict_ok_def approval_ok_default)

lemma app_ok_get: "app_ok app \<Longrightarrow> get_profile app name = Inr p \<Longrightarrow> approval_ok p"
  by (auto simp: app_ok_def get_profile_def split: option.splits)

lemma app_ok_active: "app_ok app \<Longrightarrow> \<exists>p. active_profile app = Inr p \<and> get_profile app None = Inr p"
  by (auto simp: app_ok_def active_profile_def get_profile_def selected_profile_def)

lemma gated_get: "gated app \<Longrightarrow> get_profile app name = Inr p \<Longrightarrow> approval_ok p"
  by (auto simp: gated_def get_profile_def split: option.splits)

lemma gated_put: "gated app \<Longrightarrow> approval_ok p \<Longrightarrow> gated (put_profile app name p)"
  by (auto simp: gated_def put_profile_def dict_ok_def AList.distinct_update)

lemma app_ok_put: "app_ok app \<Longrightarrow> approval_ok p \<Longrightarrow> app_ok (put_profile app name p)"
  using gated_put [of app p name] by (auto simp: app_ok_split active_defined_def put_profile_def)

lemma created_profile:
  assumes "create_profile app name source force = Inr (p, app')"
  shows "app' = put_profile app name p \<and> cp_name p = name \<and> (gated app \<longrightarrow> approval_ok p)"
proof -
  from assms obtain q where q: "get_profile app (Some (selected_profile app source)) = Inr q"
    "p = q\<lparr>cp_name := name\<rparr>" "app' = put_profile app name p"
    by (auto simp: create_profile_def Let_def split: if_splits sum.splits)
  then show ?thesis using gated_get [OF _ q(1)] by (auto simp: approval_ok_def)
qed

lemma hd_key: "dict_ok d \<Longrightarrow> d \<noteq> [] \<Longrightarrow> dict_get d (fst (hd d)) \<noteq> None"
  by (cases d) (auto simp: dict_ok_def)

lemma deleted_profile:
  assumes "delete_profile app name = Inr (active, app')" "gated app"
  shows "gated app' \<and> dict_get (app_profiles app') name = None \<and> active = app_active_profile app' \<and>
    (app_active_profile app = name \<longrightarrow> active_defined app') \<and>
    (app_active_profile app \<noteq> name \<longrightarrow> app_active_profile app' = app_active_profile app) \<and>
    (\<forall>k. k \<noteq> name \<longrightarrow> dict_get (app_profiles app') k = dict_get (app_profiles app) k)"
proof -
  let ?ps = "dict_del name (app_profiles app)"
  from assms(1) have d: "length (app_profiles app) \<noteq> 1" "dict_get (app_profiles app) name \<noteq> None"
    "app' = app\<lparr>app_active_profile := active, app_profiles := ?ps\<rparr>"
    "active = (if app_active_profile app = name then fst (hd ?ps) else app_active_profile app)"
    by (auto simp: delete_profile_def Let_def split: sum.splits if_splits)
  have ok: "dict_ok ?ps" using assms(2) by (simp add: gated_def dict_ok_def AList.distinct_delete)
  have "?ps \<noteq> []"
  proof
    assume "?ps = []"
    then have keys: "set (map fst (app_profiles app)) \<subseteq> {name}"
      by (auto simp: AList.delete_eq filter_empty_conv)
    have "length (map fst (app_profiles app)) \<le> card {name}"
      using assms(2) card_mono [OF _ keys] distinct_card [of "map fst (app_profiles app)"]
      by (simp add: gated_def dict_ok_def)
    moreover have "app_profiles app \<noteq> []" using d(2) by auto
    ultimately show False using d(1) by (cases "app_profiles app") auto
  qed
  then have "app_active_profile app = name \<longrightarrow> active_defined app'"
    using hd_key [OF ok] d(3,4) by (simp add: active_defined_def)
  with ok assms(2) d(3,4) show ?thesis by (auto simp: gated_def)
qed

lemma delete_ok:
  assumes "app_ok app" "delete_profile app name = Inr (active, app')"
  shows "app_ok app'"
  using deleted_profile [OF assms(2)] assms(1)
  by (cases "app_active_profile app = name") (auto simp: app_ok_split active_defined_def)

lemma tiered_profile:
  assumes "set_tier app t pr m n cl mo ep ak = Inr (p, app')"
  shows "app' = put_profile app (selected_profile app n) p \<and> (gated app \<longrightarrow> approval_ok p)"
proof -
  from assms obtain q where q: "get_profile app n = Inr q"
    and p: "app' = put_profile app (selected_profile app n) p" "cp_approval p = cp_approval q"
    by (auto simp: set_tier_def Let_def split: sum.splits if_splits)
  then show ?thesis using gated_get [OF _ q] by (simp add: approval_ok_def)
qed

lemma apply_update_approval [simp]: "cp_approval (apply_update u p) = cp_approval p"
  by (simp add: apply_update_def Let_def split: option.split)

lemma updated_profile:
  assumes "update_profile app n u = Inr (p, app')"
  shows "app' = put_profile app (selected_profile app n) p \<and> (gated app \<longrightarrow> approval_ok p)"
proof (cases "get_profile app n")
  case (Inl e)
  with assms show ?thesis by (simp add: update_profile_def)
next
  case (Inr q)
  with assms have p: "apply_update u q = p" "app' = put_profile app (selected_profile app n) p"
    by (auto simp: update_profile_def Let_def)
  then show ?thesis
    using gated_get [OF _ Inr] apply_update_approval [of u q] by (simp add: approval_ok_def)
qed

text \<open>
  What a session of profile commands can do.  The names are any names: the empty one can be
  activated, which selects the active profile and then makes it nameless, so the active
  profile is a defined one or the empty name.
\<close>

inductive profile_step :: "app_config \<Rightarrow> app_config \<Rightarrow> bool" where
  activate: "activate_profile app name = Inr (p, app') \<Longrightarrow> profile_step app app'"
| create: "create_profile app name source force = Inr (p, app') \<Longrightarrow> profile_step app app'"
| delete: "delete_profile app name = Inr (active, app') \<Longrightarrow> profile_step app app'"
| tier: "set_tier app t pr m n cl mo ep ak = Inr (p, app') \<Longrightarrow> profile_step app app'"
| change: "update_profile app n u = Inr (p, app') \<Longrightarrow> profile_step app app'"

definition app_fit :: "app_config \<Rightarrow> bool" where
  "app_fit app \<longleftrightarrow> gated app \<and> (app_active_profile app = [] \<or> active_defined app)"

lemma app_fit_ok: "app_ok app \<Longrightarrow> app_fit app"
  by (simp add: app_fit_def app_ok_split)

lemma activate_fit: "app_fit app \<Longrightarrow> activate_profile app name = Inr (p, app') \<Longrightarrow> app_fit app'"
  by (cases name) (auto simp: app_fit_def gated_def active_defined_def activate_profile_def get_profile_def
      selected_profile_def split: option.splits)

lemma put_fit:
  "app_fit app \<Longrightarrow> approval_ok p \<Longrightarrow> app_fit (put_profile app name p)"
  using gated_put [of app p name] by (auto simp: app_fit_def active_defined_def put_profile_def)

lemma profile_step_fit: "profile_step app app' \<Longrightarrow> app_fit app \<Longrightarrow> app_fit app'"
proof (induction rule: profile_step.induct)
  case (activate app name p app')
  then show ?case using activate_fit by blast
next
  case (create app name source force p app')
  then show ?case using put_fit created_profile [OF create.hyps] by (auto simp: app_fit_def)
next
  case (delete app name active app')
  then show ?case using deleted_profile [OF delete.hyps] by (auto simp: app_fit_def active_defined_def)
next
  case (tier app t pr m n cl mo ep ak p app')
  then show ?case using put_fit tiered_profile [OF tier.hyps] by (auto simp: app_fit_def)
next
  case (change app n u p app')
  then show ?case using put_fit updated_profile [OF change.hyps] by (auto simp: app_fit_def)
qed

lemma profile_steps_fit: "profile_step\<^sup>*\<^sup>* app app' \<Longrightarrow> app_fit app \<Longrightarrow> app_fit app'"
  by (induction rule: rtranclp_induct) (auto intro: profile_step_fit)

lemma gated_gates:
  "gated app \<Longrightarrow> list_all (\<lambda>(n, q). ac_major (cp_approval q) \<and> ac_critical (cp_approval q)) (app_profiles app)"
  using approval_okD by (fastforce simp: gated_def list_all_iff dict_ok_def)

lemma app_fit_active:
  "app_fit app \<Longrightarrow> app_active_profile app \<noteq> [] \<Longrightarrow> \<exists>p. active_profile app = Inr p \<and> get_profile app None = Inr p"
  by (auto simp: app_fit_def active_defined_def active_profile_def get_profile_def selected_profile_def)

text \<open>Activating the empty name, and what is left where no profile has that name.\<close>

lemma empty_name_is_activated:
  "active_defined app \<Longrightarrow> \<exists>p. activate_profile app [] = Inr (p, app\<lparr>app_active_profile := []\<rparr>)"
  by (auto simp: active_defined_def activate_profile_def get_profile_def selected_profile_def)

lemma empty_name_is_lost:
  "dict_get (app_profiles app) [] = None \<Longrightarrow> isl (get_profile (app\<lparr>app_active_profile := []\<rparr>) None)"
  by (simp add: get_profile_def selected_profile_def)

lemma apply_update_offline:
  "pu_cloud u = Some False \<Longrightarrow> \<not> profile_cloud_allowed (apply_update u p) \<and>
     \<not> active_tier (cp_expert (apply_update u p))"
  by (simp add: apply_update_def Let_def profile_cloud_allowed_def active_tier_def split: option.split)

lemma validate_ok_iff:
  "va_ok (va_all vs) \<longleftrightarrow> list_all va_ok vs"
  by (induction vs) (auto simp: va_all_def va_ok_def)

lemma err_ok [simp]: "va_ok (err b m) \<longleftrightarrow> \<not> b" "va_ok (warning b m)"
  by (simp_all add: err_def warning_def va_ok_def)

lemma validated_profile:
  assumes "va_ok (validate_profile fmt cat hw env require p)"
  shows "cp_routing_policy p \<in> set KNOWN_POLICIES \<and>
    (\<exists>t. cp_local p = Some t \<and> tc_enabled t \<and> tc_model t \<noteq> [] \<and> (\<forall>n. tc_context_limit t = Some n \<longrightarrow> 0 < n)) \<and>
    0 \<le> bc_max_cloud_cost_per_task (cp_budget p)"
  using assms unfolding validate_profile_def validate_ok_iff
  by (auto simp: active_tier_def check_tier_def validate_ok_iff split: if_splits option.splits)

end
