(* ===== verification/Resolve.thy ===== *)
theory Resolve
  imports Profiles
begin

text \<open>
  \<^verbatim>\<open>config/resolve.py\<close> and the overrides of the command line (\<^verbatim>\<open>cli/main.py\<close>): from an
  application's profile to the runtime configuration of a sifter.  Every step is an
  unvalidated \<^verbatim>\<open>model_copy\<close>.  The environment is the one after the dotenv file was loaded;
  the stored application, read by \<^verbatim>\<open>tomllib\<close> and pydantic, is an argument.
\<close>

section \<open>A profile over a configuration\<close>

definition upd :: "'a option \<Rightarrow> (('b \<Rightarrow> 'b) \<Rightarrow> config \<Rightarrow> config) \<Rightarrow> ('a \<Rightarrow> 'b) \<Rightarrow> config \<Rightarrow> config" where
  "upd x f wrap c = (case x of None \<Rightarrow> c | Some v \<Rightarrow> f (\<lambda>_. wrap v) c)"

definition apply_local_tier :: "tier_config \<Rightarrow> config \<Rightarrow> config" where
  "apply_local_tier t c =
     upd (tc_temperature t) local_temperature_update Some
     (upd (tc_max_output_tokens t) local_max_output_tokens_update Some
     (upd (tc_api_key_env t) local_api_key_env_update Some
     (upd (tc_endpoint t) local_endpoint_update Some
     (upd (tc_context_limit t) local_context_limit_update (\<lambda>x. x)
     (c\<lparr>local_provider := tc_provider t, local_model := tc_model t\<rparr>)))))"

definition apply_expert_tier :: "tier_config \<Rightarrow> config \<Rightarrow> config" where
  "apply_expert_tier t c =
     upd (tc_output_cost_per_mtok t) cloud_output_cost_per_mtok_update (\<lambda>x. x)
     (upd (tc_input_cost_per_mtok t) cloud_input_cost_per_mtok_update (\<lambda>x. x)
     (upd (tc_temperature t) expert_temperature_update Some
     (upd (tc_max_output_tokens t) expert_max_output_tokens_update Some
     (upd (tc_api_key_env t) expert_api_key_env_update Some
     (upd (tc_endpoint t) expert_endpoint_update Some
     (upd (tc_context_limit t) cloud_context_limit_update (\<lambda>x. x)
     (c\<lparr>expert_provider := tc_provider t, cloud_model := tc_model t\<rparr>)))))))"

text \<open>Prices the tier does not give are the catalog's, where it knows the model.\<close>

definition apply_catalog_costs :: "catalog option \<Rightarrow> tier_config \<Rightarrow> config \<Rightarrow> config" where
  "apply_catalog_costs cat t c =
     (case (case cat of None \<Rightarrow> None | Some cat \<Rightarrow> catalog_get cat (tc_provider t) (tc_model t)) of
        None \<Rightarrow> c
      | Some m \<Rightarrow> (case mm_cost m of
          None \<Rightarrow> c
        | Some cost \<Rightarrow>
            (let c = (if tc_input_cost_per_mtok t = None
                  then c\<lparr>cloud_input_cost_per_mtok := cm_input_per_mtok cost\<rparr> else c)
             in if tc_output_cost_per_mtok t = None
                then c\<lparr>cloud_output_cost_per_mtok := cm_output_per_mtok cost\<rparr> else c)))"

definition apply_local :: "tier_config option \<Rightarrow> config \<Rightarrow> config" where
  "apply_local t c = (case t of None \<Rightarrow> c
     | Some t \<Rightarrow> if tc_enabled t then apply_local_tier t c else c\<lparr>local_provider := tc_provider t\<rparr>)"

definition apply_expert :: "catalog option \<Rightarrow> tier_config option \<Rightarrow> config \<Rightarrow> config" where
  "apply_expert cat t c =
     (if active_tier t
      then apply_catalog_costs cat (the t) ((apply_expert_tier (the t) c)\<lparr>cloud_allowed := True\<rparr>)
      else c\<lparr>cloud_allowed := False\<rparr>)"

definition apply_budget :: "budget_config \<Rightarrow> config \<Rightarrow> config" where
  "apply_budget b c = c\<lparr>max_cloud_calls_per_task := bc_max_cloud_calls_per_task b,
     max_cloud_tokens_per_task := bc_max_cloud_tokens_per_task b,
     max_cloud_cost_per_task := bc_max_cloud_cost_per_task b,
     max_parallel_cloud_calls := bc_max_parallel_cloud_calls b,
     max_parallel_local_calls := bc_max_parallel_local_calls b\<rparr>"

definition apply_approval :: "approval_config \<Rightarrow> config \<Rightarrow> config" where
  "apply_approval a c = c\<lparr>human_approval_for_major_decisions := ac_major a,
     human_approval_for_critical_decisions := ac_critical a,
     human_approval_for_significant_decisions := ac_significant a,
     non_interactive := ac_non_interactive a\<rparr>"

definition apply_profile_to_config :: "catalog option \<Rightarrow> profile \<Rightarrow> config \<Rightarrow> config \<times> string list" where
  "apply_profile_to_config cat p base =
     (let prefs = cp_preferences p;
          c = base\<lparr>routing_policy := cp_routing_policy p, prefer_local := up_local_first prefs,
                cost_sensitive := up_cost_sensitive prefs, privacy_sensitive := up_privacy_sensitive prefs\<rparr>;
          c = apply_expert cat (cp_expert p) (apply_local (cp_local p) c);
          c = (if profile_cloud_allowed p then c else c\<lparr>cloud_allowed := False\<rparr>);
          c = apply_approval (cp_approval p) (apply_budget (cp_budget p) c)
      in (model_copy (\<lambda>_. c) base,
          if ac_major (cp_approval p) \<and> ac_critical (cp_approval p) then []
          else [''major/critical approval is mandatory and was re-enabled'']))"

section \<open>Overrides and environment\<close>

text \<open>The arguments of the command line that override the configuration.\<close>

record cli_args =
  ca_max_cloud_cost :: "pyfloat option"
  ca_local_provider :: "string option"
  ca_local_model :: "string option"
  ca_local_endpoint :: "string option"
  ca_expert_provider :: "string option"
  ca_expert_model :: "string option"
  ca_expert_endpoint :: "string option"
  ca_context_limit :: "int option"
  ca_routing :: "string option"
  ca_cloud :: "bool option"

definition no_args :: cli_args where
  "no_args = \<lparr>ca_max_cloud_cost = None, ca_local_provider = None, ca_local_model = None,
     ca_local_endpoint = None, ca_expert_provider = None, ca_expert_model = None,
     ca_expert_endpoint = None, ca_context_limit = None, ca_routing = None, ca_cloud = None\<rparr>"

definition nonempty :: "string option \<Rightarrow> string option" where
  "nonempty x = (if is_given x then x else None)"

definition runtime_overrides :: "cli_args \<Rightarrow> config \<Rightarrow> config" where
  "runtime_overrides a c =
     upd (ca_cloud a) cloud_allowed_update (\<lambda>x. x)
     (upd (nonempty (ca_routing a)) routing_policy_update (\<lambda>x. x)
     (upd (case ca_context_limit a of Some n \<Rightarrow> if n = 0 then None else Some n | None \<Rightarrow> None)
        local_context_limit_update (\<lambda>x. x)
     (upd (nonempty (ca_expert_endpoint a)) expert_endpoint_update Some
     (upd (nonempty (ca_expert_model a)) cloud_model_update (\<lambda>x. x)
     (upd (nonempty (ca_expert_provider a)) expert_provider_update (\<lambda>x. x)
     (upd (nonempty (ca_local_endpoint a)) local_endpoint_update Some
     (upd (nonempty (ca_local_model a)) local_model_update (\<lambda>x. x)
     (upd (nonempty (ca_local_provider a)) local_provider_update (\<lambda>x. x)
     (upd (ca_max_cloud_cost a) max_cloud_cost_per_task_update (\<lambda>x. x) c)))))))))"

definition env_or :: "environ \<Rightarrow> string \<Rightarrow> string option" where
  "env_or env name = (if is_given (env (''SIFTER_'' @ name)) then env (''SIFTER_'' @ name) else env name)"

definition legacy_warning :: "profile \<Rightarrow> string \<Rightarrow> string option \<Rightarrow> string option \<Rightarrow> string list" where
  "legacy_warning p name env_value profile_value =
     (if is_given env_value \<and> is_given profile_value \<and> env_value \<noteq> profile_value
      then [''environment '' @ name @ ''='' @ [quote] @ the env_value @ [quote] @
            '' is overridden by profile '' @ [quote] @ cp_name p @ [quote] @ '' ('' @ [quote] @
            the profile_value @ [quote] @
            ''); precedence is cli_override > active_profile > environment > defaults'']
      else [])"

definition warn_legacy_env :: "environ \<Rightarrow> profile \<Rightarrow> string list" where
  "warn_legacy_env env p =
     legacy_warning p ''LOCAL_MODEL'' (env_or env ''LOCAL_MODEL'') (map_option tc_model (cp_local p)) @
     legacy_warning p ''CLOUD_MODEL'' (env_or env ''CLOUD_MODEL'') (map_option tc_model (cp_expert p))"

section \<open>Resolution\<close>

definition local_only_policy :: "string \<Rightarrow> string" where
  "local_only_policy policy = (if policy \<noteq> ''local_only'' then ''local_only'' else policy)"

definition resolve_config ::
  "environ \<Rightarrow> catalog option \<Rightarrow> app_config \<Rightarrow> string option \<Rightarrow> (config \<Rightarrow> config) \<Rightarrow> bool \<Rightarrow>
     config \<times> string list" where
  "resolve_config env cat app profile_name overrides use_profile =
     (let base = from_env env (\<lambda>c. c);
          name = selected_profile app profile_name;
          chosen = (if use_profile then dict_get (app_profiles app) name else None);
          (c, warnings) = (case chosen of
             None \<Rightarrow> (base, [])
           | Some p \<Rightarrow> (case apply_profile_to_config cat p base of (c, ws) \<Rightarrow> (c, ws @ warn_legacy_env env p)));
          c = model_copy overrides c;
          c = model_copy (config_profile_update (\<lambda>_. if chosen \<noteq> None then Some name else None)) c;
          c = (if \<not> cloud_allowed c then model_copy (routing_policy_update local_only_policy) c else c)
      in (c, warnings))"

definition load_runtime_config ::
  "environ \<Rightarrow> catalog option \<Rightarrow> app_config option \<Rightarrow> string option \<Rightarrow> cli_args \<Rightarrow> config \<times> string list" where
  "load_runtime_config env cat stored profile_name args =
     resolve_config env cat (case stored of None \<Rightarrow> default_application | Some app \<Rightarrow> app)
       profile_name (runtime_overrides args) (stored \<noteq> None)"

section \<open>Facts\<close>

lemma upd_frames [simp]:
  "cloud_allowed (apply_local_tier t c) = cloud_allowed c"
  "cloud_allowed (apply_expert_tier t c) = cloud_allowed c"
  "cloud_allowed (apply_catalog_costs cat t c) = cloud_allowed c"
  "cloud_allowed (apply_local lt c) = cloud_allowed c"
  "cloud_allowed (apply_budget b c) = cloud_allowed c"
  "cloud_allowed (apply_approval a c) = cloud_allowed c"
  by (auto simp: apply_local_tier_def apply_expert_tier_def upd_def apply_catalog_costs_def Let_def
      apply_local_def apply_budget_def apply_approval_def split: option.split)

lemma applied_cloud:
  "cloud_allowed (fst (apply_profile_to_config cat p base)) \<longleftrightarrow>
     active_tier (cp_expert p) \<and> profile_cloud_allowed p"
  by (simp add: apply_profile_to_config_def Let_def model_copy_def apply_expert_def)

text \<open>Approvals survive everything but a profile, and a profile that exists keeps them on.\<close>

definition approvals_on :: "config \<Rightarrow> bool" where
  "approvals_on c \<longleftrightarrow> human_approval_for_major_decisions c \<and> human_approval_for_critical_decisions c"

lemma applied_approvals:
  "approval_ok p \<Longrightarrow> approvals_on (fst (apply_profile_to_config cat p base))"
  by (auto simp: apply_profile_to_config_def Let_def model_copy_def apply_approval_def approvals_on_def
      dest: approval_okD)

lemma overrides_approvals: "approvals_on (runtime_overrides a c) = approvals_on c"
  by (simp add: runtime_overrides_def upd_def approvals_on_def split: option.split)

lemma overrides_cloud:
  "cloud_allowed (runtime_overrides a c) = (case ca_cloud a of None \<Rightarrow> cloud_allowed c | Some b \<Rightarrow> b)"
  by (simp add: runtime_overrides_def upd_def split: option.split)

end
