(* ===== verification/Recommender.thy ===== *)
theory Recommender
  imports Schema Catalog "HOL-Library.Product_Lexorder"
begin

text \<open>
  \<^verbatim>\<open>recommend/recommender.py\<close>: the deterministic recommendation of a profile from the hardware
  and a goal, with its scores in float arithmetic.  The texts of reasons and notes print
  floats with the format \<^verbatim>\<open>g\<close>, which is the argument \<open>fmt\<close>; no decision depends on it.
\<close>

definition IMPLEMENTED_CLOUD_PROVIDERS :: "string list" where
  "IMPLEMENTED_CLOUD_PROVIDERS = [''deepseek'', ''openai-compatible'']"

definition IMPLEMENTED_LOCAL_PROVIDERS :: "string list" where
  "IMPLEMENTED_LOCAL_PROVIDERS = [''ollama'']"

record scored =
  sc_model :: model_metadata
  sc_score :: pyfloat
  sc_comfortable :: bool
  sc_compatible :: bool
  sc_reasons :: "string list"

text \<open>\<^verbatim>\<open>x or y\<close> for an optional number: absent and zero count as false.\<close>

definition or_num :: "'a :: zero option \<Rightarrow> 'a \<Rightarrow> 'a" where
  "or_num x y = (case x of None \<Rightarrow> y | Some v \<Rightarrow> if v = 0 then y else v)"

section \<open>Scores\<close>

definition by_score :: "scored list \<Rightarrow> scored list" where
  "by_score = sort_key (\<lambda>s. (- sc_score s, model_key (sc_model s)))"

definition capability_share :: "string list \<Rightarrow> model_metadata \<Rightarrow> pyfloat" where
  "capability_share required m =
     (if required = [] then 1
      else fdiv (of_pyint (int (card (set required \<inter> set (mm_capabilities m)))))
                (of_pyint (int (card (set required)))))"

definition recommended_vram :: "model_metadata \<Rightarrow> pyfloat \<Rightarrow> pyfloat" where
  "recommended_vram m dflt = or_num (mm_recommended_vram_gb m) (or_num (mm_minimum_vram_gb m) dflt)"

definition minimum_vram :: "model_metadata \<Rightarrow> pyfloat" where
  "minimum_vram m = or_num (mm_minimum_vram_gb m) (recommended_vram m 0)"

definition vram_compatible :: "model_metadata \<Rightarrow> pyfloat option \<Rightarrow> bool" where
  "vram_compatible m vram = (case vram of None \<Rightarrow> True | Some v \<Rightarrow> minimum_vram m \<le> v)"

definition vram_comfortable :: "model_metadata \<Rightarrow> pyfloat option \<Rightarrow> bool" where
  "vram_comfortable m vram = (case vram of None \<Rightarrow> False
     | Some v \<Rightarrow> minimum_vram m \<le> v \<and> recommended_vram m 0 \<le> v)"

definition fit_score :: "model_metadata \<Rightarrow> pyfloat option \<Rightarrow> bool \<Rightarrow> bool \<Rightarrow> pyfloat" where
  "fit_score m vram comfortable compatible = (case vram of
     None \<Rightarrow> rnd (1 / 2)
   | Some v \<Rightarrow>
       if \<not> compatible then - 1
       else (let recommended = recommended_vram m v;
                 ratio = (if v \<noteq> 0 then fdiv recommended v else 1)
             in if comfortable \<and> ratio \<le> rnd (9 / 10) then rnd (11 / 10) else rnd (7 / 10)))"

definition local_score :: "user_goal \<Rightarrow> pyfloat \<Rightarrow> pyfloat \<Rightarrow> pyfloat \<Rightarrow> pyfloat" where
  "local_score g fit capability params =
     (let share = min 1 (fdiv params 32);
          quality = share;
          speed = fsub 1 share
      in fadd (fadd (fadd (fadd (fadd (fadd
           (fmul (rnd (12 / 10)) fit)
           (fmul (rnd (9 / 10)) capability))
           (fmul (fadd (rnd (1 / 2)) (ug_quality_priority g)) quality))
           (fmul (fadd (rnd (1 / 2)) (ug_speed_priority g)) speed))
           (if 1 / 2 \<le> ug_cost_priority g then rnd (35 / 100) else 0))
           (if 1 / 2 \<le> ug_privacy_priority g then rnd (35 / 100) else 0))
           (if ug_quality_priority g < 1 / 2 then rnd (25 / 100) else 0))"

definition common_capabilities :: "string list \<Rightarrow> model_metadata \<Rightarrow> string list" where
  "common_capabilities required m = sort (filter (\<lambda>c. c \<in> set (mm_capabilities m)) required)"

definition short_of_ram :: "model_metadata \<Rightarrow> pyfloat option \<Rightarrow> bool" where
  "short_of_ram m ram = (case (ram, mm_minimum_ram_gb m) of
     (Some r, Some needed) \<Rightarrow> needed \<noteq> 0 \<and> r < needed
   | _ \<Rightarrow> False)"

definition local_reasons ::
  "(pyfloat \<Rightarrow> string) \<Rightarrow> string list \<Rightarrow> model_metadata \<Rightarrow> pyfloat option \<Rightarrow> pyfloat option \<Rightarrow> string list" where
  "local_reasons fmt required m vram ram =
     (case vram of None \<Rightarrow> []
      | Some v \<Rightarrow>
          if \<not> vram_compatible m vram
          then [mm_display_name m @ '' needs ~'' @ fmt (minimum_vram m) @
                  '' GB VRAM, more than the available '' @ fmt v @ '' GB.'']
          else if vram_comfortable m vram
          then [mm_display_name m @ '' fits comfortably within '' @ fmt v @
                  '' GB VRAM, leaving room for KV cache and agent tooling.'']
          else [mm_display_name m @ '' fits only tightly within '' @ fmt v @ '' GB VRAM.'']) @
     (if required \<noteq> [] then [''Supports '' @ join '', '' (common_capabilities required m) @ ''.''] else []) @
     (if short_of_ram m ram then [''Prefers more than '' @ fmt (the ram) @ '' GB system RAM.''] else [])"

definition score_local_model ::
  "(pyfloat \<Rightarrow> string) \<Rightarrow> string list \<Rightarrow> user_goal \<Rightarrow> pyfloat option \<Rightarrow> pyfloat option \<Rightarrow> model_metadata \<Rightarrow> scored" where
  "score_local_model fmt required g vram ram m =
     (let compatible = vram_compatible m vram;
          comfortable = vram_comfortable m vram;
          score = local_score g (fit_score m vram comfortable compatible)
            (capability_share required m) (or_num (mm_parameter_count_b m) 8)
      in \<lparr>sc_model = m, sc_score = (if short_of_ram m ram then fsub score (rnd (1 / 2)) else score),
          sc_comfortable = comfortable, sc_compatible = compatible,
          sc_reasons = local_reasons fmt required m vram ram\<rparr>)"

definition score_local ::
  "(pyfloat \<Rightarrow> string) \<Rightarrow> catalog \<Rightarrow> string list \<Rightarrow> user_goal \<Rightarrow> pyfloat option \<Rightarrow> pyfloat option \<Rightarrow> string list \<Rightarrow>
     scored list" where
  "score_local fmt cat required g vram ram providers =
     by_score (map (score_local_model fmt required g vram ram)
       (catalog_filter cat (Some True) None (Some providers) required))"

definition cloud_quality :: "model_metadata \<Rightarrow> pyfloat" where
  "cloud_quality m = fold (\<lambda>(c, x) q. if supports m c then fadd q x else q)
     [(''reasoning'', rnd (3 / 10)), (''coding'', rnd (2 / 10)), (''long_context'', rnd (1 / 10)),
      (''agentic'', rnd (1 / 10)), (''vision'', rnd (5 / 100))] (rnd (1 / 2))"

definition model_cost :: "model_metadata \<Rightarrow> pyfloat" where
  "model_cost m = (case mm_cost m of None \<Rightarrow> 1
     | Some c \<Rightarrow> fadd (cm_input_per_mtok c) (cm_output_per_mtok c))"

definition highest_cost :: "model_metadata list \<Rightarrow> pyfloat" where
  "highest_cost ms = (case map model_cost ms of [] \<Rightarrow> 1
     | c # cs \<Rightarrow> (let x = fold max cs c in if x = 0 then 1 else x))"

definition score_cloud_model ::
  "string list \<Rightarrow> user_goal \<Rightarrow> pyfloat \<Rightarrow> model_metadata \<Rightarrow> scored" where
  "score_cloud_model required g max_cost m =
     \<lparr>sc_model = m,
      sc_score = fadd (fadd (fsub
         (fmul (fadd (rnd (1 / 2)) (ug_quality_priority g)) (cloud_quality m))
         (fmul (fadd (rnd (1 / 2)) (ug_cost_priority g)) (fdiv (model_cost m) max_cost)))
         (fmul (rnd (8 / 10)) (capability_share required m)))
         (if ''long_context'' \<in> set required \<and> supports m ''long_context'' then rnd (2 / 10) else 0),
      sc_comfortable = True, sc_compatible = True,
      sc_reasons = [''Expert capability match for '' @
        (if required = [] then ''general'' else join '', '' (sort required)) @ ''.'']\<rparr>"

definition score_cloud :: "catalog \<Rightarrow> string list \<Rightarrow> user_goal \<Rightarrow> string list \<Rightarrow> scored list" where
  "score_cloud cat required g providers =
     (let candidates = catalog_filter cat None (Some True) (Some providers) required
      in by_score (map (score_cloud_model required g (highest_cost candidates)) candidates))"

section \<open>Context windows\<close>

text \<open>\<^verbatim>\<open>_CONTEXT_STEPS\<close> with the head room each needs.\<close>

definition context_steps :: "(int \<times> pyfloat) list" where
  "context_steps = [(8192, rnd (1 / 2)), (16384, rnd (3 / 2)), (32768, 3), (65536, rnd (9 / 2)), (131072, 8)]"

definition capacity_for :: "pyfloat \<Rightarrow> int" where
  "capacity_for headroom = fold (\<lambda>(step, need) c. if need \<le> headroom then step else c) context_steps 8192"

definition recommend_context ::
  "model_metadata \<Rightarrow> pyfloat option \<Rightarrow> int option \<Rightarrow> int \<times> string list" where
  "recommend_context m vram preferred =
     (let theoretical = or_num (mm_context_window m) 32768
      in case vram of
           None \<Rightarrow>
             (let chosen = min (or_num preferred 8192) theoretical
              in (chosen, if or_num preferred 0 = 0
                  then [''Recommended local context: '' @ show_int chosen @ '' tokens (unknown GPU memory).'']
                  else []))
         | Some v \<Rightarrow>
             (let weights = fmul (or_num (mm_parameter_count_b m) 8) (rnd (6 / 10));
                  headroom = max 0 (fsub v weights);
                  capacity = min (capacity_for headroom) theoretical;
                  chosen = (case preferred of None \<Rightarrow> capacity | Some p \<Rightarrow> if capacity < p then capacity else p);
                  notes = (case preferred of None \<Rightarrow> [] | Some p \<Rightarrow>
                    if capacity < p
                    then [''Requested context '' @ show_int p @ '' exceeds the safe local estimate '' @
                          show_int capacity @ ''; using the safe estimate.'']
                    else [])
              in (chosen, notes @ [''Recommended local context: '' @ show_int chosen @
                  '' tokens (model maximum '' @ show_int theoretical @
                  ''; operational estimate leaves room for KV cache and tooling).''])))"

definition expert_context :: "model_metadata \<Rightarrow> user_goal \<Rightarrow> int" where
  "expert_context m g =
     (let window = or_num (mm_context_window m) 64000
      in if or_num (ug_preferred_context g) 0 \<noteq> 0 then min (or_num (ug_preferred_context g) 0) window
         else if ''long_context'' \<in> set (required_capabilities g) then min 131072 window
         else min 64000 window)"

section \<open>The recommendation\<close>

definition default_expert_endpoint :: "string \<Rightarrow> string option" where
  "default_expert_endpoint provider =
     (if provider = ''deepseek'' then Some ''https://api.deepseek.com/v1'' else None)"

definition default_expert_key_env :: "string \<Rightarrow> string option" where
  "default_expert_key_env provider =
     (if provider = ''deepseek'' then Some ''DEEPSEEK_API_KEY''
      else if provider = ''openai-compatible'' then Some ''OPENAI_API_KEY'' else None)"

definition preferences_from_goal :: "user_goal \<Rightarrow> preferences" where
  "preferences_from_goal g =
     \<lparr>up_local_first = 1 / 2 \<le> ug_privacy_priority g \<or> 1 / 2 \<le> ug_cost_priority g,
      up_cost_sensitive = 1 / 2 \<le> ug_cost_priority g,
      up_privacy_sensitive = 1 / 2 \<le> ug_privacy_priority g,
      up_cloud_allowed = ug_cloud_allowed g,
      up_preferred_context = ug_preferred_context g\<rparr>"

definition recommend_policy ::
  "user_goal \<Rightarrow> bool \<Rightarrow> tier_config option \<Rightarrow> tier_config option \<Rightarrow> string" where
  "recommend_policy g cloud_ok local_tier expert_tier =
     (if \<not> cloud_ok \<or> expert_tier = None then ''local_only''
      else if local_tier = None then ''expert_first''
      else if rnd (75 / 100) \<le> ug_quality_priority g \<and> ug_cost_priority g < 1 / 2 then ''adaptive''
      else if rnd (6 / 10) \<le> ug_cost_priority g \<or> rnd (6 / 10) \<le> ug_privacy_priority g then ''local_first''
      else ''adaptive'')"

definition confidence_of ::
  "hardware_profile option \<Rightarrow> scored option \<Rightarrow> scored option \<Rightarrow> string list \<Rightarrow> string" where
  "confidence_of hw local_best expert_best required =
     (if (case hw of None \<Rightarrow> True | Some h \<Rightarrow> hw_gpu_vram_gb h = None) then ''medium''
      else if (case local_best of None \<Rightarrow> False | Some s \<Rightarrow> sc_comfortable s) \<and> required \<noteq> [] then ''high''
      else if local_best \<noteq> None \<or> expert_best \<noteq> None then ''medium''
      else ''low'')"

definition local_alternatives :: "scored list \<Rightarrow> scored option \<Rightarrow> tier_config list" where
  "local_alternatives scored best =
     map (\<lambda>s. (new_tier (mm_provider (sc_model s)) (mm_model_id (sc_model s)))
           \<lparr>tc_context_limit := mm_context_window (sc_model s)\<rparr>)
       (take 2 (filter (\<lambda>s. sc_compatible s \<and>
          (case best of None \<Rightarrow> True | Some b \<Rightarrow> model_key (sc_model s) \<noteq> model_key (sc_model b))) scored))"

definition cloud_tier :: "model_metadata \<Rightarrow> tier_config" where
  "cloud_tier m = (new_tier (mm_provider m) (mm_model_id m))
     \<lparr>tc_endpoint := default_expert_endpoint (mm_provider m),
      tc_api_key_env := default_expert_key_env (mm_provider m),
      tc_input_cost_per_mtok := map_option cm_input_per_mtok (mm_cost m),
      tc_output_cost_per_mtok := map_option cm_output_per_mtok (mm_cost m)\<rparr>"

definition expert_reason :: "(pyfloat \<Rightarrow> string) \<Rightarrow> model_metadata \<Rightarrow> string" where
  "expert_reason fmt m = mm_display_name m @ '' selected for the expert tier'' @
     (case mm_cost m of None \<Rightarrow> []
      | Some c \<Rightarrow> '' ($'' @ fmt (cm_input_per_mtok c) @ ''/$'' @ fmt (cm_output_per_mtok c) @ '' per Mtok)'') @ ''.''"

definition recommend_profile ::
  "(pyfloat \<Rightarrow> string) \<Rightarrow> catalog \<Rightarrow> hardware_profile option \<Rightarrow> user_goal \<Rightarrow> string \<Rightarrow> string list \<Rightarrow> string list \<Rightarrow>
     recommendation" where
  "recommend_profile fmt cat hw g name local_providers cloud_providers =
     (let required = required_capabilities g;
          vram = (case hw of None \<Rightarrow> None | Some h \<Rightarrow> hw_gpu_vram_gb h);
          ram = (case hw of None \<Rightarrow> None | Some h \<Rightarrow> hw_system_ram_gb h);
          local_scored = score_local fmt cat required g vram ram local_providers;
          local_best = List.find sc_compatible local_scored;
          expert_scored = score_cloud cat required g cloud_providers;
          expert_best = (if ug_cloud_allowed g \<and> expert_scored \<noteq> [] then Some (hd expert_scored) else None);
          notes = (if local_best = None
              then (if vram \<noteq> None
                then [''No catalog local model fits the available GPU memory comfortably; cloud-heavy routing is recommended.'']
                else [''No GPU detected; local inference would be CPU-bound.''])
              else []) @
            (if ug_cloud_allowed g then []
             else [''Cloud use is disabled by the user goal; only local models were considered.'']);
          (local_tier, context_notes, local_reasons) = (case local_best of
             None \<Rightarrow> (None, [], [])
           | Some s \<Rightarrow> (case recommend_context (sc_model s) vram (ug_preferred_context g) of (context, ns) \<Rightarrow>
               (Some ((new_tier (mm_provider (sc_model s)) (mm_model_id (sc_model s)))
                  \<lparr>tc_context_limit := Some context, tc_max_output_tokens := Some 4096,
                   tc_temperature := Some (rnd (2 / 10))\<rparr>), ns, sc_reasons s)));
          (expert_tier, expert_reasons) = (case expert_best of
             None \<Rightarrow> (None, [])
           | Some s \<Rightarrow> (Some ((cloud_tier (sc_model s))
                  \<lparr>tc_context_limit := Some (expert_context (sc_model s) g), tc_max_output_tokens := Some 8192,
                   tc_temperature := Some (rnd (2 / 10))\<rparr>), [expert_reason fmt (sc_model s)]));
          policy = recommend_policy g (ug_cloud_allowed g) local_tier expert_tier;
          nothing = (local_best = None \<and> expert_best = None)
      in \<lparr>rec_profile = (new_profile name)\<lparr>cp_local := local_tier, cp_expert := expert_tier,
            cp_routing_policy := policy, cp_preferences := preferences_from_goal g,
            cp_hardware := hw, cp_goal := Some g\<rparr>,
          rec_reasons = local_reasons @ expert_reasons @ [''Routing strategy: '' @ policy @ ''.''],
          rec_local_alternatives = local_alternatives local_scored local_best,
          rec_expert_alternatives = map (\<lambda>s. cloud_tier (sc_model s)) (take 2 (drop 1 expert_scored)),
          rec_confidence = (if nothing then ''low'' else confidence_of hw local_best expert_best required),
          rec_notes = notes @ context_notes @
            (if nothing then [''No compatible model was found; configure a model manually with `aa_sifter model set`.''] else [])\<rparr>)"

section \<open>Facts\<close>

lemma by_score_set [simp]: "set (by_score xs) = set xs"
  by (simp add: by_score_def)

lemma find_first_min:
  assumes "List.find P (sort_key f xs) = Some x"
  shows "x \<in> set xs \<and> P x \<and> (\<forall>y\<in>set xs. P y \<longrightarrow> f x \<le> f y)"
proof -
  let ?l = "sort_key f xs"
  from assms obtain i where i: "i < length ?l" "P (?l ! i)" "x = ?l ! i" "\<And>j. j < i \<Longrightarrow> \<not> P (?l ! j)"
    by (auto simp: find_Some_iff)
  have "f x \<le> f y" if "y \<in> set xs" "P y" for y
  proof -
    from that(1) have "y \<in> set ?l" by simp
    then obtain j where j: "j < length ?l" "y = ?l ! j" by (metis in_set_conv_nth)
    with that(2) i(4) have "i \<le> j" by (meson not_le)
    moreover have "sorted (map f ?l)" by simp
    ultimately have "map f ?l ! i \<le> map f ?l ! j" using j(1) by (intro sorted_nth_mono) auto
    with i j \<open>i \<le> j\<close> show ?thesis by simp
  qed
  moreover have "x \<in> set xs" using i(1,3) nth_mem [of i ?l] by simp
  ultimately show ?thesis using i(2,3) by simp
qed

lemma best_local:
  assumes "List.find sc_compatible (score_local fmt cat required g vram ram ps) = Some s"
  obtains m where "s = score_local_model fmt required g vram ram m"
    "m \<in> set (catalog_filter cat (Some True) None (Some ps) required)" "vram_compatible m vram"
    "\<And>m'. m' \<in> set (catalog_filter cat (Some True) None (Some ps) required) \<Longrightarrow> vram_compatible m' vram \<Longrightarrow>
       sc_score (score_local_model fmt required g vram ram m') \<le> sc_score s"
proof -
  let ?ms = "catalog_filter cat (Some True) None (Some ps) required"
  let ?sc = "score_local_model fmt required g vram ram"
  note best = find_first_min [OF assms [unfolded score_local_def by_score_def]]
  then obtain m where m: "m \<in> set ?ms" "s = ?sc m" by auto
  have comp: "sc_compatible (?sc x) = vram_compatible x vram" for x
    by (simp add: score_local_model_def Let_def)
  show ?thesis
  proof (rule that [OF m(2,1)])
    show "vram_compatible m vram" using best comp m(2) by simp
    fix m' assume "m' \<in> set ?ms" "vram_compatible m' vram"
    with best comp have "(- sc_score s, model_key (sc_model s)) \<le> (- sc_score (?sc m'), model_key (sc_model (?sc m')))"
      by auto
    then show "sc_score (?sc m') \<le> sc_score s" by (auto simp: less_eq_prod_def)
  qed
qed

lemma recommend_context_le: "fst (recommend_context m vram preferred) \<le> or_num (mm_context_window m) 32768"
  by (auto simp: recommend_context_def Let_def split: option.split)

definition fits :: "catalog \<Rightarrow> string list \<Rightarrow> string list \<Rightarrow> pyfloat option \<Rightarrow> model_metadata \<Rightarrow> bool" where
  "fits cat ps required vram m \<longleftrightarrow> m \<in> set cat \<and> mm_local m \<and> mm_provider m \<in> set ps \<and>
     set required \<subseteq> set (mm_capabilities m) \<and> vram_compatible m vram"

text \<open>The score of a local model; the printing of its reasons does not enter it.\<close>

definition local_rating :: "user_goal \<Rightarrow> hardware_profile option \<Rightarrow> model_metadata \<Rightarrow> pyfloat" where
  "local_rating g hw m = sc_score (score_local_model (\<lambda>x. []) (required_capabilities g) g
     (case hw of None \<Rightarrow> None | Some h \<Rightarrow> hw_gpu_vram_gb h)
     (case hw of None \<Rightarrow> None | Some h \<Rightarrow> hw_system_ram_gb h) m)"

lemma rating_score:
  "sc_score (score_local_model fmt (required_capabilities g) g
     (case hw of None \<Rightarrow> None | Some h \<Rightarrow> hw_gpu_vram_gb h)
     (case hw of None \<Rightarrow> None | Some h \<Rightarrow> hw_system_ram_gb h) m) = local_rating g hw m"
  by (simp add: local_rating_def score_local_model_def Let_def)

lemma recommended_local:
  assumes "cp_local (rec_profile (recommend_profile fmt cat hw g name lps cps)) = Some t"
  shows "\<exists>m. fits cat lps (required_capabilities g) (case hw of None \<Rightarrow> None | Some h \<Rightarrow> hw_gpu_vram_gb h) m \<and>
    tc_provider t = mm_provider m \<and> tc_model t = mm_model_id m \<and>
    (\<exists>c. tc_context_limit t = Some c \<and> c \<le> or_num (mm_context_window m) 32768) \<and>
    (\<forall>m'. fits cat lps (required_capabilities g) (case hw of None \<Rightarrow> None | Some h \<Rightarrow> hw_gpu_vram_gb h) m' \<longrightarrow>
      local_rating g hw m' \<le> local_rating g hw m)"
proof -
  let ?vram = "case hw of None \<Rightarrow> None | Some h \<Rightarrow> hw_gpu_vram_gb h"
  let ?ram = "case hw of None \<Rightarrow> None | Some h \<Rightarrow> hw_system_ram_gb h"
  obtain s where s: "List.find sc_compatible (score_local fmt cat (required_capabilities g) g ?vram ?ram lps) = Some s"
    using assms by (auto simp: recommend_profile_def Let_def new_profile_def split: option.splits prod.splits)
  then obtain m where m: "s = score_local_model fmt (required_capabilities g) g ?vram ?ram m"
    "m \<in> set (catalog_filter cat (Some True) None (Some lps) (required_capabilities g))" "vram_compatible m ?vram"
    "\<And>m'. m' \<in> set (catalog_filter cat (Some True) None (Some lps) (required_capabilities g)) \<Longrightarrow>
       vram_compatible m' ?vram \<Longrightarrow>
       sc_score (score_local_model fmt (required_capabilities g) g ?vram ?ram m') \<le> sc_score s"
    by (rule best_local) blast
  have "sc_model s = m" by (simp add: m(1) score_local_model_def Let_def)
  with s assms recommend_context_le [of m ?vram "ug_preferred_context g"]
  have "tc_provider t = mm_provider m \<and> tc_model t = mm_model_id m \<and>
    (\<exists>c. tc_context_limit t = Some c \<and> c \<le> or_num (mm_context_window m) 32768)"
    by (auto simp: recommend_profile_def Let_def new_profile_def new_tier_def split: prod.splits)
  moreover have "local_rating g hw m' \<le> local_rating g hw m"
    if "fits cat lps (required_capabilities g) ?vram m'" for m'
    using m(4) [of m'] that m(1) rating_score [of fmt g hw] by (simp add: fits_def catalog_filter_mem)
  ultimately show ?thesis using m(2,3) by (auto simp: fits_def catalog_filter_mem)
qed

lemma recommended_offline:
  assumes "\<not> ug_cloud_allowed g"
  shows "cp_expert (rec_profile (recommend_profile fmt cat hw g name lps cps)) = None \<and>
    cp_routing_policy (rec_profile (recommend_profile fmt cat hw g name lps cps)) = ''local_only'' \<and>
    \<not> up_cloud_allowed (cp_preferences (rec_profile (recommend_profile fmt cat hw g name lps cps)))"
  using assms by (simp add: recommend_profile_def Let_def new_profile_def recommend_policy_def
      preferences_from_goal_def split: option.split prod.split)


lemma none_fits:
  assumes "cp_local (rec_profile (recommend_profile fmt cat hw g name lps cps)) = None"
  shows "\<not> fits cat lps (required_capabilities g) (case hw of None \<Rightarrow> None | Some h \<Rightarrow> hw_gpu_vram_gb h) m"
proof
  let ?vram = "case hw of None \<Rightarrow> None | Some h \<Rightarrow> hw_gpu_vram_gb h"
  let ?ram = "case hw of None \<Rightarrow> None | Some h \<Rightarrow> hw_system_ram_gb h"
  assume fits: "fits cat lps (required_capabilities g) ?vram m"
  have "List.find sc_compatible (score_local fmt cat (required_capabilities g) g ?vram ?ram lps) = None"
    using assms by (auto simp: recommend_profile_def Let_def new_profile_def split: option.splits prod.splits)
  then have "\<not> sc_compatible (score_local_model fmt (required_capabilities g) g ?vram ?ram m)"
    using fits by (auto simp: find_None_iff score_local_def fits_def catalog_filter_mem)
  with fits show False by (simp add: fits_def score_local_model_def Let_def)
qed

lemma offered_alternatives:
  "rec_expert_alternatives (recommend_profile fmt cat hw g name lps cps) =
     map (\<lambda>s. cloud_tier (sc_model s)) (take 2 (drop 1 (score_cloud cat (required_capabilities g) g cps)))"
  unfolding recommend_profile_def Let_def split_beta by (rule recommendation.simps)

lemma offered_alternatives_length:
  "length (rec_expert_alternatives (recommend_profile fmt cat hw g name lps cps)) =
     min 2 (length (catalog_filter cat None (Some True) (Some cps) (required_capabilities g)) - 1)"
  by (simp add: offered_alternatives score_cloud_def by_score_def Let_def min.commute)

end
