(* ===== verification/ResolveFacts.thy ===== *)
theory ResolveFacts
  imports Resolve Recommender SifterFacts
begin

text \<open>
  The configuration a command line runs with: approvals stay on, and without a cloud in the
  profile it is local only.
\<close>

lemma approvals_on_safe: "config_safe c \<Longrightarrow> approvals_on c"
  by (simp add: config_safe_def approvals_on_def)

definition cut_cloud :: "config \<Rightarrow> config" where
  "cut_cloud c = (if \<not> cloud_allowed c then c\<lparr>routing_policy := ''local_only''\<rparr> else c)"

lemma cut_cloud_resolve: "(if \<not> cloud_allowed c then model_copy (routing_policy_update local_only_policy) c else c) = cut_cloud c"
  by (simp add: cut_cloud_def model_copy_def local_only_policy_def)

lemma resolve_config_eq:
  "fst (resolve_config env cat app n ov use) =
     cut_cloud ((ov (case (if use then dict_get (app_profiles app) (selected_profile app n) else None) of
         None \<Rightarrow> from_env env (\<lambda>c. c)
       | Some p \<Rightarrow> fst (apply_profile_to_config cat p (from_env env (\<lambda>c. c)))))
      \<lparr>config_profile := (if use \<and> dict_get (app_profiles app) (selected_profile app n) \<noteq> None
         then Some (selected_profile app n) else None)\<rparr>)"
  unfolding resolve_config_def Let_def cut_cloud_resolve
  by (simp add: model_copy_def split: option.split prod.split)

lemma resolved_approvals:
  assumes "\<And>app. stored = Some app \<Longrightarrow> app_ok app"
  shows "approvals_on (fst (load_runtime_config env cat stored n args))"
proof -
  have cut: "approvals_on (cut_cloud (c\<lparr>config_profile := x\<rparr>)) = approvals_on c" for c x
    by (simp add: cut_cloud_def approvals_on_def)
  have "approvals_on (from_env env (\<lambda>c. c))"
    by (rule approvals_on_safe [OF config_safe_from_env])
  then show ?thesis
    using assms
    by (cases stored) (auto simp: load_runtime_config_def resolve_config_eq cut overrides_approvals app_ok_def
        intro: applied_approvals split: option.split)
qed

lemma resolved_offline:
  assumes "get_profile app n = Inr p" "\<not> (active_tier (cp_expert p) \<and> profile_cloud_allowed p)"
    "ca_cloud args \<noteq> Some True"
  shows "\<not> cloud_allowed (fst (load_runtime_config env cat (Some app) n args)) \<and>
    routing_policy (fst (load_runtime_config env cat (Some app) n args)) = ''local_only''"
proof -
  from assms(1) have "dict_get (app_profiles app) (selected_profile app n) = Some p"
    by (auto simp: get_profile_def split: option.splits)
  with assms(2,3) show ?thesis
    by (auto simp: load_runtime_config_def resolve_config_eq cut_cloud_def overrides_cloud applied_cloud split: option.split)
qed

lemma resolved_approval_needed:
  assumes "\<And>app. stored = Some app \<Longrightarrow> app_ok app" "sf_config S = fst (load_runtime_config env cat stored n args)"
    "MAJOR \<le> cls_level cls"
  shows "approval_needed (sf_config S) cls"
  using resolved_approvals [OF assms(1)] assms(2,3) by (intro approval_needed_on) (auto simp: approvals_on_def)

text \<open>A profile the recommender made for a goal without the cloud resolves without it.\<close>

lemma recommended_private:
  assumes "\<not> ug_cloud_allowed g"
  shows "\<not> (active_tier (cp_expert (rec_profile (recommend_profile fmt cat hw g name lps cps))) \<and>
    profile_cloud_allowed (rec_profile (recommend_profile fmt cat hw g name lps cps)))"
  using recommended_offline [OF assms] by (simp add: active_tier_def)

end
