(* ===== verification/Tasks.thy ===== *)
theory Tasks
  imports Handoff Classifier
begin

text \<open>
  \<^verbatim>\<open>tasks/task.py\<close> and \<^verbatim>\<open>tasks/graph.py\<close>: the graph of decomposed work.  A graph is the dictionary of its tasks, in insertion order; a list of tasks
  the code returns is the list of their identifiers where the code goes on to mutate them.
\<close>

section \<open>Tasks\<close>

datatype task_status =
    PENDING | READY | RUNNING | BLOCKED_APPROVAL | BLOCKED_DEPENDENCY | DONE | FAILED | SKIPPED

record task =
  tk_id :: string
  tk_description :: string
  tk_dependencies :: "string list"
  tk_status :: task_status
  tk_assigned_model :: "string option"
  tk_assigned_role :: string
  tk_assigned_tier :: tier
  tk_attempt_count :: int
  tk_input_context :: string
  tk_result :: string
  tk_verification_state :: string
  tk_cost_tokens :: int
  tk_decision_level :: decision_level
  tk_human_approval_status :: string
  tk_acceptance_criteria :: "string list"
  tk_files_likely_relevant :: "string list"
  tk_constraints :: "string list"

definition new_task :: "string \<Rightarrow> string \<Rightarrow> string list \<Rightarrow> task" where
  "new_task i descr deps = \<lparr>tk_id = i, tk_description = descr, tk_dependencies = deps,
     tk_status = PENDING, tk_assigned_model = None, tk_assigned_role = ''builder'',
     tk_assigned_tier = LOCAL, tk_attempt_count = 0, tk_input_context = [], tk_result = [],
     tk_verification_state = ''unverified'', tk_cost_tokens = 0, tk_decision_level = ROUTINE,
     tk_human_approval_status = ''not_required'', tk_acceptance_criteria = [],
     tk_files_likely_relevant = [], tk_constraints = []\<rparr>"

definition is_terminal :: "task \<Rightarrow> bool" where
  "is_terminal t \<longleftrightarrow> tk_status t \<in> {DONE, FAILED, SKIPPED}"

section \<open>The graph\<close>

type_synonym task_graph = "(string, task) dict"

definition graph_add :: "task \<Rightarrow> task_graph \<Rightarrow> task_graph result" where
  "graph_add t g = (case dict_get g (tk_id t) of
     Some _ \<Rightarrow> Inl (ValueError (''duplicate task id: '' @ tk_id t))
   | None \<Rightarrow> Inr (dict_set (tk_id t) t g))"

fun graph_of :: "task list \<Rightarrow> task_graph \<Rightarrow> task_graph result" where
  "graph_of [] g = Inr g"
| "graph_of (t # ts) g = (case graph_add t g of Inl e \<Rightarrow> Inl e | Inr g \<Rightarrow> graph_of ts g)"

definition graph_get :: "task_graph \<Rightarrow> string \<Rightarrow> task result" where
  "graph_get g i = (case dict_get g i of None \<Rightarrow> Inl (KeyError i) | Some t \<Rightarrow> Inr t)"

definition set_status :: "task_status \<Rightarrow> string \<Rightarrow> task_graph \<Rightarrow> task_graph" where
  "set_status st i g = (case dict_get g i of None \<Rightarrow> g | Some t \<Rightarrow> dict_set i (t\<lparr>tk_status := st\<rparr>) g)"

text \<open>\<^verbatim>\<open>any(self._tasks[dep].status in S for dep in deps)\<close>: lookups stop at the first hit.\<close>

fun any_status :: "task_graph \<Rightarrow> task_status set \<Rightarrow> string list \<Rightarrow> bool result" where
  "any_status g S [] = Inr False"
| "any_status g S (d # ds) = (case graph_get g d of
     Inl e \<Rightarrow> Inl e
   | Inr t \<Rightarrow> if tk_status t \<in> S then Inr True else any_status g S ds)"

fun lookup_all :: "task_graph \<Rightarrow> string list \<Rightarrow> task list result" where
  "lookup_all g [] = Inr []"
| "lookup_all g (d # ds) = (case graph_get g d of
     Inl e \<Rightarrow> Inl e
   | Inr t \<Rightarrow> (case lookup_all g ds of Inl e \<Rightarrow> Inl e | Inr ts \<Rightarrow> Inr (t # ts)))"

fun invalidate_from :: "string list \<Rightarrow> task_graph \<Rightarrow> task_graph result" where
  "invalidate_from [] g = Inr g"
| "invalidate_from (i # is) g = (case dict_get g i of
     None \<Rightarrow> invalidate_from is g
   | Some t \<Rightarrow>
       if tk_status t = PENDING \<and> tk_dependencies t \<noteq> []
       then (case any_status g {FAILED, SKIPPED} (tk_dependencies t) of
           Inl e \<Rightarrow> Inl e
         | Inr b \<Rightarrow> invalidate_from is (if b then set_status SKIPPED i g else g))
       else invalidate_from is g)"

definition invalidate_dependencies :: "task_graph \<Rightarrow> task_graph result" where
  "invalidate_dependencies g = invalidate_from (map fst g) g"

text \<open>The loop of \<^verbatim>\<open>ready_tasks\<close>, which marks tasks as it collects them.\<close>

fun ready_from :: "string list \<Rightarrow> task_graph \<Rightarrow> (string list \<times> task_graph) result" where
  "ready_from [] g = Inr ([], g)"
| "ready_from (i # is) g = (case dict_get g i of
     None \<Rightarrow> ready_from is g
   | Some t \<Rightarrow>
       if tk_status t \<notin> {PENDING, READY} then ready_from is g
       else (case lookup_all g (tk_dependencies t) of
           Inl e \<Rightarrow> Inl e
         | Inr deps \<Rightarrow>
             if list_ex (\<lambda>d. tk_status d \<in> {FAILED, SKIPPED}) deps
             then ready_from is (set_status SKIPPED i g)
             else if list_ex (\<lambda>d. tk_status d \<noteq> DONE) deps then ready_from is g
             else (case ready_from is (if tk_status t = PENDING then set_status READY i g else g) of
                 Inl e \<Rightarrow> Inl e
               | Inr (rs, g') \<Rightarrow> Inr (i # rs, g'))))"

definition ready_tasks :: "task_graph \<Rightarrow> (string list \<times> task_graph) result" where
  "ready_tasks g = ready_from (map fst g) g"

definition blocked_tasks :: "task_graph \<Rightarrow> string list" where
  "blocked_tasks g = map fst (filter (\<lambda>e. tk_status (snd e) = BLOCKED_APPROVAL) g)"

definition has_pending :: "task_graph \<Rightarrow> bool" where
  "has_pending g \<longleftrightarrow> list_ex (\<lambda>e. \<not> is_terminal (snd e)) g"

definition all_terminal :: "task_graph \<Rightarrow> bool" where
  "all_terminal g \<longleftrightarrow> list_all (\<lambda>e. is_terminal (snd e)) g"

text \<open>
  \<^verbatim>\<open>descendants\<close>: the inner loop looks at every task with the current one as a dependency.
  Each turn pops one identifier, and an identifier is pushed once; one turn for the start
  and one per task are enough.
\<close>

definition direct_dependents :: "task_graph \<Rightarrow> string \<Rightarrow> string list \<Rightarrow> string list" where
  "direct_dependents g current seen =
     map fst (filter (\<lambda>e. current \<in> set (tk_dependencies (snd e)) \<and> fst e \<notin> set seen) g)"

fun descend :: "nat \<Rightarrow> task_graph \<Rightarrow> string list \<Rightarrow> string list \<Rightarrow> string list" where
  "descend 0 g seen stack = seen"
| "descend (Suc n) g seen [] = seen"
| "descend (Suc n) g seen (current # stack) =
     (let new = direct_dependents g current seen in descend n g (seen @ new) (rev new @ stack))"

definition descendants :: "task_graph \<Rightarrow> string \<Rightarrow> string list" where
  "descendants g i = descend (length g + 1) g [] [i]"

section \<open>Well-formed graphs\<close>

definition graph_ok :: "task_graph \<Rightarrow> bool" where
  "graph_ok g \<longleftrightarrow> dict_ok g \<and> list_all (\<lambda>e. tk_id (snd e) = fst e) g"

definition deps_known :: "task_graph \<Rightarrow> bool" where
  "deps_known g \<longleftrightarrow> list_all (\<lambda>e. set (tk_dependencies (snd e)) \<subseteq> fst ` set g) g"

definition dep_rel :: "task_graph \<Rightarrow> (string \<times> string) set" where
  "dep_rel g = {(d, i). \<exists>t. dict_get g i = Some t \<and> d \<in> set (tk_dependencies t)}"

lemma graph_ok_id: "graph_ok g \<Longrightarrow> dict_get g i = Some t \<Longrightarrow> tk_id t = i"
  using map_of_SomeD [of g i t] by (auto simp: graph_ok_def list_all_iff)

lemma dict_get_key: "dict_get g i = Some t \<Longrightarrow> i \<in> fst ` set g"
  by (metis map_of_eq_None_iff option.distinct(1))

lemma dep_relI: "dict_get g i = Some t \<Longrightarrow> d \<in> set (tk_dependencies t) \<Longrightarrow> (d, i) \<in> dep_rel g"
  by (auto simp: dep_rel_def)

lemma deps_knownD: "deps_known g \<Longrightarrow> (d, i) \<in> dep_rel g \<Longrightarrow> dict_get g d \<noteq> None"
  by (auto simp: deps_known_def dep_rel_def list_all_iff map_of_eq_None_iff dest!: map_of_SomeD bspec)

section \<open>Topological order\<close>

record visit_state =
  vs_visited :: "string list"
  vs_temp :: "string list"
  vs_ordered :: "task list"

text \<open>
  The recursive \<^verbatim>\<open>visit\<close>.  Each nested visit has one more identifier of the graph under way,
  so its depth is at most the number of tasks; \<open>None\<close> is running out of that depth.
\<close>

fun visit :: "nat \<Rightarrow> task_graph \<Rightarrow> string \<Rightarrow> visit_state \<Rightarrow> visit_state result option"
and visit_list :: "nat \<Rightarrow> task_graph \<Rightarrow> string list \<Rightarrow> visit_state \<Rightarrow> visit_state result option" where
  "visit 0 g i s = None"
| "visit (Suc n) g i s =
     (if i \<in> set (vs_visited s) then Some (Inr s)
      else if i \<in> set (vs_temp s) then Some (Inl (ValueError ''task graph contains a cycle''))
      else case dict_get g i of
        None \<Rightarrow> Some (Inl (KeyError i))
      | Some t \<Rightarrow>
          (case visit_list n g (tk_dependencies t) (s\<lparr>vs_temp := i # vs_temp s\<rparr>) of
             None \<Rightarrow> None
           | Some (Inl e) \<Rightarrow> Some (Inl e)
           | Some (Inr s') \<Rightarrow> Some (Inr (s'\<lparr>vs_temp := removeAll i (vs_temp s'),
               vs_visited := i # vs_visited s', vs_ordered := vs_ordered s' @ [t]\<rparr>))))"
| "visit_list n g [] s = Some (Inr s)"
| "visit_list n g (i # is) s = (case visit n g i s of
     None \<Rightarrow> None
   | Some (Inl e) \<Rightarrow> Some (Inl e)
   | Some (Inr s') \<Rightarrow> visit_list n g is s')"

definition topological_order :: "task_graph \<Rightarrow> task list result option" where
  "topological_order g =
     (case visit_list (length g + 1) g (map fst g) \<lparr>vs_visited = [], vs_temp = [], vs_ordered = []\<rparr> of
        None \<Rightarrow> None
      | Some (Inl e) \<Rightarrow> Some (Inl e)
      | Some (Inr s) \<Rightarrow> Some (Inr (vs_ordered s)))"

text \<open>A list of tasks in which every task comes after its dependencies.\<close>

fun ordered_after :: "string set \<Rightarrow> task list \<Rightarrow> bool" where
  "ordered_after S [] = True"
| "ordered_after S (t # ts) \<longleftrightarrow>
     set (tk_dependencies t) \<subseteq> S \<and> tk_id t \<notin> S \<and> ordered_after (insert (tk_id t) S) ts"

lemma ordered_after_snoc:
  "ordered_after S (ts @ [t]) \<longleftrightarrow> ordered_after S ts \<and>
     set (tk_dependencies t) \<subseteq> S \<union> tk_id ` set ts \<and> tk_id t \<notin> S \<union> tk_id ` set ts"
  by (induction ts arbitrary: S) auto

lemma ordered_after_append:
  "ordered_after S (xs @ ys) \<longleftrightarrow> ordered_after S xs \<and> ordered_after (S \<union> tk_id ` set xs) ys"
  by (induction xs arbitrary: S) (auto simp: insert_commute Un_insert_left)

lemma ordered_after_distinct: "ordered_after S ts \<Longrightarrow> distinct (map tk_id ts) \<and> S \<inter> tk_id ` set ts = {}"
  by (induction ts arbitrary: S) auto

text \<open>What holds of the three collections between two visits.\<close>

definition visit_inv :: "task_graph \<Rightarrow> visit_state \<Rightarrow> bool" where
  "visit_inv g s \<longleftrightarrow>
     set (vs_visited s) = tk_id ` set (vs_ordered s) \<and>
     list_all (\<lambda>t. dict_get g (tk_id t) = Some t) (vs_ordered s) \<and>
     ordered_after {} (vs_ordered s) \<and>
     set (vs_visited s) \<inter> set (vs_temp s) = {}"

text \<open>What a visit that returns establishes.\<close>

definition visit_post :: "task_graph \<Rightarrow> string list \<Rightarrow> visit_state \<Rightarrow> visit_state \<Rightarrow> bool" where
  "visit_post g is s s' \<longleftrightarrow> visit_inv g s' \<and> vs_temp s' = vs_temp s \<and>
     set is \<subseteq> set (vs_visited s') \<and> set (vs_visited s) \<subseteq> set (vs_visited s')"

lemma visit_inv_push:
  "visit_inv g s \<Longrightarrow> i \<notin> set (vs_visited s) \<Longrightarrow> visit_inv g (s\<lparr>vs_temp := i # vs_temp s\<rparr>)"
  unfolding visit_inv_def by simp blast

lemma visit_post_pop:
  assumes "graph_ok g" "dict_get g i = Some t" "i \<notin> set (vs_temp s)"
    and "visit_post g (tk_dependencies t) (s\<lparr>vs_temp := i # vs_temp s\<rparr>) s'"
  shows "visit_post g [i] s (s'\<lparr>vs_temp := removeAll i (vs_temp s'),
     vs_visited := i # vs_visited s', vs_ordered := vs_ordered s' @ [t]\<rparr>)"
proof -
  have inv: "visit_inv g s'" and temp: "vs_temp s' = i # vs_temp s"
    and deps: "set (tk_dependencies t) \<subseteq> set (vs_visited s')"
    and more: "set (vs_visited s) \<subseteq> set (vs_visited s')"
    using assms(4) by (simp_all add: visit_post_def)
  then have "i \<notin> set (vs_visited s')" "set (vs_visited s') \<inter> set (vs_temp s) = {}"
    by (auto simp: visit_inv_def)
  with inv temp deps more assms(2,3) graph_ok_id [OF assms(1,2)] show ?thesis
    by (simp add: visit_post_def visit_inv_def ordered_after_snoc subset_insertI2)
qed

lemma visit_sound:
  shows "graph_ok g \<Longrightarrow> visit n g i s = Some (Inr s') \<Longrightarrow> visit_inv g s \<Longrightarrow> visit_post g [i] s s'"
    and "graph_ok g \<Longrightarrow> visit_list n g is s = Some (Inr s') \<Longrightarrow> visit_inv g s \<Longrightarrow> visit_post g is s s'"
proof (induction n g i s and n g "is" s arbitrary: s' and s' rule: visit_visit_list.induct)
  case (2 n g i s)
  show ?case
  proof (cases "i \<in> set (vs_visited s)")
    case True
    with "2.prems" show ?thesis by (simp add: visit_post_def)
  next
    case new: False
    with "2.prems" have temp: "i \<notin> set (vs_temp s)" by (auto split: if_splits)
    from "2.prems" new temp obtain t s1 where t: "dict_get g i = Some t"
      and s1: "visit_list n g (tk_dependencies t) (s\<lparr>vs_temp := i # vs_temp s\<rparr>) = Some (Inr s1)"
      and s': "s' = s1\<lparr>vs_temp := removeAll i (vs_temp s1), vs_visited := i # vs_visited s1,
        vs_ordered := vs_ordered s1 @ [t]\<rparr>"
      by (auto split: option.splits sum.splits)
    show ?thesis unfolding s'
      by (rule visit_post_pop [OF "2.prems"(1) t temp "2.IH" [OF new temp t "2.prems"(1) s1]])
        (rule visit_inv_push [OF "2.prems"(3) new])
  qed
next
  case (4 n g i "is" s)
  from "4.prems"(2) obtain s1 where s1: "visit n g i s = Some (Inr s1)"
    and rest: "visit_list n g is s1 = Some (Inr s')"
    by (auto split: option.splits sum.splits)
  have p1: "visit_post g [i] s s1"
    by (rule "4.IH"(1) [OF "4.prems"(1) s1 "4.prems"(3)])
  then have "visit_post g is s1 s'"
    by (intro "4.IH"(2) [OF s1 _ "4.prems"(1) rest]) (auto simp: visit_post_def)
  with p1 show ?case by (auto simp: visit_post_def)
qed (auto simp: visit_post_def)


text \<open>Enough depth: the identifiers under way are distinct and all of the graph.\<close>

lemma visit_enough:
  shows "graph_ok g \<Longrightarrow> visit_inv g s \<Longrightarrow> distinct (vs_temp s) \<Longrightarrow> set (vs_temp s) \<subseteq> fst ` set g \<Longrightarrow>
      length g + 1 \<le> n + length (vs_temp s) \<Longrightarrow> visit n g i s \<noteq> None"
    and "graph_ok g \<Longrightarrow> visit_inv g s \<Longrightarrow> distinct (vs_temp s) \<Longrightarrow> set (vs_temp s) \<subseteq> fst ` set g \<Longrightarrow>
      length g + 1 \<le> n + length (vs_temp s) \<Longrightarrow> visit_list n g is s \<noteq> None"
proof (induction n g i s and n g "is" s rule: visit_visit_list.induct)
  case (1 g i s)
  have "length (vs_temp s) \<le> length g"
    using card_mono [OF _ "1.prems"(4)] distinct_card [OF "1.prems"(3)] card_image_le [of "set g" fst]
      card_length [of g] by simp
  with "1.prems" show ?case by simp
next
  case (2 n g i s)
  show ?case
  proof (cases "i \<in> set (vs_visited s) \<or> i \<in> set (vs_temp s)")
    case False
    then have new: "i \<notin> set (vs_visited s)" "i \<notin> set (vs_temp s)" by auto
    show ?thesis
    proof (cases "dict_get g i")
      case (Some t)
      have "visit_list n g (tk_dependencies t) (s\<lparr>vs_temp := i # vs_temp s\<rparr>) \<noteq> None"
        using "2.prems" new dict_get_key [OF Some]
        by (intro "2.IH" [OF new Some]) (simp_all add: visit_inv_push)
      with new Some show ?thesis by (simp split: option.splits sum.splits)
    qed (use new in simp)
  qed auto
next
  case (4 n g i "is" s)
  show ?case
  proof (cases "\<exists>s1. visit n g i s = Some (Inr s1)")
    case True
    then obtain s1 where s1: "visit n g i s = Some (Inr s1)" ..
    then have "visit_post g [i] s s1"
      using "4.prems" by (intro visit_sound(1)) auto
    with s1 "4.prems" "4.IH"(2) [OF s1] show ?thesis
      by (auto simp: visit_post_def)
  next
    case False
    with "4.IH"(1) "4.prems" show ?thesis
      by (auto split: option.splits sum.splits)
  qed
qed simp

text \<open>What an error of a visit shows of the graph.\<close>

definition visit_error :: "task_graph \<Rightarrow> string set \<Rightarrow> py_error \<Rightarrow> bool" where
  "visit_error g roots e \<longleftrightarrow>
     e = ValueError ''task graph contains a cycle'' \<and> (\<exists>i. (i, i) \<in> (dep_rel g)\<^sup>+) \<or>
     (\<exists>i. e = KeyError i \<and> dict_get g i = None \<and> (i \<in> roots \<or> (\<exists>j. (i, j) \<in> dep_rel g)))"

lemma visit_error_mono:
  "visit_error g S e \<Longrightarrow> S \<subseteq> T \<union> {d. \<exists>j. (d, j) \<in> dep_rel g} \<Longrightarrow> visit_error g T e"
  by (auto simp: visit_error_def)

lemma visit_fails:
  shows "graph_ok g \<Longrightarrow> visit_inv g s \<Longrightarrow> \<forall>j\<in>set (vs_temp s). (i, j) \<in> (dep_rel g)\<^sup>+ \<Longrightarrow>
      visit n g i s = Some (Inl e) \<Longrightarrow> visit_error g {i} e"
    and "graph_ok g \<Longrightarrow> visit_inv g s \<Longrightarrow> \<forall>i\<in>set is. \<forall>j\<in>set (vs_temp s). (i, j) \<in> (dep_rel g)\<^sup>+ \<Longrightarrow>
      visit_list n g is s = Some (Inl e) \<Longrightarrow> visit_error g (set is) e"
proof (induction n g i s and n g "is" s rule: visit_visit_list.induct)
  case (2 n g i s)
  consider (cycle) "i \<in> set (vs_temp s)" "e = ValueError ''task graph contains a cycle''"
    | (missing) "e = KeyError i" "dict_get g i = None"
    | (nested) t where "i \<notin> set (vs_visited s)" "i \<notin> set (vs_temp s)" "dict_get g i = Some t"
        "visit_list n g (tk_dependencies t) (s\<lparr>vs_temp := i # vs_temp s\<rparr>) = Some (Inl e)"
    using "2.prems"(4) by (auto split: if_splits option.splits sum.splits)
  then show ?case
  proof cases
    case nested
    have "\<forall>d\<in>set (tk_dependencies t). \<forall>j\<in>set (i # vs_temp s). (d, j) \<in> (dep_rel g)\<^sup>+"
      using "2.prems"(3) nested(3) by (auto dest: dep_relI intro: trancl_into_trancl2)
    then have "visit_error g (set (tk_dependencies t)) e"
      using nested "2.prems" by (intro "2.IH") (auto simp: visit_inv_push)
    then show ?thesis
      by (rule visit_error_mono) (use nested(3) in \<open>auto dest: dep_relI\<close>)
  qed (use "2.prems"(3) in \<open>auto simp: visit_error_def\<close>)
next
  case (4 n g i "is" s)
  show ?case
  proof (cases "visit n g i s = Some (Inl e)")
    case True
    with "4.prems" "4.IH"(1) show ?thesis
      by (auto intro: visit_error_mono)
  next
    case False
    with "4.prems"(4) obtain s1 where s1: "visit n g i s = Some (Inr s1)"
      and rest: "visit_list n g is s1 = Some (Inl e)"
      by (auto split: option.splits sum.splits)
    have "visit_post g [i] s s1"
      using s1 "4.prems" by (intro visit_sound(1)) auto
    then have "visit_error g (set is) e"
      using rest "4.prems" by (intro "4.IH"(2) [OF s1]) (auto simp: visit_post_def)
    then show ?thesis by (rule visit_error_mono) auto
  qed
qed simp_all

text \<open>A list in which every task comes after its dependencies is a proof that there is no cycle.\<close>

lemma ordered_after_position:
  assumes "ordered_after {} ts" "t \<in> set ts" "d \<in> set (tk_dependencies t)"
  shows "length (takeWhile (\<lambda>x. tk_id x \<noteq> d) ts) < length (takeWhile (\<lambda>x. tk_id x \<noteq> tk_id t) ts)"
proof -
  obtain xs ys where ts: "ts = xs @ t # ys" using assms(2) by (meson split_list)
  then have "tk_id t \<notin> tk_id ` set xs" "d \<in> tk_id ` set xs"
    using assms(1,3) by (auto simp: ordered_after_append)
  then obtain x where "x \<in> set xs" "tk_id x = d" by blast
  then have "length (takeWhile (\<lambda>x. tk_id x \<noteq> d) xs) < length xs"
    by (induction xs) auto
  moreover have "takeWhile (\<lambda>x. tk_id x \<noteq> tk_id t) ts = xs"
    using \<open>tk_id t \<notin> tk_id ` set xs\<close> by (subst ts, subst takeWhile_append2) (auto dest: sym [of "tk_id _"])
  ultimately show ?thesis
    using \<open>x \<in> set xs\<close> \<open>tk_id x = d\<close> by (simp add: ts takeWhile_append1)
qed

lemma ordered_acyclic:
  assumes "ordered_after {} ts" "\<And>i t. dict_get g i = Some t \<Longrightarrow> t \<in> set ts \<and> tk_id t = i"
  shows "acyclic (dep_rel g)"
proof -
  have "dep_rel g \<subseteq> measure (\<lambda>i. length (takeWhile (\<lambda>x. tk_id x \<noteq> i) ts))"
    using ordered_after_position [OF assms(1)] assms(2) by (fastforce simp: dep_rel_def)
  then show ?thesis by (meson wf_acyclic wf_measure acyclic_subset)
qed

text \<open>The order itself.\<close>

abbreviation fresh_visit :: visit_state where
  "fresh_visit \<equiv> \<lparr>vs_visited = [], vs_temp = [], vs_ordered = []\<rparr>"

lemma visit_inv_fresh: "visit_inv g fresh_visit"
  by (simp add: visit_inv_def)

lemma topological_order_total: "graph_ok g \<Longrightarrow> topological_order g \<noteq> None"
  using visit_enough(2) [OF _ visit_inv_fresh, of g "length g + 1" "map fst g"]
  by (auto simp: topological_order_def split: option.splits sum.splits)

lemma topological_order_ordered:
  assumes "graph_ok g" "topological_order g = Some (Inr ts)"
  shows "ordered_after {} ts \<and> distinct ts \<and> set ts = snd ` set g"
proof -
  from assms(2) obtain s where s: "visit_list (length g + 1) g (map fst g) fresh_visit = Some (Inr s)"
    and ts: "ts = vs_ordered s"
    by (auto simp: topological_order_def split: option.splits sum.splits)
  have post: "visit_post g (map fst g) fresh_visit s"
    by (rule visit_sound(2) [OF assms(1) s visit_inv_fresh])
  then have ord: "ordered_after {} ts" and ids: "fst ` set g \<subseteq> tk_id ` set ts"
    and mem: "\<And>t. t \<in> set ts \<Longrightarrow> dict_get g (tk_id t) = Some t"
    by (auto simp: visit_post_def visit_inv_def ts list_all_iff)
  have "snd ` set g \<subseteq> set ts"
  proof
    fix t assume "t \<in> snd ` set g"
    then have t: "dict_get g (tk_id t) = Some t"
      using assms(1) by (auto simp: graph_ok_def dict_ok_def list_all_iff)
    have "tk_id t \<in> fst ` set g" using t by (rule dict_get_key)
    then have "tk_id t \<in> tk_id ` set ts" using ids by (rule rev_subsetD)
    then obtain t' where "t' \<in> set ts" "tk_id t' = tk_id t" by (metis imageE)
    from mem [OF this(1)] t this(2) have "t' = t" by (metis option.inject)
    with \<open>t' \<in> set ts\<close> show "t \<in> set ts" by blast
  qed
  moreover have "set ts \<subseteq> snd ` set g"
  proof
    fix t assume "t \<in> set ts"
    from map_of_SomeD [OF mem [OF this]] show "t \<in> snd ` set g" by (rule rev_image_eqI) simp
  qed
  ultimately show ?thesis
    using ord ordered_after_distinct [OF ord] by (metis distinct_map subset_antisym)
qed

lemma topological_order_error:
  assumes "graph_ok g" "topological_order g = Some (Inl e)"
  shows "visit_error g {} e"
proof -
  from assms(2) have "visit_list (length g + 1) g (map fst g) fresh_visit = Some (Inl e)"
    by (auto simp: topological_order_def split: option.splits sum.splits)
  then have "visit_error g (set (map fst g)) e"
    by (intro visit_fails(2) [OF assms(1) visit_inv_fresh]) simp_all
  then show ?thesis
    by (auto simp: visit_error_def map_of_eq_None_iff)
qed

lemma topological_order_acyclic:
  assumes "graph_ok g" "deps_known g"
  shows "if acyclic (dep_rel g) then \<exists>ts. topological_order g = Some (Inr ts)
    else topological_order g = Some (Inl (ValueError ''task graph contains a cycle''))"
proof -
  obtain r where r: "topological_order g = Some r"
    using topological_order_total [OF assms(1)] by auto
  show ?thesis
  proof (cases r)
    case (Inl e)
    with r have "visit_error g {} e" using assms(1) by (simp add: topological_order_error)
    then have "e = ValueError ''task graph contains a cycle'' \<and> \<not> acyclic (dep_rel g)"
      using deps_knownD [OF assms(2)] by (fastforce simp: visit_error_def acyclic_def)
    with r Inl show ?thesis by simp
  next
    case (Inr ts)
    with r topological_order_ordered [OF assms(1)] have ord: "ordered_after {} ts"
      and all: "set ts = snd ` set g" by auto
    have "acyclic (dep_rel g)"
    proof (rule ordered_acyclic [OF ord])
      fix i t assume t: "dict_get g i = Some t"
      from map_of_SomeD [OF t] have "t \<in> set ts" unfolding all by (rule rev_image_eqI) simp
      with graph_ok_id [OF assms(1) t] show "t \<in> set ts \<and> tk_id t = i" by simp
    qed
    with r Inr show ?thesis by simp
  qed
qed

end
