(* ===== verification/Readiness.thy ===== *)
theory Readiness
  imports Tasks
begin

text \<open>
  How \<^verbatim>\<open>ready_tasks\<close> and \<^verbatim>\<open>invalidate_dependencies\<close> of \<^verbatim>\<open>tasks/graph.py\<close> move the tasks of
  a graph on: what they may change, what the first collects, and that neither raises on a
  graph whose dependencies are all known.
\<close>

section \<open>Changes of status\<close>

definition open_task :: "task \<Rightarrow> bool" where
  "open_task t \<longleftrightarrow> tk_status t \<in> {PENDING, READY}"

text \<open>
  How \<^verbatim>\<open>ready_tasks\<close> and \<^verbatim>\<open>invalidate_dependencies\<close> change a graph: an open task may become
  ready or skipped, and nothing else changes.
\<close>

definition advanced :: "task \<Rightarrow> task \<Rightarrow> bool" where
  "advanced t u \<longleftrightarrow> u = t \<or>
     open_task t \<and> (u = t\<lparr>tk_status := READY\<rparr> \<or> u = t\<lparr>tk_status := SKIPPED\<rparr>)"

definition advances :: "task_graph \<Rightarrow> task_graph \<Rightarrow> bool" where
  "advances g h \<longleftrightarrow> map fst h = map fst g \<and>
     (\<forall>k t. dict_get g k = Some t \<longrightarrow> (\<exists>u. dict_get h k = Some u \<and> advanced t u))"

lemma advanced_refl [simp]: "advanced t t"
  by (simp add: advanced_def)

lemma advanced_trans: "advanced t u \<Longrightarrow> advanced u v \<Longrightarrow> advanced t v"
  by (auto simp: advanced_def open_task_def)

lemma advanced_fields:
  "advanced t u \<Longrightarrow> tk_id u = tk_id t \<and> tk_dependencies u = tk_dependencies t"
  by (auto simp: advanced_def)

lemma advanced_settled: "advanced t u \<Longrightarrow> \<not> open_task t \<Longrightarrow> u = t"
  by (simp add: advanced_def)

lemma advanced_open: "advanced t u \<Longrightarrow> open_task u \<Longrightarrow> open_task t"
  by (auto simp: advanced_def)

lemma advances_refl [simp]: "advances g g"
  by (simp add: advances_def)

lemma advances_trans: "advances g h \<Longrightarrow> advances h l \<Longrightarrow> advances g l"
  unfolding advances_def by (metis advanced_trans)

lemma advances_keys: "advances g h \<Longrightarrow> map fst h = map fst g"
  by (simp add: advances_def)

lemma advances_get:
  assumes "advances g h" "dict_get g k = Some t"
  obtains u where "dict_get h k = Some u" "advanced t u"
  using assms unfolding advances_def by blast

lemma same_keys_get:
  assumes "map fst h = map fst g"
  shows "dict_get h k = None \<longleftrightarrow> dict_get g k = None"
  using arg_cong [OF assms, of set] by (simp add: map_of_eq_None_iff)

lemma advances_get_back:
  assumes "advances g h" "dict_get h k = Some u"
  obtains t where "dict_get g k = Some t" "advanced t u"
  using assms same_keys_get [OF advances_keys [OF assms(1)], of k]
  by (cases "dict_get g k") (auto elim: advances_get)

lemma advances_settled:
  "advances g h \<Longrightarrow> dict_get g k = Some t \<Longrightarrow> \<not> open_task t \<Longrightarrow> dict_get h k = Some t"
  by (erule advances_get) (auto dest: advanced_settled)

lemma set_status_keys: "map fst (set_status st i g) = map fst g"
  by (auto simp: set_status_def alist_keys_put dict_get_key split: option.splits)

lemma get_set_status:
  "dict_get (set_status st i g) k =
     (if k = i then map_option (\<lambda>t. t\<lparr>tk_status := st\<rparr>) (dict_get g i) else dict_get g k)"
  by (auto simp: set_status_def split: option.splits)

lemma set_status_advances:
  "dict_get g i = Some t \<Longrightarrow> open_task t \<Longrightarrow> st \<in> {READY, SKIPPED} \<Longrightarrow> advances g (set_status st i g)"
  by (auto simp: advances_def set_status_keys get_set_status advanced_def)

lemma graph_ok_iff:
  "graph_ok g \<longleftrightarrow> distinct (map fst g) \<and> (\<forall>k t. dict_get g k = Some t \<longrightarrow> tk_id t = k)"
  unfolding graph_ok_def dict_ok_def list_all_iff
  by (auto dest: map_of_SomeD bspec [where P = "\<lambda>e. tk_id (snd e) = fst e"])

lemma graph_ok_dict: "graph_ok g \<Longrightarrow> dict_ok g"
  by (simp add: graph_ok_def)

lemma advances_ok:
  assumes "advances g h" "graph_ok g"
  shows "graph_ok h"
  unfolding graph_ok_iff
proof (intro conjI allI impI)
  show "distinct (map fst h)" using assms by (simp add: graph_ok_iff advances_keys)
  fix k u assume "dict_get h k = Some u"
  with assms(1) obtain t where "dict_get g k = Some t" "advanced t u" by (rule advances_get_back)
  with assms(2) show "tk_id u = k" by (auto simp: graph_ok_iff dest: advanced_fields)
qed

text \<open>All dependencies of a task done.\<close>

definition deps_done :: "task_graph \<Rightarrow> task \<Rightarrow> bool" where
  "deps_done g t \<longleftrightarrow> (\<forall>d\<in>set (tk_dependencies t). map_option tk_status (dict_get g d) = Some DONE)"

lemma deps_done_advances: "advances g h \<Longrightarrow> deps_done g t \<Longrightarrow> deps_done h t"
  unfolding deps_done_def by (fastforce simp: open_task_def dest: advances_settled)

lemma deps_done_back: "advances g h \<Longrightarrow> deps_done h t \<Longrightarrow> deps_done g t"
  unfolding deps_done_def by (fastforce simp: advanced_def elim: advances_get_back)

section \<open>Ready tasks and invalidation\<close>

lemma lookup_all_Inr: "lookup_all g ds = Inr ts \<Longrightarrow> map (dict_get g) ds = map Some ts"
  by (induction ds arbitrary: ts) (auto simp: graph_get_def split: sum.splits option.splits)

lemma lookup_all_Inl: "lookup_all g ds = Inl e \<Longrightarrow> \<exists>d\<in>set ds. dict_get g d = None"
  by (induction ds) (auto simp: graph_get_def split: sum.splits option.splits)

lemma any_status_Inl: "any_status g S ds = Inl e \<Longrightarrow> \<exists>d\<in>set ds. dict_get g d = None"
  by (induction ds) (auto simp: graph_get_def split: sum.splits option.splits if_splits)

lemma lookup_all_done:
  assumes "lookup_all g (tk_dependencies t) = Inr ds"
  shows "deps_done g t \<longleftrightarrow> \<not> list_ex (\<lambda>d. tk_status d \<noteq> DONE) ds"
proof -
  have "(\<forall>d\<in>set (tk_dependencies t). map_option tk_status (dict_get g d) = Some DONE) \<longleftrightarrow>
      (\<forall>x\<in>set (map (dict_get g) (tk_dependencies t)). map_option tk_status x = Some DONE)"
    by simp
  then show ?thesis
    unfolding lookup_all_Inr [OF assms] deps_done_def by (simp add: list_ex_iff)
qed

lemma invalidate_from_Cons:
  assumes "invalidate_from (i # is) g = Inr h"
  obtains g' where "advances g g'" "invalidate_from is g' = Inr h"
proof (cases "dict_get g i")
  case None
  with assms show ?thesis by (intro that [of g]) simp_all
next
  case (Some t)
  show ?thesis
  proof (cases "tk_status t = PENDING \<and> tk_dependencies t \<noteq> []")
    case True
    with assms Some obtain b where "invalidate_from is (if b then set_status SKIPPED i g else g) = Inr h"
      by (auto split: sum.splits)
    moreover have "advances g (if b then set_status SKIPPED i g else g)"
      using True Some by (simp add: set_status_advances open_task_def)
    ultimately show ?thesis using that by blast
  next
    case False
    with assms Some show ?thesis by (intro that [of g]) auto
  qed
qed

lemma invalidate_from_advances: "invalidate_from is g = Inr h \<Longrightarrow> advances g h"
proof (induction "is" arbitrary: g)
  case (Cons i "is")
  from Cons.prems obtain g' where "advances g g'" "invalidate_from is g' = Inr h"
    by (rule invalidate_from_Cons)
  with Cons.IH show ?case by (blast intro: advances_trans)
qed simp

lemma invalidate_advances: "invalidate_dependencies g = Inr h \<Longrightarrow> advances g h"
  unfolding invalidate_dependencies_def by (rule invalidate_from_advances)

text \<open>One turn of the loop of \<^verbatim>\<open>ready_tasks\<close>: the task is collected, or it is not.\<close>

lemma ready_from_Cons:
  assumes "ready_from (i # is) g = Inr (rs, h)"
  obtains (collected) g' t rs' where "advances g g'" "ready_from is g' = Inr (rs', h)" "rs = i # rs'"
      "dict_get g' i = Some t" "tk_status t = READY" "deps_done g' t"
      "\<And>k. k \<noteq> i \<Longrightarrow> dict_get g' k = dict_get g k"
    | (passed) g' where "advances g g'" "ready_from is g' = Inr (rs, h)"
      "\<And>t. dict_get g' i = Some t \<Longrightarrow> open_task t \<Longrightarrow> \<not> deps_done g' t"
      "\<And>k. k \<noteq> i \<Longrightarrow> dict_get g' k = dict_get g k"
proof (cases "dict_get g i")
  case None
  with assms show ?thesis by (intro passed [of g]) simp_all
next
  case (Some t)
  show ?thesis
  proof (cases "open_task t")
    case False
    with assms Some show ?thesis by (intro passed [of g]) (simp_all add: open_task_def)
  next
    case True
    with assms Some obtain ds where ds: "lookup_all g (tk_dependencies t) = Inr ds"
      by (auto simp: open_task_def split: sum.splits)
    consider (skip) "list_ex (\<lambda>d. tk_status d \<in> {FAILED, SKIPPED}) ds"
      | (wait) "\<not> list_ex (\<lambda>d. tk_status d \<in> {FAILED, SKIPPED}) ds" "list_ex (\<lambda>d. tk_status d \<noteq> DONE) ds"
      | (collect) "\<not> list_ex (\<lambda>d. tk_status d \<in> {FAILED, SKIPPED}) ds" "\<not> list_ex (\<lambda>d. tk_status d \<noteq> DONE) ds"
      by blast
    then show ?thesis
    proof cases
      case skip
      with assms Some True ds show ?thesis
        by (intro passed [of "set_status SKIPPED i g"])
          (auto simp: open_task_def get_set_status intro: set_status_advances)
    next
      case wait
      with assms Some True ds show ?thesis
        by (intro passed [of g]) (auto simp: open_task_def lookup_all_done)
    next
      case collect
      let ?g = "if tk_status t = PENDING then set_status READY i g else g"
      from collect assms Some True ds obtain rs' where "ready_from is ?g = Inr (rs', h)" "rs = i # rs'"
        by (auto simp: open_task_def split: sum.splits prod.splits)
      moreover have adv: "advances g ?g"
        using Some True by (simp add: set_status_advances)
      moreover have "deps_done ?g t"
        by (rule deps_done_advances [OF adv]) (use collect ds in \<open>simp add: lookup_all_done\<close>)
      ultimately show ?thesis
        using Some True by (intro collected [of ?g rs' "t\<lparr>tk_status := READY\<rparr>"])
          (auto simp: get_set_status open_task_def deps_done_def)
    qed
  qed
qed

text \<open>What \<^verbatim>\<open>ready_tasks\<close> collects, and that it collects everything that can run.\<close>

lemma ready_from_spec:
  assumes "ready_from is g = Inr (rs, h)" "distinct is"
  shows "advances g h \<and> distinct rs \<and> set rs \<subseteq> set is \<and>
    (\<forall>i\<in>set rs. \<exists>t. dict_get h i = Some t \<and> tk_status t = READY \<and> deps_done h t) \<and>
    (\<forall>i\<in>set is - set rs. \<forall>t. dict_get h i = Some t \<longrightarrow> open_task t \<longrightarrow> \<not> deps_done h t) \<and>
    (\<forall>k. k \<notin> set is \<longrightarrow> dict_get h k = dict_get g k)"
  using assms
proof (induction "is" arbitrary: g rs)
  case (Cons i "is")
  from Cons.prems(1) show ?case
  proof (cases rule: ready_from_Cons)
    case (collected g' t rs')
    note IH = Cons.IH [OF collected(2)]
    have "i \<notin> set is" "distinct is" using Cons.prems(2) by simp_all
    with IH collected show ?thesis
      by (auto intro: advances_trans deps_done_advances)
  next
    case (passed g')
    note IH = Cons.IH [OF passed(2)]
    have "i \<notin> set is" "distinct is" using Cons.prems(2) by simp_all
    with IH passed show ?thesis
      by (auto intro: advances_trans dest: deps_done_back)
  qed
qed simp

lemma ready_tasks_spec:
  assumes "ready_tasks g = Inr (rs, h)" "dict_ok g"
  shows "advances g h" "distinct rs"
    "\<And>i. i \<in> set rs \<Longrightarrow> \<exists>t. dict_get h i = Some t \<and> tk_status t = READY \<and> deps_done h t"
    "\<And>i t. dict_get h i = Some t \<Longrightarrow> open_task t \<Longrightarrow> deps_done h t \<Longrightarrow> i \<in> set rs"
proof -
  have spec: "advances g h \<and> distinct rs \<and> set rs \<subseteq> set (map fst g) \<and>
    (\<forall>i\<in>set rs. \<exists>t. dict_get h i = Some t \<and> tk_status t = READY \<and> deps_done h t) \<and>
    (\<forall>i\<in>set (map fst g) - set rs. \<forall>t. dict_get h i = Some t \<longrightarrow> open_task t \<longrightarrow> \<not> deps_done h t) \<and>
    (\<forall>k. k \<notin> set (map fst g) \<longrightarrow> dict_get h k = dict_get g k)"
    using assms by (intro ready_from_spec) (auto simp: ready_tasks_def dict_ok_def)
  then show "advances g h" "distinct rs"
    "\<And>i. i \<in> set rs \<Longrightarrow> \<exists>t. dict_get h i = Some t \<and> tk_status t = READY \<and> deps_done h t"
    by auto
  fix i t assume t: "dict_get h i = Some t" "open_task t" "deps_done h t"
  then have "i \<in> set (map fst h)" by (auto dest: dict_get_key)
  then have "i \<in> set (map fst g)" using advances_keys [of g h] spec by simp
  with spec t show "i \<in> set rs" by blast
qed

text \<open>A graph whose dependencies are all known never raises.\<close>

lemma deps_known_get:
  "deps_known g \<Longrightarrow> dict_get g i = Some t \<Longrightarrow> d \<in> set (tk_dependencies t) \<Longrightarrow> dict_get g d \<noteq> None"
  by (rule deps_knownD [OF _ dep_relI])

lemma advances_deps_known:
  assumes "advances g h" "graph_ok g" "deps_known g"
  shows "deps_known h"
proof -
  have "set (tk_dependencies t) \<subseteq> fst ` set h" if "(k, t) \<in> set h" for k t
  proof -
    have "dict_get h k = Some t"
      using that advances_ok [OF assms(1,2)] by (simp add: graph_ok_iff)
    with assms(1) obtain u where u: "dict_get g k = Some u" "advanced u t"
      by (rule advances_get_back)
    then have "set (tk_dependencies u) \<subseteq> set (map fst g)"
      using deps_known_get [OF assms(3) u(1)] by (auto simp: map_of_eq_None_iff)
    then show ?thesis
      using advanced_fields [OF u(2)] advances_keys [OF assms(1)] by (simp flip: set_map)
  qed
  then show ?thesis unfolding deps_known_def list_all_iff by (metis prod.collapse)
qed

lemma ready_from_total: "graph_ok g \<Longrightarrow> deps_known g \<Longrightarrow> ready_from is g \<noteq> Inl e"
proof (induction "is" arbitrary: g)
  case (Cons i "is")
  show ?case
  proof (cases "dict_get g i")
    case (Some t)
    then have ds: "lookup_all g (tk_dependencies t) \<noteq> Inl e" for e
      using deps_known_get [OF Cons.prems(2)] lookup_all_Inl by blast
    have st: "ready_from is (set_status st i g) \<noteq> Inl e" if "open_task t" "st \<in> {READY, SKIPPED}" for st
      using Cons.prems set_status_advances [OF Some that]
      by (intro Cons.IH) (auto intro: advances_ok advances_deps_known)
    show ?thesis
      using Cons.IH [OF Cons.prems] ds st Some
      by (auto simp: open_task_def split: sum.splits)
  qed (use Cons in simp)
qed simp

lemma ready_total: "graph_ok g \<Longrightarrow> deps_known g \<Longrightarrow> ready_tasks g \<noteq> Inl e"
  by (simp add: ready_tasks_def ready_from_total)

lemma invalidate_from_total: "graph_ok g \<Longrightarrow> deps_known g \<Longrightarrow> invalidate_from is g \<noteq> Inl e"
proof (induction "is" arbitrary: g)
  case (Cons i "is")
  show ?case
  proof (cases "dict_get g i")
    case (Some t)
    then have ds: "any_status g S (tk_dependencies t) \<noteq> Inl e" for S e
      using deps_known_get [OF Cons.prems(2)] any_status_Inl by blast
    have st: "invalidate_from is (set_status SKIPPED i g) \<noteq> Inl e" if "open_task t"
      using Cons.prems set_status_advances [OF Some that, of SKIPPED]
      by (intro Cons.IH) (auto intro: advances_ok advances_deps_known)
    show ?thesis
      using Cons.IH [OF Cons.prems] ds st Some
      by (auto simp: open_task_def split: sum.splits)
  qed (use Cons in simp)
qed simp

lemma invalidate_total: "graph_ok g \<Longrightarrow> deps_known g \<Longrightarrow> invalidate_dependencies g \<noteq> Inl e"
  by (simp add: invalidate_dependencies_def invalidate_from_total)

section \<open>Open tasks\<close>

definition open_count :: "task_graph \<Rightarrow> nat" where
  "open_count g = card {k. \<exists>t. dict_get g k = Some t \<and> open_task t}"

lemma finite_open: "finite {k. \<exists>t. dict_get g k = Some t \<and> open_task t}"
  by (rule finite_subset [OF _ finite_dom_map_of [of g]]) auto

lemma open_count_mono:
  "(\<And>k u. dict_get h k = Some u \<Longrightarrow> open_task u \<Longrightarrow> \<exists>t. dict_get g k = Some t \<and> open_task t) \<Longrightarrow>
   open_count h \<le> open_count g"
  unfolding open_count_def by (rule card_mono [OF finite_open]) blast

lemma open_count_less:
  assumes "\<And>k u. dict_get h k = Some u \<Longrightarrow> open_task u \<Longrightarrow> \<exists>t. dict_get g k = Some t \<and> open_task t"
    and "dict_get g i = Some t" "open_task t" "\<And>u. dict_get h i = Some u \<Longrightarrow> \<not> open_task u"
  shows "open_count h < open_count g"
  unfolding open_count_def by (rule psubset_card_mono [OF finite_open]) (use assms in blast)

lemma advances_open_count: "advances g h \<Longrightarrow> open_count h \<le> open_count g"
  by (rule open_count_mono) (auto elim: advances_get_back dest: advanced_open)

end
