(* ===== verification/Executor.thy ===== *)
theory Executor
  imports Tasks Trace
begin

text \<open>
  \<^verbatim>\<open>tasks/executor.py\<close>: the executor of a task graph, twice.  The step relation
  \<open>exec_step\<close> has a step for everything the event loop may do next: open a round, start the
  next task of the batch when the semaphore lets it, finish any running task, close the
  round.  The function \<open>exec_run\<close> is the schedule that runs the tasks of a batch one after
  the other.  \<^verbatim>\<open>InferenceQueue\<close>, whose semaphores the executor only stores, is not modelled.
\<close>

section \<open>Workers\<close>

text \<open>
  A worker is handed a running task and the world; it may change that task, and returns, asks
  for an approval (\<^verbatim>\<open>ApprovalRequiredError\<close>), or raises.  Its effects show when it finishes.
\<close>

datatype worker_outcome = Returned | NeedsApproval string | Raised string

type_synonym 'w worker = "task \<Rightarrow> 'w \<Rightarrow> worker_outcome \<times> task \<times> 'w"

definition begin_task :: "task \<Rightarrow> task" where
  "begin_task t = t\<lparr>tk_status := RUNNING, tk_attempt_count := tk_attempt_count t + 1\<rparr>"

text \<open>What follows the call of the worker in \<^verbatim>\<open>_run_one\<close>: the \<^verbatim>\<open>except\<close> and \<^verbatim>\<open>else\<close> branches.\<close>

fun settle :: "worker_outcome \<Rightarrow> task \<Rightarrow> task" where
  "settle (NeedsApproval reason) t = t\<lparr>tk_status := BLOCKED_APPROVAL,
     tk_verification_state := ''blocked_approval'', tk_result := reason\<rparr>"
| "settle (Raised msg) t = t\<lparr>tk_status := FAILED, tk_result := ''error: '' @ msg\<rparr>"
| "settle Returned t = (if tk_status t = RUNNING then t\<lparr>tk_status := DONE\<rparr> else t)"

fun settle_entries :: "worker_outcome \<Rightarrow> task \<Rightarrow> trace_event list" where
  "settle_entries (NeedsApproval reason) t =
     [entry ''tasks'' (''task '' @ tk_id t @ '' blocked on approval'') [(''reason'', PStr reason)]]"
| "settle_entries (Raised msg) t =
     [entry ''tasks'' (''task '' @ tk_id t @ '' failed'') [(''error'', PStr msg)]]"
| "settle_entries Returned t = []"

section \<open>The executor, one task at a time\<close>

record 'w exec_state =
  ex_graph :: task_graph
  ex_entries :: "trace_event list"
  ex_world :: 'w

definition start_task :: "string \<Rightarrow> 'w exec_state \<Rightarrow> 'w exec_state" where
  "start_task i s = (case dict_get (ex_graph s) i of
     None \<Rightarrow> s
   | Some t \<Rightarrow> s\<lparr>ex_graph := dict_set i (begin_task t) (ex_graph s)\<rparr>)"

definition finish_task :: "'w worker \<Rightarrow> string \<Rightarrow> 'w exec_state \<Rightarrow> 'w exec_state" where
  "finish_task worker i s = (case dict_get (ex_graph s) i of
     None \<Rightarrow> s
   | Some t \<Rightarrow> (case worker t (ex_world s) of (out, t, w) \<Rightarrow>
       \<lparr>ex_graph = dict_set i (settle out t) (ex_graph s),
        ex_entries = ex_entries s @ settle_entries out t, ex_world = w\<rparr>))"

definition run_one :: "'w worker \<Rightarrow> string \<Rightarrow> 'w exec_state \<Rightarrow> 'w exec_state" where
  "run_one worker i s = finish_task worker i (start_task i s)"

definition run_batch :: "'w worker \<Rightarrow> string list \<Rightarrow> 'w exec_state \<Rightarrow> 'w exec_state" where
  "run_batch worker is s = fold (run_one worker) is s"

definition paused_entries :: "task_graph \<Rightarrow> trace_event list" where
  "paused_entries g = (if blocked_tasks g \<noteq> []
     then [entry ''tasks'' ''execution paused: branch blocked awaiting user approval''
             [(''blocked'', PList (map PStr (blocked_tasks g)))]]
     else [])"

text \<open>One turn of the loop of \<^verbatim>\<open>run\<close>; the flag is off where it breaks.\<close>

definition exec_turn :: "'w worker \<Rightarrow> 'w exec_state \<Rightarrow> (bool \<times> 'w exec_state) result" where
  "exec_turn worker s =
     (case ready_tasks (ex_graph s) of
        Inl e \<Rightarrow> Inl e
      | Inr (ready, g) \<Rightarrow>
          if ready = []
          then Inr (False, s\<lparr>ex_graph := g, ex_entries := ex_entries s @ paused_entries g\<rparr>)
          else let s = run_batch worker ready (s\<lparr>ex_graph := g\<rparr>)
            in case invalidate_dependencies (ex_graph s) of
                 Inl e \<Rightarrow> Inl e
               | Inr g \<Rightarrow> Inr (True, s\<lparr>ex_graph := g\<rparr>))"

partial_function (option) exec_run :: "'w worker \<Rightarrow> 'w exec_state \<Rightarrow> 'w exec_state result option" where
  [code]: "exec_run worker s =
     (if \<not> has_pending (ex_graph s) then Some (Inr s)
      else case exec_turn worker s of
        Inl e \<Rightarrow> Some (Inl e)
      | Inr r \<Rightarrow> if fst r then exec_run worker (snd r) else Some (Inr (snd r)))"

section \<open>The executor, in any order\<close>

text \<open>
  Where the coroutine of \<^verbatim>\<open>run\<close> is: at the head of its loop, in \<^verbatim>\<open>gather\<close> with some tasks
  queueing for the semaphore (which is fair) and some holding it, returned, or raised.
\<close>

datatype exec_phase =
    Looping
  | Gathering "string list" "string list"
  | Stopped
  | Crashed py_error

inductive exec_step ::
  "nat \<Rightarrow> 'w worker \<Rightarrow> exec_phase \<times> 'w exec_state \<Rightarrow> exec_phase \<times> 'w exec_state \<Rightarrow> bool"
  for m worker where
  all_terminal: "\<not> has_pending (ex_graph s) \<Longrightarrow>
    exec_step m worker (Looping, s) (Stopped, s)"
| ready_error: "has_pending (ex_graph s) \<Longrightarrow> ready_tasks (ex_graph s) = Inl e \<Longrightarrow>
    exec_step m worker (Looping, s) (Crashed e, s)"
| pause: "has_pending (ex_graph s) \<Longrightarrow> ready_tasks (ex_graph s) = Inr ([], g) \<Longrightarrow>
    exec_step m worker (Looping, s)
      (Stopped, s\<lparr>ex_graph := g, ex_entries := ex_entries s @ paused_entries g\<rparr>)"
| open_round: "has_pending (ex_graph s) \<Longrightarrow> ready_tasks (ex_graph s) = Inr (i # is, g) \<Longrightarrow>
    exec_step m worker (Looping, s) (Gathering (i # is) [], s\<lparr>ex_graph := g\<rparr>)"
| start: "length running < m \<Longrightarrow>
    exec_step m worker (Gathering (i # is) running, s) (Gathering is (i # running), start_task i s)"
| finish: "i \<in> set running \<Longrightarrow>
    exec_step m worker (Gathering is running, s)
      (Gathering is (remove1 i running), finish_task worker i s)"
| close_round: "invalidate_dependencies (ex_graph s) = Inr g \<Longrightarrow>
    exec_step m worker (Gathering [] [], s) (Looping, s\<lparr>ex_graph := g\<rparr>)"
| close_error: "invalidate_dependencies (ex_graph s) = Inl e \<Longrightarrow>
    exec_step m worker (Gathering [] [], s) (Crashed e, s)"

inductive_cases exec_step_loopE: "exec_step m worker (Looping, s) c"
inductive_cases exec_step_gatherE: "exec_step m worker (Gathering w r, s) c"
inductive_simps exec_step_final [simp]:
  "exec_step m worker (Stopped, s) c" "exec_step m worker (Crashed e, s) c"

abbreviation exec_steps ::
  "nat \<Rightarrow> 'w worker \<Rightarrow> exec_phase \<times> 'w exec_state \<Rightarrow> exec_phase \<times> 'w exec_state \<Rightarrow> bool" where
  "exec_steps m worker \<equiv> (exec_step m worker)\<^sup>*\<^sup>*"

end
