(* ===== verification/ExecutorFacts.thy ===== *)
theory ExecutorFacts
  imports Readiness Executor
begin

text \<open>
  What the executor of \<^verbatim>\<open>tasks/executor.py\<close> guarantees, whatever the order in which the tasks
  of a batch finish: the invariant of its steps, that every run ends, that the sequential
  executor is one of the runs, and that all runs of a stateless worker agree.
\<close>

section \<open>Steps of the executor\<close>

text \<open>
  A proper worker leaves the identity and the dependencies of the running task it is handed
  alone, and does not hand it back as still to be run.
\<close>

definition proper_worker :: "'w worker \<Rightarrow> bool" where
  "proper_worker worker \<longleftrightarrow> (\<forall>t w out u w'. tk_status t = RUNNING \<longrightarrow>
     worker t w = (out, u, w') \<longrightarrow>
     tk_id u = tk_id t \<and> tk_dependencies u = tk_dependencies t \<and> \<not> open_task (settle out u))"

lemma proper_workerD:
  "proper_worker worker \<Longrightarrow> tk_status t = RUNNING \<Longrightarrow> worker t w = (out, u, w') \<Longrightarrow>
   tk_id u = tk_id t \<and> tk_dependencies u = tk_dependencies t \<and> \<not> open_task (settle out u)"
  unfolding proper_worker_def by blast

lemma settle_fields [simp]:
  "tk_id (settle out t) = tk_id t" "tk_dependencies (settle out t) = tk_dependencies t"
  by (cases out; simp)+

lemma begin_fields [simp]:
  "tk_id (begin_task t) = tk_id t" "tk_dependencies (begin_task t) = tk_dependencies t"
  "tk_status (begin_task t) = RUNNING"
  by (simp_all add: begin_task_def)

text \<open>Replacing one task of a graph by one with its identity and dependencies.\<close>

lemma replace_keys: "dict_get g i = Some t \<Longrightarrow> map fst (dict_set i u g) = map fst g"
  by (auto simp: alist_keys_put dict_get_key)

lemma replace_ok: "graph_ok g \<Longrightarrow> dict_get g i = Some t \<Longrightarrow> tk_id u = tk_id t \<Longrightarrow> graph_ok (dict_set i u g)"
  by (simp add: graph_ok_iff replace_keys)

lemma replace_deps_done:
  "deps_done g t \<Longrightarrow> dict_get g i = Some t' \<Longrightarrow> tk_status t' \<noteq> DONE \<Longrightarrow> deps_done (dict_set i u g) t"
  by (auto simp: deps_done_def)

lemma deps_known_iff:
  "graph_ok g \<Longrightarrow> deps_known g \<longleftrightarrow>
     (\<forall>k t d. dict_get g k = Some t \<longrightarrow> d \<in> set (tk_dependencies t) \<longrightarrow> dict_get g d \<noteq> None)"
  unfolding deps_known_def list_all_iff graph_ok_iff
  by (force simp: map_of_eq_None_iff)

lemma replace_deps_known:
  "graph_ok g \<Longrightarrow> deps_known g \<Longrightarrow> dict_get g i = Some t \<Longrightarrow> tk_id u = tk_id t \<Longrightarrow>
   tk_dependencies u = tk_dependencies t \<Longrightarrow> deps_known (dict_set i u g)"
  by (auto simp: deps_known_iff replace_ok split: if_splits)

lemma start_task_graph:
  "dict_get (ex_graph s) i = Some t \<Longrightarrow>
   ex_graph (start_task i s) = dict_set i (begin_task t) (ex_graph s)"
  by (simp add: start_task_def)

lemma finish_task_graph:
  assumes "proper_worker worker" "dict_get (ex_graph s) i = Some t" "tk_status t = RUNNING"
  obtains u where "ex_graph (finish_task worker i s) = dict_set i u (ex_graph s)"
    "tk_id u = tk_id t" "tk_dependencies u = tk_dependencies t" "\<not> open_task u"
proof -
  obtain out u w where "worker t (ex_world s) = (out, u, w)" by (metis prod_cases3)
  with assms(2) proper_workerD [OF assms(1,3) this] show ?thesis
    by (intro that [of "settle out u"]) (simp_all add: finish_task_def)
qed

text \<open>The invariant of the executor.\<close>

fun exec_inv :: "nat \<Rightarrow> exec_phase \<times> 'w exec_state \<Rightarrow> bool" where
  "exec_inv m (Gathering w r, s) \<longleftrightarrow> graph_ok (ex_graph s) \<and> length r \<le> m \<and> distinct (w @ r) \<and>
     (\<forall>i\<in>set w. \<exists>t. dict_get (ex_graph s) i = Some t \<and> tk_status t = READY \<and> deps_done (ex_graph s) t) \<and>
     (\<forall>i\<in>set r. \<exists>t. dict_get (ex_graph s) i = Some t \<and> tk_status t = RUNNING \<and> deps_done (ex_graph s) t)"
| "exec_inv m (Looping, s) \<longleftrightarrow> graph_ok (ex_graph s)"
| "exec_inv m (Stopped, s) \<longleftrightarrow> graph_ok (ex_graph s) \<and>
     (\<forall>i t. dict_get (ex_graph s) i = Some t \<longrightarrow> open_task t \<longrightarrow> \<not> deps_done (ex_graph s) t)"
| "exec_inv m (Crashed e, s) \<longleftrightarrow> graph_ok (ex_graph s)"

lemma not_pending_closed: "\<not> has_pending g \<Longrightarrow> dict_get g i = Some t \<Longrightarrow> \<not> open_task t"
  by (auto simp: has_pending_def list_ex_iff is_terminal_def open_task_def dest!: map_of_SomeD)

lemma start_inv:
  assumes "exec_inv m (Gathering (i # is) r, s)" "length r < m"
  shows "exec_inv m (Gathering is (i # r), start_task i s)"
proof -
  from assms(1) obtain t where t: "dict_get (ex_graph s) i = Some t" "tk_status t = READY"
    "deps_done (ex_graph s) t" by auto
  then have keep: "deps_done (dict_set i (begin_task t) (ex_graph s)) x" if "deps_done (ex_graph s) x" for x
    using that by (simp add: replace_deps_done)
  have "deps_done (ex_graph s) (begin_task t)" using t(3) by (simp add: deps_done_def)
  with keep t assms show ?thesis
    by (auto simp: start_task_graph replace_ok)
qed

lemma finish_inv:
  assumes "exec_inv m (Gathering w r, s)" "i \<in> set r" "proper_worker worker"
  shows "exec_inv m (Gathering w (remove1 i r), finish_task worker i s)"
proof -
  from assms(1,2) obtain t where t: "dict_get (ex_graph s) i = Some t" "tk_status t = RUNNING"
    by auto
  obtain u where u: "ex_graph (finish_task worker i s) = dict_set i u (ex_graph s)" "tk_id u = tk_id t"
    using finish_task_graph [OF assms(3) t] by metis
  have "deps_done (dict_set i u (ex_graph s)) x" if "deps_done (ex_graph s) x" for x
    using that t by (simp add: replace_deps_done)
  with u t assms show ?thesis
    by (auto simp: replace_ok distinct_remove1 length_remove1)
qed

theorem exec_step_inv:
  assumes "exec_step m worker c c'" "proper_worker worker" "exec_inv m c"
  shows "exec_inv m c'"
  using assms(1,3)
proof (cases rule: exec_step.cases)
  case (all_terminal s)
  with assms(3) show ?thesis by (auto dest: not_pending_closed)
next
  case (pause s g)
  with assms(3) ready_tasks_spec [of "ex_graph s" "[]" g] show ?thesis
    by (auto intro: advances_ok dest: graph_ok_dict)
next
  case (open_round s i "is" g)
  then have ok: "graph_ok (ex_graph s)" using assms(3) by simp
  note spec = ready_tasks_spec [OF \<open>ready_tasks (ex_graph s) = Inr (i # is, g)\<close> graph_ok_dict [OF ok]]
  from open_round spec(2,3) advances_ok [OF spec(1) ok] show ?thesis by simp
next
  case (start r i "is" s)
  with assms(3) start_inv show ?thesis by blast
next
  case (finish i r "is" s)
  with assms(2,3) finish_inv show ?thesis by blast
next
  case (close_round s g)
  with assms(3) show ?thesis by (auto intro: advances_ok invalidate_advances)
qed (use assms(3) in auto)

lemma exec_steps_inv:
  "exec_steps m worker c c' \<Longrightarrow> proper_worker worker \<Longrightarrow> exec_inv m c \<Longrightarrow> exec_inv m c'"
  by (induction rule: rtranclp_induct) (auto intro: exec_step_inv)

text \<open>A measure that every step lowers.\<close>

fun exec_measure :: "exec_phase \<times> 'w exec_state \<Rightarrow> nat" where
  "exec_measure (Looping, s) = 5 * open_count (ex_graph s) + 1"
| "exec_measure (Gathering w r, s) =
     5 * open_count (ex_graph s) + 2 * length r + (if w = [] then 2 else 0)"
| "exec_measure (ph, s) = 0"

lemma start_open_count:
  assumes "dict_get (ex_graph s) i = Some t" "tk_status t = READY"
  shows "open_count (ex_graph (start_task i s)) < open_count (ex_graph s)"
  by (rule open_count_less [where i = i and t = t])
    (use assms in \<open>auto simp: start_task_graph open_task_def split: if_splits\<close>)

lemma finish_open_count:
  assumes "proper_worker worker" "dict_get (ex_graph s) i = Some t" "tk_status t = RUNNING"
  shows "open_count (ex_graph (finish_task worker i s)) \<le> open_count (ex_graph s)"
  using assms by (elim finish_task_graph) (auto intro!: open_count_mono split: if_splits)

theorem exec_step_measure:
  assumes "exec_step m worker c c'" "proper_worker worker" "exec_inv m c"
  shows "exec_measure c' < exec_measure c"
  using assms(1,3)
proof (cases rule: exec_step.cases)
  case (open_round s i "is" g)
  then have ok: "dict_ok (ex_graph s)" using assms(3) by (simp add: graph_ok_dict)
  have "open_count g \<le> open_count (ex_graph s)"
    by (rule advances_open_count [OF ready_tasks_spec(1) [OF \<open>ready_tasks (ex_graph s) = _\<close> ok]])
  with open_round show ?thesis by simp
next
  case (start r i "is" s)
  with assms(3) have "open_count (ex_graph (start_task i s)) < open_count (ex_graph s)"
    by (auto intro: start_open_count)
  with start show ?thesis by simp
next
  case (finish i r "is" s)
  with assms(2,3) have "open_count (ex_graph (finish_task worker i s)) \<le> open_count (ex_graph s)"
    by (auto intro: finish_open_count)
  moreover have "length (remove1 i r) < length r" using finish length_pos_if_in_set [of i r] by (auto simp: length_remove1)
  ultimately show ?thesis using finish by (simp del: length_remove1)
next
  case (close_round s g)
  with advances_open_count [OF invalidate_advances] show ?thesis by fastforce
qed auto

theorem exec_step_progress:
  assumes "0 < m" "ph \<noteq> Stopped" "\<And>e. ph \<noteq> Crashed e"
  shows "\<exists>c. exec_step m worker (ph, s) c"
proof (cases ph)
  case Looping
  show ?thesis
  proof (cases "has_pending (ex_graph s)")
    case True
    obtain r where r: "ready_tasks (ex_graph s) = r" by simp
    show ?thesis
    proof (cases r)
      case (Inr p)
      obtain rs g where "p = (rs, g)" by fastforce
      with True r Inr Looping show ?thesis
        by (cases rs) (blast intro: exec_step.intros)+
    qed (use True r Looping in \<open>blast intro: exec_step.intros\<close>)
  qed (use Looping in \<open>blast intro: exec_step.intros\<close>)
next
  case (Gathering w r)
  show ?thesis
  proof (cases r)
    case Nil
    show ?thesis
    proof (cases w)
      case Nil
      with \<open>r = []\<close> Gathering show ?thesis
        by (cases "invalidate_dependencies (ex_graph s)") (blast intro: exec_step.intros)+
    next
      case (Cons i "is")
      with \<open>r = []\<close> Gathering assms(1) exec_step.start [of "[]" m worker i "is" s]
      show ?thesis by auto
    qed
  next
    case (Cons i r')
    with Gathering exec_step.finish [of i r m worker w s] show ?thesis by auto
  qed
qed (use assms in auto)

section \<open>Runs\<close>

text \<open>The schedule of \<^const>\<open>exec_run\<close> is one of those of the steps.\<close>

lemma run_batch_steps:
  "0 < m \<Longrightarrow> exec_steps m worker (Gathering is [], s) (Gathering [] [], run_batch worker is s)"
proof (induction "is" arbitrary: s)
  case (Cons i "is")
  have "exec_step m worker (Gathering (i # is) [], s) (Gathering is [i], start_task i s)"
    using Cons.prems by (intro exec_step.start) simp
  moreover have "exec_step m worker (Gathering is [i], start_task i s) (Gathering is [], run_one worker i s)"
    using exec_step.finish [of i "[i]" m worker "is" "start_task i s"] by (simp add: run_one_def)
  moreover have "run_batch worker (i # is) s = run_batch worker is (run_one worker i s)"
    by (simp add: run_batch_def)
  ultimately show ?case
    using Cons.IH [OF Cons.prems, of "run_one worker i s"] by (metis converse_rtranclp_into_rtranclp)
qed (simp add: run_batch_def)

fun turn_config :: "'w exec_state \<Rightarrow> (bool \<times> 'w exec_state) result \<Rightarrow> exec_phase \<times> 'w exec_state \<Rightarrow> bool" where
  "turn_config s (Inl e) c \<longleftrightarrow> fst c = Crashed e"
| "turn_config s (Inr (b, s')) c \<longleftrightarrow> c = (if b then Looping else Stopped, s')"

lemma exec_turn_steps:
  assumes "0 < m" "has_pending (ex_graph s)"
  shows "\<exists>c. (exec_step m worker)\<^sup>+\<^sup>+ (Looping, s) c \<and> turn_config s (exec_turn worker s) c"
proof (cases "ready_tasks (ex_graph s)")
  case (Inl e)
  with assms(2) show ?thesis
    by (auto simp: exec_turn_def intro!: tranclp.r_into_trancl exec_step.ready_error)
next
  case (Inr p)
  obtain rs g where p: "p = (rs, g)" by fastforce
  show ?thesis
  proof (cases rs)
    case Nil
    with Inr p assms(2) show ?thesis
      by (auto simp: exec_turn_def intro!: tranclp.r_into_trancl exec_step.pause)
  next
    case (Cons i "is")
    let ?s = "run_batch worker rs (s\<lparr>ex_graph := g\<rparr>)"
    have open_steps: "(exec_step m worker)\<^sup>+\<^sup>+ (Looping, s) (Gathering [] [], ?s)"
      using exec_step.open_round [OF assms(2) Inr [unfolded p Cons]] run_batch_steps [OF assms(1)] Cons
      by (metis rtranclp_into_tranclp2)
    show ?thesis
    proof (cases "invalidate_dependencies (ex_graph ?s)")
      case (Inl e)
      with Inr p Cons have "exec_turn worker s = Inl e" by (simp add: exec_turn_def Let_def)
      with tranclp.trancl_into_trancl [OF open_steps exec_step.close_error [OF Inl]] show ?thesis
        by (intro exI [of _ "(Crashed e, ?s)"]) simp
    next
      case (Inr g')
      with \<open>ready_tasks (ex_graph s) = Inr p\<close> p Cons
      have "exec_turn worker s = Inr (True, ?s\<lparr>ex_graph := g'\<rparr>)" by (simp add: exec_turn_def Let_def)
      with tranclp.trancl_into_trancl [OF open_steps exec_step.close_round [OF Inr]] show ?thesis
        by (intro exI [of _ "(Looping, ?s\<lparr>ex_graph := g'\<rparr>)"]) simp
    qed
  qed
qed

lemma exec_trancl_measure:
  assumes "(exec_step m worker)\<^sup>+\<^sup>+ c c'" "proper_worker worker" "exec_inv m c"
  shows "exec_measure c' < exec_measure c \<and> exec_inv m c'"
  using assms(1)
proof (induction rule: tranclp_induct)
  case (base c')
  with assms(2,3) show ?case by (blast intro: exec_step_measure exec_step_inv)
next
  case (step c' c'')
  with assms(2) exec_step_measure [OF step(2)] exec_step_inv [OF step(2)] show ?case by force
qed

text \<open>The sequential executor always returns, and what it returns the steps can reach.\<close>

theorem exec_run_steps:
  assumes "0 < m" "proper_worker worker" "graph_ok (ex_graph s)"
  shows "(\<exists>s'. exec_run worker s = Some (Inr s') \<and> exec_steps m worker (Looping, s) (Stopped, s')) \<or>
    (\<exists>e s'. exec_run worker s = Some (Inl e) \<and> exec_steps m worker (Looping, s) (Crashed e, s'))"
  using assms(3)
proof (induction "exec_measure (Looping, s)" arbitrary: s rule: less_induct)
  case less
  show ?case
  proof (cases "has_pending (ex_graph s)")
    case False
    then have "exec_run worker s = Some (Inr s)" by (simp add: exec_run.simps)
    with exec_step.all_terminal [OF False] show ?thesis by blast
  next
    case True
    from exec_turn_steps [OF assms(1) True] obtain c
      where c: "(exec_step m worker)\<^sup>+\<^sup>+ (Looping, s) c" "turn_config s (exec_turn worker s) c" by blast
    have dec: "exec_measure c < exec_measure (Looping, s) \<and> exec_inv m c"
      by (rule exec_trancl_measure [OF c(1) assms(2)]) (use less.prems in simp)
    show ?thesis
    proof (cases "exec_turn worker s")
      case (Inl e)
      with True have "exec_run worker s = Some (Inl e)" by (simp add: exec_run.simps)
      moreover obtain s' where "c = (Crashed e, s')" using c(2) Inl by (cases c) auto
      ultimately show ?thesis using c(1) by (blast dest: tranclp_into_rtranclp)
    next
      case (Inr r)
      obtain b s' where r: "r = (b, s')" by fastforce
      show ?thesis
      proof (cases b)
        case True
        with Inr r c(2) have "c = (Looping, s')" by simp
        with dec less.hyps [of s'] have
          "(\<exists>t. exec_run worker s' = Some (Inr t) \<and> exec_steps m worker c (Stopped, t)) \<or>
           (\<exists>e t. exec_run worker s' = Some (Inl e) \<and> exec_steps m worker c (Crashed e, t))" by simp
        moreover have "exec_run worker s = exec_run worker s'"
          using \<open>has_pending _\<close> Inr r True by (subst exec_run.simps) simp
        ultimately show ?thesis using tranclp_into_rtranclp [OF c(1)] by (metis rtranclp_trans)
      next
        case False
        with Inr r \<open>has_pending _\<close> have "exec_run worker s = Some (Inr s')"
          by (subst exec_run.simps) simp
        moreover have "c = (Stopped, s')" using Inr r False c(2) by simp
        ultimately show ?thesis using c(1) by (blast dest: tranclp_into_rtranclp)
      qed
    qed
  qed
qed

section \<open>The order does not matter\<close>

text \<open>A worker that depends on nothing but its task.\<close>

definition stateless :: "'w worker \<Rightarrow> bool" where
  "stateless worker \<longleftrightarrow> (\<forall>t w w'. fst (worker t w) = fst (worker t w') \<and>
     fst (snd (worker t w)) = fst (snd (worker t w')))"

definition work :: "'w worker \<Rightarrow> task \<Rightarrow> task" where
  "work worker t = (case worker (begin_task t) undefined of (out, u, w) \<Rightarrow> settle out u)"

lemma finish_task_stateless:
  assumes "stateless worker" "dict_get (ex_graph s) i = Some (begin_task t)"
  shows "ex_graph (finish_task worker i s) = dict_set i (work worker t) (ex_graph s)"
proof -
  obtain out u w where ex: "worker (begin_task t) (ex_world s) = (out, u, w)" by (metis prod_cases3)
  moreover obtain out' u' w' where "worker (begin_task t) undefined = (out', u', w')" by (metis prod_cases3)
  moreover have "out = out'" "u = u'"
    using assms(1) calculation unfolding stateless_def by (metis fst_conv snd_conv)+
  ultimately show ?thesis using assms(2) by (simp add: finish_task_def work_def)
qed

text \<open>A graph in the middle of a batch, described from the graph at the start of the batch.\<close>

definition mid_batch :: "'w worker \<Rightarrow> task_graph \<Rightarrow> string list \<Rightarrow> string list \<Rightarrow> string list \<Rightarrow> task_graph \<Rightarrow> bool" where
  "mid_batch worker g0 batch w r g \<longleftrightarrow> map fst g = map fst g0 \<and> distinct (w @ r) \<and> set (w @ r) \<subseteq> set batch \<and>
     dict_get g = (\<lambda>k. if k \<notin> set batch \<or> k \<in> set w then dict_get g0 k
       else map_option (if k \<in> set r then begin_task else work worker) (dict_get g0 k))"

lemma dict_ext:
  assumes "map fst g = map fst h" "distinct (map fst g)" "dict_get g = dict_get h"
  shows "g = h"
proof -
  have rebuild: "map (\<lambda>k. (k, the (dict_get d k))) (map fst d) = d" if "distinct (map fst d)" for d :: "('a, 'b) dict"
    using that by (auto intro!: map_idI)
  have "g = map (\<lambda>k. (k, the (dict_get g k))) (map fst g)" using rebuild [OF assms(2)] by simp
  also have "\<dots> = map (\<lambda>k. (k, the (dict_get h k))) (map fst h)" unfolding assms(1,3) ..
  also have "\<dots> = h" using rebuild assms(1,2) by metis
  finally show ?thesis .
qed

lemma mid_batch_unique:
  "mid_batch worker g0 batch w r g \<Longrightarrow> mid_batch worker g0 batch w r h \<Longrightarrow> distinct (map fst g0) \<Longrightarrow> g = h"
  unfolding mid_batch_def by (rule dict_ext) auto

lemma mid_batch_begin: "distinct batch \<Longrightarrow> mid_batch worker g batch batch [] g"
  by (auto simp: mid_batch_def)

lemma start_get: "dict_get (ex_graph (start_task i s)) k =
    (if k = i then map_option begin_task (dict_get (ex_graph s) i) else dict_get (ex_graph s) k)"
  by (auto simp: start_task_def split: option.splits)

lemma start_keys: "map fst (ex_graph (start_task i s)) = map fst (ex_graph s)"
  by (auto simp: start_task_def replace_keys split: option.splits)

lemma finish_keys: "map fst (ex_graph (finish_task worker i s)) = map fst (ex_graph s)"
  by (auto simp: finish_task_def replace_keys split: option.splits prod.splits)

lemma mid_batch_start:
  assumes "mid_batch worker g0 batch (i # w) r (ex_graph s)"
  shows "mid_batch worker g0 batch w (i # r) (ex_graph (start_task i s))"
  using assms unfolding mid_batch_def start_keys start_get by (auto simp: fun_eq_iff)

lemma mid_batch_finish:
  assumes "mid_batch worker g0 batch w r (ex_graph s)" "i \<in> set r" "stateless worker"
  shows "mid_batch worker g0 batch w (remove1 i r) (ex_graph (finish_task worker i s))"
proof (cases "dict_get g0 i")
  case None
  with assms show ?thesis unfolding mid_batch_def finish_keys
    by (auto simp: fun_eq_iff finish_task_def distinct_remove1 dest: notin_set_remove1 split: if_splits)
next
  case (Some t)
  with assms(1,2) have "dict_get (ex_graph s) i = Some (begin_task t)"
    by (auto simp: mid_batch_def)
  note get = finish_task_stateless [OF assms(3) this]
  from assms(1,2) Some show ?thesis
    unfolding mid_batch_def finish_keys
    by (auto simp: get fun_eq_iff distinct_remove1)
qed

text \<open>One round of the executor as a relation on graphs, and what it leaves when it stops.\<close>

definition round_of :: "'w worker \<Rightarrow> task_graph \<Rightarrow> task_graph \<Rightarrow> bool" where
  "round_of worker g h \<longleftrightarrow> has_pending g \<and> (\<exists>batch g1 g2. batch \<noteq> [] \<and> ready_tasks g = Inr (batch, g1) \<and>
     mid_batch worker g1 batch [] [] g2 \<and> invalidate_dependencies g2 = Inr h)"

definition stops_at :: "task_graph \<Rightarrow> task_graph \<Rightarrow> bool" where
  "stops_at g h \<longleftrightarrow> (if has_pending g then ready_tasks g = Inr ([], h) else h = g)"

lemma ready_tasks_keys: "ready_tasks g = Inr (rs, h) \<Longrightarrow> dict_ok g \<Longrightarrow> map fst h = map fst g"
  by (blast intro: advances_keys ready_tasks_spec(1))

lemma round_of_functional:
  assumes "dict_ok g" "round_of worker g h" "round_of worker g h'"
  shows "h = h'"
proof -
  from assms(2) obtain batch g1 g2 where g: "ready_tasks g = Inr (batch, g1)"
    "mid_batch worker g1 batch [] [] g2" "invalidate_dependencies g2 = Inr h"
    unfolding round_of_def by blast
  from assms(3) g(1) obtain g2' where g': "mid_batch worker g1 batch [] [] g2'"
    "invalidate_dependencies g2' = Inr h'"
    unfolding round_of_def by auto
  have "distinct (map fst g1)" using ready_tasks_keys [OF g(1)] assms(1) by (simp add: dict_ok_def)
  then have "g2 = g2'" by (rule mid_batch_unique [OF g(2) g'(1)])
  with g(3) g'(2) show ?thesis by simp
qed

lemma round_of_keys:
  assumes "round_of worker g h" "dict_ok g"
  shows "dict_ok h"
proof -
  from assms(1) obtain batch g1 g2 where g: "ready_tasks g = Inr (batch, g1)"
    "mid_batch worker g1 batch [] [] g2" "invalidate_dependencies g2 = Inr h"
    unfolding round_of_def by blast
  with assms(2) show ?thesis
    using ready_tasks_keys [OF g(1)] advances_keys [OF invalidate_advances [OF g(3)]]
    by (simp add: dict_ok_def mid_batch_def)
qed

lemma stops_no_round: "stops_at g h \<Longrightarrow> \<not> round_of worker g h'"
  by (auto simp: stops_at_def round_of_def split: if_splits)

lemma stops_unique:
  assumes "(round_of worker)\<^sup>*\<^sup>* g a" "(round_of worker)\<^sup>*\<^sup>* g b" "stops_at a x" "stops_at b y" "dict_ok g"
  shows "x = y"
  using assms(1,2,5)
proof (induction rule: converse_rtranclp_induct)
  case base
  from base.prems(1) have "b = a"
    by (cases rule: converse_rtranclpE) (use stops_no_round [OF assms(3)] in blast)+
  with assms(3,4) show ?case by (simp add: stops_at_def split: if_splits)
next
  case (step g g')
  note IH = step.IH and ok = step.prems(2) and fst_round = step.hyps(1)
  from step.prems(1) show ?case
  proof (cases rule: converse_rtranclpE)
    case base
    with stops_no_round [OF assms(4)] fst_round show ?thesis by blast
  next
    case (step g'')
    have "g'' = g'"
      by (rule round_of_functional [OF ok \<open>round_of worker g g''\<close> fst_round])
    with \<open>(round_of worker)\<^sup>*\<^sup>* g'' b\<close> round_of_keys [OF fst_round ok]
    show ?thesis by (simp add: IH)
  qed
qed

text \<open>Where a configuration is in the sequence of rounds.\<close>

fun rounds_inv :: "'w worker \<Rightarrow> task_graph \<Rightarrow> exec_phase \<times> 'w exec_state \<Rightarrow> bool" where
  "rounds_inv worker g0 (Looping, s) \<longleftrightarrow> (round_of worker)\<^sup>*\<^sup>* g0 (ex_graph s)"
| "rounds_inv worker g0 (Gathering w r, s) \<longleftrightarrow> (\<exists>g batch g1. (round_of worker)\<^sup>*\<^sup>* g0 g \<and> has_pending g \<and>
     batch \<noteq> [] \<and> ready_tasks g = Inr (batch, g1) \<and> mid_batch worker g1 batch w r (ex_graph s))"
| "rounds_inv worker g0 (Stopped, s) \<longleftrightarrow>
     (\<exists>g. (round_of worker)\<^sup>*\<^sup>* g0 g \<and> stops_at g (ex_graph s))"
| "rounds_inv worker g0 (Crashed e, s) \<longleftrightarrow> True"

lemma exec_step_rounds:
  assumes "exec_step m worker c c'" "stateless worker" "proper_worker worker" "exec_inv m c"
    and "rounds_inv worker g0 c"
  shows "rounds_inv worker g0 c'"
  using assms(1,4,5)
proof (cases rule: exec_step.cases)
  case (all_terminal s)
  with assms(5) show ?thesis by (auto simp: stops_at_def)
next
  case (pause s g)
  with assms(5) show ?thesis by (auto simp: stops_at_def)
next
  case (open_round s i "is" g)
  with assms(4) have "distinct (i # is)" by (auto dest: graph_ok_dict ready_tasks_spec(2))
  with open_round assms(5) mid_batch_begin [of "i # is" worker g] show ?thesis by fastforce
next
  case (start r i "is" s)
  with assms(5) show ?thesis by (auto intro: mid_batch_start)
next
  case (finish i r "is" s)
  with assms(2,5) show ?thesis by (fastforce intro: mid_batch_finish)
next
  case (close_round s g)
  with assms(5) obtain g1 batch g2 where "(round_of worker)\<^sup>*\<^sup>* g0 g1" "has_pending g1" "batch \<noteq> []"
    "ready_tasks g1 = Inr (batch, g2)" "mid_batch worker g2 batch [] [] (ex_graph s)"
    by auto
  moreover from this close_round have "round_of worker g1 g"
    unfolding round_of_def by blast
  ultimately show ?thesis using close_round by simp
qed simp_all

lemma exec_steps_rounds:
  assumes "exec_steps m worker c c'" "stateless worker" "proper_worker worker" "exec_inv m c"
    and "rounds_inv worker g0 c"
  shows "rounds_inv worker g0 c'"
  using assms(1)
proof (induction rule: rtranclp_induct)
  case (step c1 c2)
  then have "exec_inv m c1" using exec_steps_inv assms(3,4) by blast
  with step assms(2,3) show ?case by (blast intro: exec_step_rounds)
qed (rule assms(5))

theorem exec_schedules_agree:
  assumes "stateless worker" "proper_worker worker" "graph_ok g0" "ex_graph s = g0" "ex_graph s' = g0"
    and "exec_steps m worker (Looping, s) (Stopped, a)"
    and "exec_steps m' worker (Looping, s') (Stopped, b)"
  shows "ex_graph a = ex_graph b"
proof -
  have "rounds_inv worker g0 (Stopped, a)"
    by (rule exec_steps_rounds [OF assms(6,1,2)]) (use assms(3,4) in auto)
  moreover have "rounds_inv worker g0 (Stopped, b)"
    by (rule exec_steps_rounds [OF assms(7,1,2)]) (use assms(3,5) in auto)
  ultimately show ?thesis
    using assms(3) by (auto dest: graph_ok_dict intro: stops_unique)
qed

section \<open>Known dependencies\<close>

fun known_inv :: "exec_phase \<times> 'w exec_state \<Rightarrow> bool" where
  "known_inv (Crashed e, s) \<longleftrightarrow> False"
| "known_inv (ph, s) \<longleftrightarrow> deps_known (ex_graph s)"

lemma exec_step_known:
  assumes "exec_step m worker c c'" "proper_worker worker" "exec_inv m c" "known_inv c"
  shows "known_inv c'"
  using assms(1,3,4)
proof (cases rule: exec_step.cases)
  case (ready_error s e)
  with assms(3,4) ready_total show ?thesis by auto
next
  case (pause s g)
  then have ok: "graph_ok (ex_graph s)" and known: "deps_known (ex_graph s)" using assms(3,4) by simp_all
  have "advances (ex_graph s) g"
    by (rule ready_tasks_spec(1) [OF \<open>ready_tasks (ex_graph s) = _\<close> graph_ok_dict [OF ok]])
  with pause advances_deps_known ok known show ?thesis by simp
next
  case (open_round s i "is" g)
  then have ok: "graph_ok (ex_graph s)" and known: "deps_known (ex_graph s)" using assms(3,4) by simp_all
  have "advances (ex_graph s) g"
    by (rule ready_tasks_spec(1) [OF \<open>ready_tasks (ex_graph s) = _\<close> graph_ok_dict [OF ok]])
  with open_round advances_deps_known ok known show ?thesis by simp
next
  case (start r i "is" s)
  then obtain t where t: "dict_get (ex_graph s) i = Some t" using assms(3) by auto
  have "deps_known (dict_set i (begin_task t) (ex_graph s))"
    using start assms(3,4) by (intro replace_deps_known [OF _ _ t]) simp_all
  with start t show ?thesis by (simp add: start_task_graph)
next
  case (finish i r "is" s)
  then obtain t where t: "dict_get (ex_graph s) i = Some t" "tk_status t = RUNNING"
    using assms(3) by auto
  obtain u where "ex_graph (finish_task worker i s) = dict_set i u (ex_graph s)"
    "tk_id u = tk_id t" "tk_dependencies u = tk_dependencies t"
    using finish_task_graph [OF assms(2) t] by metis
  moreover from this finish assms(3,4) have "deps_known (dict_set i u (ex_graph s))"
    by (intro replace_deps_known [OF _ _ t(1)]) simp_all
  ultimately show ?thesis using finish by simp
next
  case (close_round s g)
  with assms(3,4) show ?thesis by (auto intro: advances_deps_known invalidate_advances)
next
  case (close_error s e)
  with assms(3,4) invalidate_total show ?thesis by auto
qed (use assms(4) in auto)

lemma exec_steps_known:
  assumes "exec_steps m worker c c'" "proper_worker worker" "exec_inv m c" "known_inv c"
  shows "known_inv c'"
  using assms(1)
proof (induction rule: rtranclp_induct)
  case (step c1 c2)
  then have "exec_inv m c1" using exec_steps_inv assms(2,3) by blast
  with step assms(2) show ?case by (blast intro: exec_step_known)
qed (rule assms(4))

section \<open>Every run ends\<close>

lemma exec_run_returns:
  assumes "proper_worker worker" "graph_ok (ex_graph s)" "deps_known (ex_graph s)" "0 < m"
  shows "\<exists>r. exec_run worker s = Some (Inr r) \<and> exec_steps m worker (Looping, s) (Stopped, r)"
proof -
  have "\<not> exec_steps m worker (Looping, s) (Crashed e, s')" for e s'
    using exec_steps_known [of m worker "(Looping, s)" "(Crashed e, s')"] assms by auto
  with exec_run_steps [OF assms(4,1,2)] show ?thesis by blast
qed

lemma exec_no_infinite:
  assumes "proper_worker worker" "exec_inv m (f 0)"
  shows "\<not> (\<forall>n. exec_step m worker (f n) (f (Suc n)))"
proof
  assume steps: "\<forall>n. exec_step m worker (f n) (f (Suc n))"
  have inv: "exec_inv m (f n)" for n
    by (induction n) (use assms steps exec_step_inv in blast)+
  have "exec_measure (f n) + n \<le> exec_measure (f 0)" for n
  proof (induction n)
    case (Suc n)
    have "exec_measure (f (Suc n)) < exec_measure (f n)"
      using exec_step_measure steps assms(1) inv by blast
    with Suc show ?case by simp
  qed simp
  from this [of "Suc (exec_measure (f 0))"] show False by simp
qed

end
