(* ===== verification/LateSkip.thy ===== *)
theory LateSkip
  imports ExecutorFacts
begin

text \<open>
  Where the skips of \<^verbatim>\<open>tasks/graph.py\<close> come too late: \<^verbatim>\<open>invalidate_dependencies\<close> and
  \<^verbatim>\<open>ready_tasks\<close> each pass once over the tasks in the order in which they were added, so a
  skip reaches a task that was added earlier only with the next pass.
\<close>

section \<open>Waiting tasks\<close>

text \<open>A pending task that waits, and waits for pending tasks only.\<close>

definition waits_for_pending :: "task_graph \<Rightarrow> string \<Rightarrow> bool" where
  "waits_for_pending g i \<longleftrightarrow> (\<exists>t. dict_get g i = Some t \<and> tk_status t = PENDING \<and> tk_dependencies t \<noteq> [] \<and>
     (\<forall>d\<in>set (tk_dependencies t). \<exists>u. dict_get g d = Some u \<and> tk_status u = PENDING))"

lemma any_status_pending:
  "\<forall>d\<in>set ds. \<exists>u. dict_get g d = Some u \<and> tk_status u = PENDING \<Longrightarrow>
   any_status g {FAILED, SKIPPED} ds = Inr False"
  by (induction ds) (auto simp: graph_get_def)

lemma lookup_pending:
  "\<forall>d\<in>set ds. \<exists>u. dict_get g d = Some u \<and> tk_status u = PENDING \<Longrightarrow>
   \<exists>us. lookup_all g ds = Inr us \<and> length us = length ds \<and> (\<forall>u\<in>set us. tk_status u = PENDING)"
  by (induction ds) (auto simp: graph_get_def)

lemma invalidate_past:
  "\<forall>i\<in>set is. waits_for_pending g i \<Longrightarrow> invalidate_from (is @ js) g = invalidate_from js g"
  by (induction "is") (auto simp: waits_for_pending_def any_status_pending)

lemma ready_past:
  "\<forall>i\<in>set is. waits_for_pending g i \<Longrightarrow> ready_from (is @ js) g = ready_from js g"
proof (induction "is")
  case (Cons i "is")
  then obtain t where t: "dict_get g i = Some t" "tk_status t = PENDING" "tk_dependencies t \<noteq> []"
    "\<forall>d\<in>set (tk_dependencies t). \<exists>u. dict_get g d = Some u \<and> tk_status u = PENDING"
    unfolding waits_for_pending_def by auto
  obtain us where us: "lookup_all g (tk_dependencies t) = Inr us" "length us = length (tk_dependencies t)"
    "\<forall>u\<in>set us. tk_status u = PENDING"
    using lookup_pending [OF t(4)] by blast
  have "\<not> list_ex (\<lambda>d. tk_status d \<in> {FAILED, SKIPPED}) us" "list_ex (\<lambda>d. tk_status d \<noteq> DONE) us"
    using us(2,3) t(3) by (cases us; fastforce simp: list_ex_iff)+
  with t us(1) Cons show ?case by simp
qed simp

section \<open>A chain added in reverse\<close>

text \<open>
  The tasks \<open>c\<close>, \<open>b\<close> and \<open>a\<close> form a chain whose first task \<open>a\<close> was added last; the tasks
  \<open>up\<close> were added before them and wait for each other and for \<open>c\<close>.
\<close>

definition reversed_chain ::
  "task_graph \<Rightarrow> string \<Rightarrow> task \<Rightarrow> string \<Rightarrow> task \<Rightarrow> string \<Rightarrow> task \<Rightarrow> bool" where
  "reversed_chain up c tc b tb a ta \<longleftrightarrow> graph_ok (up @ [(c, tc), (b, tb), (a, ta)]) \<and>
     tk_status ta = PENDING \<and> tk_dependencies ta = [] \<and>
     tk_status tb = PENDING \<and> tk_dependencies tb = [a] \<and>
     tk_status tc = PENDING \<and> tk_dependencies tc = [b] \<and>
     (\<forall>e\<in>set up. tk_status (snd e) = PENDING \<and> tk_dependencies (snd e) \<noteq> [] \<and>
        set (tk_dependencies (snd e)) \<subseteq> insert c (fst ` set up))"

lemma chain_get:
  assumes "reversed_chain up c tc b tb a ta"
  defines "g \<equiv> up @ [(c, tc), (b, tb), (a, ta)]"
  shows "dict_get g a = Some ta" "dict_get g b = Some tb" "dict_get g c = Some tc"
    "\<And>e. e \<in> set up \<Longrightarrow> dict_get g (fst e) = Some (snd e)"
    "a \<noteq> b" "a \<noteq> c" "b \<noteq> c" "a \<notin> fst ` set up" "b \<notin> fst ` set up" "c \<notin> fst ` set up"
proof -
  have d: "distinct (map fst g)" using assms(1) by (simp add: reversed_chain_def graph_ok_def dict_ok_def g_def)
  then show "dict_get g a = Some ta" "dict_get g b = Some tb" "dict_get g c = Some tc"
    "\<And>e. e \<in> set up \<Longrightarrow> dict_get g (fst e) = Some (snd e)"
    by (intro map_of_is_SomeI; simp add: g_def)+
  show "a \<noteq> b" "a \<noteq> c" "b \<noteq> c" "a \<notin> fst ` set up" "b \<notin> fst ` set up" "c \<notin> fst ` set up"
    using d by (auto simp: g_def)
qed

text \<open>As long as \<open>c\<close> is pending, everything in \<open>up\<close> is passed over.\<close>

lemma up_waits:
  assumes "reversed_chain up c tc b tb a ta" "\<forall>e\<in>set up. dict_get h (fst e) = Some (snd e)"
    "dict_get h c = Some tc" "i \<in> set (map fst up)"
  shows "waits_for_pending h i"
proof -
  obtain e where e: "e \<in> set up" "fst e = i" using assms(4) by auto
  have ok: "tk_status (snd e) = PENDING" "tk_dependencies (snd e) \<noteq> []"
    "set (tk_dependencies (snd e)) \<subseteq> insert c (fst ` set up)"
    using assms(1) e(1) by (auto simp: reversed_chain_def)
  have "\<exists>u. dict_get h d = Some u \<and> tk_status u = PENDING" if "d \<in> set (tk_dependencies (snd e))" for d
  proof (cases "d = c")
    case True
    then show ?thesis using assms(1,3) by (simp add: reversed_chain_def)
  next
    case False
    then have "d \<in> fst ` set up" using ok(3) that by blast
    then obtain e' where "e' \<in> set up" "fst e' = d" by blast
    then show ?thesis using assms(1,2) by (auto simp: reversed_chain_def)
  qed
  then show ?thesis using assms(2) e ok(1,2) by (auto simp: waits_for_pending_def)
qed

text \<open>The pass of \<^verbatim>\<open>ready_tasks\<close> before the failure, that of \<^verbatim>\<open>invalidate\<close> after it, and the last one.\<close>

lemma chain_opens:
  assumes "reversed_chain up c tc b tb a ta"
  shows "ready_tasks (up @ [(c, tc), (b, tb), (a, ta)]) =
    Inr ([a], dict_set a (ta\<lparr>tk_status := READY\<rparr>) (up @ [(c, tc), (b, tb), (a, ta)]))" (is "ready_tasks ?g = _")
proof -
  note g = chain_get [OF assms]
  have "ready_tasks ?g = ready_from (map fst up @ [c, b, a]) ?g" by (simp add: ready_tasks_def)
  also have "\<dots> = ready_from [c, b, a] ?g"
    using up_waits [OF assms] g(3,4) by (intro ready_past) blast
  finally show ?thesis
    using assms g by (simp add: reversed_chain_def graph_get_def set_status_def)
qed

lemma chain_invalidates:
  assumes "reversed_chain up c tc b tb a ta" "map fst h = map fst up @ [c, b, a]"
    "\<forall>e\<in>set up. dict_get h (fst e) = Some (snd e)" "dict_get h c = Some tc" "dict_get h b = Some tb"
    "dict_get h a = Some u" "tk_status u = FAILED"
  shows "invalidate_dependencies h = Inr (dict_set b (tb\<lparr>tk_status := SKIPPED\<rparr>) h)"
proof -
  have "invalidate_dependencies h = invalidate_from [c, b, a] h"
    unfolding invalidate_dependencies_def assms(2)
    using up_waits [OF assms(1,3,4)] by (intro invalidate_past) blast
  then show ?thesis
    using assms chain_get [OF assms(1)] by (simp add: reversed_chain_def graph_get_def set_status_def)
qed

lemma chain_stops:
  assumes "reversed_chain up c tc b tb a ta" "map fst h = map fst up @ [c, b, a]"
    "\<forall>e\<in>set up. dict_get h (fst e) = Some (snd e)" "dict_get h c = Some tc" "dict_get h b = Some u"
    "dict_get h a = Some v" "tk_status u = SKIPPED" "tk_status v = FAILED"
  shows "ready_tasks h = Inr ([], dict_set c (tc\<lparr>tk_status := SKIPPED\<rparr>) h)"
proof -
  have "ready_tasks h = ready_from [c, b, a] h"
    unfolding ready_tasks_def assms(2)
    using up_waits [OF assms(1,3,4)] by (intro ready_past) blast
  then show ?thesis
    using assms chain_get [OF assms(1)] by (simp add: reversed_chain_def graph_get_def set_status_def)
qed

lemma pending_left: "dict_get g i = Some t \<Longrightarrow> tk_status t = PENDING \<Longrightarrow> has_pending g"
  using map_of_SomeD [of g i t] by (force simp: has_pending_def list_ex_iff is_terminal_def)

lemma chain_leaves_pending:
  assumes chain: "reversed_chain up c tc b tb a ta" and g: "ex_graph s = up @ [(c, tc), (b, tb), (a, ta)]"
    and fails: "worker (begin_task (ta\<lparr>tk_status := READY\<rparr>)) (ex_world s) = (Raised msg, u, w)"
  shows "\<exists>r v. exec_run worker s = Some (Inr r) \<and> map fst (ex_graph r) = map fst (ex_graph s) \<and>
    dict_get (ex_graph r) a = Some v \<and> tk_status v = FAILED \<and>
    dict_get (ex_graph r) b = Some (tb\<lparr>tk_status := SKIPPED\<rparr>) \<and>
    dict_get (ex_graph r) c = Some (tc\<lparr>tk_status := SKIPPED\<rparr>) \<and>
    (\<forall>e\<in>set up. dict_get (ex_graph r) (fst e) = Some (snd e))"
proof -
  note get = chain_get [OF chain, folded g]
  let ?ta = "ta\<lparr>tk_status := READY\<rparr>"
  let ?s1 = "run_batch worker [a] (s\<lparr>ex_graph := dict_set a ?ta (ex_graph s)\<rparr>)"
  define h where "h = ex_graph ?s1"
  have h: "h = dict_set a (settle (Raised msg) u) (dict_set a (begin_task ?ta) (dict_set a ?ta (ex_graph s)))"
    by (simp add: h_def run_batch_def run_one_def start_task_def finish_task_def fails)
  have other: "dict_get h i = dict_get (ex_graph s) i" if "i \<noteq> a" for i
    using that by (simp add: h)
  have a: "dict_get h a = Some (settle (Raised msg) u)" by (simp add: h)
  have ks: "map fst h = map fst up @ [c, b, a]"
    unfolding h using get(1) by (simp add: replace_keys) (simp add: g)
  have up: "\<forall>e\<in>set up. dict_get h (fst e) = Some (snd e)"
    using get(4,8) other by (metis image_eqI)
  have cb: "dict_get h c = Some tc" "dict_get h b = Some tb" using other get by simp_all
  let ?h2 = "dict_set b (tb\<lparr>tk_status := SKIPPED\<rparr>) h"
  let ?s2 = "?s1\<lparr>ex_graph := ?h2\<rparr>"
  let ?h3 = "dict_set c (tc\<lparr>tk_status := SKIPPED\<rparr>) ?h2"
  have inv: "invalidate_dependencies h = Inr ?h2"
    by (rule chain_invalidates [OF chain ks up cb a]) simp
  have t1: "exec_turn worker s = Inr (True, ?s2)"
    using inv chain_opens [OF chain] by (simp add: exec_turn_def g h_def Let_def)
  have ks2: "map fst ?h2 = map fst up @ [c, b, a]" using replace_keys [OF cb(2)] ks by simp
  have up2: "\<forall>e\<in>set up. dict_get ?h2 (fst e) = Some (snd e)"
    using up get(9) by (metis image_eqI dict_get_set)
  have "ready_tasks ?h2 = Inr ([], ?h3)"
    by (rule chain_stops [OF chain ks2 up2, where u = "tb\<lparr>tk_status := SKIPPED\<rparr>" and v = "settle (Raised msg) u"])
      (use cb a get(5-7) in simp_all)
  then have t2: "\<exists>es. exec_turn worker ?s2 = Inr (False, ?s2\<lparr>ex_graph := ?h3, ex_entries := es\<rparr>)"
    by (auto simp: exec_turn_def)
  have "tk_status ta = PENDING" "tk_status tc = PENDING" using chain by (simp_all add: reversed_chain_def)
  then have p: "has_pending (ex_graph s)" "has_pending ?h2"
    using pending_left [OF get(1)] pending_left [of ?h2 c tc] cb get(7) by auto
  obtain es where t2: "exec_turn worker ?s2 = Inr (False, ?s2\<lparr>ex_graph := ?h3, ex_entries := es\<rparr>)" using t2 by blast
  have "exec_run worker s = exec_run worker ?s2" by (subst exec_run.simps) (simp add: p(1) t1)
  also have "\<dots> = Some (Inr (?s2\<lparr>ex_graph := ?h3, ex_entries := es\<rparr>))"
    by (subst exec_run.simps) (simp add: p(2) t2)
  finally have run: "exec_run worker s = Some (Inr (?s2\<lparr>ex_graph := ?h3, ex_entries := es\<rparr>))" .
  have "map fst ?h3 = map fst (ex_graph s)" using replace_keys [of ?h2 c tc] cb get(7) ks2 by (simp add: g)
  moreover have "\<forall>e\<in>set up. dict_get ?h3 (fst e) = Some (snd e)"
    using up2 get(10) by (metis image_eqI dict_get_set)
  ultimately show ?thesis
    using run a get(5-7)
    by (intro exI [of _ "?s2\<lparr>ex_graph := ?h3, ex_entries := es\<rparr>"] exI [of _ "settle (Raised msg) u"]) simp
qed

end
