(* ===== verification/Decomposition.thy ===== *)
theory Decomposition
  imports Handoff Config
begin

text \<open>
  \<^verbatim>\<open>tasks/decomposition.py\<close>: the decomposition of a prompt into task specifications.
\<close>

definition single_task :: "string \<Rightarrow> string list option \<Rightarrow> local_task_spec" where
  "single_task prompt constraints =
     to_local_task prompt None None constraints None (Some ''task-001'')"

text \<open>\<^verbatim>\<open>for constraint in constraints: if constraint not in spec.constraints: append\<close>\<close>

definition add_constraints :: "string list \<Rightarrow> local_task_spec \<Rightarrow> local_task_spec" where
  "add_constraints cs spec = spec\<lparr>lt_constraints :=
     fold (\<lambda>c acc. if c \<in> set acc then acc else acc @ [c]) cs (lt_constraints spec)\<rparr>"

definition decompose_content :: "string \<Rightarrow> string \<Rightarrow> string list option \<Rightarrow> string" where
  "decompose_content prompt ctx constraints = ''Task:'' @ nl @ prompt @
     (if ctx \<noteq> [] then nl @ nl @ ''Context:'' @ nl @ take 6000 ctx else []) @
     (case constraints of None \<Rightarrow> [] | Some [] \<Rightarrow> []
      | Some cs \<Rightarrow> nl @ nl @ ''Constraints: '' @ join ''; '' cs)"

definition decompose_messages :: "string \<Rightarrow> message list" where
  "decompose_messages body =
     [system_msg (''Break the task into at most 6 independent or sequentially dependent '' @
        ''implementation subtasks. Respond ONLY with JSON matching the schema. '' @
        ''Always include explicit human constraints in every subtask that may affect them.''),
      user_msg body]"

definition decompose ::
  "(string \<Rightarrow> message list \<Rightarrow> 's \<Rightarrow> gen_result result \<times> 's) \<Rightarrow> bool \<Rightarrow> model_config \<Rightarrow> string \<Rightarrow> string \<Rightarrow>
     string list option \<Rightarrow> 's \<Rightarrow> local_task_spec list result \<times> trace_event list \<times> 's" where
  "decompose gen enabled model prompt ctx constraints s =
     (let r = redact enabled (decompose_content prompt ctx constraints);
          entries = (if redacted r
            then [entry ''security'' ''redacted secrets before cloud handoff''
              [(''purpose'', PStr ''decompose''), (''patterns'', PList (map PStr (red_findings r)))]]
            else []);
          single = [single_task prompt constraints];
          cs = (case constraints of None \<Rightarrow> [] | Some cs \<Rightarrow> cs)
      in case gen (mc_name model) (decompose_messages (red_text r)) s of
           (Inl (ProviderError m st rt), s) \<Rightarrow>
             (Inr single, entries @ [entry ''plan'' (''decomposition failed, using single task: '' @ m) []], s)
         | (Inl e, s) \<Rightarrow> (Inl e, entries, s)
         | (Inr result, s) \<Rightarrow>
             (case gr_structured result of
                Some (PDict plan) \<Rightarrow>
                  if truthy (get_default plan ''tasks'' PNone)
                  then (case from_plan plan of
                      Inl e \<Rightarrow> (Inl e, entries, s)
                    | Inr specs \<Rightarrow> (Inr (map (add_constraints cs) specs),
                        entries @ [entry ''plan'' (''decomposed into '' @ show_nat (length specs) @ '' subtask(s)'') []], s))
                  else (Inr single, entries, s)
              | _ \<Rightarrow> (Inr single, entries, s)))"

section \<open>Facts\<close>

lemma single_task_fields [simp]:
  "lt_constraints (single_task prompt cs) = (case cs of None \<Rightarrow> [] | Some cs \<Rightarrow> cs)"
  "lt_task (single_task prompt cs) = prompt"
  by (simp_all add: single_task_def to_local_task_def Let_def)

lemma add_missing_mem:
  "set (fold (\<lambda>c acc. if c \<in> set acc then acc else acc @ [c]) cs acc) = set acc \<union> set cs"
  by (induction cs arbitrary: acc) auto

lemma add_missing_prefix:
  "\<exists>xs. fold (\<lambda>c acc. if c \<in> set acc then acc else acc @ [c]) cs acc = acc @ xs"
  by (induction cs arbitrary: acc) (auto, metis append.assoc)

lemma add_constraints_mem:
  "set (lt_constraints (add_constraints cs spec)) = set (lt_constraints spec) \<union> set cs"
  by (simp add: add_constraints_def add_missing_mem)

lemma decompose_constraints:
  assumes "decompose gen enabled model prompt ctx (Some cs) s = (Inr specs, es, s')" "sp \<in> set specs"
  shows "set cs \<subseteq> set (lt_constraints sp)"
  using assms by (auto simp: decompose_def Let_def add_constraints_mem
      split: prod.splits sum.splits py_error.splits option.splits pyval.splits if_splits)

text \<open>What the provider is asked.\<close>

lemma decompose_asks_redacted:
  assumes "\<And>msgs s. msgs = decompose_messages (red_text (redact enabled (decompose_content prompt ctx cs))) \<Longrightarrow>
    gen (mc_name model) msgs s = gen' (mc_name model) msgs s"
  shows "decompose gen enabled model prompt ctx cs s = decompose gen' enabled model prompt ctx cs s"
  unfolding decompose_def Let_def by (simp add: assms)

lemma decompose_provider_error:
  assumes "\<And>n msgs s. fst (gen n msgs s) = Inl (ProviderError m st rt)"
  shows "\<exists>es s'. decompose gen enabled model prompt ctx cs s = (Inr [single_task prompt cs], es, s')"
proof -
  obtain s' where "gen (mc_name model)
      (decompose_messages (red_text (redact enabled (decompose_content prompt ctx cs)))) s =
      (Inl (ProviderError m st rt), s')"
    using assms by (metis prod.collapse)
  then show ?thesis by (simp add: decompose_def Let_def)
qed

end
