(* ===== verification/Json.thy ===== *)
theory Json
  imports PyStr PyFloat
begin

text \<open>
  Python's \<^verbatim>\<open>json.dumps\<close> and \<^verbatim>\<open>json.loads\<close>, as far as the program uses them: the writer with
  the default separators or with an indentation, and the reader of a whole document.  A
  character beyond the 256 of a \<^verbatim>\<open>char\<close> makes the reader fail, as do the words \<^verbatim>\<open>NaN\<close> and
  \<^verbatim>\<open>Infinity\<close>.  The decimal of a float is the argument \<open>fr\<close>.
\<close>

section \<open>Writing\<close>

abbreviation backslash :: char where
  "backslash \<equiv> CHR 0x5C"

definition json_char :: "char \<Rightarrow> string" where
  "json_char c =
     (if c = dquote \<or> c = backslash then [backslash, c]
      else if c = CHR 0x0A then [backslash, CHR ''n'']
      else if c = CHR 0x0D then [backslash, CHR ''r'']
      else if c = CHR 0x09 then [backslash, CHR ''t'']
      else if c = CHR 0x0C then [backslash, CHR ''f'']
      else if c = CHR 0x08 then [backslash, CHR ''b'']
      else if 32 \<le> code_of c \<and> code_of c \<le> 126 then [c]
      else [backslash, CHR ''u'', CHR ''0'', CHR ''0'', hex_digit (code_of c div 16), hex_digit (code_of c mod 16)])"

definition json_string :: "string \<Rightarrow> string" where
  "json_string s = dquote # concat (map json_char s) @ [dquote]"

text \<open>With an indentation every item of a list or dictionary is on a line of its own.\<close>

definition gap :: "nat option \<Rightarrow> nat \<Rightarrow> string" where
  "gap indent level = (case indent of None \<Rightarrow> [] | Some n \<Rightarrow> nl @ replicate (n * level) (CHR '' ''))"

definition item_sep :: "nat option \<Rightarrow> nat \<Rightarrow> string" where
  "item_sep indent level = (case indent of None \<Rightarrow> '', '' | Some n \<Rightarrow> '','' @ gap indent level)"

fun json_write :: "(rat \<Rightarrow> string) \<Rightarrow> nat option \<Rightarrow> nat \<Rightarrow> pyval \<Rightarrow> string" where
  "json_write fr ind lvl PNone = ''null''"
| "json_write fr ind lvl (PBool b) = (if b then ''true'' else ''false'')"
| "json_write fr ind lvl (PInt i) = show_int i"
| "json_write fr ind lvl (PFloat x) = fr x"
| "json_write fr ind lvl (PStr s) = json_string s"
| "json_write fr ind lvl (PList xs) = (if xs = [] then ''[]'' else
     ''['' @ gap ind (lvl + 1) @ join (item_sep ind (lvl + 1)) (map (json_write fr ind (lvl + 1)) xs) @
     gap ind lvl @ '']'')"
| "json_write fr ind lvl (PDict d) = (if d = [] then ''{}'' else
     ''{'' @ gap ind (lvl + 1) @ join (item_sep ind (lvl + 1))
       (map (\<lambda>e. json_string (fst e) @ '': '' @ json_write fr ind (lvl + 1) (snd e)) d) @ gap ind lvl @ ''}'')"

definition json_dumps :: "(rat \<Rightarrow> string) \<Rightarrow> nat option \<Rightarrow> pyval \<Rightarrow> string" where
  "json_dumps fr indent v = json_write fr indent 0 v"

section \<open>Reading\<close>

definition is_blank :: "char \<Rightarrow> bool" where
  "is_blank c \<longleftrightarrow> c \<in> {CHR '' '', CHR 0x09, CHR 0x0A, CHR 0x0D}"

definition skip_ws :: "string \<Rightarrow> string" where
  "skip_ws = dropWhile is_blank"

definition hex_val :: "char \<Rightarrow> nat option" where
  "hex_val c = (if is_digit c then Some (code_of c - 48)
     else if is_hex_letter c then Some (code_of c - 87)
     else if 65 \<le> code_of c \<and> code_of c \<le> 70 then Some (code_of c - 55) else None)"

definition unicode_char :: "char \<Rightarrow> char \<Rightarrow> char \<Rightarrow> char \<Rightarrow> char option" where
  "unicode_char a b c d = (case (hex_val a, hex_val b, hex_val c, hex_val d) of
     (Some w, Some x, Some y, Some z) \<Rightarrow>
       if w = 0 \<and> x = 0 then Some (char_of (16 * y + z)) else None
   | _ \<Rightarrow> None)"

definition escapes :: "(char \<times> char) list" where
  "escapes = [(dquote, dquote), (backslash, backslash), (CHR ''/'', CHR ''/''), (CHR ''b'', CHR 0x08),
     (CHR ''f'', CHR 0x0C), (CHR ''n'', CHR 0x0A), (CHR ''r'', CHR 0x0D), (CHR ''t'', CHR 0x09)]"

definition consing :: "char \<Rightarrow> (string \<times> string) option \<Rightarrow> (string \<times> string) option" where
  "consing c x = map_option (\<lambda>(s, r). (c # s, r)) x"

text \<open>The rest of a string after its opening quote.\<close>

fun scan_string :: "string \<Rightarrow> (string \<times> string) option" where
  "scan_string [] = None"
| "scan_string (c # r) =
     (if c = dquote then Some ([], r)
      else if c = backslash
      then (case r of
          [] \<Rightarrow> None
        | e # r' \<Rightarrow>
            if e = CHR ''u''
            then (case r' of
                h1 # h2 # h3 # h4 # r'' \<Rightarrow> (case unicode_char h1 h2 h3 h4 of
                    None \<Rightarrow> None | Some x \<Rightarrow> consing x (scan_string r''))
              | _ \<Rightarrow> None)
            else (case map_of escapes e of None \<Rightarrow> None | Some x \<Rightarrow> consing x (scan_string r')))
      else if code_of c < 32 then None
      else consing c (scan_string r))"

text \<open>Numbers: an integer without leading zeros, then optionally a fraction and an exponent.\<close>

definition scan_integer :: "string \<Rightarrow> (string \<times> string) option" where
  "scan_integer s = (case s of
     [] \<Rightarrow> None
   | c # r \<Rightarrow> if c = CHR ''0'' then Some (''0'', r)
       else if is_digit c then Some (takeWhile is_digit s, dropWhile is_digit s) else None)"

definition scan_fraction :: "string \<Rightarrow> string \<times> string" where
  "scan_fraction s = (case s of
     [] \<Rightarrow> ([], [])
   | c # r \<Rightarrow> if c = CHR ''.'' \<and> takeWhile is_digit r \<noteq> []
       then (takeWhile is_digit r, dropWhile is_digit r) else ([], s))"

definition exponent_digits :: "string \<Rightarrow> int \<times> string" where
  "exponent_digits s = (case s of [] \<Rightarrow> (1, [])
     | c # r \<Rightarrow> if c = CHR ''-'' then (- 1, r) else if c = CHR ''+'' then (1, r) else (1, s))"

definition scan_exponent :: "string \<Rightarrow> int option \<times> string" where
  "scan_exponent s = (case s of
     [] \<Rightarrow> (None, [])
   | c # r \<Rightarrow> if c \<in> {CHR ''e'', CHR ''E''}
       then (case exponent_digits r of (sg, ds) \<Rightarrow>
         if takeWhile is_digit ds \<noteq> []
         then (Some (sg * int (read_nat (takeWhile is_digit ds))), dropWhile is_digit ds) else (None, s))
       else (None, s))"

definition decimal :: "int \<Rightarrow> string \<Rightarrow> string \<Rightarrow> int \<Rightarrow> rat" where
  "decimal sg ip fds e =
     rnd (of_int sg * (of_nat (read_nat (ip @ fds)) * 10 powi (e - int (length fds))))"

definition scan_number :: "string \<Rightarrow> (pyval \<times> string) option" where
  "scan_number s =
     (case (case s of [] \<Rightarrow> (1, []) | c # r \<Rightarrow> if c = CHR ''-'' then (- 1, r) else (1, s)) of (sg, r) \<Rightarrow>
       (case scan_integer r of
          None \<Rightarrow> None
        | Some (ip, r1) \<Rightarrow> (case scan_fraction r1 of (fds, r2) \<Rightarrow> (case scan_exponent r2 of (ex, r3) \<Rightarrow>
            Some (if fds = [] \<and> ex = None then PInt (sg * int (read_nat ip))
                  else PFloat (decimal sg ip fds (case ex of None \<Rightarrow> 0 | Some e \<Rightarrow> e)), r3)))))"

definition scan_word :: "string \<Rightarrow> (pyval \<times> string) option" where
  "scan_word s =
     (if take 4 s = ''null'' then Some (PNone, drop 4 s)
      else if take 4 s = ''true'' then Some (PBool True, drop 4 s)
      else if take 5 s = ''false'' then Some (PBool False, drop 5 s)
      else scan_number s)"

text \<open>
  A value, the rest of a list, the rest of a dictionary.  Each call costs a unit of fuel;
  twice the length of the text is enough.
\<close>

fun json_value :: "nat \<Rightarrow> string \<Rightarrow> (pyval \<times> string) option"
  and json_items :: "nat \<Rightarrow> pyval list \<Rightarrow> string \<Rightarrow> (pyval \<times> string) option"
  and json_members :: "nat \<Rightarrow> (string \<times> pyval) list \<Rightarrow> string \<Rightarrow> (pyval \<times> string) option" where
  "json_value 0 s = None"
| "json_value (Suc n) s = (case s of
     [] \<Rightarrow> None
   | c # r \<Rightarrow>
       if c = dquote then map_option (\<lambda>(t, r). (PStr t, r)) (scan_string r)
       else if c = CHR ''['' then (case skip_ws r of
           [] \<Rightarrow> None
         | d # r' \<Rightarrow> if d = CHR '']'' then Some (PList [], r') else json_items n [] (d # r'))
       else if c = CHR ''{'' then (case skip_ws r of
           [] \<Rightarrow> None
         | d # r' \<Rightarrow> if d = CHR ''}'' then Some (PDict [], r') else json_members n [] (d # r'))
       else scan_word s)"
| "json_items 0 acc s = None"
| "json_items (Suc n) acc s = (case json_value n s of
     None \<Rightarrow> None
   | Some (v, r) \<Rightarrow> (case skip_ws r of
       [] \<Rightarrow> None
     | d # r' \<Rightarrow> if d = CHR '']'' then Some (PList (acc @ [v]), r')
         else if d = CHR '','' then json_items n (acc @ [v]) (skip_ws r') else None))"
| "json_members 0 acc s = None"
| "json_members (Suc n) acc s = (case s of
     [] \<Rightarrow> None
   | q # r0 \<Rightarrow> if q \<noteq> dquote then None else (case scan_string r0 of
       None \<Rightarrow> None
     | Some (k, r1) \<Rightarrow> (case skip_ws r1 of
         [] \<Rightarrow> None
       | x # r2 \<Rightarrow> if x \<noteq> CHR '':'' then None else (case json_value n (skip_ws r2) of
           None \<Rightarrow> None
         | Some (v, r) \<Rightarrow> (case skip_ws r of
             [] \<Rightarrow> None
           | d # r' \<Rightarrow> if d = CHR ''}'' then Some (PDict (dict_set k v acc), r')
               else if d = CHR '','' then json_members n (dict_set k v acc) (skip_ws r') else None)))))"

definition json_loads :: "string \<Rightarrow> pyval option" where
  "json_loads s = (case json_value (2 * length s + 1) (skip_ws s) of
     None \<Rightarrow> None
   | Some (v, r) \<Rightarrow> if skip_ws r = [] then Some v else None)"

end
