(* ===== verification/JsonFacts.thy ===== *)
theory JsonFacts
  imports Json
begin

text \<open>
  A value without repeated keys is read back from what was written, with or without an
  indentation, where the shown decimals of its floats are; and the fuel of the reader is enough.
\<close>

section \<open>Strings and numbers\<close>

lemma hex_val_digit: "n < 16 \<Longrightarrow> hex_val (hex_digit n) = Some n"
proof -
  assume "n < 16"
  then have "n \<in> set [0..<16]" by simp
  moreover have "list_all (\<lambda>n. hex_val (hex_digit n) = Some n) [0..<16]" by code_simp
  ultimately show ?thesis unfolding list_all_iff by blast
qed

lemma escapes_get:
  "map_of escapes dquote = Some dquote" "map_of escapes backslash = Some backslash"
  "map_of escapes (CHR ''n'') = Some (CHR 0x0A)" "map_of escapes (CHR ''r'') = Some (CHR 0x0D)"
  "map_of escapes (CHR ''t'') = Some (CHR 0x09)" "map_of escapes (CHR ''f'') = Some (CHR 0x0C)"
  "map_of escapes (CHR ''b'') = Some (CHR 0x08)"
  by (simp_all add: escapes_def)

lemma unicode_hex: "unicode_char (CHR ''0'') (CHR ''0'') (hex_digit (code_of c div 16)) (hex_digit (code_of c mod 16)) = Some c"
proof -
  have z: "hex_val (CHR ''0'') = Some 0" by code_simp
  have "code_of c < 16 * 16" by simp
  then have "code_of c div 16 < 16" "code_of c mod 16 < 16" by (rule less_mult_imp_div_less, simp)
  then show ?thesis by (simp add: unicode_char_def z hex_val_digit)
qed

lemma scan_char: "scan_string (json_char c @ r) = consing c (scan_string r)"
proof -
  consider "c = dquote \<or> c = backslash" | "c \<in> {CHR 0x0A, CHR 0x0D, CHR 0x09, CHR 0x0C, CHR 0x08}"
    | "c \<noteq> dquote" "c \<noteq> backslash" "c \<notin> {CHR 0x0A, CHR 0x0D, CHR 0x09, CHR 0x0C, CHR 0x08}"
      "32 \<le> code_of c" "code_of c \<le> 126"
    | "c \<noteq> dquote" "c \<noteq> backslash" "c \<notin> {CHR 0x0A, CHR 0x0D, CHR 0x09, CHR 0x0C, CHR 0x08}"
      "\<not> (32 \<le> code_of c \<and> code_of c \<le> 126)" by blast
  then show ?thesis
  proof cases
    case 4
    have "json_char c @ r = backslash # CHR ''u'' # CHR ''0'' # CHR ''0'' #
        hex_digit (code_of c div 16) # hex_digit (code_of c mod 16) # r"
      using 4 by (simp add: json_char_def)
    then show ?thesis by (simp add: unicode_hex)
  qed (auto simp: json_char_def escapes_get)
qed

lemma scan_written: "scan_string (concat (map json_char s) @ dquote # rest) = Some (s, rest)"
proof (induction s)
  case (Cons c s)
  then show ?case by (simp only: list.map concat.simps append_assoc scan_char) (simp add: consing_def)
qed simp


text \<open>What may follow a number.\<close>

definition ends_value :: "string \<Rightarrow> bool" where
  "ends_value rest \<longleftrightarrow> rest = [] \<or> hd rest \<in> {CHR '','', CHR '']'', CHR ''}'', newline}"

lemma ends_value_not: "ends_value (c # r) \<Longrightarrow> \<not> is_digit c \<and> c \<noteq> CHR ''.'' \<and> c \<noteq> CHR ''e'' \<and> c \<noteq> CHR ''E''"
  by (auto simp: ends_value_def is_digit_def)

lemma digits_then:
  assumes "list_all is_digit ds" "ends_value rest"
  shows "takeWhile is_digit (ds @ rest) = ds" "dropWhile is_digit (ds @ rest) = rest"
proof -
  have "takeWhile is_digit rest = [] \<and> dropWhile is_digit rest = rest"
    using assms(2) ends_value_not by (cases rest) auto
  then show "takeWhile is_digit (ds @ rest) = ds" "dropWhile is_digit (ds @ rest) = rest"
    using assms(1) by (simp_all add: list_all_iff)
qed

lemma scan_show_nat:
  assumes "ends_value rest"
  shows "scan_integer (show_nat n @ rest) = Some (show_nat n, rest)"
proof (cases "n = 0")
  case True
  moreover have "show_nat 0 = ''0''" by code_simp
  ultimately show ?thesis by (simp add: scan_integer_def)
next
  case False
  obtain d ds where n: "show_nat n = d # ds" by (cases "show_nat n") auto
  then have "is_digit d" "d \<noteq> CHR ''0''" using show_nat_digits [of n] show_nat_hd [of n] False by simp_all
  then show ?thesis using digits_then [OF show_nat_digits assms, of n] by (simp add: scan_integer_def n)
qed

lemma scan_show_int:
  assumes "ends_value rest"
  shows "scan_number (show_int i @ rest) = Some (PInt i, rest)"
proof -
  have fr: "scan_fraction rest = ([], rest)" "scan_exponent rest = (None, rest)"
    using assms ends_value_not by (cases rest; auto simp: scan_fraction_def scan_exponent_def)+
  obtain d ds where d: "show_nat (nat i) = d # ds" by (cases "show_nat (nat i)") auto
  have "d \<noteq> CHR ''-''" using show_nat_digits [of "nat i"] d by (auto simp: is_digit_def)
  with d scan_show_nat [OF assms, of "nat i"] scan_show_nat [OF assms, of "nat (- i)"] fr
  show ?thesis
    by (auto simp: scan_number_def show_int_def read_show_nat) (simp add: d [symmetric] read_show_nat)
qed


section \<open>Values\<close>

lemma digits_before:
  assumes "ends_value rest"
  shows "takeWhile is_digit (s @ rest) = takeWhile is_digit s"
    "dropWhile is_digit (s @ rest) = dropWhile is_digit s @ rest"
  using digits_then [OF _ assms, of "[]"] by (induction s) auto

lemma scan_integer_before:
  "scan_integer s = Some (ip, r) \<Longrightarrow> ends_value rest \<Longrightarrow> scan_integer (s @ rest) = Some (ip, r @ rest)"
  using digits_before [of rest s]
  by (cases s) (auto simp: scan_integer_def split: if_splits)

lemma scan_fraction_before:
  "scan_fraction s = (fds, r) \<Longrightarrow> ends_value rest \<Longrightarrow> scan_fraction (s @ rest) = (fds, r @ rest)"
  using digits_before [of rest "tl s"] ends_value_not [of "hd rest" "tl rest"]
  by (cases s; cases rest) (auto simp: scan_fraction_def split: if_splits)

lemma exponent_digits_before:
  "ends_value rest \<Longrightarrow> exponent_digits (s @ rest) = (fst (exponent_digits s), snd (exponent_digits s) @ rest)"
  by (cases s; cases rest) (auto simp: exponent_digits_def ends_value_def)

lemma scan_exponent_before:
  assumes "scan_exponent s = (e, r)" "ends_value rest"
  shows "scan_exponent (s @ rest) = (e, r @ rest)"
proof (cases s)
  case Nil
  with assms ends_value_not show ?thesis by (cases rest) (auto simp: scan_exponent_def)
next
  case (Cons c s')
  with assms(1) show ?thesis
    using exponent_digits_before [OF assms(2), of s'] digits_before [OF assms(2)]
    by (auto simp: scan_exponent_def case_prod_unfold split: if_splits)
qed

lemma scan_number_before:
  assumes "scan_number s = Some (v, r)" "ends_value rest"
  shows "scan_number (s @ rest) = Some (v, r @ rest)"
proof -
  obtain sg s1 where s1: "(case s of [] \<Rightarrow> (1, []) | c # r \<Rightarrow> if c = CHR ''-'' then (- 1, r) else (1, s)) = (sg :: int, s1)"
    by fastforce
  obtain ip r1 where ip: "scan_integer s1 = Some (ip, r1)"
    using assms(1) by (auto simp: scan_number_def s1 split: option.splits)
  obtain fds r2 where fds: "scan_fraction r1 = (fds, r2)" by fastforce
  obtain e r3 where e: "scan_exponent r2 = (e, r3)" by fastforce
  have "s \<noteq> []" using ip s1 by (auto simp: scan_integer_def)
  then have "(case s @ rest of [] \<Rightarrow> (1, []) | c # r \<Rightarrow> if c = CHR ''-'' then (- 1, r) else (1, s @ rest)) = (sg, s1 @ rest)"
    using s1 by (cases s) (auto split: if_splits)
  then show ?thesis
    using assms(1) scan_integer_before [OF ip assms(2)] scan_fraction_before [OF fds assms(2)]
      scan_exponent_before [OF e assms(2)]
    by (simp add: scan_number_def s1 ip fds e)
qed

lemma scan_number_head: "scan_number s = Some x \<Longrightarrow> \<exists>c r. s = c # r \<and> (is_digit c \<or> c = CHR ''-'')"
  by (cases s) (auto simp: scan_number_def scan_integer_def is_digit_def split: if_splits)

text \<open>
  Values the reader gives back as they are: no key twice, and the decimal of a float is read as
  that float, which Python guarantees for the shortest decimal that \<open>fr\<close> stands for.
\<close>

fun readable :: "(rat \<Rightarrow> string) \<Rightarrow> pyval \<Rightarrow> bool" where
  "readable fr (PFloat x) = (scan_number (fr x) = Some (PFloat x, []))"
| "readable fr (PList xs) = list_all (readable fr) xs"
| "readable fr (PDict d) = (distinct (map fst d) \<and> list_all (\<lambda>e. readable fr (snd e)) d)"
| "readable fr v = True"

text \<open>Without floats nothing is asked of \<open>fr\<close>.\<close>

fun plain_json :: "pyval \<Rightarrow> bool" where
  "plain_json (PFloat x) = False"
| "plain_json (PList xs) = list_all plain_json xs"
| "plain_json (PDict d) = (distinct (map fst d) \<and> list_all (\<lambda>e. plain_json (snd e)) d)"
| "plain_json v = True"

lemma plain_readable: "plain_json v \<Longrightarrow> readable fr v"
  by (induction v) (auto simp: list_all_iff)

definition blanks :: "string \<Rightarrow> bool" where
  "blanks s \<longleftrightarrow> list_all is_blank s"

lemma skip_blanks: "blanks ws \<Longrightarrow> skip_ws (ws @ s) = skip_ws s"
  by (induction ws) (auto simp: blanks_def skip_ws_def)

lemma skip_none: "\<not> is_blank c \<Longrightarrow> skip_ws (c # s) = c # s"
  by (simp add: skip_ws_def)

lemma blanks_gap: "blanks (gap ind lvl)"
  by (auto simp: blanks_def gap_def is_blank_def list_all_iff split: option.split)

lemma item_sep_blanks: "\<exists>ws. item_sep ind lvl = CHR '','' # ws \<and> blanks ws"
  by (auto simp: item_sep_def blanks_def gap_def is_blank_def list_all_iff split: option.split)

lemma ends_gap: "x \<in> {CHR '','', CHR '']'', CHR ''}''} \<Longrightarrow> ends_value (gap ind lvl @ x # r)"
  by (auto simp: ends_value_def gap_def split: option.split)

lemma write_head:
  assumes "readable fr v"
  shows "\<exists>c s. json_write fr ind lvl v = c # s \<and> \<not> is_blank c \<and> c \<noteq> CHR '']'' \<and> c \<noteq> CHR ''}''"
proof (cases v)
  case (PInt i)
  obtain d ds where d: "show_nat (nat i) = d # ds" by (cases "show_nat (nat i)") auto
  have "is_digit d" using show_nat_digits [of "nat i"] d by simp
  then have "\<not> is_blank d" "d \<noteq> CHR '']''" "d \<noteq> CHR ''}''" by (auto simp: is_blank_def is_digit_def)
  with d PInt show ?thesis
    by (cases "i < 0") (auto simp: show_int_def is_blank_def)
next
  case (PFloat x)
  then obtain c s where "fr x = c # s" "is_digit c \<or> c = CHR ''-''"
    using assms scan_number_head [of "fr x"] by auto
  with PFloat show ?thesis by (auto simp: is_blank_def is_digit_def)
qed (use assms in \<open>auto simp: is_blank_def json_string_def\<close>)

lemma join_starts:
  assumes "x \<noteq> []" "\<not> is_blank (hd x)" "blanks ws"
  shows "skip_ws (ws @ join sep (x # xs) @ r) = join sep (x # xs) @ r" "hd (join sep (x # xs) @ r) = hd x"
    "join sep (x # xs) \<noteq> []"
proof -
  obtain c s where x: "x = c # s" using assms(1) by (cases x) auto
  then have "\<exists>t. join sep (x # xs) = c # t" by (cases "xs = []") (auto simp: join_Cons)
  then show "skip_ws (ws @ join sep (x # xs) @ r) = join sep (x # xs) @ r" "hd (join sep (x # xs) @ r) = hd x"
      "join sep (x # xs) \<noteq> []"
    using assms(2,3) x by (auto simp: skip_blanks skip_none)
qed

definition reads_back :: "(rat \<Rightarrow> string) \<Rightarrow> nat option \<Rightarrow> pyval \<Rightarrow> bool" where
  "reads_back fr ind v \<longleftrightarrow> (\<forall>n lvl rest. 2 * length (json_write fr ind lvl v) \<le> n \<longrightarrow> ends_value rest \<longrightarrow>
     json_value n (json_write fr ind lvl v @ rest) = Some (v, rest))"

lemma reads_backD:
  "reads_back fr ind v \<Longrightarrow> 2 * length (json_write fr ind lvl v) \<le> n \<Longrightarrow> ends_value rest \<Longrightarrow>
   json_value n (json_write fr ind lvl v @ rest) = Some (v, rest)"
  by (simp add: reads_back_def)

lemma items_read_back:
  assumes "xs \<noteq> []" "\<forall>x\<in>set xs. reads_back fr ind x \<and> readable fr x"
    and "2 * length (join (item_sep ind lvl) (map (json_write fr ind lvl) xs)) + 1 \<le> n"
  shows "json_items n acc (join (item_sep ind lvl) (map (json_write fr ind lvl) xs) @ gap ind l @ CHR '']'' # rest) =
    Some (PList (acc @ xs), rest)"
  using assms
proof (induction xs arbitrary: n acc)
  case (Cons x xs)
  let ?w = "json_write fr ind lvl x"
  obtain m where n: "n = Suc m" using Cons.prems(3) by (cases n) auto
  show ?case
  proof (cases "xs = []")
    case True
    have "json_value m (?w @ gap ind l @ CHR '']'' # rest) = Some (x, gap ind l @ CHR '']'' # rest)"
      by (rule reads_backD) (use Cons.prems True n in \<open>auto intro: ends_gap\<close>)
    then show ?thesis by (simp add: True n skip_blanks blanks_gap skip_none is_blank_def)
  next
    case False
    obtain ws where ws: "item_sep ind lvl = CHR '','' # ws" "blanks ws" using item_sep_blanks by blast
    let ?r = "join (item_sep ind lvl) (map (json_write fr ind lvl) xs) @ gap ind l @ CHR '']'' # rest"
    have split: "join (item_sep ind lvl) (map (json_write fr ind lvl) (x # xs)) =
        ?w @ CHR '','' # ws @ join (item_sep ind lvl) (map (json_write fr ind lvl) xs)"
      using False ws by (simp add: join_Cons)
    have "json_value m (?w @ CHR '','' # ws @ ?r) = Some (x, CHR '','' # ws @ ?r)"
      by (rule reads_backD) (use Cons.prems split n in \<open>auto simp: ends_value_def\<close>)
    moreover have "skip_ws (ws @ ?r) = ?r"
    proof -
      obtain y ys where xs: "xs = y # ys" using False by (cases xs) auto
      then have "readable fr y" using Cons.prems(2) by simp
      from write_head [OF this, of ind lvl] show ?thesis
        unfolding xs list.map by (intro join_starts [OF _ _ ws(2)]) auto
    qed
    moreover have "json_items m (acc @ [x]) ?r = Some (PList ((acc @ [x]) @ xs), rest)"
      by (rule Cons.IH [OF False]) (use Cons.prems split n in auto)
    ultimately show ?thesis by (simp only: split n) (simp add: skip_none is_blank_def)
  qed
qed simp


definition write_entry :: "(rat \<Rightarrow> string) \<Rightarrow> nat option \<Rightarrow> nat \<Rightarrow> string \<times> pyval \<Rightarrow> string" where
  "write_entry fr ind lvl e = json_string (fst e) @ '': '' @ json_write fr ind lvl (snd e)"

lemma update_fresh: "k \<notin> set (map fst d) \<Longrightarrow> dict_set k v d = d @ [(k, v)]"
  by (induction d) auto

lemma members_read_back:
  assumes "d \<noteq> []" "\<forall>e\<in>set d. reads_back fr ind (snd e) \<and> readable fr (snd e)"
    and "2 * length (join (item_sep ind lvl) (map (write_entry fr ind lvl) d)) + 1 \<le> n"
    and "distinct (map fst (acc @ d))"
  shows "json_members n acc (join (item_sep ind lvl) (map (write_entry fr ind lvl) d) @ gap ind l @ CHR ''}'' # rest) =
    Some (PDict (acc @ d), rest)"
  using assms
proof (induction d arbitrary: n acc)
  case (Cons e d)
  obtain k v where e: "e = (k, v)" by fastforce
  let ?w = "json_write fr ind lvl v"
  obtain m where n: "n = Suc m" using Cons.prems(3) by (cases n) auto
  have fresh: "dict_set k v acc = acc @ [(k, v)]"
    by (rule update_fresh) (use Cons.prems(4) e in auto)
  have key: "scan_string (concat (map json_char k) @ dquote # r) = Some (k, r)" for r
    by (rule scan_written)
  have head: "skip_ws ('' '' @ ?w @ r) = ?w @ r" for r
    using write_head [of fr v ind lvl] Cons.prems(2) e by (auto simp: skip_ws_def is_blank_def)
  have start: "write_entry fr ind lvl e @ r =
      dquote # concat (map json_char k) @ dquote # CHR '':'' # '' '' @ ?w @ r" for r
    by (simp add: write_entry_def json_string_def e)
  show ?case
  proof (cases "d = []")
    case True
    have "json_value m (?w @ gap ind l @ CHR ''}'' # rest) = Some (v, gap ind l @ CHR ''}'' # rest)"
      by (rule reads_backD) (use Cons.prems True n e in \<open>auto intro: ends_gap simp: write_entry_def\<close>)
    with head [of "gap ind l @ CHR ''}'' # rest"] show ?thesis
      unfolding True list.map join_single start n
      by (simp add: key skip_none is_blank_def skip_blanks blanks_gap fresh e)
  next
    case False
    obtain ws where ws: "item_sep ind lvl = CHR '','' # ws" "blanks ws" using item_sep_blanks by blast
    let ?r = "join (item_sep ind lvl) (map (write_entry fr ind lvl) d) @ gap ind l @ CHR ''}'' # rest"
    have split: "join (item_sep ind lvl) (map (write_entry fr ind lvl) (e # d)) =
        write_entry fr ind lvl e @ CHR '','' # ws @ join (item_sep ind lvl) (map (write_entry fr ind lvl) d)"
      using False ws by (simp add: join_Cons)
    have "2 * length ?w \<le> m"
      using Cons.prems(3) unfolding split n by (simp add: write_entry_def e)
    then have "json_value m (?w @ CHR '','' # ws @ ?r) = Some (v, CHR '','' # ws @ ?r)"
      by (rule reads_backD [rotated]) (use Cons.prems(2) e in \<open>auto simp: ends_value_def\<close>)
    moreover have "skip_ws (ws @ ?r) = ?r"
    proof -
      obtain y ys where d: "d = y # ys" using False by (cases d) auto
      show ?thesis unfolding d list.map
        by (rule join_starts(1) [OF _ _ ws(2)]) (simp_all add: write_entry_def json_string_def is_blank_def)
    qed
    moreover have "json_members m (acc @ [(k, v)]) ?r = Some (PDict ((acc @ [(k, v)]) @ d), rest)"
      by (rule Cons.IH [OF False]) (use Cons.prems split n e in auto)
    ultimately show ?thesis using head [of "CHR '','' # ws @ ?r"]
      by (simp only: split n append_assoc append_Cons start) (simp add: key skip_none is_blank_def fresh e)
  qed
qed simp


lemma json_write_dict: "d \<noteq> [] \<Longrightarrow> json_write fr ind lvl (PDict d) =
    CHR ''{'' # gap ind (lvl + 1) @ join (item_sep ind (lvl + 1)) (map (write_entry fr ind (lvl + 1)) d) @ gap ind lvl @ ''}''"
  by (simp add: write_entry_def [abs_def])

lemma json_write_list: "xs \<noteq> [] \<Longrightarrow> json_write fr ind lvl (PList xs) =
    CHR ''['' # gap ind (lvl + 1) @ join (item_sep ind (lvl + 1)) (map (json_write fr ind (lvl + 1)) xs) @ gap ind lvl @ '']''"
  by simp

lemma scan_word_number:
  assumes "is_digit c \<or> c = CHR ''-''"
  shows "scan_word (c # s) = scan_number (c # s)"
  using assms by (auto simp: scan_word_def is_digit_def)

lemma read_words:
  assumes "0 < n"
  shows "json_value n (CHR ''n'' # CHR ''u'' # CHR ''l'' # CHR ''l'' # r) = Some (PNone, r)"
    "json_value n (CHR ''t'' # CHR ''r'' # CHR ''u'' # CHR ''e'' # r) = Some (PBool True, r)"
    "json_value n (CHR ''f'' # CHR ''a'' # CHR ''l'' # CHR ''s'' # CHR ''e'' # r) = Some (PBool False, r)"
  using assms by (cases n; simp add: scan_word_def)+

lemma readable_reads_back: "readable fr v \<Longrightarrow> reads_back fr ind v"
proof (induction v)
  case (PInt i)
  obtain d ds where d: "show_int i = d # ds" by (cases "show_int i") (auto simp: show_int_def split: if_splits)
  obtain c cs where "show_nat (nat i) = c # cs" by (cases "show_nat (nat i)") auto
  with d show_nat_digits [of "nat i"] have c: "is_digit d \<or> d = CHR ''-''"
    by (auto simp: show_int_def split: if_splits)
  then have other: "d \<noteq> dquote" "d \<noteq> CHR ''[''" "d \<noteq> CHR ''{''" by (auto simp: is_digit_def)
  show ?case unfolding reads_back_def
  proof (intro allI impI)
    fix n lvl rest assume "2 * length (json_write fr ind lvl (PInt i)) \<le> n" and e: "ends_value rest"
    then obtain m where n: "n = Suc m" by (cases n) (auto simp: d)
    have "scan_word (d # ds @ rest) = Some (PInt i, rest)"
      using scan_show_int [OF e, of i] scan_word_number [OF c, of "ds @ rest"] by (simp add: d)
    then show "json_value n (json_write fr ind lvl (PInt i) @ rest) = Some (PInt i, rest)"
      using other by (simp add: n d)
  qed
next
  case (PFloat x)
  then have f: "scan_number (fr x) = Some (PFloat x, [])" by simp
  then obtain d ds where d: "fr x = d # ds" "is_digit d \<or> d = CHR ''-''" using scan_number_head by blast
  show ?case unfolding reads_back_def
  proof (intro allI impI)
    fix n lvl rest assume "2 * length (json_write fr ind lvl (PFloat x)) \<le> n" and e: "ends_value rest"
    then obtain m where n: "n = Suc m" by (cases n) (auto simp: d)
    have "d \<noteq> dquote" "d \<noteq> CHR ''[''" "d \<noteq> CHR ''{''" using d(2) by (auto simp: is_digit_def)
    then show "json_value n (json_write fr ind lvl (PFloat x) @ rest) = Some (PFloat x, rest)"
      using scan_number_before [OF f e] scan_word_number [OF d(2), of "ds @ rest"] by (simp add: n d(1))
  qed
next
  case (PStr s)
  show ?case unfolding reads_back_def
  proof (intro allI impI)
    fix n lvl rest assume "2 * length (json_write fr ind lvl (PStr s)) \<le> n"
    then obtain m where n: "n = Suc m" by (cases n) (auto simp: json_string_def)
    show "json_value n (json_write fr ind lvl (PStr s) @ rest) = Some (PStr s, rest)"
      by (simp add: n json_string_def scan_written)
  qed
next
  case (PList xs)
  show ?case unfolding reads_back_def
  proof (intro allI impI)
    fix n lvl rest assume len: "2 * length (json_write fr ind lvl (PList xs)) \<le> n"
    then obtain m where n: "n = Suc m" by (cases n) (auto split: if_splits)
    show "json_value n (json_write fr ind lvl (PList xs) @ rest) = Some (PList xs, rest)"
    proof (cases "xs = []")
      case True
      then show ?thesis by (simp add: n skip_ws_def is_blank_def)
    next
      case False
      let ?j = "join (item_sep ind (lvl + 1)) (map (json_write fr ind (lvl + 1)) xs)"
      obtain y ys where xs: "xs = y # ys" using False by (cases xs) auto
      then have "readable fr y" using PList.prems by simp
      then obtain c s where c: "json_write fr ind (lvl + 1) y = c # s" "\<not> is_blank c" "c \<noteq> CHR '']''"
        using write_head [of fr y ind "lvl + 1"] by auto
      have sk: "skip_ws (gap ind (lvl + 1) @ ?j @ r) = ?j @ r" "hd (?j @ r) = c" "?j \<noteq> []" for r
        unfolding xs list.map using join_starts [OF _ _ blanks_gap, of "json_write fr ind (lvl + 1) y"] c by auto
      have "json_items m [] (?j @ gap ind lvl @ CHR '']'' # rest) = Some (PList ([] @ xs), rest)"
        by (rule items_read_back [OF False])
          (use PList len n in \<open>auto simp: json_write_list [OF False] list_all_iff simp del: json_write.simps\<close>)
      with sk(1,2) [of "gap ind lvl @ CHR '']'' # rest"] sk(3) c(3) show ?thesis
        unfolding json_write_list [OF False] n by (cases ?j) (simp_all add: Let_def)
    qed
  qed
next
  case (PDict d)
  show ?case unfolding reads_back_def
  proof (intro allI impI)
    fix n lvl rest assume len: "2 * length (json_write fr ind lvl (PDict d)) \<le> n"
    then obtain m where n: "n = Suc m" by (cases n) (auto split: if_splits)
    show "json_value n (json_write fr ind lvl (PDict d) @ rest) = Some (PDict d, rest)"
    proof (cases "d = []")
      case True
      then show ?thesis by (simp add: n skip_ws_def is_blank_def)
    next
      case False
      let ?j = "join (item_sep ind (lvl + 1)) (map (write_entry fr ind (lvl + 1)) d)"
      obtain y ys where d: "d = y # ys" using False by (cases d) auto
      have sk: "skip_ws (gap ind (lvl + 1) @ ?j @ r) = ?j @ r" "hd (?j @ r) = dquote" "?j \<noteq> []" for r
        unfolding d list.map using join_starts [OF _ _ blanks_gap, of "write_entry fr ind (lvl + 1) y"]
        by (auto simp: write_entry_def json_string_def is_blank_def)
      have ih: "\<forall>e\<in>set d. reads_back fr ind (snd e) \<and> readable fr (snd e)"
        using PDict by (auto simp: list_all_iff)
      have "json_members m [] (?j @ gap ind lvl @ CHR ''}'' # rest) = Some (PDict ([] @ d), rest)"
        by (rule members_read_back [OF False ih])
          (use PDict.prems len n in \<open>auto simp: json_write_dict [OF False] simp del: json_write.simps\<close>)
      with sk(1,2) [of "gap ind lvl @ CHR ''}'' # rest"] sk(3) show ?thesis
        unfolding json_write_dict [OF False] n by (cases ?j) (simp_all add: Let_def)
    qed
  qed
qed (auto simp: reads_back_def intro!: read_words)


text \<open>What was written is read back, with or without an indentation.\<close>

lemma readable_round_trip:
  assumes "readable fr v"
  shows "json_loads (json_dumps fr ind v) = Some v"
proof -
  have "reads_back fr ind v" by (rule readable_reads_back [OF assms])
  then have "json_value (2 * length (json_dumps fr ind v) + 1) (json_dumps fr ind v @ []) = Some (v, [])"
    unfolding json_dumps_def by (rule reads_backD) (simp_all add: ends_value_def)
  moreover have "skip_ws (json_dumps fr ind v) = json_dumps fr ind v"
    using write_head [OF assms, of ind 0] by (auto simp: json_dumps_def skip_none)
  ultimately show ?thesis by (simp add: json_loads_def skip_ws_def)
qed

lemmas json_round_trip = readable_round_trip [OF plain_readable]

section \<open>Fuel\<close>

text \<open>
  The fuel of the reader is enough: with more of it no text is read differently, because every
  call consumes a character or leaves the work to one that does.
\<close>

lemma consing_Some: "consing c x = Some (t, r) \<longleftrightarrow> (\<exists>u. x = Some (u, r) \<and> t = c # u)"
  by (auto simp: consing_def)

lemma scan_string_shorter: "scan_string s = Some (t, r) \<Longrightarrow> length r < length s"
proof (induction s arbitrary: t r rule: scan_string.induct)
  case (2 c s)
  consider "c = dquote" | "c \<noteq> dquote" "c = backslash" | "c \<noteq> dquote" "c \<noteq> backslash" by blast
  then show ?case
  proof cases
    case 2
    then show ?thesis using "2.prems" "2.IH"(1,2)
      by (auto simp: consing_Some split: if_splits list.splits option.splits) fastforce+
  next
    case 3
    then show ?thesis using "2.prems" "2.IH"(3)
      by (auto simp: consing_Some less_Suc_eq split: if_splits)
  qed (use "2.prems" in simp)
qed simp

lemma skip_ws_length: "length (skip_ws s) \<le> length s"
  by (simp add: skip_ws_def length_dropWhile_le)


lemma skip_ws_Cons: "skip_ws s = c # t \<Longrightarrow> length t < length s"
  using skip_ws_length [of s] by simp

lemma dropWhile_shorter: "length (dropWhile p s) \<le> length s"
  by (rule length_dropWhile_le)

lemma scan_number_shorter: "scan_number s = Some (v, r) \<Longrightarrow> length r < length s"
proof -
  have i: "scan_integer t = Some (ip, r) \<Longrightarrow> length r < length t" for t ip r
    using dropWhile_shorter [of is_digit "tl t"]
    by (auto simp: scan_integer_def split: list.splits if_splits)
  have f: "length (snd (scan_fraction t)) \<le> length t" for t
    using dropWhile_shorter [of is_digit "tl t"] by (auto simp: scan_fraction_def split: list.split)
  have e: "length (snd (scan_exponent t)) \<le> length t" for t
  proof (cases t)
    case (Cons c u)
    have "length (snd (exponent_digits u)) \<le> length u"
      by (auto simp: exponent_digits_def split: list.split)
    with dropWhile_shorter [of is_digit "snd (exponent_digits u)"] Cons show ?thesis
      by (auto simp: scan_exponent_def split: prod.split)
  qed (simp add: scan_exponent_def)
  assume s: "scan_number s = Some (v, r)"
  obtain sg t where t: "(case s of [] \<Rightarrow> (1::int, []) | c # r \<Rightarrow> if c = CHR ''-'' then (- 1, r) else (1, s)) = (sg, t)"
    by fastforce
  then have "length t \<le> length s" by (auto split: list.splits if_splits)
  moreover obtain ip r1 where "scan_integer t = Some (ip, r1)" "r = snd (scan_exponent (snd (scan_fraction r1)))"
    using s t by (auto simp: scan_number_def split: option.splits prod.splits)
  ultimately show ?thesis using i [of t ip r1] f [of r1] e [of "snd (scan_fraction r1)"] by simp
qed

lemma scan_word_shorter: "scan_word s = Some (v, r) \<Longrightarrow> length r < length s"
  using scan_number_shorter [of s v r]
  by (auto simp: scan_word_def split: if_splits) (cases s; simp)+


lemma json_shorter:
  "json_value n s = Some (v, r) \<Longrightarrow> length r < length s"
  "json_items n acc s = Some (v, r) \<Longrightarrow> length r < length s"
  "json_members n d s = Some (v, r) \<Longrightarrow> length r < length s"
proof (induction n s and n acc s and n d s arbitrary: v r and v r and v r
    rule: json_value_json_items_json_members.induct)
  case (2 n s)
  obtain c t where s: "s = c # t" using "2.prems" by (cases s) auto
  consider "c = dquote" | "c = CHR ''[''" | "c = CHR ''{''" | "c \<notin> {dquote, CHR ''['', CHR ''{''}" by blast
  then show ?case
  proof cases
    case 1
    with "2.prems" s scan_string_shorter show ?thesis by (auto simp: less_SucI)
  next
    case 2
    with "2.prems" "2.IH"(1) [OF s _ 2] s skip_ws_length [of t] show ?thesis
      by (fastforce split: list.splits if_splits dest: skip_ws_Cons)
  next
    case 3
    with "2.prems" "2.IH"(2) [OF s] s skip_ws_length [of t] show ?thesis
      by (fastforce split: list.splits if_splits dest: skip_ws_Cons)
  next
    case 4
    with "2.prems" s show ?thesis by (auto dest: scan_word_shorter)
  qed
next
  case (4 n acc s)
  then obtain w r1 d r2 where v: "json_value n s = Some (w, r1)" "skip_ws r1 = d # r2"
    by (auto split: option.splits list.splits)
  have "length r1 < length s" by (rule "4.IH"(1) [OF v(1)])
  moreover have "length r2 < length r1" by (rule skip_ws_Cons [OF v(2)])
  moreover have "length r \<le> length r2"
    using "4.prems" v "4.IH"(2) [OF v(1) refl v(2)] skip_ws_length [of r2]
    by (fastforce split: if_splits)
  ultimately show ?case by simp
next
  case (6 n acc s)
  then obtain s1 k r1 r2 where m: "s = dquote # s1" "scan_string s1 = Some (k, r1)" "skip_ws r1 = CHR '':'' # r2"
    by (auto split: option.splits list.splits if_splits)
  with "6.prems" obtain w r3 d r4 where v: "json_value n (skip_ws r2) = Some (w, r3)" "skip_ws r3 = d # r4"
    by (auto split: option.splits list.splits if_splits)
  have "length r3 < length (skip_ws r2)" by (rule "6.IH"(1) [OF m(1) _ m(2) refl m(3) _ v(1)]) auto
  moreover have "length r4 < length r3" by (rule skip_ws_Cons [OF v(2)])
  moreover have "length r1 < length s" "length r2 < length r1" "length (skip_ws r2) \<le> length r2"
    using scan_string_shorter [OF m(2)] skip_ws_Cons [OF m(3)] skip_ws_length m(1) by auto
  moreover have "length r \<le> length r4"
    using "6.prems" m v "6.IH"(2) [OF m(1) _ m(2) refl m(3) _ v(1) refl v(2)] skip_ws_length [of r4]
    by (fastforce split: if_splits)
  ultimately show ?case by simp
qed simp_all

lemma json_fuel:
  "2 * length s \<le> n \<Longrightarrow> json_value (Suc n) s = json_value n s"
  "2 * length s < n \<Longrightarrow> json_items (Suc n) acc s = json_items n acc s"
  "2 * length s < n \<Longrightarrow> json_members (Suc n) d s = json_members n d s"
proof (induction n s and n acc s and n d s rule: json_value_json_items_json_members.induct)
  case (2 n s)
  show ?case
  proof (cases s)
    case s: (Cons c t)
    show ?thesis
    proof (cases "skip_ws t")
      case (Cons d u)
      then have "length u < length t" by (rule skip_ws_Cons)
      then have "2 * length (d # u) < n" using "2.prems" s by simp
      then have "c = CHR ''['' \<Longrightarrow> d \<noteq> CHR '']'' \<Longrightarrow> json_items (Suc n) [] (d # u) = json_items n [] (d # u)"
        "c = CHR ''{'' \<Longrightarrow> d \<noteq> CHR ''}'' \<Longrightarrow> json_members (Suc n) [] (d # u) = json_members n [] (d # u)"
        using "2.IH"(1) [OF s _ _ Cons] "2.IH"(2) [OF s _ _ _ Cons] by simp_all
      then show ?thesis by (simp add: s Cons)
    qed (simp add: s)
  qed simp
next
  case (4 n acc s)
  then have v: "json_value (Suc n) s = json_value n s" by simp
  show ?case
  proof (cases "json_value n s")
    case (Some x)
    then obtain w r1 where x: "json_value n s = Some (w, r1)" by (cases x) auto
    show ?thesis
    proof (cases "skip_ws r1")
      case (Cons d r2)
      have "length (skip_ws r2) < length s - 1"
        using json_shorter(1) [OF x] skip_ws_Cons [OF Cons] skip_ws_length [of r2] by simp
      then have "d = CHR '','' \<Longrightarrow> json_items (Suc n) (acc @ [w]) (skip_ws r2) = json_items n (acc @ [w]) (skip_ws r2)"
        using "4.IH"(2) [OF x refl Cons] "4.prems" by simp
      then show ?thesis using v by (simp add: x Cons)
    qed (use v x in simp)
  qed (use v in simp)
next
  case (6 n acc s)
  show ?case
  proof (cases "\<exists>s1 k r1 r2. s = dquote # s1 \<and> scan_string s1 = Some (k, r1) \<and> skip_ws r1 = CHR '':'' # r2")
    case True
    then obtain s1 k r1 r2 where m: "s = dquote # s1" "scan_string s1 = Some (k, r1)" "skip_ws r1 = CHR '':'' # r2"
      by blast
    have l: "length (skip_ws r2) < length s - 1"
      using scan_string_shorter [OF m(2)] skip_ws_Cons [OF m(3)] skip_ws_length [of r2] m(1) by simp
    then have v: "json_value (Suc n) (skip_ws r2) = json_value n (skip_ws r2)"
      using "6.IH"(1) [OF m(1) _ m(2) refl m(3)] "6.prems" by simp
    show ?thesis
    proof (cases "json_value n (skip_ws r2)")
      case (Some x)
      then obtain w r3 where x: "json_value n (skip_ws r2) = Some (w, r3)" by (cases x) auto
      show ?thesis
      proof (cases "skip_ws r3")
        case (Cons d r4)
        have "length (skip_ws r4) < length s - 1"
          using json_shorter(1) [OF x] skip_ws_Cons [OF Cons] skip_ws_length [of r4] l by simp
        then have "d = CHR '','' \<Longrightarrow>
            json_members (Suc n) (dict_set k w acc) (skip_ws r4) = json_members n (dict_set k w acc) (skip_ws r4)"
          using "6.IH"(2) [OF m(1) _ m(2) refl m(3) _ x refl Cons] "6.prems" by simp
        then show ?thesis using v by (simp add: m x Cons)
      qed (use v in \<open>simp add: m x\<close>)
    qed (use v in \<open>simp add: m\<close>)
  next
    case False
    then have "json_members (Suc m) acc s = None" for m
      by (auto split: list.splits option.splits)
    from this [of n] this [of "Suc n"] show ?thesis by (simp only:)
  qed
next
  case (1 s)
  then show ?case by (cases s) simp_all
next
  case (3 acc s)
  then show ?case by (simp only: not_less_zero)
next
  case (5 acc s)
  then show ?case by (simp only: not_less_zero)
qed

lemma json_fuel_enough: "2 * length s \<le> n \<Longrightarrow> json_value n s = json_value (2 * length s) s"
proof (induction n)
  case (Suc n)
  then show ?case using json_fuel(1) [of s n] by (cases "Suc n = 2 * length s") auto
qed simp

end
