(* ===== verification/ContractText.thy ===== *)
theory ContractText
  imports Contracts JsonFacts
begin

text \<open>
  Reading and writing contract objects as JSON text: \<^verbatim>\<open>decode\<close>, \<^verbatim>\<open>encode\<close>, \<^verbatim>\<open>loads\<close> and \<^verbatim>\<open>dumps\<close> of
  \<^verbatim>\<open>contracts/python/aa_contracts/v1.py\<close>.
\<close>

definition contract_decode :: "pyval \<Rightarrow> contract result" where
  "contract_decode v = contract_validate v"

definition contract_encode :: "pyval \<Rightarrow> contract result" where
  "contract_encode v = contract_validate v"

definition contract_loads :: "string \<Rightarrow> contract result" where
  "contract_loads text = (case json_loads text of
     None \<Rightarrow> Inl (ValueError ''invalid JSON'')
   | Some v \<Rightarrow> contract_decode v)"

definition contract_dumps :: "(rat \<Rightarrow> string) \<Rightarrow> pyval \<Rightarrow> nat option \<Rightarrow> string result" where
  "contract_dumps fr v indent = (case contract_encode v of
     Inl e \<Rightarrow> Inl e
   | Inr d \<Rightarrow> Inr (json_dumps fr indent (PDict d)))"

lemma dumps_loads:
  assumes "contract_dumps fr v indent = Inr t" "readable fr v"
  shows "\<exists>d. v = PDict d \<and> contract_loads t = Inr d"
proof -
  from assms(1) obtain d where d: "contract_validate v = Inr d" "t = json_dumps fr indent (PDict d)"
    by (auto simp: contract_dumps_def contract_encode_def split: sum.splits)
  from d(1) have v: "v = PDict d" by (rule contract_validate_Inr)
  with d assms(2) readable_round_trip [of fr "PDict d" indent] show ?thesis
    by (simp add: contract_loads_def contract_decode_def)
qed

text \<open>Whatever text is read, the object is one the validator accepts.\<close>

lemma loads_accepts: "contract_loads t = Inr d \<Longrightarrow> contract_validate (PDict d) = Inr d"
  by (auto simp: contract_loads_def contract_decode_def split: option.splits elim: contract_validate_Inr)

end
