(* ===== verification/HttpClient.thy ===== *)
theory HttpClient
  imports PyStr
begin

text \<open>
  The transport of the model providers (\<^verbatim>\<open>_post\<close> of \<^verbatim>\<open>models/ollama.py\<close> and
  \<^verbatim>\<open>models/openai_compatible.py\<close>): a request is repeated after a timeout, a broken connection
  or a server error, and given up at once on a client error.  The service is an argument, any
  function of the request and of a world; the pauses between attempts are not modelled.
\<close>

record http_request =
  rq_url :: string
  rq_headers :: "(string, string) dict"
  rq_payload :: pyval

text \<open>An exception of the client with its text, or a status, the text of the body and its JSON.\<close>

datatype http_outcome =
    NoReply string
  | Broken string
  | Replied int string "pyval option"

type_synonym 'w server = "http_request \<Rightarrow> 'w \<Rightarrow> http_outcome \<times> 'w"

text \<open>The two clients differ in the words of their errors.\<close>

record wording =
  wd_timeout :: string
  wd_transport :: string
  wd_server :: string
  wd_client :: string

definition ollama_words :: wording where
  "ollama_words = \<lparr>wd_timeout = ''Ollama request timed out: '', wd_transport = ''Ollama transport error: '',
     wd_server = ''Ollama server error '', wd_client = ''Ollama error ''\<rparr>"

definition openai_words :: wording where
  "openai_words = \<lparr>wd_timeout = ''request timed out: '', wd_transport = ''transport error: '',
     wd_server = ''server error '', wd_client = ''API error ''\<rparr>"

text \<open>What one attempt leads to: another one, unless it was the last, or the end.\<close>

datatype attempt =
    Again py_error
  | Finish "pyval result"

definition safe_detail :: "string \<Rightarrow> string" where
  "safe_detail body = take 500 body"

fun http_attempt :: "wording \<Rightarrow> http_outcome \<Rightarrow> attempt" where
  "http_attempt wd (NoReply m) = Again (ProviderError (wd_timeout wd @ m) None True)"
| "http_attempt wd (Broken m) = Again (ProviderError (wd_transport wd @ m) None True)"
| "http_attempt wd (Replied status body json) =
     (if 500 \<le> status then Again (ProviderError (wd_server wd @ show_int status) (Some status) True)
      else if 400 \<le> status
      then Finish (Inl (ProviderError (wd_client wd @ show_int status @ '': '' @ safe_detail body) (Some status) False))
      else Finish (case json of None \<Rightarrow> Inl (ValueError ''invalid JSON'') | Some v \<Rightarrow> Inr v))"

fun post_attempts ::
  "wording \<Rightarrow> 'w server \<Rightarrow> http_request \<Rightarrow> nat \<Rightarrow> py_error option \<Rightarrow> 'w \<Rightarrow> pyval result \<times> 'w" where
  "post_attempts wd srv rq 0 last_error w =
     (case last_error of None \<Rightarrow> Inl (AssertionFailed []) | Some e \<Rightarrow> Inl e, w)"
| "post_attempts wd srv rq (Suc n) last_error w =
     (case srv rq w of (oc, w) \<Rightarrow>
       (case http_attempt wd oc of
          Finish r \<Rightarrow> (r, w)
        | Again e \<Rightarrow> post_attempts wd srv rq n (Some e) w))"

text \<open>\<^verbatim>\<open>range(self.max_retries + 1)\<close>\<close>

definition http_post :: "wording \<Rightarrow> 'w server \<Rightarrow> int \<Rightarrow> http_request \<Rightarrow> 'w \<Rightarrow> pyval result \<times> 'w" where
  "http_post wd srv max_retries rq w = post_attempts wd srv rq (nat (max_retries + 1)) None w"

section \<open>Facts\<close>

text \<open>The first \<open>k\<close> outcomes of a request, and the world after them.\<close>

fun outcomes :: "'w server \<Rightarrow> http_request \<Rightarrow> nat \<Rightarrow> 'w \<Rightarrow> http_outcome list" where
  "outcomes srv rq 0 w = []"
| "outcomes srv rq (Suc k) w = fst (srv rq w) # outcomes srv rq k (snd (srv rq w))"

fun world_after :: "'w server \<Rightarrow> http_request \<Rightarrow> nat \<Rightarrow> 'w \<Rightarrow> 'w" where
  "world_after srv rq 0 w = w"
| "world_after srv rq (Suc k) w = world_after srv rq k (snd (srv rq w))"

definition repeats :: "wording \<Rightarrow> http_outcome \<Rightarrow> bool" where
  "repeats wd oc \<longleftrightarrow> (\<exists>e. http_attempt wd oc = Again e)"

fun verdict_of :: "attempt \<Rightarrow> pyval result" where
  "verdict_of (Again e) = Inl e"
| "verdict_of (Finish r) = r"

lemma repeats_iff: "repeats wd oc \<longleftrightarrow> (case oc of Replied st b j \<Rightarrow> 500 \<le> st | _ \<Rightarrow> True)"
  by (cases oc) (simp_all add: repeats_def)

lemma length_outcomes [simp]: "length (outcomes srv rq k w) = k"
  by (induction k arbitrary: w) simp_all

lemma post_attempts_spec:
  assumes "0 < n"
  shows "\<exists>k. 0 < k \<and> k \<le> n \<and>
    (let os = outcomes srv rq k w in
      post_attempts wd srv rq n le w = (verdict_of (http_attempt wd (last os)), world_after srv rq k w) \<and>
      list_all (repeats wd) (butlast os) \<and> (k < n \<longrightarrow> \<not> repeats wd (last os)))"
  using assms
proof (induction n arbitrary: le w)
  case (Suc n)
  obtain oc w' where srv: "srv rq w = (oc, w')" by fastforce
  show ?case
  proof (cases "http_attempt wd oc")
    case (Finish r)
    then show ?thesis
      by (intro exI [of _ 1]) (simp add: srv repeats_def)
  next
    case (Again e)
    show ?thesis
    proof (cases "n = 0")
      case True
      with Again show ?thesis by (intro exI [of _ 1]) (simp add: srv)
    next
      case False
      then obtain k where k: "0 < k" "k \<le> n"
        "post_attempts wd srv rq n (Some e) w' =
           (verdict_of (http_attempt wd (last (outcomes srv rq k w'))), world_after srv rq k w')"
        "list_all (repeats wd) (butlast (outcomes srv rq k w'))" "k < n \<longrightarrow> \<not> repeats wd (last (outcomes srv rq k w'))"
        using Suc.IH [of w' "Some e"] by (auto simp: Let_def)
      moreover have "outcomes srv rq k w' \<noteq> []" using k(1) by (metis length_outcomes list.size(3) less_irrefl)
      moreover have "repeats wd oc" using Again by (simp add: repeats_def)
      ultimately show ?thesis
        using Again by (intro exI [of _ "Suc k"]) (simp add: srv)
    qed
  qed
qed simp

end
