(* ===== verification/Providers.thy ===== *)
theory Providers
  imports HttpClient JsonFacts Sifter
begin

text \<open>
  The model providers (\<^verbatim>\<open>models/ollama.py\<close>, \<^verbatim>\<open>models/openai_compatible.py\<close>) over the transport
  of \<open>HttpClient\<close>, and their construction from a configuration (\<^verbatim>\<open>models/factory.py\<close>).  What a
  service answers is any JSON value, so each access says what Python does on a value of the
  wrong type.  Durations and the raw fields kept for display are left out, except where reading
  them raises.
\<close>

section \<open>Requests\<close>

definition message_payload :: "message \<Rightarrow> pyval" where
  "message_payload m = PDict [(''role'', PStr (role_value (msg_role m))), (''content'', PStr (content m))]"

definition opt_int :: "string \<Rightarrow> int option \<Rightarrow> (string, pyval) dict" where
  "opt_int k x = (case x of None \<Rightarrow> [] | Some n \<Rightarrow> [(k, PInt n)])"

definition ollama_options :: "pyfloat \<Rightarrow> int option \<Rightarrow> pyval" where
  "ollama_options temperature limit =
     PDict ((''temperature'', PFloat temperature) # opt_int ''num_predict'' limit)"

definition ollama_payload :: "string \<Rightarrow> message list \<Rightarrow> pyval option \<Rightarrow> pyfloat \<Rightarrow> int option \<Rightarrow> pyval" where
  "ollama_payload model_name ms schema temperature limit = PDict (
     [(''model'', PStr model_name), (''messages'', PList (map message_payload ms)), (''stream'', PBool False)] @
     (case schema of None \<Rightarrow> [] | Some s \<Rightarrow> [(''format'', s)]) @
     [(''options'', ollama_options temperature limit)])"

text \<open>
  The instruction with the schema is put into the messages as a bare text, not as a message:
  \<^verbatim>\<open>Message.system(...).content\<close>.
\<close>

definition schema_instruction :: "(rat \<Rightarrow> string) \<Rightarrow> pyval \<Rightarrow> string" where
  "schema_instruction fr schema =
     ''Respond with a single valid JSON object matching this schema: '' @ json_dumps fr None schema"

definition openai_payload ::
  "(rat \<Rightarrow> string) \<Rightarrow> string \<Rightarrow> message list \<Rightarrow> pyval option \<Rightarrow> pyfloat \<Rightarrow> int option \<Rightarrow> pyval" where
  "openai_payload fr model_name ms schema temperature limit = PDict (
     [(''model'', PStr model_name),
      (''messages'', PList ((case schema of None \<Rightarrow> [] | Some s \<Rightarrow> [PStr (schema_instruction fr s)]) @
         map message_payload ms)),
      (''temperature'', PFloat temperature), (''stream'', PBool False)] @
     (case schema of None \<Rightarrow> [] | Some s \<Rightarrow> [(''response_format'', PDict [(''type'', PStr ''json_object'')])]) @
     opt_int ''max_tokens'' limit)"

section \<open>Answers\<close>

definition no_get :: "'a result" where
  "no_get = Inl (AttributeError ''object has no attribute get'')"

text \<open>\<^verbatim>\<open>v.get(key, d)\<close>\<close>

definition get_of :: "pyval \<Rightarrow> string \<Rightarrow> pyval \<Rightarrow> pyval result" where
  "get_of v key d = (case v of PDict x \<Rightarrow> Inr (get_default x key d) | _ \<Rightarrow> no_get)"

text \<open>\<^verbatim>\<open>int(v or 0)\<close>\<close>

definition count_of :: "pyval \<Rightarrow> int result" where
  "count_of v = (case to_int_or_zero v of
     Some i \<Rightarrow> Inr i
   | None \<Rightarrow> Inl (case v of PStr s \<Rightarrow> ValueError ''invalid literal for int()''
       | _ \<Rightarrow> TypeError ''int() argument must be a string or a number''))"

text \<open>A text, a model's name: pydantic refuses anything but a string with a \<^verbatim>\<open>ValueError\<close>.\<close>

definition text_of :: "pyval \<Rightarrow> string result" where
  "text_of v = (case v of PStr s \<Rightarrow> Inr s | _ \<Rightarrow> Inl (ValueError ''Input should be a valid string''))"

definition obtaining :: "'a result \<Rightarrow> ('a \<Rightarrow> 'b result) \<Rightarrow> 'b result" where
  "obtaining x f = (case x of Inl e \<Rightarrow> Inl e | Inr v \<Rightarrow> f v)"

definition or_else :: "pyval \<Rightarrow> pyval \<Rightarrow> pyval" where
  "or_else v d = (if truthy v then v else d)"

definition generation_of ::
  "pyval \<Rightarrow> pyval \<Rightarrow> tier \<Rightarrow> int \<Rightarrow> int \<Rightarrow> gen_result result" where
  "generation_of t m tr i j =
     obtaining (text_of t) (\<lambda>t. obtaining (text_of m) (\<lambda>m.
       Inr \<lparr>gr_text = t, gr_model = m, gr_tier = tr, gr_input_tokens = i, gr_output_tokens = j,
            gr_structured = None\<rparr>))"

definition model_tier :: "string \<Rightarrow> tier" where
  "model_tier model_name = (if suffix '':cloud'' model_name then EXPERT else LOCAL)"

text \<open>\<^verbatim>\<open>float(v or 0)\<close> of a duration: only whether it raises is kept.\<close>

definition duration_error :: "pyval \<Rightarrow> unit result" where
  "duration_error v = (if truthy v \<and> to_float v = None
     then Inl (case v of PStr s \<Rightarrow> ValueError ''could not convert string to float''
       | _ \<Rightarrow> TypeError ''float() argument must be a string or a real number'')
     else Inr ())"

definition ollama_parse :: "string \<Rightarrow> pyval \<Rightarrow> gen_result result" where
  "ollama_parse model_name data =
     obtaining (get_of data ''message'' (PDict [])) (\<lambda>msg.
     obtaining (get_of (or_else msg (PDict [])) ''content'' (PStr [])) (\<lambda>c.
     obtaining (if truthy c then Inr c else get_of data ''response'' (PStr [])) (\<lambda>t.
     obtaining (get_of data ''model'' (PStr model_name)) (\<lambda>m.
     obtaining (get_of data ''prompt_eval_count'' PNone) (\<lambda>i. obtaining (count_of i) (\<lambda>i.
     obtaining (get_of data ''eval_count'' PNone) (\<lambda>j. obtaining (count_of j) (\<lambda>j.
     obtaining (get_of data ''total_duration'' PNone) (\<lambda>d. obtaining (duration_error d) (\<lambda>_.
     generation_of t m (model_tier model_name) i j))))))))))"

text \<open>\<^verbatim>\<open>choices[0]\<close>\<close>

fun first_choice :: "pyval \<Rightarrow> pyval result" where
  "first_choice (PList (x # xs)) = Inr x"
| "first_choice (PStr (c # s)) = Inr (PStr [c])"
| "first_choice (PDict d) = Inl (KeyError ''0'')"
| "first_choice v = Inl (TypeError ''object is not subscriptable'')"

definition openai_parse :: "string \<Rightarrow> pyval \<Rightarrow> gen_result result" where
  "openai_parse model_name data =
     obtaining (get_of data ''choices'' PNone) (\<lambda>cs.
     obtaining (first_choice (or_else cs (PList [PDict []]))) (\<lambda>ch.
     obtaining (get_of ch ''message'' (PDict [])) (\<lambda>msg.
     obtaining (get_of msg ''content'' (PStr [])) (\<lambda>c.
     obtaining (get_of data ''usage'' PNone) (\<lambda>us.
     obtaining (get_of data ''model'' (PStr model_name)) (\<lambda>m.
     obtaining (get_of (or_else us (PDict [])) ''prompt_tokens'' PNone) (\<lambda>i. obtaining (count_of i) (\<lambda>i.
     obtaining (get_of (or_else us (PDict [])) ''completion_tokens'' PNone) (\<lambda>j. obtaining (count_of j) (\<lambda>j.
     generation_of (or_else c (PStr [])) m EXPERT i j))))))))))"

text \<open>The object in a text: without a code fence, from the first brace to the last.\<close>

definition backtick :: char where
  "backtick = CHR 0x60"

definition unfence :: "string \<Rightarrow> string" where
  "unfence s = (if take 3 s = replicate 3 backtick
     then (let t = rev (dropWhile (\<lambda>c. c = backtick) (rev (dropWhile (\<lambda>c. c = backtick) s)));
               t = (if prefix ''json'' t then drop 4 t else t)
           in strip t)
     else s)"

definition braces :: "string \<Rightarrow> string" where
  "braces s = rev (dropWhile (\<lambda>c. c \<noteq> CHR ''}'') (rev (dropWhile (\<lambda>c. c \<noteq> CHR ''{'') s)))"

definition try_parse_json :: "string \<Rightarrow> pyval option" where
  "try_parse_json text =
     (case json_loads (braces (unfence (strip text))) of Some (PDict d) \<Rightarrow> Some (PDict d) | _ \<Rightarrow> None)"

definition with_structure :: "gen_result \<Rightarrow> gen_result" where
  "with_structure r = (case try_parse_json (gr_text r) of None \<Rightarrow> r | Some v \<Rightarrow> r\<lparr>gr_structured := Some v\<rparr>)"

section \<open>The providers\<close>

record ollama =
  ol_host :: string
  ol_max_retries :: int

record openai =
  oa_name :: string
  oa_base_url :: string
  oa_api_key :: "string option"
  oa_max_retries :: int

datatype provider =
    Ollama ollama
  | OpenAI openai

fun provider_name :: "provider \<Rightarrow> string" where
  "provider_name (Ollama p) = ''ollama''"
| "provider_name (OpenAI p) = oa_name p"

definition rstrip_slash :: "string \<Rightarrow> string" where
  "rstrip_slash s = rev (dropWhile (\<lambda>c. c = CHR ''/'') (rev s))"

definition new_ollama :: "string \<Rightarrow> ollama" where
  "new_ollama host = \<lparr>ol_host = rstrip_slash host, ol_max_retries = 2\<rparr>"

definition nonempty_text :: "string option \<Rightarrow> string option" where
  "nonempty_text x = (case x of Some (c # s) \<Rightarrow> x | _ \<Rightarrow> None)"

definition new_openai :: "environ \<Rightarrow> string \<Rightarrow> string \<Rightarrow> string option \<Rightarrow> string option \<Rightarrow> openai" where
  "new_openai env name base_url api_key api_key_env = \<lparr>oa_name = name, oa_base_url = rstrip_slash base_url,
     oa_api_key = (case nonempty_text api_key of Some k \<Rightarrow> Some k
       | None \<Rightarrow> (case nonempty_text api_key_env of None \<Rightarrow> None | Some n \<Rightarrow> env n)),
     oa_max_retries = 2\<rparr>"

definition openai_headers :: "openai \<Rightarrow> (string, string) dict" where
  "openai_headers p = (''Content-Type'', ''application/json'') #
     (case nonempty_text (oa_api_key p) of None \<Rightarrow> [] | Some k \<Rightarrow> [(''Authorization'', ''Bearer '' @ k)])"

definition ollama_post :: "'w server \<Rightarrow> ollama \<Rightarrow> pyval \<Rightarrow> 'w \<Rightarrow> pyval result \<times> 'w" where
  "ollama_post srv p payload w = http_post ollama_words srv (ol_max_retries p)
     \<lparr>rq_url = ol_host p @ ''/api/chat'', rq_headers = [], rq_payload = payload\<rparr> w"

definition openai_post :: "'w server \<Rightarrow> openai \<Rightarrow> pyval \<Rightarrow> 'w \<Rightarrow> pyval result \<times> 'w" where
  "openai_post srv p payload w = http_post openai_words srv (oa_max_retries p)
     \<lparr>rq_url = oa_base_url p @ ''/chat/completions'', rq_headers = openai_headers p, rq_payload = payload\<rparr> w"

text \<open>
  \<^verbatim>\<open>generate\<close> and, with a schema, \<^verbatim>\<open>generate_structured\<close>.
\<close>

fun provider_generate ::
  "(rat \<Rightarrow> string) \<Rightarrow> 'w server \<Rightarrow> provider \<Rightarrow> string \<Rightarrow> message list \<Rightarrow> pyval option \<Rightarrow> pyfloat \<Rightarrow> int option \<Rightarrow>
     'w \<Rightarrow> gen_result result \<times> 'w" where
  "provider_generate fr srv (Ollama p) model_name ms schema temperature limit w =
     (case ollama_post srv p (ollama_payload model_name ms schema temperature limit) w of (r, w) \<Rightarrow>
       (obtaining r (\<lambda>data. map_sum id (if schema = None then id else with_structure) (ollama_parse model_name data)), w))"
| "provider_generate fr srv (OpenAI p) model_name ms schema temperature limit w =
     (case openai_post srv p (openai_payload fr model_name ms schema temperature limit) w of (r, w) \<Rightarrow>
       (obtaining r (\<lambda>data. map_sum id (if schema = None then id else with_structure) (openai_parse model_name data)), w))"

text \<open>The call of a run, as the sifter makes it.\<close>

definition http_generate ::
  "(rat \<Rightarrow> string) \<Rightarrow> 'w server \<Rightarrow> provider \<Rightarrow> gen_call \<Rightarrow> 'w \<Rightarrow> gen_result result \<times> 'w" where
  "http_generate fr srv p c w = provider_generate fr srv p (gc_model c) (gc_messages c) None
     (case gc_temperature c of None \<Rightarrow> rnd (2 / 10) | Some t \<Rightarrow> t) (gc_max_tokens c) w"

section \<open>The factory\<close>

definition or_text_of :: "string option \<Rightarrow> string \<Rightarrow> string" where
  "or_text_of x d = (case nonempty_text x of None \<Rightarrow> d | Some s \<Rightarrow> s)"

definition first_given :: "string option \<Rightarrow> string option \<Rightarrow> string option" where
  "first_given x y = (if nonempty_text x = None then y else x)"

definition build_provider :: "environ \<Rightarrow> config \<Rightarrow> string \<Rightarrow> provider result" where
  "build_provider env c name =
     (if name = ''ollama''
      then Inr (Ollama (new_ollama (or_text_of (local_endpoint c)
             (or_text_of (Some (ollama_host c)) ''http://localhost:11434''))))
      else if name = ''deepseek''
      then Inr (OpenAI (new_openai env ''deepseek''
             (or_text_of (expert_endpoint c) ''https://api.deepseek.com/v1'') None
             (Some (or_text_of (expert_api_key_env c) ''DEEPSEEK_API_KEY''))))
      else if name = ''openai-compatible''
      then (case nonempty_text (first_given (expert_endpoint c) (local_endpoint c)) of
          None \<Rightarrow> Inl (provider_error
            (''provider '' @ [quote] @ ''openai-compatible'' @ [quote] @ '' requires an endpoint (set expert_endpoint or local_endpoint)''))
        | Some endpoint \<Rightarrow> Inr (OpenAI (new_openai env ''openai-compatible'' endpoint None
             (first_given (expert_api_key_env c) (local_api_key_env c)))))
      else Inl (provider_error (''Unknown provider '' @ [quote] @ name @ [quote])))"

text \<open>
  The names come from a set, in no particular order; the registry is only ever asked by name,
  or for its only entry.
\<close>

definition add_provider :: "environ \<Rightarrow> config \<Rightarrow> string \<Rightarrow> provider registry \<Rightarrow> provider registry" where
  "add_provider env c name reg =
     (if name = [] \<or> dict_get reg name \<noteq> None then reg
      else case build_provider env c name of Inl e \<Rightarrow> reg | Inr p \<Rightarrow> dict_set name p reg)"

definition build_registry :: "environ \<Rightarrow> config \<Rightarrow> provider option \<Rightarrow> provider registry" where
  "build_registry env c injected = (case injected of
     Some p \<Rightarrow> [(provider_name p, p)]
   | None \<Rightarrow> add_provider env c (expert_provider c) (add_provider env c (local_provider c) []))"

end
