(* ===== verification/ProviderFacts.thy ===== *)
theory ProviderFacts
  imports Providers SifterFacts
begin

text \<open>
  What the providers promise: how often they ask, which errors they raise, which tier their
  results are counted for, and that they find the object in an answer.
\<close>

section \<open>Requests and errors\<close>

lemma obtaining_Inl: "obtaining x f = Inl e \<longleftrightarrow> x = Inl e \<or> (\<exists>v. x = Inr v \<and> f v = Inl e)"
  by (cases x) (simp_all add: obtaining_def)

lemma obtaining_Inr: "obtaining x f = Inr y \<longleftrightarrow> (\<exists>v. x = Inr v \<and> f v = Inr y)"
  by (cases x) (simp_all add: obtaining_def)

definition answered :: "http_outcome \<Rightarrow> bool" where
  "answered oc \<longleftrightarrow> (\<exists>st b j. oc = Replied st b j \<and> st < 400)"

definition is_provider_error :: "py_error \<Rightarrow> bool" where
  "is_provider_error e \<longleftrightarrow> (case e of ProviderError m st rt \<Rightarrow> True | _ \<Rightarrow> False)"

lemma http_error:
  "verdict_of (http_attempt wd oc) = Inl e \<Longrightarrow> \<not> answered oc \<Longrightarrow> is_provider_error e"
  by (cases oc) (auto simp: answered_def is_provider_error_def split: if_splits)

text \<open>Where the service fails or refuses, the exception is a provider error.\<close>

lemma http_post_error:
  assumes "0 \<le> tries" "http_post wd srv tries rq w = (Inl e, w')"
    and "\<And>k. \<not> answered (fst (srv rq (world_after srv rq k w)))"
  shows "is_provider_error e"
proof -
  have last: "0 < k \<Longrightarrow> \<exists>j. last (outcomes srv rq k w) = fst (srv rq (world_after srv rq j w))" for k w
  proof (induction k arbitrary: w)
    case (Suc k)
    show ?case
    proof (cases "k = 0")
      case True
      then show ?thesis by (intro exI [of _ 0]) simp
    next
      case False
      with Suc.IH [of "snd (srv rq w)"] obtain j
        where "last (outcomes srv rq k (snd (srv rq w))) = fst (srv rq (world_after srv rq j (snd (srv rq w))))" by auto
      moreover have "outcomes srv rq k (snd (srv rq w)) \<noteq> []"
        using False by (cases k) simp_all
      ultimately show ?thesis by (intro exI [of _ "Suc j"]) simp
    qed
  qed simp
  obtain k where k: "0 < k" "http_post wd srv tries rq w =
      (verdict_of (http_attempt wd (last (outcomes srv rq k w))), world_after srv rq k w)"
    using post_attempts_spec [of "nat (tries + 1)" srv rq w wd None] assms(1)
    by (auto simp: http_post_def Let_def)
  with assms(2) have "verdict_of (http_attempt wd (last (outcomes srv rq k w))) = Inl e" by simp
  with last [OF k(1), of w] assms(3) http_error [OF this] show ?thesis by auto
qed

section \<open>Counting\<close>

lemma openai_tier: "openai_parse m data = Inr r \<Longrightarrow> gr_tier r = EXPERT"
  by (auto simp: openai_parse_def generation_of_def obtaining_Inr)

lemma ollama_tier: "ollama_parse m data = Inr r \<Longrightarrow> gr_tier r = model_tier m"
  by (auto simp: ollama_parse_def generation_of_def obtaining_Inr)

lemma with_structure_tier [simp]: "gr_tier (with_structure r) = gr_tier r"
  by (simp add: with_structure_def split: option.split)

lemma map_sum_Inr: "map_sum f g x = Inr y \<longleftrightarrow> (\<exists>v. x = Inr v \<and> g v = y)"
  by (cases x) auto

lemma generated_tier:
  assumes "provider_generate fr srv p m ms schema t l w = (Inr r, w')"
  shows "gr_tier r = (case p of Ollama _ \<Rightarrow> model_tier m | OpenAI _ \<Rightarrow> EXPERT)"
  using assms
  by (cases p) (auto simp: obtaining_Inr map_sum_Inr split: prod.splits if_splits
      dest: openai_tier ollama_tier)

section \<open>The object in an answer\<close>

lemma strip_solid:
  assumes "s \<noteq> []" "\<not> is_space (hd s)" "\<not> is_space (last s)" "list_all is_space a" "list_all is_space b"
  shows "strip (a @ s @ b) = s"
proof -
  have l: "dropWhile is_space (a @ s @ b) = s @ b"
    using assms(1,2,4) by (cases s) (auto simp: list_all_iff dropWhile_append3)
  have "dropWhile is_space (rev (s @ b)) = rev s"
  proof -
    have "dropWhile is_space (rev b @ rev s) = dropWhile is_space (rev s)"
      by (rule dropWhile_append2) (use assms(5) in \<open>simp add: list_all_iff\<close>)
    also have "\<dots> = rev s" using assms(1,3) by (cases "rev s") (auto simp: hd_rev [symmetric])
    finally show ?thesis by simp
  qed
  with l show ?thesis by (simp add: strip_def)
qed

lemma dict_text: "\<exists>mid. json_dumps fr ind (PDict d) = CHR ''{'' # mid @ ''}''"
  by (cases "d = []") (auto simp: json_dumps_def)

lemma braces_text: "braces (CHR ''{'' # mid @ ''}'') = CHR ''{'' # mid @ ''}''"
  by (simp add: braces_def)

lemma brace_facts: "\<not> is_space (CHR ''{'')" "\<not> is_space (CHR ''}'')" "\<not> is_space backtick"
  "CHR ''{'' \<noteq> backtick" "is_space newline" "CHR ''j'' \<noteq> backtick" "newline \<noteq> backtick"
  by code_simp+

lemma parse_bare:
  assumes "plain_json (PDict d)" "list_all is_space a" "list_all is_space b"
  shows "try_parse_json (a @ json_dumps fr ind (PDict d) @ b) = Some (PDict d)"
proof -
  obtain mid where t: "json_dumps fr ind (PDict d) = CHR ''{'' # mid @ ''}''" using dict_text by blast
  have "strip (a @ (CHR ''{'' # mid @ ''}'') @ b) = CHR ''{'' # mid @ ''}''"
    by (rule strip_solid) (simp_all add: assms brace_facts)
  moreover have "unfence (CHR ''{'' # mid @ ''}'') = CHR ''{'' # mid @ ''}''"
    using brace_facts(4) by (simp add: unfence_def numeral_3_eq_3)
  ultimately show ?thesis
    using json_round_trip [OF assms(1), of fr ind] unfolding t
    by (simp add: try_parse_json_def braces_text)
qed

definition fenced :: "string \<Rightarrow> string" where
  "fenced t = replicate 3 backtick @ ''json'' @ nl @ t @ nl @ replicate 3 backtick"

lemma parse_fenced:
  assumes "plain_json (PDict d)"
  shows "try_parse_json (fenced (json_dumps fr ind (PDict d))) = Some (PDict d)"
proof -
  obtain mid where t: "json_dumps fr ind (PDict d) = CHR ''{'' # mid @ ''}''" using dict_text by blast
  have "strip ([] @ fenced (CHR ''{'' # mid @ ''}'') @ []) = fenced (CHR ''{'' # mid @ ''}'')"
    by (rule strip_solid) (simp_all add: fenced_def brace_facts numeral_3_eq_3)
  moreover have "unfence (fenced (CHR ''{'' # mid @ ''}'')) = strip (nl @ (CHR ''{'' # mid @ ''}'') @ nl)"
    using brace_facts(6,7) by (simp add: unfence_def fenced_def numeral_3_eq_3 eval_nat_numeral)
  moreover have "strip (nl @ (CHR ''{'' # mid @ ''}'') @ nl) = CHR ''{'' # mid @ ''}''"
    by (rule strip_solid) (simp_all add: brace_facts)
  ultimately show ?thesis
    using json_round_trip [OF assms, of fr ind] unfolding t
    by (simp add: try_parse_json_def braces_text)
qed

section \<open>The registry\<close>

lemma build_provider_name: "build_provider env c n = Inr p \<Longrightarrow> provider_name p = n"
  by (auto simp: build_provider_def new_openai_def split: if_splits option.splits)

definition registry_named :: "provider registry \<Rightarrow> bool" where
  "registry_named reg \<longleftrightarrow> dict_ok reg \<and> (\<forall>n p. dict_get reg n = Some p \<longrightarrow> provider_name p = n)"

lemma add_provider_named: "registry_named reg \<Longrightarrow> registry_named (add_provider env c n reg)"
  by (auto simp: registry_named_def add_provider_def dict.ok_put
      dest: build_provider_name split: sum.split)

lemma build_registry_named: "registry_named (build_registry env c injected)"
proof -
  have "registry_named []" by (simp add: registry_named_def dict_ok_def)
  then show ?thesis
    by (auto simp: build_registry_def add_provider_named split: option.split)
      (simp add: registry_named_def dict_ok_def)
qed

end
