(* ===== verification/Streaming.thy ===== *)
theory Streaming
  imports ProviderFacts
begin

text \<open>
  The streaming calls of the model providers (\<^verbatim>\<open>stream\<close> of \<^verbatim>\<open>models/ollama.py\<close> and
  \<^verbatim>\<open>models/openai_compatible.py\<close>).  A generator that is consumed to its end is the list of what it
  yields and how it ends.  The service answers with a status and what arrives of the body, with
  the message of the client if the connection breaks after that, or not at all; these exceptions
  of the client are not caught here, other than in \<open>HttpClient\<close>.
\<close>

datatype stream_reply =
    Body int string "string option"
  | NoStream string

datatype stream_end =
    Complete
  | Raises py_error
  | Disconnected string

type_synonym 'w stream_server = "http_request \<Rightarrow> 'w \<Rightarrow> stream_reply \<times> 'w"

type_synonym streamed = "pyval list \<times> stream_end"

section \<open>Reading the lines\<close>

definition ends_with :: "string option \<Rightarrow> streamed" where
  "ends_with broken = ([], case broken of None \<Rightarrow> Complete | Some m \<Rightarrow> Disconnected m)"

text \<open>\<^verbatim>\<open>if content: yield content\<close>, before anything else that happens\<close>

definition yielding :: "pyval \<Rightarrow> streamed \<Rightarrow> streamed" where
  "yielding c r = (if truthy c then (c # fst r, snd r) else r)"

definition or_raise :: "'a result \<Rightarrow> ('a \<Rightarrow> streamed) \<Rightarrow> streamed" where
  "or_raise x f = (case x of Inl e \<Rightarrow> ([], Raises e) | Inr v \<Rightarrow> f v)"

fun ollama_lines :: "string list \<Rightarrow> string option \<Rightarrow> streamed" where
  "ollama_lines [] broken = ends_with broken"
| "ollama_lines (l # ls) broken =
     (if strip l = [] then ollama_lines ls broken
      else case json_loads l of
        None \<Rightarrow> ollama_lines ls broken
      | Some chunk \<Rightarrow>
          or_raise (obtaining (get_of chunk ''message'' (PDict [])) (\<lambda>m. get_of m ''content'' PNone)) (\<lambda>c.
          yielding c (or_raise (get_of chunk ''done'' PNone) (\<lambda>d.
            if truthy d then ([], Complete) else ollama_lines ls broken))))"

text \<open>\<^verbatim>\<open>choices[0]\<close>: an empty list has no first entry.\<close>

definition choice_of :: "pyval \<Rightarrow> pyval result" where
  "choice_of v = (case v of
     PList [] \<Rightarrow> Inl (IndexError ''list index out of range'')
   | PStr [] \<Rightarrow> Inl (IndexError ''string index out of range'')
   | _ \<Rightarrow> first_choice v)"

definition delta_content :: "pyval \<Rightarrow> pyval result" where
  "delta_content v =
     obtaining (get_of v ''choices'' (PList [PDict []])) (\<lambda>cs.
     obtaining (choice_of cs) (\<lambda>ch.
     obtaining (get_of ch ''delta'' (PDict [])) (\<lambda>delta. get_of delta ''content'' PNone)))"

fun openai_lines :: "string list \<Rightarrow> string option \<Rightarrow> streamed" where
  "openai_lines [] broken = ends_with broken"
| "openai_lines (l # ls) broken =
     (if \<not> prefix ''data:'' l then openai_lines ls broken
      else let chunk = strip (drop 5 l)
        in if chunk = ''[DONE]'' then ([], Complete)
           else case json_loads chunk of
             None \<Rightarrow> openai_lines ls broken
           | Some parsed \<Rightarrow> or_raise (delta_content parsed) (\<lambda>c. yielding c (openai_lines ls broken)))"

section \<open>The requests\<close>

definition ollama_stream_payload :: "string \<Rightarrow> message list \<Rightarrow> pyfloat \<Rightarrow> pyval" where
  "ollama_stream_payload model_name ms temperature = PDict
     [(''model'', PStr model_name), (''messages'', PList (map message_payload ms)), (''stream'', PBool True),
      (''options'', ollama_options temperature None)]"

definition openai_stream_payload :: "string \<Rightarrow> message list \<Rightarrow> pyfloat \<Rightarrow> pyval" where
  "openai_stream_payload model_name ms temperature = PDict
     [(''model'', PStr model_name), (''messages'', PList (map message_payload ms)),
      (''temperature'', PFloat temperature), (''stream'', PBool True)]"

text \<open>\<^verbatim>\<open>{body[:500]!r}\<close> of bytes\<close>

definition stream_refused :: "string \<Rightarrow> int \<Rightarrow> string \<Rightarrow> py_error" where
  "stream_refused w status body =
     ProviderError (w @ show_int status @ '': b'' @ repr_string (take 500 body)) (Some status) False"

definition read_stream ::
  "string \<Rightarrow> (string list \<Rightarrow> string option \<Rightarrow> streamed) \<Rightarrow> stream_reply \<Rightarrow> streamed" where
  "read_stream w parse reply = (case reply of
     NoStream m \<Rightarrow> ([], Disconnected m)
   | Body status body broken \<Rightarrow>
       if 400 \<le> status
       then ([], case broken of Some m \<Rightarrow> Disconnected m | None \<Rightarrow> Raises (stream_refused w status body))
       else parse (splitlines body) broken)"

fun stream_request :: "provider \<Rightarrow> string \<Rightarrow> message list \<Rightarrow> pyfloat \<Rightarrow> http_request" where
  "stream_request (Ollama p) model_name ms temperature = \<lparr>rq_url = ol_host p @ ''/api/chat'', rq_headers = [],
     rq_payload = ollama_stream_payload model_name ms temperature\<rparr>"
| "stream_request (OpenAI p) model_name ms temperature = \<lparr>rq_url = oa_base_url p @ ''/chat/completions'',
     rq_headers = openai_headers p, rq_payload = openai_stream_payload model_name ms temperature\<rparr>"

fun read_reply :: "provider \<Rightarrow> stream_reply \<Rightarrow> streamed" where
  "read_reply (Ollama p) reply = read_stream ''Ollama stream error '' ollama_lines reply"
| "read_reply (OpenAI p) reply = read_stream ''stream error '' openai_lines reply"

definition provider_stream ::
  "'w stream_server \<Rightarrow> provider \<Rightarrow> string \<Rightarrow> message list \<Rightarrow> pyfloat \<Rightarrow> 'w \<Rightarrow> streamed \<times> 'w" where
  "provider_stream srv p model_name ms temperature w =
     (case srv (stream_request p model_name ms temperature) w of (reply, w) \<Rightarrow> (read_reply p reply, w))"

section \<open>What arrives\<close>

text \<open>
  What a line says, whatever else it has: a piece of text, possibly none.  Ollama sends a JSON
  object on a line, with \<^verbatim>\<open>done\<close> in the last one.  The OpenAI API sends server-sent events: lines
  that start with \<^verbatim>\<open>data:\<close>, between them blank lines, comments and other fields, and \<^verbatim>\<open>[DONE]\<close> at
  the end.
\<close>

definition content_is :: "string \<Rightarrow> (string, pyval) dict \<Rightarrow> bool" where
  "content_is c m \<longleftrightarrow> (let v = get_default m ''content'' PNone in v = PStr c \<or> v = PNone \<and> c = [])"

definition ollama_says :: "bool \<Rightarrow> string \<Rightarrow> string \<Rightarrow> bool" where
  "ollama_says fin l c \<longleftrightarrow> strip l \<noteq> [] \<and> (case json_loads l of
     Some (PDict d) \<Rightarrow> truthy (get_default d ''done'' PNone) = fin \<and>
       (case get_default d ''message'' (PDict []) of PDict m \<Rightarrow> content_is c m | _ \<Rightarrow> False)
   | _ \<Rightarrow> False)"

definition first_delta :: "(string, pyval) dict \<Rightarrow> (string, pyval) dict option" where
  "first_delta d = (case get_default d ''choices'' (PList [PDict []]) of
     PList (PDict ch # chs) \<Rightarrow> (case get_default ch ''delta'' (PDict []) of PDict m \<Rightarrow> Some m | _ \<Rightarrow> None)
   | _ \<Rightarrow> None)"

fun carries :: "provider \<Rightarrow> string \<Rightarrow> string \<Rightarrow> bool" where
  "carries (Ollama p) l c \<longleftrightarrow> c = [] \<and> (strip l = [] \<or> json_loads l = None) \<or> ollama_says False l c"
| "carries (OpenAI p) l c \<longleftrightarrow>
     (if \<not> prefix ''data:'' l then c = []
      else strip (drop 5 l) \<noteq> ''[DONE]'' \<and> (case json_loads (strip (drop 5 l)) of
          None \<Rightarrow> c = []
        | Some (PDict d) \<Rightarrow> (case first_delta d of None \<Rightarrow> False | Some m \<Rightarrow> content_is c m)
        | _ \<Rightarrow> False))"

fun ends_stream :: "provider \<Rightarrow> string \<Rightarrow> string \<Rightarrow> bool" where
  "ends_stream (Ollama p) l c \<longleftrightarrow> ollama_says True l c"
| "ends_stream (OpenAI p) l c \<longleftrightarrow> c = [] \<and> prefix ''data:'' l \<and> strip (drop 5 l) = ''[DONE]''"

definition texts :: "string list \<Rightarrow> pyval list" where
  "texts cs = map PStr (filter (\<lambda>c. c \<noteq> []) cs)"

lemma texts_simps [simp]:
  "texts [] = []" "texts ([] # cs) = texts cs" "texts ((x # c) # cs) = PStr (x # c) # texts cs"
  by (simp_all add: texts_def)

lemma yielding_content:
  "content_is c m \<Longrightarrow> or_raise (get_of (PDict m) ''content'' PNone) (\<lambda>v. yielding v (texts cs, e)) = (texts (c # cs), e)"
  by (cases c) (auto simp: content_is_def Let_def get_of_def or_raise_def yielding_def)

lemma ollama_line:
  assumes "ollama_says fin l c" "(if fin then ([], Complete) else ollama_lines ls broken) = (texts cs, e)"
  shows "ollama_lines (l # ls) broken = (texts (c # cs), e)"
proof -
  obtain d m where l: "strip l \<noteq> []" "json_loads l = Some (PDict d)" "truthy (get_default d ''done'' PNone) = fin"
    "get_default d ''message'' (PDict []) = PDict m" "content_is c m"
    using assms(1) by (auto simp: ollama_says_def split: option.splits pyval.splits)
  have "or_raise (get_of (PDict d) ''done'' PNone) (\<lambda>v. if truthy v then ([], Complete) else ollama_lines ls broken) =
      (texts cs, e)"
    using assms(2) l(3) by (simp add: get_of_def or_raise_def)
  with l(1,2,4) yielding_content [OF l(5), of cs e] show ?thesis
    by (simp add: get_of_def [of "PDict d" "''message''"] obtaining_def)
qed

lemma openai_line:
  assumes "carries (OpenAI p) l c" "openai_lines ls broken = (texts cs, e)"
  shows "openai_lines (l # ls) broken = (texts (c # cs), e)"
proof (cases "prefix ''data:'' l \<and> json_loads (strip (drop 5 l)) \<noteq> None")
  case True
  then obtain d m where l: "json_loads (strip (drop 5 l)) = Some (PDict d)" "first_delta d = Some m" "content_is c m"
    "strip (drop 5 l) \<noteq> ''[DONE]''"
    using assms(1) by (auto split: option.splits pyval.splits)
  have "delta_content (PDict d) = get_of (PDict m) ''content'' PNone"
    using l(2) by (auto simp: first_delta_def delta_content_def get_of_def obtaining_def choice_of_def
        split: pyval.splits list.splits)
  with True l assms(2) yielding_content [OF l(3), of cs e] show ?thesis by (simp add: Let_def)
next
  case False
  with assms show ?thesis by (auto simp: Let_def split: if_splits)
qed

lemma ollama_delivers:
  assumes "list_all2 (carries (Ollama p)) ls cs" "ends_stream (Ollama p) l c"
  shows "ollama_lines (ls @ l # rest) broken = (texts (cs @ [c]), Complete)"
  using assms(1)
proof (induction rule: list_all2_induct)
  case Nil
  show ?case using ollama_line [of True l c rest broken "[]"] assms(2) by simp
next
  case (Cons k ls b cs)
  show ?case
  proof (cases "ollama_says False k b")
    case True
    with Cons ollama_line [OF True, of "ls @ l # rest"] show ?thesis by (simp del: ollama_lines.simps)
  next
    case False
    with Cons show ?thesis by auto
  qed
qed

lemma openai_delivers:
  assumes "list_all2 (carries (OpenAI p)) ls cs" "ends_stream (OpenAI p) l c"
  shows "openai_lines (ls @ l # rest) broken = (texts (cs @ [c]), Complete)"
  using assms(1)
proof (induction rule: list_all2_induct)
  case Nil
  then show ?case using assms(2) by (simp add: Let_def)
next
  case (Cons k ls b cs)
  then show ?case
    using openai_line [of p k b "ls @ l # rest" broken "cs @ [c]"] by (simp del: carries.simps openai_lines.simps)
qed

lemma read_reply_delivers:
  assumes "status < 400" "splitlines body = ls @ l # rest" "list_all2 (carries p) ls cs" "ends_stream p l c"
  shows "read_reply p (Body status body broken) = (texts (cs @ [c]), Complete)"
proof (cases p)
  case (Ollama o)
  with assms ollama_delivers show ?thesis by (auto simp: read_stream_def)
next
  case (OpenAI o)
  with assms openai_delivers show ?thesis by (auto simp: read_stream_def)
qed

lemma read_reply_refused:
  "400 \<le> status \<Longrightarrow> \<exists>m. read_reply p (Body status body None) = ([], Raises (ProviderError m (Some status) False))"
  by (cases p) (simp_all add: read_stream_def stream_refused_def)

text \<open>A chunk without choices, as services send it with the usage, ends the stream with an exception.\<close>

lemma no_choices_raises:
  assumes "prefix ''data:'' l" "json_loads (strip (drop 5 l)) = Some (PDict d)" "dict_get d ''choices'' = Some (PList [])"
    "strip (drop 5 l) \<noteq> ''[DONE]''"
  shows "openai_lines (l # ls) broken = ([], Raises (IndexError ''list index out of range''))"
  using assms by (simp add: Let_def delta_content_def choice_of_def get_of_def obtaining_def or_raise_def get_default_def)

end
