(* ===== verification/Toml.thy ===== *)
theory Toml
  imports PyStr
begin

text \<open>
  \<^verbatim>\<open>config/toml.py\<close>: the writer of configuration files.  The decimal of a float is the argument
  \<open>fr\<close>.
\<close>

definition escape_char :: "char \<Rightarrow> string" where
  "escape_char c = (if c = CHR 0x5C \<or> c = dquote then [CHR 0x5C, c] else [c])"

definition toml_string :: "string \<Rightarrow> string" where
  "toml_string s = dquote # concat (map escape_char s) @ [dquote]"

text \<open>\<^verbatim>\<open>_scalar\<close> and \<^verbatim>\<open>_inline_table\<close>; a value that is none of the others prints as a text.\<close>

fun toml_scalar :: "(rat \<Rightarrow> string) \<Rightarrow> pyval \<Rightarrow> string" where
  "toml_scalar fr PNone = dquote # ''None'' @ [dquote]"
| "toml_scalar fr (PBool b) = (if b then ''true'' else ''false'')"
| "toml_scalar fr (PInt i) = show_int i"
| "toml_scalar fr (PFloat x) = fr x"
| "toml_scalar fr (PStr s) = toml_string s"
| "toml_scalar fr (PList xs) = ''['' @ join '', '' (map (toml_scalar fr) xs) @ '']''"
| "toml_scalar fr (PDict d) =
     ''{ '' @ join '', '' (map (\<lambda>e. fst e @ '' = '' @ toml_scalar fr (snd e)) d) @ '' }''"

fun is_table :: "pyval \<Rightarrow> bool" where
  "is_table (PDict d) = True"
| "is_table v = False"

fun is_table_array :: "pyval \<Rightarrow> bool" where
  "is_table_array (PList xs) = (xs \<noteq> [] \<and> list_all is_table xs)"
| "is_table_array v = False"

definition table_header :: "string list \<Rightarrow> string" where
  "table_header path = ''['' @ join ''.'' path @ '']''"

definition array_header :: "string list \<Rightarrow> string" where
  "array_header path = ''[['' @ join ''.'' path @ '']]''"

text \<open>
  \<^verbatim>\<open>_dump_table\<close>: the scalars first, then the tables, then the arrays of tables, each in the
  order of the dictionary.  The first function is for a table, the second for what may be one.
\<close>

fun table_lines :: "(rat \<Rightarrow> string) \<Rightarrow> string list \<Rightarrow> pyval \<Rightarrow> string list" where
  "table_lines fr path (PDict d) =
     map (\<lambda>e. fst e @ '' = '' @ toml_scalar fr (snd e))
       (filter (\<lambda>e. \<not> is_table (snd e) \<and> \<not> is_table_array (snd e)) d) @
     concat (map (\<lambda>e. if is_table (snd e)
       then [[], table_header (path @ [fst e])] @ table_lines fr (path @ [fst e]) (snd e) else []) d) @
     concat (map (\<lambda>e. case snd e of
         PList xs \<Rightarrow> if is_table_array (PList xs)
           then concat (map (\<lambda>x. [[], array_header (path @ [fst e])] @ table_lines fr (path @ [fst e]) x) xs)
           else []
       | _ \<Rightarrow> []) d)"
| "table_lines fr path v = []"

definition rstrip :: "string \<Rightarrow> string" where
  "rstrip s = rev (dropWhile is_space (rev s))"

definition toml_dumps :: "(rat \<Rightarrow> string) \<Rightarrow> pyval \<Rightarrow> string" where
  "toml_dumps fr data = rstrip (join nl (table_lines fr [] data)) @ nl"

section \<open>Facts\<close>

text \<open>
  A basic string as a TOML reader takes it: up to the first quote that is not escaped, with
  the two escapes the writer uses, and no control character but the tab.
\<close>

fun read_basic :: "string \<Rightarrow> (string \<times> string) option" where
  "read_basic [] = None"
| "read_basic (c # r) =
     (if c = dquote then Some ([], r)
      else if c = CHR 0x5C
      then (case r of [] \<Rightarrow> None
        | e # r' \<Rightarrow> if e = CHR 0x5C \<or> e = dquote
            then map_option (\<lambda>(s, t). (e # s, t)) (read_basic r') else None)
      else if code_of c < 32 \<and> c \<noteq> CHR 0x09 \<or> code_of c = 127 then None
      else map_option (\<lambda>(s, t). (c # s, t)) (read_basic r))"

definition printable :: "char \<Rightarrow> bool" where
  "printable c \<longleftrightarrow> c = CHR 0x09 \<or> 32 \<le> code_of c \<and> code_of c \<noteq> 127"

lemma read_escaped:
  "read_basic (escape_char c @ r) = (if printable c then map_option (\<lambda>(s, t). (c # s, t)) (read_basic r) else None)"
  by (auto simp: escape_char_def printable_def)

lemma toml_string_round_trip:
  "read_basic (concat (map escape_char s) @ dquote # rest) = (if list_all printable s then Some (s, rest) else None)"
  by (induction s) (simp_all only: list.map concat.simps append_assoc read_escaped; simp)+

end
