(* ===== verification/Store.thy ===== *)
theory Store
  imports Profiles Toml
begin

text \<open>
  \<^verbatim>\<open>config/store.py\<close>: what is written to and read from a configuration file.  A dumped model
  leaves out the fields that are None.  The file itself, \<^verbatim>\<open>tomllib\<close> and pydantic's decoder
  are outside: a text that was read is a value, and the decoder is the argument \<open>decode\<close>.
\<close>

section \<open>Dumping\<close>

definition opt :: "string \<Rightarrow> ('a \<Rightarrow> pyval) \<Rightarrow> 'a option \<Rightarrow> (string, pyval) dict" where
  "opt k f x = (case x of None \<Rightarrow> [] | Some v \<Rightarrow> [(k, f v)])"

definition hardware_dump :: "hardware_profile \<Rightarrow> pyval" where
  "hardware_dump h = PDict (
     opt ''cpu_name'' PStr (hw_cpu_name h) @ opt ''cpu_cores'' PInt (hw_cpu_cores h) @
     opt ''cpu_threads'' PInt (hw_cpu_threads h) @ opt ''gpu_name'' PStr (hw_gpu_name h) @
     opt ''gpu_vendor'' PStr (hw_gpu_vendor h) @ opt ''gpu_vram_gb'' PFloat (hw_gpu_vram_gb h) @
     opt ''system_ram_gb'' PFloat (hw_system_ram_gb h) @
     opt ''operating_system'' PStr (hw_operating_system h) @ opt ''architecture'' PStr (hw_architecture h) @
     [(''source'', PStr (hw_source h))])"

definition goal_dump :: "user_goal \<Rightarrow> pyval" where
  "goal_dump g = PDict (
     [(''workload'', PList (map PStr (ug_workload g))), (''quality_priority'', PFloat (ug_quality_priority g)),
      (''speed_priority'', PFloat (ug_speed_priority g)), (''cost_priority'', PFloat (ug_cost_priority g)),
      (''privacy_priority'', PFloat (ug_privacy_priority g)), (''cloud_allowed'', PBool (ug_cloud_allowed g))] @
     opt ''preferred_context'' PInt (ug_preferred_context g))"

definition budget_dump :: "budget_config \<Rightarrow> pyval" where
  "budget_dump b = PDict
     [(''max_cloud_calls_per_task'', PInt (bc_max_cloud_calls_per_task b)),
      (''max_cloud_tokens_per_task'', PInt (bc_max_cloud_tokens_per_task b)),
      (''max_cloud_cost_per_task'', PFloat (bc_max_cloud_cost_per_task b)),
      (''max_parallel_cloud_calls'', PInt (bc_max_parallel_cloud_calls b)),
      (''max_parallel_local_calls'', PInt (bc_max_parallel_local_calls b))]"

definition approval_dump :: "approval_config \<Rightarrow> pyval" where
  "approval_dump a = PDict
     [(''major'', PBool (ac_major a)), (''critical'', PBool (ac_critical a)),
      (''significant'', PBool (ac_significant a)), (''non_interactive'', PBool (ac_non_interactive a))]"

definition preferences_dump :: "preferences \<Rightarrow> pyval" where
  "preferences_dump p = PDict (
     [(''local_first'', PBool (up_local_first p)), (''cost_sensitive'', PBool (up_cost_sensitive p)),
      (''privacy_sensitive'', PBool (up_privacy_sensitive p)), (''cloud_allowed'', PBool (up_cloud_allowed p))] @
     opt ''preferred_context'' PInt (up_preferred_context p))"

definition tier_dump :: "tier_config \<Rightarrow> pyval" where
  "tier_dump t = PDict (
     [(''provider'', PStr (tc_provider t)), (''model'', PStr (tc_model t))] @
     opt ''endpoint'' PStr (tc_endpoint t) @ opt ''api_key_env'' PStr (tc_api_key_env t) @
     opt ''context_limit'' PInt (tc_context_limit t) @ opt ''max_output_tokens'' PInt (tc_max_output_tokens t) @
     opt ''temperature'' PFloat (tc_temperature t) @
     opt ''input_cost_per_mtok'' PFloat (tc_input_cost_per_mtok t) @
     opt ''output_cost_per_mtok'' PFloat (tc_output_cost_per_mtok t) @
     [(''enabled'', PBool (tc_enabled t)), (''options'', PDict (tc_options t))])"

definition profile_dump :: "profile \<Rightarrow> pyval" where
  "profile_dump p = PDict (
     [(''name'', PStr (cp_name p))] @ opt ''local'' tier_dump (cp_local p) @ opt ''expert'' tier_dump (cp_expert p) @
     [(''local_fallbacks'', PList (map tier_dump (cp_local_fallbacks p))),
      (''routing_policy'', PStr (cp_routing_policy p)), (''budget'', budget_dump (cp_budget p)),
      (''approval'', approval_dump (cp_approval p)), (''preferences'', preferences_dump (cp_preferences p))] @
     opt ''hardware'' hardware_dump (cp_hardware p) @ opt ''goal'' goal_dump (cp_goal p))"

definition app_dump :: "app_config \<Rightarrow> pyval" where
  "app_dump app = PDict (
     [(''version'', PInt (app_version app)), (''active_profile'', PStr (app_active_profile app))] @
     opt ''active_hardware'' PStr (app_active_hardware app) @
     [(''profiles'', PDict (map (\<lambda>e. (fst e, profile_dump (snd e))) (app_profiles app))),
      (''hardware'', PDict (map (\<lambda>e. (fst e, hardware_dump (snd e))) (app_hardware app)))])"

text \<open>The text \<^verbatim>\<open>save_application_config\<close> writes.\<close>

definition saved_text :: "(rat \<Rightarrow> string) \<Rightarrow> app_config \<Rightarrow> string" where
  "saved_text fr app = toml_dumps fr (app_dump app)"

section \<open>Secrets\<close>

definition SECRET_KEYS :: "string list" where
  "SECRET_KEYS = [''api_key'', ''apikey'', ''token'', ''password'', ''secret'', ''credentials'']"

definition secret_error :: "string \<Rightarrow> py_error" where
  "secret_error place = ValueError (''refusing to handle profile containing secret-like key '' @ [quote] @ place @
     [quote] @ ''; store secrets in environment variables and reference them with api_key_env'')"

text \<open>\<open>Some\<close> the path of the first secret-like key, in the order of the walk.\<close>

fun first_some :: "'a option list \<Rightarrow> 'a option" where
  "first_some [] = None"
| "first_some (x # xs) = (case x of None \<Rightarrow> first_some xs | Some v \<Rightarrow> Some v)"

fun secret_path :: "string \<Rightarrow> pyval \<Rightarrow> string option" where
  "secret_path path (PDict d) = first_some (map (\<lambda>e.
     if lower (fst e) \<in> set SECRET_KEYS then Some (path @ fst e)
     else secret_path (path @ fst e @ ''.'') (snd e)) d)"
| "secret_path path (PList xs) = first_some (map (secret_path path) xs)"
| "secret_path path v = None"

definition assert_no_secrets :: "pyval \<Rightarrow> unit result" where
  "assert_no_secrets v = (case secret_path [] v of None \<Rightarrow> Inr () | Some p \<Rightarrow> Inl (secret_error p))"

definition export_profile :: "(rat \<Rightarrow> string) \<Rightarrow> app_config \<Rightarrow> string \<Rightarrow> string result" where
  "export_profile fr app name = (case dict_get (app_profiles app) name of
     None \<Rightarrow> Inl (KeyError (''profile '' @ [quote] @ name @ [quote] @ '' does not exist''))
   | Some p \<Rightarrow> (case assert_no_secrets (profile_dump p) of
       Inl e \<Rightarrow> Inl e
     | Inr u \<Rightarrow> Inr (toml_dumps fr (PDict [(''profile'', profile_dump p)]))))"

definition import_profile :: "(pyval \<Rightarrow> profile result) \<Rightarrow> (string, pyval) dict \<Rightarrow> profile result" where
  "import_profile decode data = (let payload = get_default data ''profile'' (PDict data)
     in case assert_no_secrets payload of Inl e \<Rightarrow> Inl e | Inr u \<Rightarrow> decode payload)"

section \<open>Loading\<close>

text \<open>\<^verbatim>\<open>int(data.get("version", 0) or 0)\<close>\<close>

definition config_version_of :: "pyval \<Rightarrow> int result" where
  "config_version_of v =
     (if \<not> truthy v then Inr 0
      else case v of
        PBool b \<Rightarrow> Inr 1
      | PInt i \<Rightarrow> Inr i
      | PFloat x \<Rightarrow> Inr (trunc x)
      | PStr s \<Rightarrow> (case parse_int s of None \<Rightarrow> Inl (ValueError ''invalid literal for int()'') | Some i \<Rightarrow> Inr i)
      | _ \<Rightarrow> Inl (TypeError ''int() argument must be a string or a number''))"

definition set_model :: "string \<Rightarrow> tier_config option \<Rightarrow> tier_config option" where
  "set_model m = map_option (\<lambda>t. t\<lparr>tc_model := m\<rparr>)"

definition legacy_profile :: "(rat \<Rightarrow> string) \<Rightarrow> pyval \<Rightarrow> pyval \<Rightarrow> profile" where
  "legacy_profile fr local_value expert_value =
     (let p = default_profile ''default'';
          p = (if truthy local_value then p\<lparr>cp_local := set_model (py_str fr local_value) (cp_local p)\<rparr> else p)
      in if truthy expert_value then p\<lparr>cp_expert := set_model (py_str fr expert_value) (cp_expert p)\<rparr> else p)"

definition migrated_warning :: "(rat \<Rightarrow> string) \<Rightarrow> string \<Rightarrow> pyval \<Rightarrow> string list" where
  "migrated_warning fr key v = (if truthy v
     then [''migrated legacy '' @ key @ ''='' @ [quote] @ py_str fr v @ [quote] @ '' into the default profile''] else [])"

definition migrate :: "(rat \<Rightarrow> string) \<Rightarrow> (string, pyval) dict \<Rightarrow> ((string, pyval) dict \<times> string list) result" where
  "migrate fr data = (case config_version_of (get_default data ''version'' (PInt 0)) of
     Inl e \<Rightarrow> Inl e
   | Inr version \<Rightarrow>
      (let newer = (if CONFIG_VERSION < version
             then [''config version '' @ show_int version @ '' is newer than supported '' @
                   show_int CONFIG_VERSION @ ''; unknown fields are ignored''] else []);
           (data, warnings) = (if truthy (get_default data ''profiles'' PNone) then (data, newer)
             else (let local_value = get_default data ''local_model'' PNone;
                       data = dict_del ''local_model'' data;
                       expert_value = get_default data ''expert_model'' (get_default data ''cloud_model'' PNone);
                       data = dict_del ''expert_model'' (dict_del ''cloud_model'' data)
                   in (dict_set ''profiles'' (PDict [(''default'', profile_dump (legacy_profile fr local_value expert_value))]) data,
                       newer @ migrated_warning fr ''local_model'' local_value @
                       migrated_warning fr ''expert_model'' expert_value @
                       (if version \<noteq> 0 then [''migrated config from version '' @ show_int version @ '' to '' @
                          show_int CONFIG_VERSION] else []))))
       in Inr (dict_set ''version'' (PInt CONFIG_VERSION) data, warnings)))"

text \<open>\<^verbatim>\<open>parse_application_config\<close> on what \<^verbatim>\<open>tomllib\<close> read.\<close>

definition repaired :: "app_config \<Rightarrow> app_config" where
  "repaired app =
     (let app = (if dict_get (app_profiles app) ''default'' = None
            then put_profile app ''default'' (default_profile ''default'') else app)
      in if dict_get (app_profiles app) (app_active_profile app) = None
         then app\<lparr>app_active_profile := ''default''\<rparr> else app)"

definition parse_application ::
  "(rat \<Rightarrow> string) \<Rightarrow> (pyval \<Rightarrow> app_config result) \<Rightarrow> (string, pyval) dict \<Rightarrow> app_config result" where
  "parse_application fr decode data = (case migrate fr data of
     Inl e \<Rightarrow> Inl e
   | Inr (data, warnings) \<Rightarrow> (case decode (PDict data) of Inl e \<Rightarrow> Inl e | Inr app \<Rightarrow> Inr (repaired app)))"

text \<open>\<^verbatim>\<open>load_application_config\<close>: what the file holds, if there is one.\<close>

definition load_application ::
  "(rat \<Rightarrow> string) \<Rightarrow> (pyval \<Rightarrow> app_config result) \<Rightarrow> (string, pyval) dict option \<Rightarrow> app_config result" where
  "load_application fr decode file = (case file of
     None \<Rightarrow> Inr default_application
   | Some data \<Rightarrow> parse_application fr decode data)"

section \<open>Facts\<close>

text \<open>Everything reachable in a value, with the keys on the way.\<close>

inductive inside :: "string \<Rightarrow> pyval \<Rightarrow> bool" where
  key: "(k, v) \<in> set d \<Longrightarrow> inside k (PDict d)"
| deeper: "(k, v) \<in> set d \<Longrightarrow> inside j v \<Longrightarrow> inside j (PDict d)"
| element: "v \<in> set xs \<Longrightarrow> inside j v \<Longrightarrow> inside j (PList xs)"

lemma first_some_None: "first_some xs = None \<longleftrightarrow> (\<forall>x\<in>set xs. x = None)"
  by (induction xs) (auto split: option.split)

lemma dict_path_None:
  "secret_path path (PDict d) = None \<longleftrightarrow> (\<forall>(k, v)\<in>set d.
     lower k \<notin> set SECRET_KEYS \<and> secret_path (path @ k @ ''.'') v = None)"
  by (induction d) (auto split: option.splits)

lemmas path_None = dict_path_None first_some_None

declare secret_path.simps(1) [simp del]

lemma no_secret_inside:
  assumes "inside k v" "secret_path path v = None"
  shows "lower k \<notin> set SECRET_KEYS"
  using assms
proof (induction arbitrary: path rule: inside.induct)
  case (key k v d)
  then show ?case by (auto simp: path_None)
next
  case (deeper k v d j)
  then have "secret_path (path @ k @ ''.'') v = None"
    by (auto simp: path_None)
  then show ?case by (rule deeper.IH)
next
  case (element v xs j)
  then have "secret_path path v = None" by (auto simp: path_None)
  then show ?case by (rule element.IH)
qed

lemma no_secret_path:
  "(\<And>k. inside k v \<Longrightarrow> lower k \<notin> set SECRET_KEYS) \<Longrightarrow> secret_path path v = None"
proof (induction v arbitrary: path)
  case (PList xs)
  have "secret_path path v = None" if "v \<in> set xs" for v
    using that by (intro PList.IH PList.prems) (auto intro: inside.element)
  then show ?case by (auto simp: path_None)
next
  case (PDict d)
  have "secret_path q (snd e) = None" if "e \<in> set d" for e q
  proof (rule PDict.IH [OF that])
    show "snd e \<in> Basic_BNFs.snds e" by (simp add: snds.simps)
    show "lower k \<notin> set SECRET_KEYS" if "inside k (snd e)" for k
      using that \<open>e \<in> set d\<close> by (intro PDict.prems inside.deeper [of "fst e" "snd e"]) simp_all
  qed
  moreover have "lower (fst e) \<notin> set SECRET_KEYS" if "e \<in> set d" for e
    using that by (intro PDict.prems inside.key [of "fst e" "snd e"]) simp
  ultimately show ?case by (auto simp: path_None)
qed simp_all

lemma assert_no_secrets_iff:
  "assert_no_secrets v = Inr () \<longleftrightarrow> (\<forall>k. inside k v \<longrightarrow> lower k \<notin> set SECRET_KEYS)"
proof
  assume "assert_no_secrets v = Inr ()"
  then have "secret_path [] v = None" by (simp add: assert_no_secrets_def split: option.splits)
  then show "\<forall>k. inside k v \<longrightarrow> lower k \<notin> set SECRET_KEYS" using no_secret_inside by blast
next
  assume "\<forall>k. inside k v \<longrightarrow> lower k \<notin> set SECRET_KEYS"
  then have "secret_path [] v = None" by (intro no_secret_path) blast
  then show "assert_no_secrets v = Inr ()" by (simp add: assert_no_secrets_def)
qed

lemma exported_without_secrets:
  assumes "export_profile fr app name = Inr t"
  shows "\<exists>p. dict_get (app_profiles app) name = Some p \<and>
    (\<forall>k. inside k (profile_dump p) \<longrightarrow> lower k \<notin> set SECRET_KEYS)"
proof -
  obtain p where p: "dict_get (app_profiles app) name = Some p" "assert_no_secrets (profile_dump p) = Inr ()"
    using assms by (auto simp: export_profile_def split: option.splits sum.splits)
  then show ?thesis unfolding assert_no_secrets_iff by blast
qed

lemma repaired_ok:
  assumes "dict_ok (app_profiles app)" "\<And>n p. dict_get (app_profiles app) n = Some p \<Longrightarrow> approval_ok p"
  shows "app_ok (repaired app)"
  using assms
  by (auto simp: app_ok_def repaired_def Let_def put_profile_def dict.ok_put approval_ok_default split: if_splits)

lemma truthy_profiles [simp]: "truthy (PDict [e]) \<longleftrightarrow> True"
  by simp

lemma migrated_shape:
  assumes "migrate fr data = Inr (data', ws)"
  obtains d where "data' = dict_set ''version'' (PInt CONFIG_VERSION) d"
    "truthy (get_default d ''profiles'' PNone)"
proof (cases "truthy (get_default data ''profiles'' PNone)")
  case True
  then show ?thesis
    using assms that [of data] by (simp add: migrate_def Let_def split: sum.splits)
next
  case False
  then have "\<exists>p d. data' = dict_set ''version'' (PInt CONFIG_VERSION) (dict_set ''profiles'' (PDict [p]) d)"
      using assms by (auto simp: migrate_def Let_def split: sum.splits)
  then obtain p d where "data' = dict_set ''version'' (PInt CONFIG_VERSION) (dict_set ''profiles'' (PDict [p]) d)"
      by blast
  then show ?thesis by (rule that) (simp add: get_default_def)
qed

lemma migrate_again:
  assumes "migrate fr data = Inr (data', ws)"
  shows "migrate fr data' = Inr (data', [])"
proof -
  obtain d where d: "data' = dict_set ''version'' (PInt CONFIG_VERSION) d"
    "truthy (get_default d ''profiles'' PNone)"
    using assms by (rule migrated_shape)
  have v: "get_default data' ''version'' (PInt 0) = PInt CONFIG_VERSION"
    and p: "truthy (get_default data' ''profiles'' PNone)"
    using d by (simp_all add: get_default_def dict_get_set)
  have "dict_set ''version'' (PInt CONFIG_VERSION) data' = data'"
    by (rule AList.update_triv) (simp add: d(1) dict_get_set)
  then show ?thesis
    by (simp add: migrate_def v p CONFIG_VERSION_def config_version_of_def)
qed

end
