(* ===== verification/Doctor.thy ===== *)
theory Doctor
  imports Providers Profiles
begin

text \<open>
  The doctor (\<^verbatim>\<open>doctor.py\<close>) and the problems shown at startup (\<^verbatim>\<open>desktop/errors.py\<close>).  The
  services that are probed are an argument, a function of a request and of a world, as for the
  providers; \<open>fmt\<close> shows a float, and the environment is a dict.
\<close>

section \<open>Probes\<close>

definition get_request :: "string \<Rightarrow> http_request" where
  "get_request url = \<lparr>rq_url = url, rq_headers = [], rq_payload = PNone\<rparr>"

definition DEFAULT_HOST :: string where
  "DEFAULT_HOST = ''http://localhost:11434''"

text \<open>The name of a listed model; an exception, as of a name that has no hash, gives None.\<close>

fun listed_name :: "pyval \<Rightarrow> pyval option" where
  "listed_name (PDict d) = (case get_default d ''name'' (PStr []) of
     PList xs \<Rightarrow> None | PDict e \<Rightarrow> None | v \<Rightarrow> Some v)"
| "listed_name v = None"

fun listed_names :: "pyval \<Rightarrow> pyval list option" where
  "listed_names (PList xs) = those (map listed_name xs)"
| "listed_names (PStr []) = Some []"
| "listed_names (PDict []) = Some []"
| "listed_names v = None"

definition tags_of :: "http_outcome \<Rightarrow> pyval list option" where
  "tags_of oc = (case oc of
     Replied st body (Some (PDict d)) \<Rightarrow>
       if st = 200 then listed_names (get_default d ''models'' (PList [])) else None
   | _ \<Rightarrow> None)"

definition ollama_installed :: "'w server \<Rightarrow> string \<Rightarrow> 'w \<Rightarrow> pyval list option \<times> 'w" where
  "ollama_installed srv host w =
     (case srv (get_request (rstrip_slash host @ ''/api/tags'')) w of (oc, w) \<Rightarrow> (tags_of oc, w))"

definition ping_payload :: "string \<Rightarrow> pyval" where
  "ping_payload model_name = PDict [(''model'', PStr model_name),
     (''messages'', PList [PDict [(''role'', PStr ''user''), (''content'', PStr ''ping'')]]),
     (''max_tokens'', PInt 4)]"

definition live_request :: "(string, string) dict \<Rightarrow> tier_config \<Rightarrow> http_request" where
  "live_request env t =
     (if tc_provider t = ''ollama''
      then get_request (rstrip_slash (or_text_of (tc_endpoint t) DEFAULT_HOST) @ ''/api/tags'')
      else \<lparr>rq_url = rstrip_slash (or_text_of (tc_endpoint t) ''https://api.deepseek.com/v1'') @ ''/chat/completions'',
            rq_headers = (case nonempty_text (dict_get env (or_text_of (tc_api_key_env t) [])) of
               None \<Rightarrow> [] | Some k \<Rightarrow> [(''Authorization'', ''Bearer '' @ k)]),
            rq_payload = ping_payload (tc_model t)\<rparr>)"

fun live_verdict :: "bool \<Rightarrow> http_outcome \<Rightarrow> bool \<times> string" where
  "live_verdict is_ollama (NoReply m) = (False, m)"
| "live_verdict is_ollama (Broken m) = (False, m)"
| "live_verdict is_ollama (Replied st body json) =
     (if is_ollama then (st = 200, ''Ollama ('' @ show_int st @ '')'')
      else if 400 \<le> st then (False, ''API error '' @ show_int st)
      else (True, ''reachable''))"

definition live_expert_check ::
  "'w server \<Rightarrow> (string, string) dict \<Rightarrow> tier_config \<Rightarrow> 'w \<Rightarrow> (bool \<times> string) \<times> 'w" where
  "live_expert_check srv env t w =
     (case srv (live_request env t) w of (oc, w) \<Rightarrow> (live_verdict (tc_provider t = ''ollama'') oc, w))"

text \<open>What a report asks the outside: \<^verbatim>\<open>ollama_installed_fn\<close> and \<^verbatim>\<open>live_check_fn\<close>.\<close>

record 'w probes =
  pb_installed :: "'w \<Rightarrow> pyval list option \<times> 'w"
  pb_live :: "tier_config \<Rightarrow> 'w \<Rightarrow> (bool \<times> string) \<times> 'w"

definition default_probes :: "'w server \<Rightarrow> (string, string) dict \<Rightarrow> 'w probes" where
  "default_probes srv env = \<lparr>pb_installed = ollama_installed srv DEFAULT_HOST, pb_live = live_expert_check srv env\<rparr>"

section \<open>The report\<close>

record check_row =
  ck_name :: string
  ck_ok :: bool
  ck_detail :: string
  ck_optional :: bool

definition row :: "string \<Rightarrow> bool \<Rightarrow> string \<Rightarrow> bool \<Rightarrow> check_row" where
  "row name good detail optional = \<lparr>ck_name = name, ck_ok = good, ck_detail = detail, ck_optional = optional\<rparr>"

record doctor_report =
  dr_ok :: bool
  dr_checks :: "check_row list"

definition finish_report :: "check_row list \<Rightarrow> doctor_report" where
  "finish_report rows = \<lparr>dr_ok = list_all ck_ok (filter (\<lambda>c. \<not> ck_optional c) rows), dr_checks = rows\<rparr>"

text \<open>\<^verbatim>\<open>profile.hardware or (app.hardware.get(app.active_hardware) if ... else None)\<close>\<close>

definition effective_hardware :: "app_config \<Rightarrow> profile \<Rightarrow> hardware_profile option" where
  "effective_hardware app p = (case cp_hardware p of
     Some h \<Rightarrow> Some h
   | None \<Rightarrow> (case nonempty_text (app_active_hardware app) of None \<Rightarrow> None | Some n \<Rightarrow> dict_get (app_hardware app) n))"

definition local_rows :: "'w probes \<Rightarrow> profile \<Rightarrow> 'w \<Rightarrow> check_row list \<times> 'w" where
  "local_rows pb p w = (case cp_local p of
     None \<Rightarrow> ([], w)
   | Some t \<Rightarrow>
      if tc_provider t \<noteq> ''ollama'' then ([], w)
      else (case pb_installed pb w of
         (None, w) \<Rightarrow> ([row ''ollama'' False ''not reachable'' True,
             row ''local model'' False ''unknown (Ollama unreachable)'' True], w)
       | (Some names, w) \<Rightarrow>
          (let present = (PStr (tc_model t) \<in> set names)
           in ([row ''local model'' present
                 (tc_model t @ (if present then [] else '' NOT installed; run: ollama pull '' @ tc_model t))
                 (\<not> present)], w))))"

definition gpu_rows :: "(pyfloat \<Rightarrow> string) \<Rightarrow> hardware_profile option \<Rightarrow> check_row list" where
  "gpu_rows fmt hw = (case hw of
     None \<Rightarrow> []
   | Some h \<Rightarrow> [row ''gpu'' (has_gpu h)
       (or_text_of (hw_gpu_name h) ''none'' @ '' '' @
        (case hw_gpu_vram_gb h of None \<Rightarrow> ''?'' | Some v \<Rightarrow> if v = 0 then ''?'' else fmt v) @ '' GB'')
       (has_gpu h)])"

text \<open>\<^verbatim>\<open>expert and expert.enabled and profile.preferences.cloud_allowed\<close>\<close>

definition reachable_expert :: "profile \<Rightarrow> tier_config option" where
  "reachable_expert p = (case cp_expert p of
     None \<Rightarrow> None
   | Some t \<Rightarrow> if tc_enabled t \<and> up_cloud_allowed (cp_preferences p) then Some t else None)"

definition key_present :: "(string, string) dict \<Rightarrow> tier_config \<Rightarrow> bool" where
  "key_present env t \<longleftrightarrow> (case nonempty_text (tc_api_key_env t) of
     None \<Rightarrow> False | Some n \<Rightarrow> is_given (dict_get env n))"

definition expert_rows ::
  "'w probes \<Rightarrow> (string, string) dict \<Rightarrow> bool \<Rightarrow> profile \<Rightarrow> 'w \<Rightarrow> check_row list \<times> 'w" where
  "expert_rows pb env live p w = (case reachable_expert p of
     None \<Rightarrow> ([], w)
   | Some t \<Rightarrow>
      (let key = key_present env t;
           credentials = row ''expert credentials'' key
             (or_text_of (tc_api_key_env t) ''api_key_env'' @ '' '' @
              (if key then ''configured'' else ''not configured (local use still available)'')) (\<not> key)
       in if live
          then (case pb_live pb t w of ((good, detail), w) \<Rightarrow>
                  ([credentials, row ''expert connectivity'' good detail False], w))
          else ([credentials, row ''expert connectivity'' True ''skipped (use --live to test)'' True], w)))"

definition enabled_text :: "bool \<Rightarrow> string" where
  "enabled_text b = (if b then ''enabled'' else ''DISABLED'')"

definition build_doctor_report ::
  "(pyfloat \<Rightarrow> string) \<Rightarrow> catalog \<Rightarrow> 'w probes \<Rightarrow> (string, string) dict \<Rightarrow> bool \<Rightarrow> string \<Rightarrow> app_config \<Rightarrow> 'w \<Rightarrow>
     doctor_report \<times> 'w" where
  "build_doctor_report fmt cat pb env live path app w =
     (let start = row ''profile'' True (''active='' @ app_active_profile app @ '' path='' @ path) False
      in case dict_get (app_profiles app) (app_active_profile app) of
           None \<Rightarrow> (finish_report [start, row ''configuration'' False ''active profile is missing'' False], w)
         | Some p \<Rightarrow>
            (let hw = effective_hardware app p;
                 va = validate_profile fmt cat hw env False p;
                 config = row ''configuration'' (va_ok va)
                   (if va_ok va then ''valid'' else join ''; '' (va_errors va)) False;
                 warnings = map (\<lambda>m. row ''warning'' True m True) (va_warnings va);
                 approval = cp_approval p
             in case local_rows pb p w of (locals, w) \<Rightarrow>
               (case expert_rows pb env live p w of (experts, w) \<Rightarrow>
                 (finish_report ([start, config] @ warnings @ locals @ gpu_rows fmt hw @ experts @
                    [row ''routing policy'' True (cp_routing_policy p) False,
                     row ''human approval'' (ac_major approval \<and> ac_critical approval)
                       (''major='' @ enabled_text (ac_major approval) @ '' critical='' @ enabled_text (ac_critical approval))
                       False]), w))))"

section \<open>Problems at startup\<close>

record startup_issue =
  is_kind :: string
  is_severity :: string
  is_title :: string
  is_detail :: string
  is_options :: "(string \<times> string) list"

definition missing_profile_issue :: "string \<Rightarrow> startup_issue" where
  "missing_profile_issue name = \<lparr>is_kind = ''config_invalid'', is_severity = ''error'',
     is_title = ''No active profile was found.'',
     is_detail = ''Active profile '' @ [quote] @ name @ [quote] @ '' is not defined.'',
     is_options = [(''setup'', ''Open Setup'')]\<rparr>"

definition invalid_issue :: "string \<Rightarrow> startup_issue" where
  "invalid_issue msg = \<lparr>is_kind = ''config_invalid'', is_severity = ''error'',
     is_title = ''The active profile is not valid.'', is_detail = msg,
     is_options = [(''setup'', ''Open Setup'')]\<rparr>"

definition unreachable_issue :: startup_issue where
  "unreachable_issue = \<lparr>is_kind = ''ollama_unreachable'', is_severity = ''warning'',
     is_title = ''Compute Sifter could not reach Ollama.'',
     is_detail = ''Local inference needs Ollama running at the configured host. Cloud inference can still be used if configured.'',
     is_options = [(''start_ollama'', ''Start Ollama''), (''cloud_only'', ''Use Cloud Only''),
       (''setup'', ''Open Setup''), (''details'', ''View Details'')]\<rparr>"

definition model_missing_issue :: "string \<Rightarrow> startup_issue" where
  "model_missing_issue m = \<lparr>is_kind = ''model_missing'', is_severity = ''warning'',
     is_title = ''Local model '' @ [quote] @ m @ [quote] @ '' is not installed.'',
     is_detail = ''Run: ollama pull '' @ m,
     is_options = [(''install_model'', ''Show Install Command''), (''setup'', ''Change Model''),
       (''details'', ''View Details'')]\<rparr>"

definition missing_key_issue :: "tier_config \<Rightarrow> startup_issue" where
  "missing_key_issue t = \<lparr>is_kind = ''missing_expert_key'', is_severity = ''warning'',
     is_title = tc_provider t @ '' is configured as the expert provider, but '' @
       or_text_of (tc_api_key_env t) ''its API key'' @ '' could not be found.'',
     is_detail = ''Local inference can still be used.'',
     is_options = [(''configure_provider'', ''Configure Provider''), (''local_only'', ''Continue Local Only''),
       (''details'', ''View Details'')]\<rparr>"

definition provider_needs_key :: "tier_config \<Rightarrow> bool" where
  "provider_needs_key t \<longleftrightarrow> tc_provider t \<in> {''deepseek'', ''openai-compatible''}"

definition local_issues :: "('w \<Rightarrow> pyval list option \<times> 'w) option \<Rightarrow> profile \<Rightarrow> 'w \<Rightarrow> startup_issue list \<times> 'w" where
  "local_issues installed p w = (case cp_local p of
     None \<Rightarrow> ([], w)
   | Some t \<Rightarrow>
      if \<not> (tc_enabled t \<and> tc_provider t = ''ollama'') then ([], w)
      else (case (case installed of None \<Rightarrow> (None, w) | Some f \<Rightarrow> f w) of
         (None, w) \<Rightarrow> ([unreachable_issue], w)
       | (Some names, w) \<Rightarrow> (if PStr (tc_model t) \<in> set names then [] else [model_missing_issue (tc_model t)], w)))"

definition expert_issues :: "(string, string) dict \<Rightarrow> profile \<Rightarrow> startup_issue list" where
  "expert_issues env p = (case reachable_expert p of
     None \<Rightarrow> []
   | Some t \<Rightarrow> if provider_needs_key t \<and> \<not> key_present env t then [missing_key_issue t] else [])"

definition translate_startup_issues ::
  "(pyfloat \<Rightarrow> string) \<Rightarrow> catalog \<Rightarrow> ('w \<Rightarrow> pyval list option \<times> 'w) option \<Rightarrow> (string, string) dict \<Rightarrow> app_config \<Rightarrow>
     'w \<Rightarrow> startup_issue list \<times> 'w" where
  "translate_startup_issues fmt cat installed env app w =
     (case dict_get (app_profiles app) (app_active_profile app) of
        None \<Rightarrow> ([missing_profile_issue (app_active_profile app)], w)
      | Some p \<Rightarrow> (case local_issues installed p w of (locals, w) \<Rightarrow>
          (map invalid_issue (va_errors (validate_profile fmt cat None env False p)) @ locals @ expert_issues env p, w)))"

section \<open>Facts\<close>

text \<open>The hardware only ever adds warnings.\<close>

lemma check_metadata_errors [simp]: "va_errors (check_metadata fmt hw m) = []"
  by (simp add: check_metadata_def va_all_def warning_def split: option.split)

lemma check_tier_hardware:
  "va_errors (check_tier fmt cat hw env req lb t) = va_errors (check_tier fmt cat hw' env req lb t)"
  by (simp add: check_tier_def va_all_def split: option.split)

lemma validate_hardware:
  "va_errors (validate_profile fmt cat hw env req p) = va_errors (validate_profile fmt cat hw' env req p)"
  using check_tier_hardware [of fmt cat hw env req _ _ hw'] by (simp add: validate_profile_def va_all_def)

lemma va_ok_hardware: "va_ok (validate_profile fmt cat hw env req p) \<longleftrightarrow> va_ok (validate_profile fmt cat hw' env req p)"
  using validate_hardware [of fmt cat hw env req p hw'] by (simp add: va_ok_def)

lemma required_warnings: "filter (\<lambda>c. \<not> ck_optional c) (map (\<lambda>m. row ''warning'' True m True) ms) = []"
  by (simp add: row_def)

text \<open>The rows about the local model never fail a report, those about the graphics card do without one.\<close>

lemma local_rows_pass: "list_all ck_ok (filter (\<lambda>c. \<not> ck_optional c) (fst (local_rows pb p w)))"
  by (simp add: local_rows_def row_def Let_def split: option.split prod.split)

lemma gpu_rows_pass:
  "list_all ck_ok (filter (\<lambda>c. \<not> ck_optional c) (gpu_rows fmt hw)) \<longleftrightarrow>
   (case hw of None \<Rightarrow> True | Some h \<Rightarrow> has_gpu h)"
  by (simp add: gpu_rows_def row_def split: option.split)

lemma expert_rows_pass:
  "list_all ck_ok (filter (\<lambda>c. \<not> ck_optional c) (fst (expert_rows pb env live p w))) \<longleftrightarrow>
   (case reachable_expert p of None \<Rightarrow> True | Some t \<Rightarrow> live \<longrightarrow> fst (fst (pb_live pb t w)))"
  by (simp add: expert_rows_def row_def Let_def split: option.split prod.split)

lemmas rows_pass = local_rows_pass gpu_rows_pass expert_rows_pass

text \<open>What a healthy report means.\<close>

definition healthy ::
  "(pyfloat \<Rightarrow> string) \<Rightarrow> catalog \<Rightarrow> 'w probes \<Rightarrow> (string, string) dict \<Rightarrow> bool \<Rightarrow> app_config \<Rightarrow> profile \<Rightarrow> 'w \<Rightarrow> bool" where
  "healthy fmt cat pb env live app p w \<longleftrightarrow>
     va_ok (validate_profile fmt cat None env False p) \<and>
     (case effective_hardware app p of None \<Rightarrow> True | Some h \<Rightarrow> has_gpu h) \<and>
     (case reachable_expert p of None \<Rightarrow> True
      | Some t \<Rightarrow> live \<longrightarrow> fst (fst (pb_live pb t (snd (local_rows pb p w))))) \<and>
     ac_major (cp_approval p) \<and> ac_critical (cp_approval p)"

lemma report_of_missing:
  "dict_get (app_profiles app) (app_active_profile app) = None \<Longrightarrow>
   \<not> dr_ok (fst (build_doctor_report fmt cat pb env live path app w))"
  by (simp add: build_doctor_report_def finish_report_def row_def)

lemma report_of_profile:
  assumes "dict_get (app_profiles app) (app_active_profile app) = Some p"
  shows "dr_ok (fst (build_doctor_report fmt cat pb env live path app w)) \<longleftrightarrow> healthy fmt cat pb env live app p w"
proof -
  obtain ls w1 where l: "local_rows pb p w = (ls, w1)" by (cases "local_rows pb p w")
  then have s: "snd (local_rows pb p w) = w1" by simp
  obtain es w2 where e: "expert_rows pb env live p w1 = (es, w2)" by (cases "expert_rows pb env live p w1")
  have "list_all ck_ok (filter (\<lambda>c. \<not> ck_optional c) ls)"
    and "list_all ck_ok (filter (\<lambda>c. \<not> ck_optional c) es) \<longleftrightarrow>
      (case reachable_expert p of None \<Rightarrow> True | Some t \<Rightarrow> live \<longrightarrow> fst (fst (pb_live pb t w1)))"
    using local_rows_pass [of pb p w] expert_rows_pass [of pb env live p w1] l e by simp_all
  then show ?thesis unfolding healthy_def s
    using va_ok_hardware [of fmt cat "effective_hardware app p" env False p None]
    by (auto simp: build_doctor_report_def Let_def assms l e finish_report_def gpu_rows_pass
        required_warnings row_def)
qed

lemma report_world:
  "snd (build_doctor_report fmt cat pb env False path app w) =
   (case dict_get (app_profiles app) (app_active_profile app) of None \<Rightarrow> w | Some p \<Rightarrow> snd (local_rows pb p w))"
  by (simp add: build_doctor_report_def expert_rows_def Let_def split: option.split prod.split)

text \<open>An issue of severity error is one of the configuration.\<close>

lemma local_issues_warn: "i \<in> set (fst (local_issues installed p w)) \<Longrightarrow> is_severity i = ''warning'' \<and> is_options i \<noteq> []"
  by (auto simp: local_issues_def unreachable_issue_def model_missing_issue_def split: option.splits prod.splits if_splits)

lemma expert_issues_warn: "i \<in> set (expert_issues env p) \<Longrightarrow> is_severity i = ''warning'' \<and> is_options i \<noteq> []"
  by (auto simp: expert_issues_def missing_key_issue_def split: option.splits if_splits)

lemma issues_of_profile:
  assumes "dict_get (app_profiles app) (app_active_profile app) = Some p"
  shows "(\<exists>i\<in>set (fst (translate_startup_issues fmt cat installed env app w)). is_severity i = ''error'') \<longleftrightarrow>
    \<not> va_ok (validate_profile fmt cat None env False p)"
proof -
  obtain ls w1 where l: "local_issues installed p w = (ls, w1)" by (cases "local_issues installed p w")
  then have "i \<in> set ls \<Longrightarrow> is_severity i = ''warning''" for i using local_issues_warn [of i installed p w] by simp
  then show ?thesis
    using expert_issues_warn [of _ env p]
    by (cases "va_errors (validate_profile fmt cat None env False p)")
      (auto simp: translate_startup_issues_def assms l va_ok_def invalid_issue_def)
qed

end
