(* ===== verification/Desktop.thy ===== *)
theory Desktop
  imports Doctor Resolve
begin

text \<open>
  The service behind the desktop application (\<^verbatim>\<open>desktop/service.py\<close>).  Tasks run on one event
  loop; the handlers of the web server call the service from threads of their own.  Every
  atomic stretch of either is an operation here, and \<open>desk_step\<close> lets them interleave.

  The run of the sifter is an argument: a tree of what it reports, where it awaits, what it
  asks, and how it ends.  An answer to a question is a future, which has a number; the
  callbacks that set one wait in the loop's queue.  \<open>fu_task\<close>, \<open>fu_question\<close> and \<open>ds_answers\<close>
  are ghosts: they record for which task and question a future was made, and which answers
  were accepted; no operation reads them.  Clock values are arguments.
\<close>

section \<open>A run, seen from the service\<close>

datatype run_tree =
    Report string fields run_tree
  | Await run_tree
  | Ask approval_request "human_decision \<Rightarrow> run_tree"
  | Return sifter_result
  | Fail string

text \<open>Where the coroutine of a task stands.\<close>

datatype code =
    Unscheduled
  | Scheduled run_tree
  | Active run_tree
  | Suspended nat "human_decision \<Rightarrow> run_tree"
  | Closing
  | Ended
  | Lost

section \<open>Tasks\<close>

datatype event_data =
    Fields fields
  | Question approval_request

record desk_event =
  dv_event :: string
  dv_task_id :: string
  dv_ts :: pyfloat
  dv_data :: event_data

datatype future_state = NoFuture | Pending | Cancelled | Resolved

record task_record =
  dt_id :: string
  dt_prompt :: string
  dt_context :: "string option"
  dt_policy :: "string option"
  dt_execution_mode :: string
  dt_status :: string
  dt_created_at :: pyfloat
  dt_started_at :: "pyfloat option"
  dt_finished_at :: "pyfloat option"
  dt_route :: "string option"
  dt_decision_level :: "decision_level option"
  dt_result :: "sifter_result option"
  dt_error :: "string option"
  dt_usage :: "usage option"
  dt_events :: "desk_event list"
  dt_approval_request :: "approval_request option"
  dt_subscribers :: "(nat \<times> desk_event list) list"
  dt_transit :: "(nat \<times> desk_event) list"
  dt_future :: future_state
  dt_approval_future :: "nat option"
  dt_code :: code

definition TERMINAL_STATUSES :: "string list" where
  "TERMINAL_STATUSES = [''completed'', ''failed'', ''cancelled'', ''stopped'', ''error'']"

definition terminal :: "task_record \<Rightarrow> bool" where
  "terminal tk \<longleftrightarrow> dt_status tk \<in> set TERMINAL_STATUSES"

text \<open>
  \<^verbatim>\<open>emit\<close> keeps the event and takes the list of the subscribers under the lock of the task; it
  puts the event into their queues after the lock is released.  \<open>dt_transit\<close> holds the puts that
  are still to be made, and \<open>deliver\<close> makes one of them.  The coroutine makes the puts of one
  event before it emits the next, so its events reach a queue in order; a cancellation is
  announced by a thread of its own, whose puts come when they come.
\<close>

definition emit :: "pyfloat \<Rightarrow> string \<Rightarrow> event_data \<Rightarrow> task_record \<Rightarrow> task_record" where
  "emit now ev data tk =
     (let payload = \<lparr>dv_event = ev, dv_task_id = dt_id tk, dv_ts = now, dv_data = data\<rparr>
      in tk\<lparr>dt_events := dt_events tk @ [payload],
            dt_transit := dt_transit tk @ map (\<lambda>q. (fst q, payload)) (dt_subscribers tk)\<rparr>)"

definition cancel_notice :: "desk_event \<Rightarrow> bool" where
  "cancel_notice e \<longleftrightarrow> dv_event e = ''status'' \<and>
     (case dv_data e of Fields fs \<Rightarrow> fs = [(''status'', PStr ''cancelling'')] | Question r \<Rightarrow> False)"

definition may_deliver :: "nat \<Rightarrow> task_record \<Rightarrow> bool" where
  "may_deliver k tk \<longleftrightarrow> k < length (dt_transit tk) \<and>
     (case dt_transit tk ! k of (q, e) \<Rightarrow>
       cancel_notice e \<or> list_all (\<lambda>x. fst x = q \<longrightarrow> cancel_notice (snd x)) (take k (dt_transit tk)))"

definition deliver :: "nat \<Rightarrow> task_record \<Rightarrow> task_record" where
  "deliver k tk = (case dt_transit tk ! k of (q, e) \<Rightarrow>
     tk\<lparr>dt_transit := take k (dt_transit tk) @ drop (Suc k) (dt_transit tk),
        dt_subscribers := map (\<lambda>x. if fst x = q then (q, snd x @ [e]) else x) (dt_subscribers tk)\<rparr>)"

definition emit_status :: "pyfloat \<Rightarrow> string \<Rightarrow> task_record \<Rightarrow> task_record" where
  "emit_status now st = emit now ''status'' (Fields [(''status'', PStr st)])"

definition subscribe :: "nat \<Rightarrow> task_record \<Rightarrow> task_record" where
  "subscribe q tk = tk\<lparr>dt_subscribers := dt_subscribers tk @ [(q, [])]\<rparr>"

definition unsubscribe :: "nat \<Rightarrow> task_record \<Rightarrow> task_record" where
  "unsubscribe q tk = tk\<lparr>dt_subscribers := filter (\<lambda>e. fst e \<noteq> q) (dt_subscribers tk)\<rparr>"

text \<open>A queue, and what its reader leaves in it.\<close>

definition queue_of :: "nat \<Rightarrow> task_record \<Rightarrow> desk_event list" where
  "queue_of q tk = (case dict_get (dt_subscribers tk) q of None \<Rightarrow> [] | Some es \<Rightarrow> es)"

definition pop_queue :: "nat \<Rightarrow> task_record \<Rightarrow> task_record" where
  "pop_queue q tk = tk\<lparr>dt_subscribers := map (\<lambda>e. if fst e = q then (q, tl (snd e)) else e) (dt_subscribers tk)\<rparr>"

record task_summary =
  ts_id :: string
  ts_prompt :: string
  ts_status :: string
  ts_execution_mode :: string
  ts_created_at :: pyfloat
  ts_started_at :: "pyfloat option"
  ts_finished_at :: "pyfloat option"
  ts_route :: "string option"
  ts_decision_level :: "decision_level option"
  ts_usage :: "usage option"
  ts_error :: "string option"
  ts_approval_request :: "approval_request option"
  ts_result :: "sifter_result option"

definition summary_of :: "task_record \<Rightarrow> task_summary" where
  "summary_of tk = \<lparr>ts_id = dt_id tk, ts_prompt = dt_prompt tk, ts_status = dt_status tk,
     ts_execution_mode = dt_execution_mode tk, ts_created_at = dt_created_at tk,
     ts_started_at = dt_started_at tk, ts_finished_at = dt_finished_at tk, ts_route = dt_route tk,
     ts_decision_level = dt_decision_level tk, ts_usage = dt_usage tk, ts_error = dt_error tk,
     ts_approval_request = dt_approval_request tk, ts_result = dt_result tk\<rparr>"

section \<open>The service\<close>

datatype answer_state = Unanswered | Answered human_decision | Abandoned

record answer_future =
  fu_task :: string
  fu_question :: approval_request
  fu_state :: answer_state

record desktop =
  ds_app :: app_config
  ds_profile_name :: string
  ds_config :: config
  ds_sifter_config :: config
  ds_tasks :: "(string, task_record) dict"
  ds_loop :: bool
  ds_futures :: "answer_future list"
  ds_callbacks :: "(nat \<times> human_decision) list"
  ds_status_cache :: "(pyfloat \<times> (string \<times> string)) option"
  ds_answers :: "(string \<times> approval_request \<times> human_decision) list"

definition start_service :: "config \<Rightarrow> app_config \<Rightarrow> string option \<Rightarrow> desktop" where
  "start_service c app profile_name = \<lparr>ds_app = app, ds_profile_name = or_text_of profile_name (app_active_profile app),
     ds_config = c, ds_sifter_config = c, ds_tasks = [], ds_loop = True, ds_futures = [], ds_callbacks = [],
     ds_status_cache = None, ds_answers = []\<rparr>"

definition put_task :: "task_record \<Rightarrow> desktop \<Rightarrow> desktop" where
  "put_task tk s = s\<lparr>ds_tasks := dict_set (dt_id tk) tk (ds_tasks s)\<rparr>"

definition get_task :: "desktop \<Rightarrow> string \<Rightarrow> task_record option" where
  "get_task s i = dict_get (ds_tasks s) i"

definition policy_for_mode :: "string \<Rightarrow> string option \<Rightarrow> string option" where
  "policy_for_mode mode policy =
     (if is_given policy then policy
      else if mode = ''local_only'' then Some ''local_only''
      else if mode = ''expert_only'' then Some ''expert_first''
      else None)"

definition new_record ::
  "pyfloat \<Rightarrow> string \<Rightarrow> string \<Rightarrow> string option \<Rightarrow> string option \<Rightarrow> string \<Rightarrow> task_record" where
  "new_record now i prompt ctx policy mode = \<lparr>dt_id = i, dt_prompt = prompt, dt_context = ctx,
     dt_policy = policy_for_mode mode policy, dt_execution_mode = mode, dt_status = ''queued'',
     dt_created_at = now, dt_started_at = None, dt_finished_at = None, dt_route = None,
     dt_decision_level = None, dt_result = None, dt_error = None, dt_usage = None, dt_events = [],
     dt_approval_request = None, dt_subscribers = [], dt_transit = [], dt_future = NoFuture, dt_approval_future = None,
     dt_code = Unscheduled\<rparr>"

text \<open>The record is kept before the loop is looked at; \<open>sift\<close> gives the run of a task.\<close>

definition submit ::
  "(task_record \<Rightarrow> run_tree) \<Rightarrow> pyfloat \<Rightarrow> string \<Rightarrow> string \<Rightarrow> string option \<Rightarrow> string option \<Rightarrow> string \<Rightarrow> desktop \<Rightarrow>
     task_record result \<times> desktop" where
  "submit sift now i prompt ctx policy mode s =
     (let tk = new_record now i prompt ctx policy mode
      in if \<not> ds_loop s then (Inl (AssertionFailed []), put_task tk s)
         else (let tk = tk\<lparr>dt_future := Pending, dt_code := Scheduled (sift tk)\<rparr>
               in (Inr tk, put_task tk s)))"

definition list_tasks :: "desktop \<Rightarrow> task_summary list" where
  "list_tasks s = map summary_of (sort_key (\<lambda>tk. - dt_created_at tk) (map snd (ds_tasks s)))"

text \<open>\<^verbatim>\<open>Future.cancel\<close> of the task's future.\<close>

definition cancel_future :: "task_record \<Rightarrow> bool \<times> task_record" where
  "cancel_future tk = (case dt_future tk of
     NoFuture \<Rightarrow> (False, tk) | Resolved \<Rightarrow> (False, tk) | _ \<Rightarrow> (True, tk\<lparr>dt_future := Cancelled\<rparr>))"

definition cancel_task :: "pyfloat \<Rightarrow> string \<Rightarrow> desktop \<Rightarrow> bool \<times> desktop" where
  "cancel_task now i s = (case get_task s i of
     None \<Rightarrow> (False, s)
   | Some tk \<Rightarrow>
      if terminal tk \<or> dt_future tk = NoFuture then (False, s)
      else (case cancel_future (emit_status now ''cancelling'' tk) of (b, tk) \<Rightarrow> (b, put_task tk s)))"

fun action_of :: "string \<Rightarrow> approval_action list \<Rightarrow> approval_action option" where
  "action_of v [] = None"
| "action_of v (a # as) = (if action_value a = v then Some a else action_of v as)"

definition ACTIONS :: "approval_action list" where
  "ACTIONS = [APPROVE, REJECT, MODIFY, CHOOSE_OPTION, MORE_LOCAL_ANALYSIS, ALLOW_EXPERT_ANALYSIS, CONTINUE_CURRENT, STOP]"

definition resolve_approval ::
  "string \<Rightarrow> string \<Rightarrow> string list option \<Rightarrow> string list option \<Rightarrow> string \<Rightarrow> desktop \<Rightarrow> bool \<times> desktop" where
  "resolve_approval i action selected constraints note s =
     (case get_task s i of
        None \<Rightarrow> (False, s)
      | Some tk \<Rightarrow> (case dt_approval_future tk of
          None \<Rightarrow> (False, s)
        | Some n \<Rightarrow>
           if \<not> ds_loop s then (False, s)
           else (case action_of action ACTIONS of
              None \<Rightarrow> (False, s)
            | Some a \<Rightarrow>
               (let d = \<lparr>hd_action = a, hd_selected_options = (case selected of None \<Rightarrow> [] | Some xs \<Rightarrow> xs),
                    hd_constraints = (case constraints of None \<Rightarrow> [] | Some xs \<Rightarrow> xs), hd_note = note\<rparr>
                in (True, s\<lparr>ds_callbacks := ds_callbacks s @ [(n, d)],
                     ds_answers := ds_answers s @ [(i, the (dt_approval_request tk), d)]\<rparr>)))))"

text \<open>\<^verbatim>\<open>_set_future\<close>, and the callback at the head of the loop's queue.\<close>

definition set_future :: "nat \<Rightarrow> human_decision \<Rightarrow> answer_future list \<Rightarrow> answer_future list" where
  "set_future n d fs =
     (if n < length fs \<and> fu_state (fs ! n) = Unanswered then fs[n := (fs ! n)\<lparr>fu_state := Answered d\<rparr>] else fs)"

fun run_callback :: "desktop \<Rightarrow> desktop" where
  "run_callback s = (case ds_callbacks s of
     [] \<Rightarrow> s
   | (n, d) # cs \<Rightarrow> s\<lparr>ds_callbacks := cs, ds_futures := set_future n d (ds_futures s)\<rparr>)"

text \<open>\<^verbatim>\<open>ApprovalRouter.request\<close> outside a task.\<close>

definition unrouted_decision :: human_decision where
  "unrouted_decision = (decide_with STOP)\<lparr>hd_note := ''no active desktop task''\<rparr>"

text \<open>
  \<^verbatim>\<open>close\<close>: first every task that is still under way is cancelled, then the loop is told to
  stop.  The loop may run what it likes between the two, which is why they are steps of their
  own below; a coroutine that has not ended by then never runs again, since \<^verbatim>\<open>start\<close> makes a
  new loop that knows nothing of it.
\<close>

definition cancel_pending :: "desktop \<Rightarrow> desktop" where
  "cancel_pending s = s\<lparr>ds_tasks :=
     map (\<lambda>e. (fst e, if terminal (snd e) then snd e else snd (cancel_future (snd e)))) (ds_tasks s)\<rparr>"

definition lose :: "task_record \<Rightarrow> task_record" where
  "lose tk = tk\<lparr>dt_code := (if dt_code tk \<in> {Unscheduled, Ended} then dt_code tk else Lost)\<rparr>"

definition stop_loop :: "desktop \<Rightarrow> desktop" where
  "stop_loop s = s\<lparr>ds_tasks := map (\<lambda>e. (fst e, lose (snd e))) (ds_tasks s), ds_callbacks := [], ds_loop := False\<rparr>"

definition close_service :: "desktop \<Rightarrow> desktop" where
  "close_service s = (if \<not> ds_loop s then s else stop_loop (cancel_pending s))"

definition restart_loop :: "desktop \<Rightarrow> desktop" where
  "restart_loop s = s\<lparr>ds_loop := True\<rparr>"

section \<open>The coroutine of a task\<close>

text \<open>\<^verbatim>\<open>_execute\<close> up to the run.\<close>

definition begin_run :: "pyfloat \<Rightarrow> run_tree \<Rightarrow> task_record \<Rightarrow> task_record" where
  "begin_run now t tk = emit_status now ''running''
     (tk\<lparr>dt_status := ''running'', dt_started_at := Some now, dt_code := Active t\<rparr>)"

definition report :: "pyfloat \<Rightarrow> string \<Rightarrow> fields \<Rightarrow> run_tree \<Rightarrow> task_record \<Rightarrow> task_record" where
  "report now ev fs t tk = (emit now ev (Fields fs) tk)\<lparr>dt_code := Active t\<rparr>"

text \<open>\<^verbatim>\<open>_await_approval\<close> before and after its wait.\<close>

definition suspend ::
  "pyfloat \<Rightarrow> approval_request \<Rightarrow> (human_decision \<Rightarrow> run_tree) \<Rightarrow> nat \<Rightarrow> task_record \<Rightarrow> task_record" where
  "suspend now r k n tk =
     (emit now ''approval_required'' (Question r) (tk\<lparr>dt_approval_request := Some r, dt_status := ''waiting_approval''\<rparr>))
       \<lparr>dt_approval_future := Some n, dt_code := Suspended n k\<rparr>"

definition leave_approval :: "pyfloat \<Rightarrow> task_record \<Rightarrow> task_record" where
  "leave_approval now tk =
     (let tk = tk\<lparr>dt_approval_future := None, dt_approval_request := None\<rparr>
      in if terminal tk then tk else emit_status now ''running'' (tk\<lparr>dt_status := ''running''\<rparr>))"

definition resume :: "pyfloat \<Rightarrow> run_tree \<Rightarrow> task_record \<Rightarrow> task_record" where
  "resume now t tk = (leave_approval now tk)\<lparr>dt_code := Active t\<rparr>"

text \<open>The three ways a run ends: a result, a cancellation, an exception; and the \<^verbatim>\<open>finally\<close>.\<close>

definition returned :: "pyfloat \<Rightarrow> sifter_result \<Rightarrow> task_record \<Rightarrow> task_record" where
  "returned now r tk = (emit now ''result''
     (Fields [(''status'', PStr (sr_status r)), (''route'', PStr (sr_route r))])
     (tk\<lparr>dt_result := Some r, dt_route := Some (sr_route r), dt_decision_level := Some (sr_decision_level r),
         dt_usage := Some (sr_usage r), dt_status := sr_status r\<rparr>))\<lparr>dt_code := Closing\<rparr>"

definition cancelled :: "pyfloat \<Rightarrow> task_record \<Rightarrow> task_record" where
  "cancelled now tk = (emit_status now ''cancelled'' (tk\<lparr>dt_status := ''cancelled''\<rparr>))\<lparr>dt_code := Closing\<rparr>"

definition failed_with :: "pyfloat \<Rightarrow> string \<Rightarrow> task_record \<Rightarrow> task_record" where
  "failed_with now msg tk = (emit now ''error'' (Fields [(''message'', PStr msg)])
     (tk\<lparr>dt_status := ''failed'', dt_error := Some msg\<rparr>))\<lparr>dt_code := Closing\<rparr>"

definition close_run :: "pyfloat \<Rightarrow> task_record \<Rightarrow> task_record" where
  "close_run now tk = (emit now ''done'' (Fields [(''status'', PStr (dt_status tk))])
     (tk\<lparr>dt_finished_at := Some now\<rparr>))
     \<lparr>dt_code := Ended, dt_future := (if dt_future tk = Pending then Resolved else dt_future tk)\<rparr>"

section \<open>Steps\<close>

text \<open>A question makes a future of its own.\<close>

definition ask_step :: "pyfloat \<Rightarrow> approval_request \<Rightarrow> (human_decision \<Rightarrow> run_tree) \<Rightarrow> task_record \<Rightarrow> desktop \<Rightarrow> desktop" where
  "ask_step now r k tk s = put_task (suspend now r k (length (ds_futures s)) tk)
     (s\<lparr>ds_futures := ds_futures s @ [\<lparr>fu_task = dt_id tk, fu_question = r, fu_state = Unanswered\<rparr>]\<rparr>)"

definition abandon :: "nat \<Rightarrow> answer_future list \<Rightarrow> answer_future list" where
  "abandon n fs = (if n < length fs \<and> fu_state (fs ! n) = Unanswered
     then fs[n := (fs ! n)\<lparr>fu_state := Abandoned\<rparr>] else fs)"

text \<open>What the event loop does: a callback of its queue, or the next stretch of a coroutine.\<close>

inductive loop_step :: "desktop \<Rightarrow> desktop \<Rightarrow> bool" where
  callback: "ds_loop s \<Longrightarrow> loop_step s (run_callback s)"
| beginning: "ds_loop s \<Longrightarrow> get_task s i = Some tk \<Longrightarrow> dt_code tk = Scheduled t \<Longrightarrow>
    loop_step s (put_task (begin_run now t tk) s)"
| reporting: "ds_loop s \<Longrightarrow> get_task s i = Some tk \<Longrightarrow> dt_code tk = Active (Report ev fs t) \<Longrightarrow>
    loop_step s (put_task (report now ev fs t tk) s)"
| awaiting: "ds_loop s \<Longrightarrow> get_task s i = Some tk \<Longrightarrow> dt_code tk = Active (Await t) \<Longrightarrow>
    loop_step s (put_task (tk\<lparr>dt_code := Active t\<rparr>) s)"
| asking: "ds_loop s \<Longrightarrow> get_task s i = Some tk \<Longrightarrow> dt_code tk = Active (Ask r k) \<Longrightarrow>
    loop_step s (ask_step now r k tk s)"
| answered: "ds_loop s \<Longrightarrow> get_task s i = Some tk \<Longrightarrow> dt_code tk = Suspended n k \<Longrightarrow> n < length (ds_futures s) \<Longrightarrow>
    fu_state (ds_futures s ! n) = Answered d \<Longrightarrow>
    loop_step s (put_task (resume now (k d) tk) s)"
| interrupted: "ds_loop s \<Longrightarrow> get_task s i = Some tk \<Longrightarrow> dt_future tk = Cancelled \<Longrightarrow>
    dt_code tk = Active (Await t) \<Longrightarrow>
    loop_step s (put_task (cancelled now tk) s)"
| withdrawn: "ds_loop s \<Longrightarrow> get_task s i = Some tk \<Longrightarrow> dt_future tk = Cancelled \<Longrightarrow>
    dt_code tk = Suspended n k \<Longrightarrow>
    loop_step s (put_task (cancelled now (leave_approval now tk)) (s\<lparr>ds_futures := abandon n (ds_futures s)\<rparr>))"
| returning: "ds_loop s \<Longrightarrow> get_task s i = Some tk \<Longrightarrow> dt_code tk = Active (Return r) \<Longrightarrow>
    loop_step s (put_task (returned now r tk) s)"
| failing: "ds_loop s \<Longrightarrow> get_task s i = Some tk \<Longrightarrow> dt_code tk = Active (Fail m) \<Longrightarrow>
    loop_step s (put_task (failed_with now m tk) s)"
| closing: "ds_loop s \<Longrightarrow> get_task s i = Some tk \<Longrightarrow> dt_code tk = Closing \<Longrightarrow>
    loop_step s (put_task (close_run now tk) s)"

text \<open>
  What may happen to the service next.  The threads of the handlers do not stand still for each
  other: a cancellation also comes in pieces, announced after a look at the task that may have
  ended since (\<open>announcing\<close>) and then made (\<open>revoking\<close>), and puts and reads of the queues
  come in between.
\<close>

inductive desk_step :: "(task_record \<Rightarrow> run_tree) \<Rightarrow> desktop \<Rightarrow> desktop \<Rightarrow> bool" for sift where
  submitted: "get_task s i = None \<Longrightarrow> desk_step sift s (snd (submit sift now i prompt ctx policy mode s))"
| cancelling: "desk_step sift s (snd (cancel_task now i s))"
| announcing: "get_task s i = Some tk \<Longrightarrow> dt_future tk \<noteq> NoFuture \<Longrightarrow>
    desk_step sift s (put_task (emit_status now ''cancelling'' tk) s)"
| revoking: "get_task s i = Some tk \<Longrightarrow> desk_step sift s (put_task (snd (cancel_future tk)) s)"
| resolving: "desk_step sift s (snd (resolve_approval i action selected constraints note s))"
| subscribing: "get_task s i = Some tk \<Longrightarrow> desk_step sift s (put_task (subscribe q tk) s)"
| unsubscribing: "get_task s i = Some tk \<Longrightarrow> desk_step sift s (put_task (unsubscribe q tk) s)"
| delivering: "get_task s i = Some tk \<Longrightarrow> may_deliver k tk \<Longrightarrow> desk_step sift s (put_task (deliver k tk) s)"
| reading: "get_task s i = Some tk \<Longrightarrow> desk_step sift s (put_task (pop_queue q tk) s)"
| configuring: "desk_step sift s (s\<lparr>ds_app := app, ds_profile_name := name, ds_config := c, ds_status_cache := cache\<rparr>)"
| cancelling_all: "ds_loop s \<Longrightarrow> desk_step sift s (cancel_pending s)"
| stopping: "ds_loop s \<Longrightarrow> desk_step sift s (stop_loop s)"
| starting: "desk_step sift s (restart_loop s)"
| looping: "loop_step s t \<Longrightarrow> desk_step sift s t"

end
