(* ===== verification/DesktopFacts.thy ===== *)
theory DesktopFacts
  imports Desktop
begin

text \<open>
  Invariants of the desktop service: what the status of a task says of its coroutine, and
  that every answer a run receives was given by a client to that very question.
\<close>

section \<open>Runs that end as the sifter's do\<close>

definition SIFTER_STATUSES :: "string list" where
  "SIFTER_STATUSES = [''completed'', ''failed'', ''stopped'', ''blocked'', ''error'']"

definition LIVE_STATUSES :: "string list" where
  "LIVE_STATUSES = [''queued'', ''running'', ''waiting_approval'']"

primrec proper_run :: "run_tree \<Rightarrow> bool" where
  "proper_run (Report ev fs t) \<longleftrightarrow> ev \<noteq> ''done'' \<and> proper_run t"
| "proper_run (Await t) \<longleftrightarrow> proper_run t"
| "proper_run (Ask r k) \<longleftrightarrow> (\<forall>d. proper_run (k d))"
| "proper_run (Return r) \<longleftrightarrow> sr_status r \<in> set SIFTER_STATUSES"
| "proper_run (Fail m) \<longleftrightarrow> True"

lemma sifter_status_not_live: "st \<in> set SIFTER_STATUSES \<Longrightarrow> st \<notin> set LIVE_STATUSES"
  by (auto simp: SIFTER_STATUSES_def LIVE_STATUSES_def)

lemma live_not_terminal: "dt_status tk \<in> set LIVE_STATUSES \<Longrightarrow> \<not> terminal tk"
  by (auto simp: terminal_def TERMINAL_STATUSES_def LIVE_STATUSES_def)

section \<open>Frames\<close>

lemma emit_frames [simp]:
  "dt_id (emit now ev data tk) = dt_id tk" "dt_status (emit now ev data tk) = dt_status tk"
  "dt_code (emit now ev data tk) = dt_code tk" "dt_future (emit now ev data tk) = dt_future tk"
  "dt_approval_request (emit now ev data tk) = dt_approval_request tk"
  "dt_approval_future (emit now ev data tk) = dt_approval_future tk"
  "dt_finished_at (emit now ev data tk) = dt_finished_at tk"
  "dt_result (emit now ev data tk) = dt_result tk"
  "dt_usage (emit now ev data tk) = dt_usage tk"
  by (simp_all add: emit_def Let_def)

lemma queue_frames [simp]:
  "dt_id (deliver k tk) = dt_id tk" "dt_status (deliver k tk) = dt_status tk" "dt_code (deliver k tk) = dt_code tk"
  "dt_future (deliver k tk) = dt_future tk" "dt_approval_request (deliver k tk) = dt_approval_request tk"
  "dt_approval_future (deliver k tk) = dt_approval_future tk" "dt_finished_at (deliver k tk) = dt_finished_at tk"
  "dt_events (deliver k tk) = dt_events tk"
  "dt_id (pop_queue q tk) = dt_id tk" "dt_status (pop_queue q tk) = dt_status tk" "dt_code (pop_queue q tk) = dt_code tk"
  "dt_future (pop_queue q tk) = dt_future tk" "dt_approval_request (pop_queue q tk) = dt_approval_request tk"
  "dt_approval_future (pop_queue q tk) = dt_approval_future tk" "dt_finished_at (pop_queue q tk) = dt_finished_at tk"
  "dt_events (pop_queue q tk) = dt_events tk"
  by (simp_all add: deliver_def pop_queue_def split: prod.split)

lemma emit_events [simp]:
  "dt_events (emit now ev data tk) = dt_events tk @
     [\<lparr>dv_event = ev, dv_task_id = dt_id tk, dv_ts = now, dv_data = data\<rparr>]"
  by (simp add: emit_def Let_def)

lemma get_put_task [simp]: "get_task (put_task tk s) i = (if i = dt_id tk then Some tk else get_task s i)"
  by (simp add: get_task_def put_task_def)

lemma put_task_frames [simp]:
  "ds_futures (put_task tk s) = ds_futures s" "ds_callbacks (put_task tk s) = ds_callbacks s"
  "ds_answers (put_task tk s) = ds_answers s" "ds_loop (put_task tk s) = ds_loop s"
  "ds_sifter_config (put_task tk s) = ds_sifter_config s" "ds_app (put_task tk s) = ds_app s"
  "ds_config (put_task tk s) = ds_config s"
  by (simp_all add: put_task_def)

lemmas coroutine_defs = begin_run_def report_def suspend_def leave_approval_def resume_def returned_def
  cancelled_def failed_with_def close_run_def emit_status_def

section \<open>The status of a task\<close>

definition named :: "string \<Rightarrow> desk_event \<Rightarrow> bool" where
  "named ev e \<longleftrightarrow> dv_event e = ev"

definition finished_status :: "task_record \<Rightarrow> bool" where
  "finished_status tk \<longleftrightarrow> dt_status tk \<in> set (''cancelled'' # SIFTER_STATUSES)"

definition not_asking :: "task_record \<Rightarrow> bool" where
  "not_asking tk \<longleftrightarrow> dt_approval_request tk = None \<and> dt_approval_future tk = None"

text \<open>What a place in the coroutine says of the record.\<close>

fun place_ok :: "code \<Rightarrow> task_record \<Rightarrow> bool" where
  "place_ok Unscheduled tk \<longleftrightarrow> dt_status tk = ''queued'' \<and> not_asking tk \<and> dt_finished_at tk = None"
| "place_ok (Scheduled t) tk \<longleftrightarrow>
     dt_status tk = ''queued'' \<and> not_asking tk \<and> dt_finished_at tk = None \<and> proper_run t"
| "place_ok (Active t) tk \<longleftrightarrow>
     dt_status tk = ''running'' \<and> not_asking tk \<and> dt_finished_at tk = None \<and> proper_run t"
| "place_ok (Suspended n k) tk \<longleftrightarrow>
     dt_status tk = ''waiting_approval'' \<and> dt_approval_request tk \<noteq> None \<and> dt_approval_future tk = Some n \<and>
     dt_finished_at tk = None \<and> (\<forall>d. proper_run (k d))"
| "place_ok Closing tk \<longleftrightarrow> finished_status tk \<and> not_asking tk \<and> dt_finished_at tk = None"
| "place_ok Ended tk \<longleftrightarrow> finished_status tk \<and> not_asking tk \<and> dt_finished_at tk \<noteq> None"
| "place_ok Lost tk \<longleftrightarrow> dt_finished_at tk = None"

definition future_ok :: "task_record \<Rightarrow> bool" where
  "future_ok tk \<longleftrightarrow> (dt_future tk = NoFuture \<longrightarrow> dt_code tk = Unscheduled) \<and>
     (dt_code tk = Unscheduled \<longrightarrow> dt_future tk = NoFuture) \<and>
     (dt_future tk = Resolved \<longrightarrow> dt_code tk = Ended) \<and>
     (dt_code tk = Ended \<longrightarrow> dt_future tk \<in> {Resolved, Cancelled})"

text \<open>The event that ends a stream is sent once, when the coroutine ends.\<close>

definition done_ok :: "task_record \<Rightarrow> bool" where
  "done_ok tk \<longleftrightarrow> length (filter (named ''done'') (dt_events tk)) = (if dt_code tk = Ended then 1 else 0)"

definition task_ok :: "task_record \<Rightarrow> bool" where
  "task_ok tk \<longleftrightarrow> place_ok (dt_code tk) tk \<and> future_ok tk \<and> done_ok tk"

definition tasks_ok :: "desktop \<Rightarrow> bool" where
  "tasks_ok s \<longleftrightarrow> dict_ok (ds_tasks s) \<and> (\<forall>i tk. get_task s i = Some tk \<longrightarrow> dt_id tk = i \<and> task_ok tk)"

lemmas ok_defs = task_ok_def future_ok_def done_ok_def not_asking_def finished_status_def named_def

lemma begin_ok: "task_ok tk \<Longrightarrow> dt_code tk = Scheduled t \<Longrightarrow> task_ok (begin_run now t tk)"
  by (simp add: ok_defs coroutine_defs)

lemma report_ok: "task_ok tk \<Longrightarrow> dt_code tk = Active (Report ev fs t) \<Longrightarrow> task_ok (report now ev fs t tk)"
  by (simp add: ok_defs coroutine_defs)

lemma await_ok: "task_ok tk \<Longrightarrow> dt_code tk = Active (Await t) \<Longrightarrow> task_ok (tk\<lparr>dt_code := Active t\<rparr>)"
  by (simp add: ok_defs)

lemma suspend_ok: "task_ok tk \<Longrightarrow> dt_code tk = Active (Ask r k) \<Longrightarrow> task_ok (suspend now r k n tk)"
  by (simp add: ok_defs coroutine_defs)

lemma resume_ok: "task_ok tk \<Longrightarrow> dt_code tk = Suspended n k \<Longrightarrow> task_ok (resume now (k d) tk)"
  using live_not_terminal [of tk] by (simp add: ok_defs coroutine_defs Let_def terminal_def LIVE_STATUSES_def)

lemma interrupted_ok: "task_ok tk \<Longrightarrow> dt_code tk = Active (Await t) \<Longrightarrow> task_ok (cancelled now tk)"
  by (simp add: ok_defs coroutine_defs)

lemma withdrawn_ok: "task_ok tk \<Longrightarrow> dt_code tk = Suspended n k \<Longrightarrow> task_ok (cancelled now (leave_approval now tk))"
  by (simp add: ok_defs coroutine_defs Let_def)

lemma returned_ok: "task_ok tk \<Longrightarrow> dt_code tk = Active (Return r) \<Longrightarrow> task_ok (returned now r tk)"
  by (simp add: ok_defs coroutine_defs)

lemma failed_ok: "task_ok tk \<Longrightarrow> dt_code tk = Active (Fail m) \<Longrightarrow> task_ok (failed_with now m tk)"
  by (simp add: ok_defs coroutine_defs SIFTER_STATUSES_def)

lemma close_ok: "task_ok tk \<Longrightarrow> dt_code tk = Closing \<Longrightarrow> task_ok (close_run now tk)"
  by (cases "dt_future tk") (auto simp: ok_defs coroutine_defs)

lemma new_record_ok: "task_ok (new_record now i p c pol m)"
  by (simp add: ok_defs new_record_def)

lemma scheduled_ok: "proper_run t \<Longrightarrow>
    task_ok ((new_record now i p c pol m)\<lparr>dt_future := Pending, dt_code := Scheduled t\<rparr>)"
  by (simp add: ok_defs new_record_def)

lemma subscribe_ok: "task_ok tk \<Longrightarrow> task_ok (subscribe q tk)"
  by (cases "dt_code tk") (simp_all add: ok_defs subscribe_def)

lemma unsubscribe_ok: "task_ok tk \<Longrightarrow> task_ok (unsubscribe q tk)"
  by (cases "dt_code tk") (simp_all add: ok_defs unsubscribe_def)

lemma deliver_ok: "task_ok tk \<Longrightarrow> task_ok (deliver k tk)"
  by (cases "dt_code tk") (simp_all add: ok_defs)

lemma pop_ok: "task_ok tk \<Longrightarrow> task_ok (pop_queue q tk)"
  by (cases "dt_code tk") (simp_all add: ok_defs)

lemma announce_ok: "task_ok tk \<Longrightarrow> task_ok (emit_status now ''cancelling'' tk)"
  by (cases "dt_code tk") (simp_all add: ok_defs emit_status_def)

lemma cancel_future_ok: "task_ok tk \<Longrightarrow> task_ok (snd (cancel_future tk))"
  by (cases "dt_code tk"; cases "dt_future tk") (auto simp: ok_defs cancel_future_def)

lemma lose_ok: "task_ok tk \<Longrightarrow> task_ok (lose tk)"
  by (cases "dt_code tk") (auto simp: ok_defs lose_def)

lemmas step_task_ok = begin_ok report_ok await_ok suspend_ok resume_ok interrupted_ok withdrawn_ok
  returned_ok failed_ok close_ok subscribe_ok unsubscribe_ok deliver_ok pop_ok announce_ok cancel_future_ok

lemma coroutine_id [simp]:
  "dt_id (begin_run now t tk) = dt_id tk" "dt_id (report now ev fs t tk) = dt_id tk"
  "dt_id (suspend now r k n tk) = dt_id tk" "dt_id (leave_approval now tk) = dt_id tk"
  "dt_id (resume now t tk) = dt_id tk" "dt_id (cancelled now tk) = dt_id tk"
  "dt_id (returned now res tk) = dt_id tk" "dt_id (failed_with now m tk) = dt_id tk"
  "dt_id (close_run now tk) = dt_id tk" "dt_id (subscribe q tk) = dt_id tk"
  "dt_id (unsubscribe q tk) = dt_id tk" "dt_id (snd (cancel_future tk)) = dt_id tk"
  "dt_id (lose tk) = dt_id tk" "dt_id (emit_status now st tk) = dt_id tk" "dt_id (new_record now i p c pol m) = i"
  by (simp_all add: coroutine_defs Let_def subscribe_def unsubscribe_def cancel_future_def lose_def
      new_record_def split: future_state.split)

lemma tasks_ok_put: "tasks_ok s \<Longrightarrow> task_ok tk \<Longrightarrow> tasks_ok (put_task tk s)"
  unfolding tasks_ok_def by (auto simp: put_task_def dict.ok_put get_task_def)

lemma tasks_ok_frames [simp]:
  "tasks_ok (s\<lparr>ds_callbacks := cs\<rparr>) \<longleftrightarrow> tasks_ok s" "tasks_ok (s\<lparr>ds_answers := as\<rparr>) \<longleftrightarrow> tasks_ok s"
  "tasks_ok (s\<lparr>ds_futures := fs\<rparr>) \<longleftrightarrow> tasks_ok s" "tasks_ok (s\<lparr>ds_loop := b\<rparr>) \<longleftrightarrow> tasks_ok s"
  "tasks_ok (s\<lparr>ds_app := app\<rparr>) \<longleftrightarrow> tasks_ok s" "tasks_ok (s\<lparr>ds_profile_name := name\<rparr>) \<longleftrightarrow> tasks_ok s"
  "tasks_ok (s\<lparr>ds_config := c\<rparr>) \<longleftrightarrow> tasks_ok s" "tasks_ok (s\<lparr>ds_status_cache := ca\<rparr>) \<longleftrightarrow> tasks_ok s"
  by (simp_all add: tasks_ok_def get_task_def)

lemma tasks_okD: "tasks_ok s \<Longrightarrow> get_task s i = Some tk \<Longrightarrow> task_ok tk \<and> dt_id tk = i"
  by (simp add: tasks_ok_def)

lemma submit_tasks_ok:
  assumes "tasks_ok s" "\<And>tk. proper_run (sift tk)"
  shows "tasks_ok (snd (submit sift now i prompt ctx policy mode s))"
  by (simp add: submit_def Let_def tasks_ok_put assms new_record_ok scheduled_ok)

lemma cancel_tasks_ok: "tasks_ok s \<Longrightarrow> tasks_ok (snd (cancel_task now i s))"
  by (auto simp: cancel_task_def case_prod_unfold split: option.split
      intro!: tasks_ok_put cancel_future_ok announce_ok dest: tasks_okD)

text \<open>Both halves of \<^verbatim>\<open>close\<close> change every record in the same way.\<close>

lemma get_task_map:
  "ds_tasks t = map (\<lambda>e. (fst e, f (snd e))) (ds_tasks s) \<Longrightarrow> get_task t i = map_option f (get_task s i)"
  by (simp add: get_task_def map_of_map [of f, unfolded case_prod_unfold])

lemma tasks_ok_map:
  assumes "tasks_ok s" "ds_tasks t = map (\<lambda>e. (fst e, f (snd e))) (ds_tasks s)"
    "\<And>tk. task_ok tk \<Longrightarrow> task_ok (f tk)" "\<And>tk. dt_id (f tk) = dt_id tk"
  shows "tasks_ok t"
proof -
  have "dict_ok (ds_tasks t)" using assms(1) by (simp add: tasks_ok_def assms(2) dict_ok_def comp_def)
  then show ?thesis
    using assms(1,3,4) get_task_map [OF assms(2)] by (auto simp: tasks_ok_def)
qed

lemma cancel_pending_tasks_ok: "tasks_ok s \<Longrightarrow> tasks_ok (cancel_pending s)"
  by (rule tasks_ok_map [where f = "\<lambda>tk. if terminal tk then tk else snd (cancel_future tk)"])
    (simp_all add: cancel_pending_def cancel_future_ok)

lemma stop_tasks_ok: "tasks_ok s \<Longrightarrow> tasks_ok (stop_loop s)"
  by (rule tasks_ok_map [where f = lose]) (simp_all add: stop_loop_def lose_ok)

lemma loop_step_tasks_ok:
  assumes "loop_step s t" "tasks_ok s"
  shows "tasks_ok t"
  using assms
proof (induction rule: loop_step.induct)
  case (callback s)
  then show ?case by (simp split: list.split)
next
  case (asking s i tk r k now)
  then show ?case unfolding ask_step_def
    by (intro tasks_ok_put) (auto dest: tasks_okD intro: suspend_ok)
next
  case (withdrawn s i tk n k now)
  then show ?case
    by (intro tasks_ok_put) (auto dest: tasks_okD intro: withdrawn_ok)
qed (auto dest: tasks_okD intro!: tasks_ok_put intro: step_task_ok)

lemma desk_step_tasks_ok:
  assumes "\<And>tk. proper_run (sift tk)" "desk_step sift s t" "tasks_ok s"
  shows "tasks_ok t"
  using assms(2,3)
proof (induction rule: desk_step.induct)
  case (submitted s i now prompt ctx policy mode)
  then show ?case by (intro submit_tasks_ok assms(1))
next
  case (cancelling s now i)
  then show ?case by (rule cancel_tasks_ok)
next
  case (cancelling_all s)
  then show ?case by (intro cancel_pending_tasks_ok)
next
  case (stopping s)
  then show ?case by (intro stop_tasks_ok)
next
  case (resolving s i a sel cons nt)
  then show ?case
    by (simp add: resolve_approval_def Let_def split: option.split)
next
  case (starting s)
  then show ?case by (simp add: restart_loop_def)
next
  case (looping s t)
  then show ?case by (rule loop_step_tasks_ok)
qed (auto dest: tasks_okD intro!: tasks_ok_put intro: step_task_ok)

section \<open>Answers\<close>

definition accepted :: "desktop \<Rightarrow> nat \<Rightarrow> human_decision \<Rightarrow> bool" where
  "accepted s n d \<longleftrightarrow> n < length (ds_futures s) \<and>
     (fu_task (ds_futures s ! n), fu_question (ds_futures s ! n), d) \<in> set (ds_answers s)"

definition answers_ok :: "desktop \<Rightarrow> bool" where
  "answers_ok s \<longleftrightarrow>
     (\<forall>n d. (n, d) \<in> set (ds_callbacks s) \<longrightarrow> accepted s n d) \<and>
     (\<forall>n d. n < length (ds_futures s) \<longrightarrow> fu_state (ds_futures s ! n) = Answered d \<longrightarrow> accepted s n d) \<and>
     (\<forall>i tk n. get_task s i = Some tk \<longrightarrow> dt_approval_future tk = Some n \<longrightarrow>
        n < length (ds_futures s) \<and> fu_task (ds_futures s ! n) = i \<and>
        dt_approval_request tk = Some (fu_question (ds_futures s ! n)))"

lemma answers_ok_put:
  assumes "answers_ok s"
    "dt_approval_future tk = None \<or> (\<exists>tk0. get_task s (dt_id tk) = Some tk0 \<and>
       dt_approval_future tk = dt_approval_future tk0 \<and> dt_approval_request tk = dt_approval_request tk0)"
  shows "answers_ok (put_task tk s)"
  using assms unfolding answers_ok_def accepted_def by auto

lemma answers_ok_frames [simp]:
  "answers_ok (s\<lparr>ds_loop := b\<rparr>) \<longleftrightarrow> answers_ok s" "answers_ok (s\<lparr>ds_app := app\<rparr>) \<longleftrightarrow> answers_ok s"
  "answers_ok (s\<lparr>ds_profile_name := name\<rparr>) \<longleftrightarrow> answers_ok s" "answers_ok (s\<lparr>ds_config := c\<rparr>) \<longleftrightarrow> answers_ok s"
  "answers_ok (s\<lparr>ds_status_cache := ca\<rparr>) \<longleftrightarrow> answers_ok s"
  by (simp_all add: answers_ok_def accepted_def get_task_def)

lemma coroutine_asks [simp]:
  "dt_approval_future (begin_run now t tk) = dt_approval_future tk"
  "dt_approval_request (begin_run now t tk) = dt_approval_request tk"
  "dt_approval_future (report now ev fs t tk) = dt_approval_future tk"
  "dt_approval_request (report now ev fs t tk) = dt_approval_request tk"
  "dt_approval_future (returned now res tk) = dt_approval_future tk"
  "dt_approval_request (returned now res tk) = dt_approval_request tk"
  "dt_approval_future (cancelled now tk) = dt_approval_future tk"
  "dt_approval_request (cancelled now tk) = dt_approval_request tk"
  "dt_approval_future (failed_with now m tk) = dt_approval_future tk"
  "dt_approval_request (failed_with now m tk) = dt_approval_request tk"
  "dt_approval_future (close_run now tk) = dt_approval_future tk"
  "dt_approval_request (close_run now tk) = dt_approval_request tk"
  "dt_approval_future (subscribe q tk) = dt_approval_future tk"
  "dt_approval_request (subscribe q tk) = dt_approval_request tk"
  "dt_approval_future (unsubscribe q tk) = dt_approval_future tk"
  "dt_approval_request (unsubscribe q tk) = dt_approval_request tk"
  "dt_approval_future (snd (cancel_future tk)) = dt_approval_future tk"
  "dt_approval_request (snd (cancel_future tk)) = dt_approval_request tk"
  "dt_approval_future (emit_status now st tk) = dt_approval_future tk"
  "dt_approval_request (emit_status now st tk) = dt_approval_request tk"
  "dt_approval_future (lose tk) = dt_approval_future tk"
  "dt_approval_request (lose tk) = dt_approval_request tk"
  "dt_approval_future (leave_approval now tk) = None"
  "dt_approval_future (resume now t tk) = None"
  "dt_approval_future (new_record now i p c pol m) = None"
  by (simp_all add: coroutine_defs Let_def subscribe_def unsubscribe_def cancel_future_def lose_def
      new_record_def split: future_state.split)

lemma desk_idD: "tasks_ok s \<Longrightarrow> get_task s i = Some tk \<Longrightarrow> dt_id tk = i"
  by (simp add: tasks_ok_def)

lemma accepted_grow:
  assumes "accepted s n d" "ds_futures t = ds_futures s" "set (ds_answers s) \<subseteq> set (ds_answers t)"
  shows "accepted t n d"
  using assms by (auto simp: accepted_def)

lemma set_future_frame [simp]:
  "length (set_future n d fs) = length fs" "fu_task (set_future n d fs ! m) = fu_task (fs ! m)"
  "fu_question (set_future n d fs ! m) = fu_question (fs ! m)"
  by (auto simp: set_future_def nth_list_update)

lemma set_future_state:
  "m < length fs \<Longrightarrow> fu_state (set_future n d fs ! m) =
     (if m = n \<and> fu_state (fs ! n) = Unanswered then Answered d else fu_state (fs ! m))"
  by (auto simp: set_future_def nth_list_update)

lemma abandon_frame [simp]:
  "length (abandon n fs) = length fs" "fu_task (abandon n fs ! m) = fu_task (fs ! m)"
  "fu_question (abandon n fs ! m) = fu_question (fs ! m)"
  by (auto simp: abandon_def nth_list_update)

lemma abandon_state [simp]:
  "m < length fs \<Longrightarrow> fu_state (abandon n fs ! m) = Answered d \<longleftrightarrow> fu_state (fs ! m) = Answered d"
  by (auto simp: abandon_def nth_list_update)

lemma submit_answers_ok: "answers_ok s \<Longrightarrow> answers_ok (snd (submit sift now i prompt ctx policy mode s))"
  by (simp add: submit_def Let_def answers_ok_put)

lemma cancel_answers_ok:
  assumes "tasks_ok s" "answers_ok s" shows "answers_ok (snd (cancel_task now i s))"
proof (cases "get_task s i")
  case (Some tk)
  then have i: "dt_id tk = i" using desk_idD [OF assms(1)] by simp
  have "answers_ok (put_task (snd (cancel_future (emit_status now ''cancelling'' tk))) s)"
    by (rule answers_ok_put [OF assms(2)]) (simp add: i Some)
  then show ?thesis by (simp add: cancel_task_def Some assms(2) case_prod_unfold)
qed (simp add: cancel_task_def assms(2))

lemma answers_ok_accept:
  assumes "answers_ok s" "n < length (ds_futures s)"
  shows "answers_ok (s\<lparr>ds_callbacks := ds_callbacks s @ [(n, d)],
    ds_answers := ds_answers s @ [(fu_task (ds_futures s ! n), fu_question (ds_futures s ! n), d)]\<rparr>)"
  (is "answers_ok ?t")
proof -
  have g: "get_task ?t i = get_task s i" for i by (simp add: get_task_def)
  have old: "accepted ?t m e" if "accepted s m e" for m e
    using that by (simp add: accepted_def)
  have new: "accepted ?t n d" using assms(2) by (simp add: accepted_def)
  show ?thesis
    unfolding answers_ok_def g
  proof (intro conjI allI impI)
    fix m e assume "(m, e) \<in> set (ds_callbacks ?t)"
    then have "(m, e) \<in> set (ds_callbacks s) \<or> m = n \<and> e = d" by auto
    with new old assms(1) show "accepted ?t m e" unfolding answers_ok_def by blast
  next
    fix m e assume "m < length (ds_futures ?t)" "fu_state (ds_futures ?t ! m) = Answered e"
    then have "accepted s m e" using assms(1) by (simp add: answers_ok_def)
    then show "accepted ?t m e" by (rule old)
  qed (use assms(1) in \<open>simp_all add: answers_ok_def\<close>)
qed

lemma resolve_cases:
  assumes "answers_ok s"
  obtains "resolve_approval i action sel cons nt s = (False, s)"
  | n d where "n < length (ds_futures s)" "fu_task (ds_futures s ! n) = i"
      "resolve_approval i action sel cons nt s = (True, s\<lparr>ds_callbacks := ds_callbacks s @ [(n, d)],
        ds_answers := ds_answers s @ [(i, fu_question (ds_futures s ! n), d)]\<rparr>)"
proof (cases "get_task s i")
  case (Some tk)
  show ?thesis
  proof (cases "dt_approval_future tk")
    case None
    then show ?thesis using that(1) Some by (simp add: resolve_approval_def)
  next
    case n: (Some n)
    have q: "n < length (ds_futures s)" "fu_task (ds_futures s ! n) = i"
      "dt_approval_request tk = Some (fu_question (ds_futures s ! n))"
      using assms Some n by (simp_all add: answers_ok_def)
    show ?thesis
    proof (cases "ds_loop s \<and> action_of action ACTIONS \<noteq> None")
      case True
      then show ?thesis using that(2) [OF q(1,2)] Some n q(3) by (auto simp: resolve_approval_def Let_def)
    next
      case False
      then show ?thesis using that(1) Some n by (auto simp: resolve_approval_def)
    qed
  qed
qed (use that(1) in \<open>simp add: resolve_approval_def\<close>)

lemma resolve_answers_ok:
  assumes "answers_ok s" shows "answers_ok (snd (resolve_approval i action sel cons nt s))"
  by (rule resolve_cases [OF assms, of i action sel cons nt]) (use assms answers_ok_accept [OF assms] in auto)

lemma callback_answers_ok:
  assumes "answers_ok s" shows "answers_ok (run_callback s)"
proof (cases "ds_callbacks s")
  case (Cons c cs)
  obtain n d where c: "c = (n, d)" by (cases c)
  have "accepted s n d" using assms Cons c by (simp add: answers_ok_def)
  then show ?thesis
    using assms by (auto simp: answers_ok_def accepted_def get_task_def Cons c set_future_state split: if_splits)
qed (simp add: assms)

lemma answers_ok_map:
  assumes "answers_ok s" "ds_tasks t = map (\<lambda>e. (fst e, f (snd e))) (ds_tasks s)"
    "ds_futures t = ds_futures s" "ds_answers t = ds_answers s" "set (ds_callbacks t) \<subseteq> set (ds_callbacks s)"
    "\<And>tk. dt_approval_future (f tk) = dt_approval_future tk"
    "\<And>tk. dt_approval_request (f tk) = dt_approval_request tk"
  shows "answers_ok t"
  using assms(1,3-7) by (auto simp: answers_ok_def accepted_def get_task_map [OF assms(2)])

lemma cancel_pending_answers_ok: "answers_ok s \<Longrightarrow> answers_ok (cancel_pending s)"
  by (rule answers_ok_map [where f = "\<lambda>tk. if terminal tk then tk else snd (cancel_future tk)"])
    (auto simp: cancel_pending_def)

lemma stop_answers_ok: "answers_ok s \<Longrightarrow> answers_ok (stop_loop s)"
  by (rule answers_ok_map [where f = lose]) (auto simp: stop_loop_def)

lemma ask_answers_ok:
  assumes "answers_ok s" shows "answers_ok (ask_step now r k tk s)"
proof -
  have "dt_approval_future (suspend now r k n tk) = Some n" "dt_approval_request (suspend now r k n tk) = Some r"
    "dt_id (suspend now r k n tk) = dt_id tk" for n
    by (simp_all add: suspend_def)
  then show ?thesis
    using assms by (fastforce simp: answers_ok_def accepted_def ask_step_def nth_append get_task_def put_task_def
        less_Suc_eq)
qed

lemma withdraw_answers_ok:
  assumes "answers_ok s"
  shows "answers_ok (put_task (cancelled now (leave_approval now tk)) (s\<lparr>ds_futures := abandon n (ds_futures s)\<rparr>))"
proof (rule answers_ok_put)
  show "answers_ok (s\<lparr>ds_futures := abandon n (ds_futures s)\<rparr>)"
    using assms by (auto simp: answers_ok_def accepted_def get_task_def)
qed simp

lemma loop_step_answers_ok:
  assumes "loop_step s t" "tasks_ok s" "answers_ok s"
  shows "answers_ok t"
  using assms
proof (induction rule: loop_step.induct)
  case (callback s)
  then show ?case by (intro callback_answers_ok)
next
  case (asking s i tk r k now)
  then show ?case by (intro ask_answers_ok)
next
  case (withdrawn s i tk n k now)
  then show ?case by (intro withdraw_answers_ok)
qed (auto intro!: answers_ok_put dest: desk_idD)

lemma desk_step_answers_ok:
  assumes "desk_step sift s t" "tasks_ok s" "answers_ok s"
  shows "answers_ok t"
  using assms
proof (induction rule: desk_step.induct)
  case (submitted s i now prompt ctx policy mode)
  then show ?case by (intro submit_answers_ok)
next
  case (cancelling s now i)
  then show ?case by (intro cancel_answers_ok)
next
  case (resolving s i a sel cons nt)
  then show ?case by (intro resolve_answers_ok)
next
  case (cancelling_all s)
  then show ?case by (intro cancel_pending_answers_ok)
next
  case (stopping s)
  then show ?case by (intro stop_answers_ok)
next
  case (starting s)
  then show ?case by (simp add: restart_loop_def)
next
  case (looping s t)
  then show ?case by (rule loop_step_answers_ok)
qed (auto intro!: answers_ok_put dest: desk_idD)

definition desk_ok :: "desktop \<Rightarrow> bool" where
  "desk_ok s \<longleftrightarrow> tasks_ok s \<and> answers_ok s"

lemma desk_ok_start: "desk_ok (start_service c app name)"
  by (simp add: desk_ok_def start_service_def tasks_ok_def answers_ok_def dict_ok_def get_task_def)

text \<open>The runs of the sifter report what it reports and end as it ends.\<close>

definition proper_sift :: "(task_record \<Rightarrow> run_tree) \<Rightarrow> bool" where
  "proper_sift sift \<longleftrightarrow> (\<forall>tk. proper_run (sift tk))"

interpretation desk: machine "desk_step sift" "\<lambda>s. proper_sift sift \<and> desk_ok s" for sift
  by unfold_locales (auto simp: desk_ok_def proper_sift_def intro: desk_step_tasks_ok desk_step_answers_ok)

abbreviation desk_run :: "(task_record \<Rightarrow> run_tree) \<Rightarrow> desktop \<Rightarrow> desktop \<Rightarrow> bool" where
  "desk_run sift \<equiv> (desk_step sift)\<^sup>*\<^sup>*"

lemma close_service_run: "desk_run sift s (close_service s)"
proof (cases "ds_loop s")
  case True
  then have "desk_step sift s (cancel_pending s)" by (rule cancelling_all)
  moreover have "desk_step sift (cancel_pending s) (stop_loop (cancel_pending s))"
    by (rule stopping) (simp add: cancel_pending_def True)
  ultimately show ?thesis by (simp add: close_service_def True)
qed (simp add: close_service_def)

lemma desk_run_ok: "proper_sift sift \<Longrightarrow> desk_run sift (start_service c app name) s \<Longrightarrow> desk_ok s"
  using desk.steps_inv desk_ok_start by blast

text \<open>Where an accepted answer comes from: a call of \<^verbatim>\<open>resolve_approval\<close> while the question was open.\<close>

definition asks :: "desktop \<Rightarrow> string \<Rightarrow> approval_request \<Rightarrow> bool" where
  "asks s i r \<longleftrightarrow> (\<exists>tk. get_task s i = Some tk \<and> dt_approval_request tk = Some r)"

definition answer_given :: "string \<Rightarrow> string list \<Rightarrow> string list \<Rightarrow> string \<Rightarrow> human_decision \<Rightarrow> bool" where
  "answer_given action sel cons nt d \<longleftrightarrow> action_value (hd_action d) = action \<and> hd_selected_options d = sel \<and>
     hd_constraints d = cons \<and> hd_note d = nt"

lemma action_of_value: "action_of v as = Some a \<Longrightarrow> action_value a = v"
  by (induction as) (auto split: if_splits)

lemma resolve_new_answer:
  assumes "desk_ok s" "x \<in> set (ds_answers (snd (resolve_approval i action sel cons nt s)))"
    "x \<notin> set (ds_answers s)"
  shows "\<exists>r d. x = (i, r, d) \<and> asks s i r \<and> fst (resolve_approval i action sel cons nt s) \<and>
    answer_given action (case sel of None \<Rightarrow> [] | Some xs \<Rightarrow> xs) (case cons of None \<Rightarrow> [] | Some xs \<Rightarrow> xs) nt d"
proof -
  obtain tk n a where t: "get_task s i = Some tk" "dt_approval_future tk = Some n" "ds_loop s"
    "action_of action ACTIONS = Some a"
    using assms(2,3) by (auto simp: resolve_approval_def Let_def split: option.splits if_splits)
  moreover obtain r where "dt_approval_request tk = Some r"
    using assms(1) t(1,2) by (auto simp: desk_ok_def answers_ok_def)
  ultimately show ?thesis
    using assms(2,3) action_of_value [of action ACTIONS a]
    by (auto simp: resolve_approval_def Let_def asks_def answer_given_def)
qed

lemma loop_step_answers: "loop_step s t \<Longrightarrow> ds_answers t = ds_answers s"
  by (induction rule: loop_step.induct) (simp_all add: ask_step_def split: list.split)

lemma step_answers:
  assumes "desk_step sift s t"
  shows "ds_answers t = ds_answers s \<or> (\<exists>i action sel cons nt. t = snd (resolve_approval i action sel cons nt s))"
  using assms
proof (induction rule: desk_step.induct)
  case (resolving s i action sel cons nt)
  then show ?case by blast
next
  case (looping s t)
  then show ?case by (simp add: loop_step_answers)
qed (simp_all add: submit_def Let_def cancel_task_def case_prod_unfold cancel_pending_def stop_loop_def restart_loop_def
    split: option.split)

lemma answers_origin:
  assumes "proper_sift sift" "desk_run sift s0 s" "desk_ok s0" "ds_answers s0 = []" "(i, r, d) \<in> set (ds_answers s)"
  shows "\<exists>t action sel cons nt. desk_run sift s0 t \<and> asks t i r \<and> fst (resolve_approval i action sel cons nt t) \<and>
    answer_given action (case sel of None \<Rightarrow> [] | Some xs \<Rightarrow> xs) (case cons of None \<Rightarrow> [] | Some xs \<Rightarrow> xs) nt d \<and>
    desk_run sift (snd (resolve_approval i action sel cons nt t)) s"
  using assms(2,5)
proof (induction rule: rtranclp_induct)
  case base
  then show ?case using assms(4) by simp
next
  case (step t u)
  show ?case
  proof (cases "(i, r, d) \<in> set (ds_answers t)")
    case True
    then show ?thesis using step.IH step.hyps(2) by (meson rtranclp.rtrancl_into_rtrancl)
  next
    case False
    then obtain j action sel cons nt where u: "u = snd (resolve_approval j action sel cons nt t)"
      using step_answers [OF step.hyps(2)] step.prems by auto
    have "desk_ok t" using desk.steps_inv [OF step.hyps(1)] assms(1,3) by blast
    from resolve_new_answer [OF this, of "(i, r, d)" j action sel cons nt] step.prems False
    show ?thesis using step.hyps(1) unfolding u by blast
  qed
qed

text \<open>An answer that a run is about to get.\<close>

lemma pending_answer:
  assumes "desk_ok s" "get_task s i = Some tk" "dt_code tk = Suspended n k" "fu_state (ds_futures s ! n) = Answered d"
  shows "\<exists>r. dt_approval_request tk = Some r \<and> (i, r, d) \<in> set (ds_answers s)"
proof -
  have t: "task_ok tk" "answers_ok s" using assms(1,2) tasks_okD by (auto simp: desk_ok_def)
  then have "dt_approval_future tk = Some n" using assms(3) by (simp add: task_ok_def)
  then have "n < length (ds_futures s)" "fu_task (ds_futures s ! n) = i"
    "dt_approval_request tk = Some (fu_question (ds_futures s ! n))"
    using t(2) assms(2) by (simp_all add: answers_ok_def)
  moreover have "accepted s n d" using t(2) assms(4) calculation(1) by (simp add: answers_ok_def)
  ultimately show ?thesis by (simp add: accepted_def)
qed

end
