(* ===== verification/DesktopLive.thy ===== *)
theory DesktopLive
  imports DesktopFacts
begin

text \<open>
  No dead ends: whatever has happened, a task that runs can be brought to its end, by the loop
  alone and by answers to what it asks.
\<close>

section \<open>A question can always be answered\<close>

definition waiting_ok :: "desktop \<Rightarrow> bool" where
  "waiting_ok s \<longleftrightarrow> (\<forall>i tk n k. get_task s i = Some tk \<longrightarrow> dt_code tk = Suspended n k \<longrightarrow>
     fu_state (ds_futures s ! n) \<noteq> Abandoned)"

lemma suspended_future:
  assumes "desk_ok s" "get_task s i = Some tk" "dt_code tk = Suspended n k"
  shows "n < length (ds_futures s)" "fu_task (ds_futures s ! n) = i" "dt_approval_future tk = Some n"
    "dt_approval_request tk = Some (fu_question (ds_futures s ! n))"
proof -
  have "task_ok tk" using assms(1,2) by (auto simp: desk_ok_def dest: tasks_okD)
  then have "place_ok (dt_code tk) tk" by (simp only: task_ok_def)
  then show f: "dt_approval_future tk = Some n" using assms(3) by simp
  show "n < length (ds_futures s)" "fu_task (ds_futures s ! n) = i"
    "dt_approval_request tk = Some (fu_question (ds_futures s ! n))"
    using assms(1,2) f by (auto simp: desk_ok_def answers_ok_def)
qed

lemma waiting_ok_put:
  "waiting_ok s \<Longrightarrow> (\<And>n k. dt_code tk = Suspended n k \<Longrightarrow> fu_state (ds_futures s ! n) \<noteq> Abandoned) \<Longrightarrow>
   waiting_ok (put_task tk s)"
  by (auto simp: waiting_ok_def)

lemma waiting_okD:
  "waiting_ok s \<Longrightarrow> get_task s i = Some tk \<Longrightarrow> dt_code tk = Suspended n k \<Longrightarrow> fu_state (ds_futures s ! n) \<noteq> Abandoned"
  by (simp add: waiting_ok_def)

lemma waiting_ok_frames [simp]:
  "waiting_ok (s\<lparr>ds_callbacks := cs\<rparr>) \<longleftrightarrow> waiting_ok s" "waiting_ok (s\<lparr>ds_answers := as\<rparr>) \<longleftrightarrow> waiting_ok s"
  "waiting_ok (s\<lparr>ds_loop := b\<rparr>) \<longleftrightarrow> waiting_ok s" "waiting_ok (s\<lparr>ds_app := app\<rparr>) \<longleftrightarrow> waiting_ok s"
  "waiting_ok (s\<lparr>ds_profile_name := name\<rparr>) \<longleftrightarrow> waiting_ok s" "waiting_ok (s\<lparr>ds_config := c\<rparr>) \<longleftrightarrow> waiting_ok s"
  "waiting_ok (s\<lparr>ds_status_cache := ca\<rparr>) \<longleftrightarrow> waiting_ok s"
  by (simp_all add: waiting_ok_def get_task_def)

lemma coroutine_code [simp]:
  "dt_code (begin_run now t tk) = Active t" "dt_code (report now ev fs t tk) = Active t"
  "dt_code (suspend now r k n tk) = Suspended n k" "dt_code (resume now t tk) = Active t"
  "dt_code (returned now res tk) = Closing" "dt_code (cancelled now tk) = Closing"
  "dt_code (failed_with now m tk) = Closing" "dt_code (close_run now tk) = Ended"
  "dt_code (subscribe q tk) = dt_code tk" "dt_code (unsubscribe q tk) = dt_code tk"
  "dt_code (snd (cancel_future tk)) = dt_code tk" "dt_code (emit_status now st tk) = dt_code tk"
  "dt_code (new_record now i p c pol m) = Unscheduled"
  by (simp_all add: coroutine_defs Let_def subscribe_def unsubscribe_def cancel_future_def
      new_record_def split: future_state.split)

lemma lost_not_suspended [simp]: "dt_code (lose tk) \<noteq> Suspended n k"
  by (cases "dt_code tk") (simp_all add: lose_def)

lemma waiting_submit: "waiting_ok s \<Longrightarrow> waiting_ok (snd (submit sift now i prompt ctx policy mode s))"
  by (auto simp: submit_def Let_def intro!: waiting_ok_put)

lemma waiting_cancel: "waiting_ok s \<Longrightarrow> waiting_ok (snd (cancel_task now i s))"
  by (auto simp: cancel_task_def case_prod_unfold split: option.split intro!: waiting_ok_put dest: waiting_okD)

lemma waiting_resolve: "waiting_ok s \<Longrightarrow> waiting_ok (snd (resolve_approval i action sel cons nt s))"
  by (simp add: resolve_approval_def Let_def split: option.split)

lemma set_future_abandoned: "fu_state (set_future n d fs ! m) = Abandoned \<longleftrightarrow> fu_state (fs ! m) = Abandoned"
  by (cases "m < length fs") (auto simp: set_future_def nth_list_update)

lemma waiting_callback: "waiting_ok s \<Longrightarrow> waiting_ok (run_callback s)"
  by (simp add: waiting_ok_def get_task_def set_future_abandoned split: list.split)

lemma waiting_ok_map:
  assumes "waiting_ok s" "ds_tasks t = map (\<lambda>e. (fst e, f (snd e))) (ds_tasks s)" "ds_futures t = ds_futures s"
    "\<And>tk n k. dt_code (f tk) = Suspended n k \<Longrightarrow> dt_code tk = Suspended n k"
  shows "waiting_ok t"
  unfolding waiting_ok_def
proof (intro allI impI)
  fix i tk n k assume tk: "get_task t i = Some tk" "dt_code tk = Suspended n k"
  then obtain tk0 where "get_task s i = Some tk0" "tk = f tk0" by (auto simp: get_task_map [OF assms(2)])
  with tk(2) show "fu_state (ds_futures t ! n) \<noteq> Abandoned"
    unfolding assms(3) using assms(4) waiting_okD [OF assms(1)] by blast
qed

lemma waiting_cancel_pending: "waiting_ok s \<Longrightarrow> waiting_ok (cancel_pending s)"
  by (rule waiting_ok_map [where f = "\<lambda>tk. if terminal tk then tk else snd (cancel_future tk)"])
    (simp_all add: cancel_pending_def split: if_splits)

lemma waiting_stop: "waiting_ok s \<Longrightarrow> waiting_ok (stop_loop s)"
  by (rule waiting_ok_map [where f = lose]) (simp_all add: stop_loop_def)

lemma waiting_ask:
  assumes "desk_ok s" "waiting_ok s" shows "waiting_ok (ask_step now r k tk s)"
proof -
  have "n < length (ds_futures s)" if "get_task s i = Some tk'" "dt_code tk' = Suspended n k'" for i tk' n k'
    using suspended_future(1) [OF assms(1) that] .
  with assms(2) show ?thesis
    by (fastforce simp: waiting_ok_def ask_step_def nth_append get_task_def put_task_def suspend_def)
qed

lemma waiting_withdraw:
  assumes "desk_ok s" "waiting_ok s" "get_task s i = Some tk" "dt_code tk = Suspended n k"
  shows "waiting_ok (put_task (cancelled now (leave_approval now tk)) (s\<lparr>ds_futures := abandon n (ds_futures s)\<rparr>))"
proof -
  have i: "dt_id tk = i" using assms(1,3) by (simp add: desk_ok_def tasks_ok_def)
  have "dt_code tk' \<noteq> Suspended n k'" if "get_task s j = Some tk'" "j \<noteq> i" for j tk' k'
  proof
    assume "dt_code tk' = Suspended n k'"
    then have "j = i"
      using suspended_future(2) [OF assms(1) that(1)] suspended_future(2) [OF assms(1,3,4)] by auto
    with that(2) show False by simp
  qed
  with assms(2) show ?thesis
    by (auto simp: waiting_ok_def get_task_def put_task_def i abandon_def nth_list_update split: if_splits)
qed

lemma loop_step_waiting_ok:
  assumes "loop_step s t" "desk_ok s" "waiting_ok s"
  shows "waiting_ok t"
  using assms
proof (induction rule: loop_step.induct)
  case (callback s)
  then show ?case by (intro waiting_callback)
next
  case (asking s i tk r k now)
  then show ?case by (intro waiting_ask)
next
  case (withdrawn s i tk n k now)
  then show ?case by (intro waiting_withdraw)
qed (auto intro!: waiting_ok_put dest: waiting_okD)

lemma desk_step_waiting_ok:
  assumes "desk_step sift s t" "desk_ok s" "waiting_ok s"
  shows "waiting_ok t"
  using assms
proof (induction rule: desk_step.induct)
  case (submitted s i now prompt ctx policy mode)
  then show ?case by (intro waiting_submit)
next
  case (cancelling s now i)
  then show ?case by (intro waiting_cancel)
next
  case (resolving s i a sel cons nt)
  then show ?case by (intro waiting_resolve)
next
  case (cancelling_all s)
  then show ?case by (intro waiting_cancel_pending)
next
  case (stopping s)
  then show ?case by (intro waiting_stop)
next
  case (starting s)
  then show ?case by (simp add: restart_loop_def)
next
  case (looping s t)
  then show ?case by (rule loop_step_waiting_ok)
qed (auto intro!: waiting_ok_put dest: waiting_okD)

interpretation desk_live: machine "desk_step sift" "\<lambda>s. proper_sift sift \<and> desk_ok s \<and> waiting_ok s" for sift
  by unfold_locales (use desk.step_inv desk_step_waiting_ok in blast)

lemma waiting_start: "waiting_ok (start_service c app name)"
  by (simp add: waiting_ok_def start_service_def get_task_def)

section \<open>Help for one task\<close>

text \<open>
  The steps a task can count on: those of the loop, and answers to its own questions.  Nobody
  cancels, submits or changes anything else.
\<close>

inductive help_step :: "string \<Rightarrow> desktop \<Rightarrow> desktop \<Rightarrow> bool" for i where
  own: "loop_step s t \<Longrightarrow> help_step i s t"
| answering: "help_step i s (snd (resolve_approval i action selected constraints note s))"

abbreviation help_run :: "string \<Rightarrow> desktop \<Rightarrow> desktop \<Rightarrow> bool" where
  "help_run i \<equiv> (help_step i)\<^sup>*\<^sup>*"

lemma help_is_step: "help_step i s t \<Longrightarrow> desk_step sift s t"
  by (induction rule: help_step.induct) (auto intro: looping resolving)

lemma help_is_run: "help_run i s t \<Longrightarrow> desk_run sift s t"
  by (induction rule: rtranclp_induct) (auto intro: rtranclp.rtrancl_into_rtrancl help_is_step)

definition live_ok :: "desktop \<Rightarrow> bool" where
  "live_ok s \<longleftrightarrow> desk_ok s \<and> waiting_ok s"

lemma live_okD: "live_ok s \<Longrightarrow> get_task s i = Some tk \<Longrightarrow> dt_id tk = i \<and> task_ok tk"
  by (auto simp: live_ok_def desk_ok_def dest: tasks_okD)

lemma loop_step_live: "loop_step s t \<Longrightarrow> live_ok s \<Longrightarrow> live_ok t"
  unfolding live_ok_def desk_ok_def
  using loop_step_tasks_ok loop_step_answers_ok loop_step_waiting_ok [unfolded desk_ok_def] by blast

lemma help_step_live: "help_step i s t \<Longrightarrow> live_ok s \<Longrightarrow> live_ok t"
proof (induction rule: help_step.induct)
  case (answering s action selected constraints nt)
  then show ?case
    by (auto simp: live_ok_def desk_ok_def intro!: resolve_answers_ok waiting_resolve)
      (simp add: resolve_approval_def Let_def split: option.split)
qed (rule loop_step_live)

lemma help_run_live: "help_run i s t \<Longrightarrow> live_ok s \<Longrightarrow> live_ok t"
  by (induction rule: rtranclp_induct) (auto intro: help_step_live)

section \<open>The loop drains its callbacks\<close>

fun drained :: "(nat \<times> human_decision) list \<Rightarrow> desktop \<Rightarrow> desktop" where
  "drained [] s = s"
| "drained (c # cs) s = drained cs (run_callback s)"

lemma run_callback_frames [simp]:
  "ds_tasks (run_callback s) = ds_tasks s" "ds_loop (run_callback s) = ds_loop s"
  "get_task (run_callback s) i = get_task s i" "length (ds_futures (run_callback s)) = length (ds_futures s)"
  by (simp_all add: get_task_def split: list.split)

declare run_callback.simps [simp del]

lemma drain:
  assumes "ds_callbacks s = cs @ [(n, d)]" "ds_loop s" "n < length (ds_futures s)"
    "fu_state (ds_futures s ! n) \<noteq> Abandoned"
  shows "\<exists>t d'. help_run i s t \<and> ds_loop t \<and> ds_tasks t = ds_tasks s \<and> length (ds_futures t) = length (ds_futures s) \<and>
    fu_state (ds_futures t ! n) = Answered d'"
  using assms
proof (induction cs arbitrary: s)
  case Nil
  have "help_step i s (run_callback s)" using Nil.prems(2) by (intro own callback)
  moreover have "\<exists>d'. fu_state (ds_futures (run_callback s) ! n) = Answered d'"
    using Nil.prems by (cases "fu_state (ds_futures s ! n)") (auto simp: run_callback.simps set_future_state)
  ultimately show ?case using Nil.prems(2) by (metis r_into_rtranclp run_callback_frames(1,2,4))
next
  case (Cons c cs)
  have s: "help_step i s (run_callback s)" using Cons.prems(2) by (intro own callback)
  have "fu_state (ds_futures (run_callback s) ! n) \<noteq> Abandoned"
    using Cons.prems by (cases c) (auto simp: run_callback.simps set_future_abandoned)
  moreover have "ds_callbacks (run_callback s) = cs @ [(n, d)]"
    using Cons.prems(1) by (cases c) (simp add: run_callback.simps)
  ultimately obtain t d' where "help_run i (run_callback s) t" "ds_loop t" "ds_tasks t = ds_tasks s"
    "length (ds_futures t) = length (ds_futures s)" "fu_state (ds_futures t ! n) = Answered d'"
    using Cons.IH [of "run_callback s"] Cons.prems(2,3) by auto
  then show ?case using s converse_rtranclp_into_rtranclp [of "help_step i"] by blast
qed

lemma answer_arrives:
  assumes "live_ok s" "ds_loop s" "get_task s i = Some tk" "dt_code tk = Suspended n k"
  shows "\<exists>t d tk'. help_run i s t \<and> ds_loop t \<and> get_task t i = Some tk' \<and> dt_code tk' = Active (k d)"
proof -
  have ok: "desk_ok s" "waiting_ok s" using assms(1) by (simp_all add: live_ok_def)
  note f = suspended_future [OF ok(1) assms(3,4)]
  let ?s = "snd (resolve_approval i ''approve'' None None [] s)"
  have r: "?s = s\<lparr>ds_callbacks := ds_callbacks s @ [(n, decide_with APPROVE)],
      ds_answers := ds_answers s @ [(i, the (dt_approval_request tk), decide_with APPROVE)]\<rparr>"
    by (simp add: resolve_approval_def assms(2,3) f(3) ACTIONS_def decide_with_def Let_def)
  have step: "help_step i s ?s" by (rule answering)
  obtain t d where t: "help_run i ?s t" "ds_loop t" "ds_tasks t = ds_tasks s"
    "length (ds_futures t) = length (ds_futures s)" "fu_state (ds_futures t ! n) = Answered d"
    using drain [of ?s "ds_callbacks s" n "decide_with APPROVE" i] assms(2) f(1) waiting_okD [OF ok(2) assms(3,4)]
    by (auto simp: r)
  have g: "get_task t i = Some tk" using assms(3) by (simp add: get_task_def t(3))
  have i: "dt_id tk = i" using live_okD [OF assms(1,3)] by blast
  have "loop_step t (put_task (resume 0 (k d) tk) t)"
    by (rule answered [OF t(2) g assms(4) _ t(5)]) (simp add: t(4) f(1))
  then have "help_step i t (put_task (resume 0 (k d) tk) t)" by (rule own)
  with step t(1) have "help_run i s (put_task (resume 0 (k d) tk) t)"
    by (meson converse_rtranclp_into_rtranclp rtranclp.rtrancl_into_rtrancl)
  then show ?thesis using t(2) i by (intro exI [of _ "put_task (resume 0 (k d) tk) t"]) auto
qed

section \<open>Every task can end\<close>

text \<open>The end it can reach without a cancellation, with the status of its run.\<close>

definition can_end :: "desktop \<Rightarrow> string \<Rightarrow> string set \<Rightarrow> bool" where
  "can_end s i S \<longleftrightarrow> (\<exists>t tk. help_run i s t \<and> get_task t i = Some tk \<and> dt_code tk = Ended \<and> dt_status tk \<in> S)"

lemma can_end_before: "help_run i s t \<Longrightarrow> can_end t i S \<Longrightarrow> can_end s i S"
  unfolding can_end_def by (meson rtranclp_trans)

lemma can_end_step: "loop_step s t \<Longrightarrow> can_end t i S \<Longrightarrow> can_end s i S"
  by (rule can_end_before [OF r_into_rtranclp]) (rule own)

lemma closing_ends:
  assumes "live_ok s" "ds_loop s" "get_task s i = Some tk" "dt_code tk = Closing" "dt_status tk \<in> S"
  shows "can_end s i S"
proof -
  let ?t = "put_task (close_run 0 tk) s"
  have "dt_id tk = i" using live_okD [OF assms(1,3)] by blast
  moreover have "help_run i s ?t" by (intro r_into_rtranclp own closing [OF assms(2-4)])
  moreover have "dt_status (close_run 0 tk) = dt_status tk" by (simp add: close_run_def)
  ultimately show ?thesis
    unfolding can_end_def using assms(5) by (intro exI [of _ ?t] exI [of _ "close_run 0 tk"]) auto
qed

lemma active_proper: "live_ok s \<Longrightarrow> get_task s i = Some tk \<Longrightarrow> dt_code tk = Active t \<Longrightarrow> proper_run t"
  using live_okD by (fastforce simp: task_ok_def)

lemma active_ends:
  assumes "live_ok s" "ds_loop s" "get_task s i = Some tk" "dt_code tk = Active t"
  shows "can_end s i (set SIFTER_STATUSES)"
  using assms
proof (induction t arbitrary: s tk)
  case (Report ev fs t)
  let ?s = "put_task (report 0 ev fs t tk) s"
  have step: "loop_step s ?s" by (rule reporting [OF Report.prems(2,3,4)])
  have "dt_id tk = i" using live_okD Report.prems(1,3) by blast
  then show ?case
    using loop_step_live [OF step] Report.prems(1,2)
    by (intro can_end_step [OF step] Report.IH [of ?s "report 0 ev fs t tk"]) auto
next
  case (Await t)
  let ?s = "put_task (tk\<lparr>dt_code := Active t\<rparr>) s"
  have step: "loop_step s ?s" by (rule awaiting [OF Await.prems(2,3,4)])
  have "dt_id tk = i" using live_okD Await.prems(1,3) by blast
  then show ?case
    using loop_step_live [OF step] Await.prems(1,2)
    by (intro can_end_step [OF step] Await.IH [of ?s "tk\<lparr>dt_code := Active t\<rparr>"]) auto
next
  case (Ask r k)
  let ?n = "length (ds_futures s)" and ?s = "ask_step 0 r k tk s"
  have step: "loop_step s ?s" by (rule asking [OF Ask.prems(2,3,4)])
  have i: "dt_id tk = i" using live_okD Ask.prems(1,3) by blast
  have ok: "live_ok ?s" by (rule loop_step_live [OF step Ask.prems(1)])
  have "get_task ?s i = Some (suspend 0 r k ?n tk)"
    by (simp add: ask_step_def suspend_def i)
  then obtain t d tk' where t: "help_run i ?s t" "ds_loop t" "get_task t i = Some tk'" "dt_code tk' = Active (k d)"
    using answer_arrives [OF ok, of i _ ?n k] Ask.prems(2) by (auto simp: ask_step_def)
  have "can_end t i (set SIFTER_STATUSES)"
    using t(2-4) by (intro Ask.IH [of "k d" t tk'] help_run_live [OF t(1) ok]) auto
  then show ?case by (intro can_end_step [OF step] can_end_before [OF t(1)])
next
  case (Return r)
  let ?s = "put_task (returned 0 r tk) s"
  have step: "loop_step s ?s" by (rule returning [OF Return.prems(2,3,4)])
  have "dt_id tk = i" using live_okD Return.prems(1,3) by blast
  moreover have "dt_status (returned 0 r tk) \<in> set SIFTER_STATUSES"
    using active_proper [OF Return.prems(1,3,4)] by (simp add: returned_def)
  ultimately show ?case
    using loop_step_live [OF step] Return.prems(1,2)
    by (intro can_end_step [OF step] closing_ends [of ?s i "returned 0 r tk"]) auto
next
  case (Fail m)
  let ?s = "put_task (failed_with 0 m tk) s"
  have step: "loop_step s ?s" by (rule failing [OF Fail.prems(2,3,4)])
  have "dt_id tk = i" using live_okD Fail.prems(1,3) by blast
  moreover have "dt_status (failed_with 0 m tk) \<in> set SIFTER_STATUSES"
    by (simp add: failed_with_def SIFTER_STATUSES_def)
  ultimately show ?case
    using loop_step_live [OF step] Fail.prems(1,2)
    by (intro can_end_step [OF step] closing_ends [of ?s i "failed_with 0 m tk"]) auto
qed

lemma every_task_can_end:
  assumes "live_ok s" "ds_loop s" "get_task s i = Some tk" "dt_code tk \<notin> {Unscheduled, Lost}"
  shows "can_end s i (set SIFTER_STATUSES \<union> ({dt_status tk} \<inter> {''cancelled''}))" (is "can_end s i ?S")
proof -
  have mono: "can_end s i ?S" if "can_end s i (set SIFTER_STATUSES)" for s
    using that by (auto simp: can_end_def)
  show ?thesis
  proof (cases "dt_code tk")
    case (Scheduled t)
    let ?s = "put_task (begin_run 0 t tk) s"
    have step: "loop_step s ?s" by (rule beginning [OF assms(2,3) Scheduled])
    have "dt_id tk = i" using live_okD [OF assms(1,3)] by blast
    then show ?thesis
      using loop_step_live [OF step assms(1)] assms(2)
      by (intro mono can_end_step [OF step] active_ends [of ?s i "begin_run 0 t tk" t]) auto
  next
    case (Active t)
    then show ?thesis using active_ends assms mono by blast
  next
    case (Suspended n k)
    obtain t d tk' where t: "help_run i s t" "ds_loop t" "get_task t i = Some tk'" "dt_code tk' = Active (k d)"
      using answer_arrives [OF assms(1-3) Suspended] by blast
    then show ?thesis
      using active_ends [OF help_run_live [OF t(1) assms(1)] t(2-4)] by (intro mono can_end_before [OF t(1)])
  next
    case Closing
    moreover have "place_ok (dt_code tk) tk" using live_okD [OF assms(1,3)] by (simp add: task_ok_def)
    ultimately show ?thesis
      using assms by (intro closing_ends [of s i tk]) (auto simp: finished_status_def)
  next
    case Ended
    moreover have "place_ok (dt_code tk) tk" using live_okD [OF assms(1,3)] by (simp add: task_ok_def)
    ultimately show ?thesis
      using assms(3) by (auto simp: can_end_def finished_status_def)
  qed (use assms in auto)
qed

end
