(* ===== verification/DesktopConfig.thy ===== *)
theory DesktopConfig
  imports DesktopFacts Store
begin

text \<open>
  The rest of \<^verbatim>\<open>desktop/service.py\<close>: status, models, metrics, and the operations on profiles.
  What the service uses of its machine is a record: the two displays of a float, the catalog,
  the probes, the environment, the detected hardware, and, for a file that is read again after
  it was written, \<^verbatim>\<open>tomllib\<close> and pydantic's decoder.
\<close>

section \<open>The machine\<close>

record 'w host =
  ho_fmt :: "pyfloat \<Rightarrow> string"
  ho_catalog :: catalog
  ho_probes :: "'w probes"
  ho_env :: "(string, string) dict"
  ho_hardware :: hardware_profile
  ho_repr :: "pyfloat \<Rightarrow> string"
  ho_parse :: "string \<Rightarrow> (string, pyval) dict result"
  ho_decode :: "pyval \<Rightarrow> app_config result"

definition active_record :: "desktop \<Rightarrow> profile option" where
  "active_record s = dict_get (app_profiles (ds_app s)) (app_active_profile (ds_app s))"

section \<open>Providers\<close>

definition local_status :: "'w host \<Rightarrow> desktop \<Rightarrow> 'w \<Rightarrow> string \<times> 'w" where
  "local_status ho s w = (case (case active_record s of None \<Rightarrow> None | Some p \<Rightarrow> cp_local p) of
     None \<Rightarrow> (''not_configured'', w)
   | Some t \<Rightarrow>
      if \<not> tc_enabled t then (''not_configured'', w)
      else if tc_provider t \<noteq> ''ollama'' then (''configured'', w)
      else (case pb_installed (ho_probes ho) w of
         (None, w) \<Rightarrow> (''unavailable'', w)
       | (Some names, w) \<Rightarrow> (if PStr (tc_model t) \<in> set names then ''ready'' else ''model_missing'', w)))"

definition expert_status :: "'w host \<Rightarrow> desktop \<Rightarrow> string" where
  "expert_status ho s = (case active_record s of
     None \<Rightarrow> ''not_configured''
   | Some p \<Rightarrow> (case reachable_expert p of
       None \<Rightarrow> ''not_configured''
     | Some t \<Rightarrow> if tc_provider t \<in> {''deepseek'', ''openai-compatible''} \<and> \<not> key_present (ho_env ho) t
         then ''missing_credentials'' else ''configured''))"

text \<open>A status is kept for five seconds.\<close>

definition provider_status :: "'w host \<Rightarrow> pyfloat \<Rightarrow> desktop \<Rightarrow> 'w \<Rightarrow> (string \<times> string) \<times> desktop \<times> 'w" where
  "provider_status ho now s w =
     (case ds_status_cache s of
        Some (at_time, st) \<Rightarrow> if now - at_time < 5 then (st, s, w)
          else (case local_status ho s w of (l, w) \<Rightarrow>
            ((l, expert_status ho s), s\<lparr>ds_status_cache := Some (now, (l, expert_status ho s))\<rparr>, w))
      | None \<Rightarrow> (case local_status ho s w of (l, w) \<Rightarrow>
            ((l, expert_status ho s), s\<lparr>ds_status_cache := Some (now, (l, expert_status ho s))\<rparr>, w)))"

record health_view =
  hv_profile :: string
  hv_local_provider :: string
  hv_expert_provider :: string

definition health :: "'w host \<Rightarrow> pyfloat \<Rightarrow> desktop \<Rightarrow> 'w \<Rightarrow> health_view \<times> desktop \<times> 'w" where
  "health ho now s w = (case provider_status ho now s w of ((l, e), s', w) \<Rightarrow>
     (\<lparr>hv_profile = app_active_profile (ds_app s), hv_local_provider = l, hv_expert_provider = e\<rparr>, s', w))"

definition startup_issues :: "'w host \<Rightarrow> desktop \<Rightarrow> 'w \<Rightarrow> startup_issue list \<times> 'w" where
  "startup_issues ho s w = translate_startup_issues (ho_fmt ho) (ho_catalog ho)
     (Some (pb_installed (ho_probes ho))) (ho_env ho) (ds_app s) w"

section \<open>Models, system, metrics\<close>

record tier_view =
  tv_configured :: "tier_config option"
  tv_status :: string
  tv_metadata :: "model_metadata option"

definition view_tier :: "'w host \<Rightarrow> tier_config option \<Rightarrow> string \<Rightarrow> tier_view" where
  "view_tier ho t st = \<lparr>tv_configured = t, tv_status = st,
     tv_metadata = (case t of None \<Rightarrow> None | Some t \<Rightarrow> catalog_get (ho_catalog ho) (tc_provider t) (tc_model t))\<rparr>"

definition models_view :: "'w host \<Rightarrow> pyfloat \<Rightarrow> desktop \<Rightarrow> 'w \<Rightarrow> (tier_view \<times> tier_view) \<times> desktop \<times> 'w" where
  "models_view ho now s w = (case provider_status ho now s w of ((l, e), s', w) \<Rightarrow>
     ((view_tier ho (case active_record s of None \<Rightarrow> None | Some p \<Rightarrow> cp_local p) l,
       view_tier ho (case active_record s of None \<Rightarrow> None | Some p \<Rightarrow> cp_expert p) e), s', w))"

record system_view =
  sy_name :: "string option"
  sy_hardware :: "hardware_profile option"
  sy_profiles :: "(string, hardware_profile) dict"

definition system_view :: "desktop \<Rightarrow> system_view" where
  "system_view s =
     (let app = ds_app s;
          hw = (case nonempty_text (app_active_hardware app) of None \<Rightarrow> None | Some n \<Rightarrow> dict_get (app_hardware app) n)
      in \<lparr>sy_name = (if hw = None then None else app_active_hardware app), sy_hardware = hw,
          sy_profiles = app_hardware app\<rparr>)"

definition detect_system :: "'w host \<Rightarrow> string option \<Rightarrow> desktop \<Rightarrow> hardware_profile \<times> desktop" where
  "detect_system ho save_as s = (ho_hardware ho, (case nonempty_text save_as of
     None \<Rightarrow> s
   | Some n \<Rightarrow> s\<lparr>ds_app := (ds_app s)\<lparr>app_hardware := dict_set n (ho_hardware ho) (app_hardware (ds_app s)),
                   app_active_hardware := Some n\<rparr>\<rparr>))"

definition service_doctor :: "'w host \<Rightarrow> bool \<Rightarrow> string \<Rightarrow> desktop \<Rightarrow> 'w \<Rightarrow> doctor_report \<times> 'w" where
  "service_doctor ho live path s w =
     build_doctor_report (ho_fmt ho) (ho_catalog ho) (ho_probes ho) (ho_env ho) live path (ds_app s) w"

record metrics_view =
  mv_tasks :: nat
  mv_local_calls :: int
  mv_cloud_calls :: int
  mv_cloud_tokens :: int
  mv_cloud_cost :: pyfloat
  mv_escalations :: int

definition add_metrics :: "metrics_view \<Rightarrow> usage option \<Rightarrow> metrics_view" where
  "add_metrics m u = (case u of None \<Rightarrow> m
   | Some u \<Rightarrow> m\<lparr>mv_local_calls := mv_local_calls m + local_calls u,
       mv_cloud_calls := mv_cloud_calls m + cloud_calls u,
       mv_cloud_tokens := mv_cloud_tokens m + (cloud_input_tokens u + cloud_output_tokens u),
       mv_cloud_cost := rnd (mv_cloud_cost m + cloud_cost u),
       mv_escalations := mv_escalations m + escalations u\<rparr>)"

definition metrics :: "desktop \<Rightarrow> metrics_view" where
  "metrics s = foldl add_metrics
     \<lparr>mv_tasks = length (ds_tasks s), mv_local_calls = 0, mv_cloud_calls = 0, mv_cloud_tokens = 0,
      mv_cloud_cost = 0, mv_escalations = 0\<rparr> (map (\<lambda>e. dt_usage (snd e)) (ds_tasks s))"

section \<open>Profiles\<close>

record profile_view =
  pv_name :: string
  pv_active :: bool
  pv_profile :: profile

definition profile_summary :: "string \<Rightarrow> profile \<Rightarrow> string \<Rightarrow> profile_view" where
  "profile_summary name p active = \<lparr>pv_name = name, pv_active = (name = active), pv_profile = p\<rparr>"

definition list_profiles :: "app_config \<Rightarrow> profile_view list" where
  "list_profiles app = map (\<lambda>e. profile_summary (fst e) (snd e) (app_active_profile app)) (app_profiles app)"

record status_view =
  st_profile :: "profile_view option"
  st_profiles :: "profile_view list"
  st_providers :: "string \<times> string"
  st_models :: "tier_view \<times> tier_view"
  st_system :: system_view
  st_issues :: "startup_issue list"

definition status_of :: "'w host \<Rightarrow> pyfloat \<Rightarrow> desktop \<Rightarrow> 'w \<Rightarrow> status_view \<times> desktop \<times> 'w" where
  "status_of ho now s w =
     (case provider_status ho now s w of (st, s, w) \<Rightarrow>
     (case models_view ho now s w of (ms, s, w) \<Rightarrow>
     (case startup_issues ho s w of (issues, w) \<Rightarrow>
       (\<lparr>st_profile = map_option (\<lambda>p. profile_summary (app_active_profile (ds_app s)) p (app_active_profile (ds_app s)))
            (active_record s),
         st_profiles = list_profiles (ds_app s), st_providers = st, st_models = ms,
         st_system = system_view s, st_issues = issues\<rparr>, s, w))))"

text \<open>
  \<^verbatim>\<open>_reload\<close> reads the file that the operation before it has written, and replaces the
  configuration of the service; the sifter keeps the one it was built with.
\<close>

definition reread :: "'w host \<Rightarrow> app_config \<Rightarrow> app_config result" where
  "reread ho app = (case ho_parse ho (saved_text (ho_repr ho) app) of
     Inl e \<Rightarrow> Inl e
   | Inr data \<Rightarrow> load_application (ho_repr ho) (ho_decode ho) (Some data))"

definition reload_config :: "'w host \<Rightarrow> desktop \<Rightarrow> desktop result" where
  "reload_config ho s =
     (let name = app_active_profile (ds_app s);
          s = s\<lparr>ds_status_cache := None, ds_profile_name := name\<rparr>
      in case reread ho (ds_app s) of
           Inl e \<Rightarrow> Inl e
         | Inr app \<Rightarrow> Inr (s\<lparr>ds_config :=
             fst (load_runtime_config (dict_get (ho_env ho)) None (Some app) (Some name) no_args)\<rparr>))"

definition with_app :: "desktop \<Rightarrow> app_config \<Rightarrow> desktop" where
  "with_app s app = s\<lparr>ds_app := app\<rparr>"

definition service_activate :: "'w host \<Rightarrow> string \<Rightarrow> desktop \<Rightarrow> (profile_view \<times> desktop) result" where
  "service_activate ho name s = (case activate_profile (ds_app s) name of
     Inl e \<Rightarrow> Inl e
   | Inr (p, app) \<Rightarrow> (case reload_config ho (with_app s app) of
       Inl e \<Rightarrow> Inl e
     | Inr s \<Rightarrow> Inr (profile_summary name p (app_active_profile (ds_app s)), s)))"

definition service_create :: "string \<Rightarrow> string option \<Rightarrow> bool \<Rightarrow> desktop \<Rightarrow> (profile_view \<times> desktop) result" where
  "service_create name source force s = (case create_profile (ds_app s) name source force of
     Inl e \<Rightarrow> Inl e
   | Inr (p, app) \<Rightarrow> Inr (profile_summary name p (app_active_profile app), with_app s app))"

definition service_delete :: "'w host \<Rightarrow> string \<Rightarrow> desktop \<Rightarrow> (string \<times> desktop) result" where
  "service_delete ho name s = (case delete_profile (ds_app s) name of
     Inl e \<Rightarrow> Inl e
   | Inr (active, app) \<Rightarrow> (case reload_config ho (with_app s app) of Inl e \<Rightarrow> Inl e | Inr s \<Rightarrow> Inr (active, s)))"

definition service_set_model ::
  "'w host \<Rightarrow> string \<Rightarrow> string \<Rightarrow> string \<Rightarrow> int option \<Rightarrow> string option \<Rightarrow> string option \<Rightarrow> desktop \<Rightarrow> desktop result" where
  "service_set_model ho tr provider model context_limit endpoint api_key s =
     (case set_tier (ds_app s) tr provider model None context_limit None endpoint api_key of
        Inl e \<Rightarrow> Inl e
      | Inr (p, app) \<Rightarrow> reload_config ho (with_app s app))"

definition service_update :: "'w host \<Rightarrow> profile_update \<Rightarrow> desktop \<Rightarrow> (profile_view list \<times> desktop) result" where
  "service_update ho u s = (case update_profile (ds_app s) None u of
     Inl e \<Rightarrow> Inl e
   | Inr (p, app) \<Rightarrow> (case reload_config ho (with_app s app) of
       Inl e \<Rightarrow> Inl e | Inr s \<Rightarrow> Inr (list_profiles (ds_app s), s)))"

definition service_validate :: "'w host \<Rightarrow> string option \<Rightarrow> desktop \<Rightarrow> validation result" where
  "service_validate ho name s = (case get_profile (ds_app s) name of
     Inl e \<Rightarrow> Inl e
   | Inr p \<Rightarrow> Inr (validate_profile (ho_fmt ho) (ho_catalog ho) (effective_hardware (ds_app s) p) (ho_env ho) True p))"

section \<open>Facts\<close>

text \<open>Nothing the service does changes the configuration its sifter runs with.\<close>

lemma cancel_future_sifter [simp]: "ds_sifter_config (snd (cancel_task now i s)) = ds_sifter_config s"
  by (simp add: cancel_task_def case_prod_unfold split: option.split)

lemma loop_sifter_config: "loop_step s t \<Longrightarrow> ds_sifter_config t = ds_sifter_config s"
  by (induction rule: loop_step.induct) (simp_all add: ask_step_def split: list.split)

lemma step_sifter_config: "desk_step sift s t \<Longrightarrow> ds_sifter_config t = ds_sifter_config s"
  by (induction rule: desk_step.induct)
    (simp_all add: submit_def Let_def resolve_approval_def cancel_pending_def stop_loop_def restart_loop_def
      loop_sifter_config split: option.split)

lemma run_sifter_config: "desk_run sift s t \<Longrightarrow> ds_sifter_config t = ds_sifter_config s"
  by (induction rule: rtranclp_induct) (simp_all add: step_sifter_config)

lemma reload_result:
  "reload_config ho s = Inr t \<Longrightarrow> \<exists>app. reread ho (ds_app s) = Inr app \<and>
     t = s\<lparr>ds_status_cache := None, ds_profile_name := app_active_profile (ds_app s),
       ds_config := fst (load_runtime_config (dict_get (ho_env ho)) None (Some app)
         (Some (app_active_profile (ds_app s))) no_args)\<rparr>"
  by (auto simp: reload_config_def Let_def split: sum.splits)

lemma activate_result:
  assumes "service_activate ho name s = Inr (v, t)"
  obtains p app app' where "activate_profile (ds_app s) name = Inr (p, app)" "reread ho app = Inr app'"
    "t = s\<lparr>ds_app := app, ds_status_cache := None, ds_profile_name := app_active_profile app,
       ds_config := fst (load_runtime_config (dict_get (ho_env ho)) None (Some app')
         (Some (app_active_profile app)) no_args)\<rparr>"
  using assms by (auto simp: service_activate_def with_app_def dest: reload_result split: sum.splits prod.splits)

text \<open>
  The text that is written reads back as the application itself: for its names and values, the
  writer, \<^verbatim>\<open>tomllib\<close> and the decoder are inverse to each other.  Loading then repairs it.
\<close>

definition read_as_written :: "'w host \<Rightarrow> app_config \<Rightarrow> bool" where
  "read_as_written ho app \<longleftrightarrow> (case ho_parse ho (saved_text (ho_repr ho) app) of
     Inl e \<Rightarrow> False
   | Inr data \<Rightarrow> (case migrate (ho_repr ho) data of
       Inl e \<Rightarrow> False
     | Inr (data, warnings) \<Rightarrow> ho_decode ho (PDict data) = Inr app))"

lemma reread_written: "read_as_written ho app \<Longrightarrow> reread ho app = Inr (repaired app)"
  by (auto simp: read_as_written_def reread_def load_application_def parse_application_def
      split: sum.splits prod.splits)

lemma repaired_keeps:
  "dict_get (app_profiles app) (app_active_profile app) = Some p \<Longrightarrow>
   app_active_profile (repaired app) = app_active_profile app \<and>
   dict_get (app_profiles (repaired app)) (app_active_profile app) = Some p"
  by (auto simp: repaired_def Let_def put_profile_def)

text \<open>A fresh status is what the cache keeps, and a reload forgets it.\<close>

lemma provider_status_cached:
  "provider_status ho now s w = (st, s', w') \<Longrightarrow> now' - now < 5 \<Longrightarrow> ds_status_cache s = None \<Longrightarrow>
   provider_status ho now' s' w'' = (st, s', w'')"
  by (auto simp: provider_status_def split: prod.splits)

lemma provider_status_frame: "provider_status ho now s w = (st, s', w') \<Longrightarrow> ds_app s' = ds_app s \<and> ds_tasks s' = ds_tasks s"
  by (auto simp: provider_status_def split: prod.splits option.splits if_splits)

end
