(* ===== verification/Server.thy ===== *)
theory Server
  imports DesktopConfig
begin

text \<open>
  The local web server of the desktop application (\<^verbatim>\<open>desktop/server.py\<close>): the token, the
  routes, and the stream of a task's events.  A request comes as its parsed path, query and
  headers and the text of its body; the payload of a reply is the value that is shown as JSON.
  A reply of None is outside the model: a field of a type that the code passes on unchecked.
\<close>

section \<open>Requests and replies\<close>

record web_request =
  wr_path :: string
  wr_query :: "(string, string list) dict"
  wr_token_header :: "string option"
  wr_authorization :: string
  wr_body :: string

datatype payload =
    PError string
  | PHealth health_view
  | PStatus status_view
  | PProfiles "profile_view list"
  | PProfile profile_view
  | PModels "tier_view \<times> tier_view"
  | PSystem system_view
  | PHardware hardware_profile
  | PDoctor doctor_report
  | PMetrics metrics_view
  | PTasks "task_summary list"
  | PTask task_summary
  | PFlag string bool
  | PFile string
  | PStream string

datatype reply =
    Reply int payload
  | Crash py_error

record web_server =
  ws_service :: desktop
  ws_token :: string
  ws_shutdown :: bool

definition first_value :: "(string, string list) dict \<Rightarrow> string \<Rightarrow> string \<Rightarrow> string" where
  "first_value query k d = (case dict_get query k of Some (x # xs) \<Rightarrow> x | _ \<Rightarrow> d)"

definition authorized_request :: "string \<Rightarrow> web_request \<Rightarrow> bool" where
  "authorized_request token rq \<longleftrightarrow>
     (case nonempty_text (wr_token_header rq) of None \<Rightarrow> False | Some h \<Rightarrow> h = token) \<or>
     (prefix ''Bearer '' (wr_authorization rq) \<and> drop 7 (wr_authorization rq) = token) \<or>
     first_value (wr_query rq) ''token'' [] = token"

definition read_json :: "string \<Rightarrow> pyval" where
  "read_json body = (if body = [] then PDict [] else case json_loads body of None \<Rightarrow> PDict [] | Some v \<Rightarrow> v)"

text \<open>\<^verbatim>\<open>content.replace(marker, token)\<close>\<close>

function replace_text :: "string \<Rightarrow> string \<Rightarrow> string \<Rightarrow> string" where
  "replace_text m r s =
     (if m = [] \<or> s = [] then s
      else if prefix m s then r @ replace_text m r (drop (length m) s)
      else hd s # replace_text m r (tl s))"
  by auto
termination by (relation "measure (\<lambda>(m, r, s). length s)") auto

definition TOKEN_MARKER :: string where
  "TOKEN_MARKER = ''__SIFTER_TOKEN__''"

definition serve_static :: "(string \<Rightarrow> string option) \<Rightarrow> string \<Rightarrow> string \<Rightarrow> reply" where
  "serve_static files token name = (case files name of
     None \<Rightarrow> Reply 404 (PError ''not found'')
   | Some text \<Rightarrow> Reply 200 (PFile (if name = ''index.html'' then replace_text TOKEN_MARKER token text else text)))"

definition not_found :: reply where
  "not_found = Reply 404 (PError ''not found'')"

definition unauthorized :: reply where
  "unauthorized = Reply 401 (PError ''unauthorized'')"

definition strip_slash :: "string \<Rightarrow> string" where
  "strip_slash s = rstrip_slash (dropWhile (\<lambda>c. c = CHR ''/'') s)"

definition path_parts :: "string \<Rightarrow> string list" where
  "path_parts path = split_char (CHR ''/'') (strip_slash path)"

definition part :: "nat \<Rightarrow> string list \<Rightarrow> string" where
  "part n xs = (if n < length xs then xs ! n else [])"

section \<open>GET\<close>

definition get_task_route :: "desktop \<Rightarrow> string \<Rightarrow> reply" where
  "get_task_route s path =
     (let parts = path_parts path; i = part 2 parts
      in if length parts = 4 \<and> parts ! 3 = ''events''
         then (case get_task s i of None \<Rightarrow> not_found | Some tk \<Rightarrow> Reply 200 (PStream i))
         else Reply 200 (case get_task s i of None \<Rightarrow> PError ''not found'' | Some tk \<Rightarrow> PTask (summary_of tk)))"

definition api_get :: "'w host \<Rightarrow> string \<Rightarrow> pyfloat \<Rightarrow> web_request \<Rightarrow> desktop \<Rightarrow> 'w \<Rightarrow> reply \<times> desktop \<times> 'w" where
  "api_get ho config_path now rq s w =
     (let path = wr_path rq
      in if path = ''/api/health'' then (case health ho now s w of (v, s, w) \<Rightarrow> (Reply 200 (PHealth v), s, w))
         else if path = ''/api/status'' then (case status_of ho now s w of (v, s, w) \<Rightarrow> (Reply 200 (PStatus v), s, w))
         else if path = ''/api/profiles'' then (Reply 200 (PProfiles (list_profiles (ds_app s))), s, w)
         else if path = ''/api/models'' then (case models_view ho now s w of (v, s, w) \<Rightarrow> (Reply 200 (PModels v), s, w))
         else if path = ''/api/system'' then (Reply 200 (PSystem (system_view s)), s, w)
         else if path = ''/api/doctor''
         then (case service_doctor ho (lower (first_value (wr_query rq) ''live'' ''false'') = ''true'') config_path s w of
                 (v, w) \<Rightarrow> (Reply 200 (PDoctor v), s, w))
         else if path = ''/api/metrics'' then (Reply 200 (PMetrics (metrics s)), s, w)
         else if path = ''/api/tasks'' then (Reply 200 (PTasks (list_tasks s)), s, w)
         else if prefix ''/api/tasks/'' path then (get_task_route s path, s, w)
         else (not_found, s, w))"

definition do_GET ::
  "'w host \<Rightarrow> (string \<Rightarrow> string option) \<Rightarrow> string \<Rightarrow> pyfloat \<Rightarrow> web_request \<Rightarrow> web_server \<Rightarrow> 'w \<Rightarrow>
     reply \<times> web_server \<times> 'w" where
  "do_GET ho files config_path now rq ws w =
     (let path = wr_path rq
      in if path \<in> {''/'', ''/index.html''} then (serve_static files (ws_token ws) ''index.html'', ws, w)
         else if path \<in> {''/app.js'', ''/styles.css''} then (serve_static files (ws_token ws) (tl path), ws, w)
         else if \<not> prefix ''/api/'' path then (not_found, ws, w)
         else if \<not> authorized_request (ws_token ws) rq then (unauthorized, ws, w)
         else (case api_get ho config_path now rq (ws_service ws) w of
                 (r, s, w) \<Rightarrow> (r, ws\<lparr>ws_service := s\<rparr>, w)))"

section \<open>POST\<close>

text \<open>An optional text or number of a body; None is a value the code would pass on unchecked.\<close>

fun opt_text :: "pyval \<Rightarrow> string option option" where
  "opt_text PNone = Some None"
| "opt_text (PStr s) = Some (Some s)"
| "opt_text v = None"

fun opt_int_of :: "pyval \<Rightarrow> int option option" where
  "opt_int_of PNone = Some None"
| "opt_int_of (PInt i) = Some (Some i)"
| "opt_int_of v = None"

text \<open>\<^verbatim>\<open>v or []\<close> of a list of texts, as \<^verbatim>\<open>HumanDecision\<close> takes it; None is refused.\<close>

fun text_item :: "pyval \<Rightarrow> string option" where
  "text_item (PStr s) = Some s"
| "text_item v = None"

definition texts_of :: "pyval \<Rightarrow> string list option" where
  "texts_of v = (if \<not> truthy v then Some []
     else case v of PList xs \<Rightarrow> those (map text_item xs) | _ \<Rightarrow> None)"

text \<open>\<^verbatim>\<open>body.get\<close> on a body that is not an object.\<close>

fun type_name :: "pyval \<Rightarrow> string" where
  "type_name PNone = ''NoneType''"
| "type_name (PBool b) = ''bool''"
| "type_name (PInt i) = ''int''"
| "type_name (PFloat x) = ''float''"
| "type_name (PStr s) = ''str''"
| "type_name (PList xs) = ''list''"
| "type_name (PDict d) = ''dict''"

definition no_body :: "pyval \<Rightarrow> py_error" where
  "no_body v = AttributeError (quote # type_name v @ [quote] @ '' object has no attribute '' @ [quote] @ ''get'' @ [quote])"

definition error_reply :: "py_error \<Rightarrow> reply" where
  "error_reply e = Reply 400 (PError (err_text e))"

definition post_task ::
  "(rat \<Rightarrow> string) \<Rightarrow> (task_record \<Rightarrow> run_tree) \<Rightarrow> pyfloat \<Rightarrow> string \<Rightarrow> (string, pyval) dict \<Rightarrow> desktop \<Rightarrow>
     (reply \<times> desktop) option" where
  "post_task fr sift now i body s =
     (let prompt = strip (py_str fr (get_default body ''prompt'' (PStr [])))
      in if prompt = [] then Some (Reply 400 (PError ''prompt is required''), s)
         else case (opt_text (get_default body ''context'' PNone), opt_text (get_default body ''policy'' PNone),
                    get_default body ''execution_mode'' (PStr ''adaptive'')) of
           (Some ctx, Some policy, PStr mode) \<Rightarrow>
             (case submit sift now i prompt ctx policy mode s of
                (Inl e, s) \<Rightarrow> Some (Crash e, s)
              | (Inr tk, s) \<Rightarrow> Some (Reply 202 (PTask (summary_of tk)), s))
         | _ \<Rightarrow> None)"

definition post_approval :: "(rat \<Rightarrow> string) \<Rightarrow> string \<Rightarrow> (string, pyval) dict \<Rightarrow> desktop \<Rightarrow> reply \<times> desktop" where
  "post_approval fr i body s =
     (case (texts_of (get_default body ''selected_options'' PNone), texts_of (get_default body ''constraints'' PNone)) of
        (Some sel, Some cons) \<Rightarrow>
          (case resolve_approval i (py_str fr (get_default body ''action'' (PStr []))) (Some sel) (Some cons)
                  (py_str fr (get_default body ''note'' (PStr []))) s of
             (good, s) \<Rightarrow> (Reply (if good then 200 else 400) (PFlag ''ok'' good), s))
      | _ \<Rightarrow> (Reply 400 (PFlag ''ok'' False), s))"

definition post_task_route ::
  "(rat \<Rightarrow> string) \<Rightarrow> pyfloat \<Rightarrow> string \<Rightarrow> pyval \<Rightarrow> desktop \<Rightarrow> reply \<times> desktop" where
  "post_task_route fr now path body s =
     (let parts = path_parts path; i = part 2 parts; action = part 3 parts
      in if action = ''approval''
         then (case body of PDict d \<Rightarrow> post_approval fr i d s | v \<Rightarrow> (Crash (no_body v), s))
         else if action = ''cancel''
         then (case cancel_task now i s of (b, s) \<Rightarrow> (Reply 200 (PFlag ''cancelled'' b), s))
         else (not_found, s))"

definition post_profile :: "(rat \<Rightarrow> string) \<Rightarrow> (string, pyval) dict \<Rightarrow> desktop \<Rightarrow> (reply \<times> desktop) option" where
  "post_profile fr body s =
     (let name = strip (py_str fr (get_default body ''name'' (PStr [])))
      in if name = [] then Some (Reply 400 (PError ''name is required''), s)
         else case opt_text (get_default body ''source'' PNone) of
           None \<Rightarrow> None
         | Some source \<Rightarrow> (case service_create name source (truthy (get_default body ''force'' PNone)) s of
             Inl e \<Rightarrow> Some (error_reply e, s)
           | Inr (v, s) \<Rightarrow> Some (Reply 201 (PProfile v), s)))"

text \<open>
  A reload that fails leaves the service changed: the operation has been done and saved by then.
\<close>

definition after_failure :: "'w host \<Rightarrow> app_config \<Rightarrow> desktop \<Rightarrow> desktop" where
  "after_failure ho app s = s\<lparr>ds_app := app, ds_status_cache := None, ds_profile_name := app_active_profile app\<rparr>"

definition post_activate :: "'w host \<Rightarrow> string \<Rightarrow> desktop \<Rightarrow> reply \<times> desktop" where
  "post_activate ho path s =
     (let name = part 2 (path_parts path)
      in case service_activate ho name s of
           Inr (v, s) \<Rightarrow> (Reply 200 (PProfile v), s)
         | Inl e \<Rightarrow> (error_reply e, case activate_profile (ds_app s) name of
             Inl _ \<Rightarrow> s | Inr (p, app) \<Rightarrow> after_failure ho app s))"

definition post_model ::
  "(rat \<Rightarrow> string) \<Rightarrow> 'w host \<Rightarrow> pyfloat \<Rightarrow> (string, pyval) dict \<Rightarrow> desktop \<Rightarrow> 'w \<Rightarrow> (reply \<times> desktop \<times> 'w) option" where
  "post_model fr ho now body s w =
     (let text = (\<lambda>k. py_str fr (get_default body k (PStr [])))
      in case (opt_int_of (get_default body ''context_limit'' PNone), opt_text (get_default body ''endpoint'' PNone),
               opt_text (get_default body ''api_key_env'' PNone)) of
           (Some limit, Some endpoint, Some key) \<Rightarrow>
             (case service_set_model ho (text ''tier'') (text ''provider'') (text ''model'') limit endpoint key s of
                Inr s \<Rightarrow> (case models_view ho now s w of (v, s, w) \<Rightarrow> Some (Reply 200 (PModels v), s, w))
              | Inl e \<Rightarrow> Some (error_reply e,
                  (case set_tier (ds_app s) (text ''tier'') (text ''provider'') (text ''model'') None limit None endpoint key of
                     Inl _ \<Rightarrow> s | Inr (p, app) \<Rightarrow> after_failure ho app s), w))
         | _ \<Rightarrow> None)"

definition post_detect :: "'w host \<Rightarrow> (string, pyval) dict \<Rightarrow> desktop \<Rightarrow> (reply \<times> desktop) option" where
  "post_detect ho body s = (case opt_text (get_default body ''save_as'' PNone) of
     None \<Rightarrow> None
   | Some n \<Rightarrow> (case detect_system ho n s of (h, s) \<Rightarrow> Some (Reply 200 (PHardware h), s)))"

definition with_body ::
  "((string, pyval) dict \<Rightarrow> (reply \<times> desktop) option) \<Rightarrow> pyval \<Rightarrow> desktop \<Rightarrow> (reply \<times> desktop) option" where
  "with_body f body s = (case body of PDict d \<Rightarrow> f d | v \<Rightarrow> Some (Crash (no_body v), s))"

definition api_post ::
  "(rat \<Rightarrow> string) \<Rightarrow> (task_record \<Rightarrow> run_tree) \<Rightarrow> 'w host \<Rightarrow> pyfloat \<Rightarrow> string \<Rightarrow> string \<Rightarrow> pyval \<Rightarrow>
     web_server \<Rightarrow> 'w \<Rightarrow> (reply \<times> web_server \<times> 'w) option" where
  "api_post fr sift ho now i path body ws w =
     (let s = ws_service ws; back = (\<lambda>x. case x of (r, s) \<Rightarrow> (r, ws\<lparr>ws_service := s\<rparr>, w))
      in if path = ''/api/tasks'' then map_option back (with_body (\<lambda>d. post_task fr sift now i d s) body s)
         else if prefix ''/api/tasks/'' path then Some (back (post_task_route fr now path body s))
         else if path = ''/api/system/detect'' then map_option back (with_body (\<lambda>d. post_detect ho d s) body s)
         else if prefix ''/api/profiles/'' path \<and> suffix ''/activate'' path then Some (back (post_activate ho path s))
         else if path = ''/api/profiles'' then map_option back (with_body (\<lambda>d. post_profile fr d s) body s)
         else if path = ''/api/models/set''
         then (case body of
             PDict d \<Rightarrow> (case post_model fr ho now d s w of None \<Rightarrow> None
               | Some (r, s, w) \<Rightarrow> Some (r, ws\<lparr>ws_service := s\<rparr>, w))
           | v \<Rightarrow> Some (error_reply (no_body v), ws, w))
         else if path = ''/api/shutdown'' then Some (Reply 200 (PFlag ''ok'' True), ws\<lparr>ws_shutdown := True\<rparr>, w)
         else Some (not_found, ws, w))"

definition do_POST ::
  "(rat \<Rightarrow> string) \<Rightarrow> (task_record \<Rightarrow> run_tree) \<Rightarrow> 'w host \<Rightarrow> pyfloat \<Rightarrow> string \<Rightarrow> web_request \<Rightarrow> web_server \<Rightarrow>
     'w \<Rightarrow> (reply \<times> web_server \<times> 'w) option" where
  "do_POST fr sift ho now i rq ws w =
     (if \<not> prefix ''/api/'' (wr_path rq) then Some (not_found, ws, w)
      else if \<not> authorized_request (ws_token ws) rq then Some (unauthorized, ws, w)
      else api_post fr sift ho now i (wr_path rq) (read_json (wr_body rq)) ws w)"

section \<open>The stream of a task's events\<close>

text \<open>
  \<^verbatim>\<open>_stream_events\<close>: subscribe, write the events there are, stop if the task is over, and then
  write what the queue brings.  The task goes on in between.
\<close>

datatype stream_phase = Opened | Copied | Live | Closed

record stream =
  sm_queue :: nat
  sm_written :: "desk_event list"
  sm_pings :: nat
  sm_phase :: stream_phase

definition open_stream :: "nat \<Rightarrow> task_record \<Rightarrow> task_record \<times> stream" where
  "open_stream q tk = (subscribe q tk, \<lparr>sm_queue = q, sm_written = [], sm_pings = 0, sm_phase = Opened\<rparr>)"

definition copy_events :: "task_record \<Rightarrow> stream \<Rightarrow> stream" where
  "copy_events tk m = m\<lparr>sm_written := sm_written m @ dt_events tk, sm_phase := Copied\<rparr>"

definition close_stream :: "task_record \<Rightarrow> stream \<Rightarrow> task_record \<times> stream" where
  "close_stream tk m = (unsubscribe (sm_queue m) tk, m\<lparr>sm_phase := Closed\<rparr>)"

definition after_copy :: "task_record \<Rightarrow> stream \<Rightarrow> task_record \<times> stream" where
  "after_copy tk m = (if terminal tk then close_stream tk m else (tk, m\<lparr>sm_phase := Live\<rparr>))"

definition stream_turn :: "task_record \<Rightarrow> stream \<Rightarrow> task_record \<times> stream" where
  "stream_turn tk m = (case queue_of (sm_queue m) tk of
     [] \<Rightarrow> (let m = m\<lparr>sm_pings := sm_pings m + 1\<rparr> in if terminal tk then close_stream tk m else (tk, m))
   | e # es \<Rightarrow> (let tk = pop_queue (sm_queue m) tk; m = m\<lparr>sm_written := sm_written m @ [e]\<rparr>
       in if dv_event e = ''done'' then close_stream tk m else (tk, m)))"

definition stream_step :: "task_record \<times> stream \<Rightarrow> task_record \<times> stream" where
  "stream_step x = (case x of (tk, m) \<Rightarrow> (case sm_phase m of
     Opened \<Rightarrow> (tk, copy_events tk m)
   | Copied \<Rightarrow> after_copy tk m
   | Live \<Rightarrow> stream_turn tk m
   | Closed \<Rightarrow> (tk, m)))"

text \<open>
  Of its task a stream sees what it emits and what is put into its own queue; the rest of the
  task, the other streams and their queues included, changes as it likes.
\<close>

definition own_part :: "nat \<Rightarrow> task_record \<Rightarrow> (nat \<times> desk_event list) list \<times> (nat \<times> desk_event) list" where
  "own_part q tk = (filter (\<lambda>x. fst x = q) (dt_subscribers tk), filter (\<lambda>x. fst x = q) (dt_transit tk))"

inductive stream_runs :: "task_record \<times> stream \<Rightarrow> task_record \<times> stream \<Rightarrow> bool" where
  turn: "stream_runs x (stream_step x)"
| dropped: "stream_runs (tk, m) (close_stream tk m)"
| emitted: "stream_runs (tk, m) (emit now ev data tk, m)"
| put: "may_deliver k tk \<Longrightarrow> stream_runs (tk, m) (deliver k tk, m)"
| changed: "dt_events tk' = dt_events tk \<Longrightarrow> own_part (sm_queue m) tk' = own_part (sm_queue m) tk \<Longrightarrow>
    stream_runs (tk, m) (tk', m)"

end
