(* ===== verification/ServerFacts.thy ===== *)
theory ServerFacts
  imports Server "HOL-Library.Multiset"
begin

text \<open>
  What the token protects, and what the stream of a task's events delivers.
\<close>

section \<open>Authorization\<close>

lemma post_needs_token:
  "\<not> authorized_request (ws_token ws) rq \<Longrightarrow>
   \<exists>r. r \<in> {unauthorized, not_found} \<and> do_POST fr sift ho now i rq ws w = Some (r, ws, w)"
  by (simp add: do_POST_def)

lemma get_needs_token:
  "\<not> authorized_request (ws_token ws) rq \<Longrightarrow>
   \<exists>r. do_GET ho files path now rq ws w = (r, ws, w) \<and>
     (r \<in> {unauthorized, not_found} \<or> (\<exists>name. r = serve_static files (ws_token ws) name))"
  by (auto simp: do_GET_def Let_def)

lemma status_of_frame: "status_of ho now s w = (v, s', w') \<Longrightarrow> ds_app s' = ds_app s \<and> ds_tasks s' = ds_tasks s"
  by (auto simp: status_of_def models_view_def dest!: provider_status_frame split: prod.splits)

lemma api_get_frame: "api_get ho path now rq s w = (r, s', w') \<Longrightarrow> ds_app s' = ds_app s \<and> ds_tasks s' = ds_tasks s"
  by (auto simp: api_get_def Let_def health_def models_view_def
      dest: provider_status_frame status_of_frame split: prod.splits if_splits)

text \<open>The start page carries the token.\<close>

declare replace_text.simps [simp del]

lemma replace_hit: "m \<noteq> [] \<Longrightarrow> replace_text m r (m @ s) = r @ replace_text m r s"
  by (subst replace_text.simps) simp

lemma replace_miss: "m \<noteq> [] \<Longrightarrow> \<not> prefix m (c # s) \<Longrightarrow> replace_text m r (c # s) = c # replace_text m r s"
  by (subst replace_text.simps) simp

definition has_text :: "string \<Rightarrow> string \<Rightarrow> bool" where
  "has_text s t \<longleftrightarrow> (\<exists>pre post. t = pre @ s @ post)"

lemma has_textI: "has_text s (pre @ s @ post)"
  by (auto simp: has_text_def)

lemma has_text_Cons: "has_text s t \<Longrightarrow> has_text s (c # t)"
  unfolding has_text_def by (metis append_Cons)

lemma replace_in: "m \<noteq> [] \<Longrightarrow> has_text r (replace_text m r (pre @ m @ post))"
proof (induction pre)
  case Nil
  then show ?case using has_textI [of r "[]"] by (simp add: replace_hit)
next
  case (Cons c pre)
  show ?case
  proof (cases "prefix m (c # pre @ m @ post)")
    case True
    then obtain s where "c # pre @ m @ post = m @ s" by (auto simp: prefix_def)
    then show ?thesis using has_textI [of r "[]"] Cons.prems by (simp add: replace_hit)
  next
    case False
    then show ?thesis using Cons has_text_Cons by (simp add: replace_miss)
  qed
qed

section \<open>Streams\<close>

text \<open>Events in the order of their sender: all but the notices of a cancellation.\<close>

abbreviation loud :: "desk_event list \<Rightarrow> desk_event list" where
  "loud es \<equiv> filter (\<lambda>e. \<not> cancel_notice e) es"

definition in_transit :: "nat \<Rightarrow> task_record \<Rightarrow> desk_event list" where
  "in_transit q tk = map snd (filter (\<lambda>x. fst x = q) (dt_transit tk))"

definition sub_ok :: "task_record \<Rightarrow> nat \<Rightarrow> bool" where
  "sub_ok tk q \<longleftrightarrow> (\<exists>es. filter (\<lambda>x. fst x = q) (dt_subscribers tk) = [(q, es)])"

lemma queue_of_own: "filter (\<lambda>x. fst x = q) (dt_subscribers tk) = [(q, es)] \<Longrightarrow> queue_of q tk = es"
proof -
  have "dict_get (filter (\<lambda>x. fst x = q) d) q = dict_get d q" for d :: "(nat \<times> desk_event list) list"
    by (induction d) auto
  then show "filter (\<lambda>x. fst x = q) (dt_subscribers tk) = [(q, es)] \<Longrightarrow> queue_of q tk = es"
    unfolding queue_of_def by (metis map_of_Cons_code(2) option.case(2))
qed

lemma own_same:
  assumes "own_part q tk' = own_part q tk"
  shows "sub_ok tk' q = sub_ok tk q" "in_transit q tk' = in_transit q tk" "sub_ok tk q \<Longrightarrow> queue_of q tk' = queue_of q tk"
  using assms queue_of_own by (auto simp: own_part_def sub_ok_def in_transit_def)

text \<open>
  What a stream has written: a copy of the events there were, and then items of its queue.  The
  items, the rest of the queue and what is still in transit to it are the events since the
  subscription, each once, and in order but for the notices of a cancellation.
\<close>

definition shared_out :: "desk_event list \<Rightarrow> desk_event list \<Rightarrow> desk_event list \<Rightarrow> desk_event list \<Rightarrow> bool" where
  "shared_out since ps qu tr \<longleftrightarrow> mset ps + mset qu + mset tr = mset since \<and> loud (ps @ qu @ tr) = loud since"

definition delivered :: "nat \<Rightarrow> bool \<Rightarrow> desk_event list \<Rightarrow> desk_event list \<Rightarrow> desk_event list \<Rightarrow> desk_event list \<Rightarrow> bool" where
  "delivered s fresh es qu tr ws \<longleftrightarrow> s \<le> length es \<and> (\<exists>c ps. shared_out (drop s es) ps qu tr \<and>
     (if fresh then ws = [] \<and> ps = [] else s \<le> c \<and> c \<le> length es \<and> ws = take c es @ ps))"

definition written_part :: "nat \<Rightarrow> desk_event list \<Rightarrow> desk_event list \<Rightarrow> bool" where
  "written_part s es ws \<longleftrightarrow> s \<le> length es \<and> (\<exists>c ps. c \<le> length es \<and> ws = take c es @ ps \<and>
     prefix (loud ps) (loud (drop s es)) \<and> mset ps \<subseteq># mset (drop s es))"

lemma shared_out_emit: "shared_out since ps qu tr \<Longrightarrow> shared_out (since @ [e]) ps qu (tr @ [e])"
  by (auto simp: shared_out_def)

lemma shared_out_put:
  assumes "shared_out since ps qu (tr @ e # tr')" "cancel_notice e \<or> loud tr = []"
  shows "shared_out since ps (qu @ [e]) (tr @ tr')"
  using assms by (auto simp: shared_out_def)

lemma shared_out_read: "shared_out since ps (e # qu) tr \<Longrightarrow> shared_out since (ps @ [e]) qu tr"
  by (simp add: shared_out_def)

lemma delivered_open: "delivered (length es) True es [] [] []"
  by (auto simp: delivered_def shared_out_def)

lemma delivered_emit:
  assumes "delivered s fresh es qu tr ws" shows "delivered s fresh (es @ [e]) qu (tr @ [e]) ws"
proof -
  obtain c ps where "s \<le> length es" "shared_out (drop s es) ps qu tr"
    "if fresh then ws = [] \<and> ps = [] else s \<le> c \<and> c \<le> length es \<and> ws = take c es @ ps"
    using assms by (auto simp: delivered_def)
  then show ?thesis
    unfolding delivered_def using shared_out_emit by (intro conjI exI [of _ c] exI [of _ ps]) auto
qed

lemma delivered_put:
  assumes "delivered s fresh es qu (tr @ e # tr') ws" "cancel_notice e \<or> loud tr = []"
  shows "delivered s fresh es (qu @ [e]) (tr @ tr') ws"
  using assms shared_out_put unfolding delivered_def by blast

lemma delivered_copy: "delivered s True es qu tr ws \<Longrightarrow> delivered s False es qu tr (ws @ es)"
  unfolding delivered_def by (auto intro: exI [of _ "length es"])

lemma delivered_read:
  assumes "delivered s False es (e # qu) tr ws" shows "delivered s False es qu tr (ws @ [e])"
proof -
  obtain c ps where "s \<le> length es" "shared_out (drop s es) ps (e # qu) tr" "s \<le> c" "c \<le> length es" "ws = take c es @ ps"
    using assms by (auto simp: delivered_def)
  then show ?thesis
    unfolding delivered_def using shared_out_read by (intro conjI exI [of _ c] exI [of _ "ps @ [e]"]) auto
qed

lemma delivered_written:
  assumes "delivered s fresh es qu tr ws" shows "written_part s es ws"
proof -
  obtain c ps where d: "s \<le> length es" "shared_out (drop s es) ps qu tr"
    "if fresh then ws = [] \<and> ps = [] else s \<le> c \<and> c \<le> length es \<and> ws = take c es @ ps"
    using assms by (auto simp: delivered_def)
  from d(2) have p: "prefix (loud ps) (loud (drop s es))" "mset ps \<subseteq># mset (drop s es)"
    unfolding shared_out_def by (metis filter_append prefixI, metis mset_subset_eq_add_left union_assoc)
  show ?thesis
  proof (cases fresh)
    case True
    then show ?thesis using d p unfolding written_part_def by (intro conjI exI [of _ 0] exI [of _ ps]) auto
  next
    case False
    then show ?thesis using d p unfolding written_part_def by (intro conjI exI [of _ c] exI [of _ ps]) auto
  qed
qed

lemma delivered_set:
  assumes "delivered s False es qu tr ws" shows "set es = set ws \<union> set qu \<union> set tr"
proof -
  obtain c ps where d: "mset ps + mset qu + mset tr = mset (drop s es)" "s \<le> c" "ws = take c es @ ps"
    using assms by (auto simp: delivered_def shared_out_def)
  have "set ps \<union> set qu \<union> set tr = set (drop s es)"
    using arg_cong [OF d(1), of set_mset] by simp
  moreover have "set es = set (take s es) \<union> set (drop s es)" by (metis append_take_drop_id set_append)
  moreover have "set (take s es) \<subseteq> set (take c es)" using d(2) by (rule set_take_subset_set_take)
  ultimately show ?thesis using set_take_subset [of c es] unfolding d(3) by auto
qed

lemma written_emit:
  assumes "written_part s es ws" shows "written_part s (es @ [e]) ws"
proof -
  obtain c ps where "s \<le> length es" "c \<le> length es" "ws = take c es @ ps"
    "prefix (loud ps) (loud (drop s es))" "mset ps \<subseteq># mset (drop s es)"
    using assms by (auto simp: written_part_def)
  then show ?thesis
    unfolding written_part_def
    by (intro conjI exI [of _ c] exI [of _ ps]) (auto intro: prefix_order.trans subset_mset.trans)
qed

lemma own_emit:
  assumes "sub_ok tk q"
  shows "sub_ok (emit now ev data tk) q" "queue_of q (emit now ev data tk) = queue_of q tk"
    "in_transit q (emit now ev data tk) = in_transit q tk @
      [\<lparr>dv_event = ev, dv_task_id = dt_id tk, dv_ts = now, dv_data = data\<rparr>]"
proof -
  obtain es where es: "filter (\<lambda>x. fst x = q) (dt_subscribers tk) = [(q, es)]" using assms by (auto simp: sub_ok_def)
  have "filter (\<lambda>x. fst x = q) (map (\<lambda>x. (fst x, p)) d) = map (\<lambda>x. (fst x, p)) (filter (\<lambda>x. fst x = q) d)"
    for p :: desk_event and d :: "(nat \<times> desk_event list) list"
    by (simp add: filter_map comp_def)
  with es show "in_transit q (emit now ev data tk) = in_transit q tk @
      [\<lparr>dv_event = ev, dv_task_id = dt_id tk, dv_ts = now, dv_data = data\<rparr>]"
    by (simp add: in_transit_def emit_def Let_def)
  show "sub_ok (emit now ev data tk) q" "queue_of q (emit now ev data tk) = queue_of q tk"
    using assms by (simp_all add: sub_ok_def queue_of_def emit_def Let_def)
qed

lemma own_map:
  "filter (\<lambda>x. fst x = q) (map (\<lambda>x. if fst x = p then (p, f (snd x)) else x) d) =
   map (\<lambda>x. if fst x = p then (p, f (snd x)) else x) (filter (\<lambda>x. fst x = q) d)"
  by (induction d) auto

lemma own_pop:
  assumes "sub_ok tk q"
  shows "sub_ok (pop_queue q tk) q" "queue_of q (pop_queue q tk) = tl (queue_of q tk)"
    "in_transit q (pop_queue q tk) = in_transit q tk"
proof -
  obtain es where es: "filter (\<lambda>x. fst x = q) (dt_subscribers tk) = [(q, es)]" using assms by (auto simp: sub_ok_def)
  then have "filter (\<lambda>x. fst x = q) (dt_subscribers (pop_queue q tk)) = [(q, tl es)]"
    by (simp add: pop_queue_def own_map)
  then show "sub_ok (pop_queue q tk) q" "queue_of q (pop_queue q tk) = tl (queue_of q tk)"
    using queue_of_own [OF es] queue_of_own [of q "pop_queue q tk"] by (auto simp: sub_ok_def)
  show "in_transit q (pop_queue q tk) = in_transit q tk" by (simp add: in_transit_def pop_queue_def)
qed

lemma own_deliver:
  assumes "sub_ok tk q" "may_deliver k tk"
  shows "sub_ok (deliver k tk) q \<and>
    (queue_of q (deliver k tk) = queue_of q tk \<and> in_transit q (deliver k tk) = in_transit q tk \<or>
     (\<exists>tr e tr'. in_transit q tk = tr @ e # tr' \<and> in_transit q (deliver k tk) = tr @ tr' \<and>
        queue_of q (deliver k tk) = queue_of q tk @ [e] \<and> (cancel_notice e \<or> loud tr = [])))"
proof -
  obtain es where es: "filter (\<lambda>x. fst x = q) (dt_subscribers tk) = [(q, es)]" using assms(1) by (auto simp: sub_ok_def)
  obtain p e where pe: "dt_transit tk ! k = (p, e)" by (cases "dt_transit tk ! k")
  let ?own = "filter (\<lambda>x. fst x = q)"
  let ?tr = "map snd (?own (take k (dt_transit tk)))" and ?tr' = "map snd (?own (drop (Suc k) (dt_transit tk)))"
  have k: "k < length (dt_transit tk)"
    and may: "cancel_notice e \<or> list_all (\<lambda>x. fst x = p \<longrightarrow> cancel_notice (snd x)) (take k (dt_transit tk))"
    using assms(2) by (simp_all add: may_deliver_def pe)
  have "dt_transit tk = take k (dt_transit tk) @ (p, e) # drop (Suc k) (dt_transit tk)"
    using id_take_nth_drop [OF k] pe by simp
  then have "?own (dt_transit tk) = ?own (take k (dt_transit tk) @ (p, e) # drop (Suc k) (dt_transit tk))"
    by (rule arg_cong)
  then have tr: "?own (dt_transit tk) = ?own (take k (dt_transit tk)) @
      (if p = q then [(p, e)] else []) @ ?own (drop (Suc k) (dt_transit tk))"
    by (simp only: filter_append filter.simps(2) fst_conv) simp
  have subs: "?own (dt_subscribers (deliver k tk)) = (if p = q then [(q, es @ [e])] else [(q, es)])"
  proof -
    have "dt_subscribers (deliver k tk) = map (\<lambda>x. if fst x = p then (p, snd x @ [e]) else x) (dt_subscribers tk)"
      by (simp add: deliver_def pe)
    then have "?own (dt_subscribers (deliver k tk)) = map (\<lambda>x. if fst x = p then (p, snd x @ [e]) else x) [(q, es)]"
      by (simp only: own_map [of q p "\<lambda>s. s @ [e]"] es)
    then show ?thesis by auto
  qed
  then have ok: "sub_ok (deliver k tk) q"
    and qu: "queue_of q (deliver k tk) = (if p = q then es @ [e] else es)" "queue_of q tk = es"
    using queue_of_own [OF es] queue_of_own [of q "deliver k tk"] by (auto simp: sub_ok_def split: if_splits)
  have tr': "in_transit q (deliver k tk) = map snd (?own (take k (dt_transit tk))) @ map snd (?own (drop (Suc k) (dt_transit tk)))"
    by (simp add: in_transit_def deliver_def pe)
  show ?thesis
  proof (cases "p = q")
    case True
    have "in_transit q tk = map snd (?own (take k (dt_transit tk))) @ e # map snd (?own (drop (Suc k) (dt_transit tk)))"
      by (simp add: in_transit_def tr True)
    moreover have "cancel_notice e \<or> loud (map snd (?own (take k (dt_transit tk)))) = []"
      using may True by (auto simp: filter_empty_conv list_all_iff)
    ultimately have "in_transit q tk = ?tr @ e # ?tr' \<and> in_transit q (deliver k tk) = ?tr @ ?tr' \<and>
        queue_of q (deliver k tk) = queue_of q tk @ [e] \<and> (cancel_notice e \<or> loud ?tr = [])"
      using qu tr' True by simp
    then show ?thesis using ok by blast
  qed (use ok qu tr' in \<open>simp add: in_transit_def tr\<close>)
qed

definition stream_ok :: "nat \<Rightarrow> task_record \<times> stream \<Rightarrow> bool" where
  "stream_ok s x \<longleftrightarrow> (case x of (tk, m) \<Rightarrow>
     if sm_phase m = Closed then written_part s (dt_events tk) (sm_written m)
     else sub_ok tk (sm_queue m) \<and>
       delivered s (sm_phase m = Opened) (dt_events tk) (queue_of (sm_queue m) tk) (in_transit (sm_queue m) tk) (sm_written m))"

lemma stream_ok_live: "sm_phase m \<noteq> Closed \<Longrightarrow> stream_ok s (tk, m) \<longleftrightarrow> sub_ok tk (sm_queue m) \<and>
    delivered s (sm_phase m = Opened) (dt_events tk) (queue_of (sm_queue m) tk) (in_transit (sm_queue m) tk) (sm_written m)"
  by (simp add: stream_ok_def)

lemma stream_ok_written: "stream_ok s (tk, m) \<Longrightarrow> written_part s (dt_events tk) (sm_written m)"
  by (auto simp: stream_ok_def intro: delivered_written split: if_splits)

lemma stream_ok_close: "stream_ok s (tk, m) \<Longrightarrow> stream_ok s (close_stream tk m)"
  using stream_ok_written [of s tk m] by (simp add: stream_ok_def close_stream_def unsubscribe_def)

lemma stream_ok_open:
  assumes "q \<notin> set (map fst (dt_subscribers tk))" "q \<notin> set (map fst (dt_transit tk))"
  shows "stream_ok (length (dt_events tk)) (open_stream q tk)"
proof -
  have none: "filter (\<lambda>x. fst x = q) xs = []" if "q \<notin> set (map fst xs)" for xs :: "(nat \<times> 'a) list"
    using that by (auto simp: filter_empty_conv)
  have subs: "filter (\<lambda>x. fst x = q) (dt_subscribers (subscribe q tk)) = [(q, [])]"
    using none [OF assms(1)] by (simp add: subscribe_def)
  have "in_transit q (subscribe q tk) = []" using none [OF assms(2)] by (simp add: in_transit_def subscribe_def)
  moreover have "dt_events (subscribe q tk) = dt_events tk" by (simp add: subscribe_def)
  ultimately show ?thesis
    using subs queue_of_own [OF subs] by (simp add: stream_ok_def open_stream_def delivered_open sub_ok_def)
qed

lemma stream_ok_emit: "stream_ok s (tk, m) \<Longrightarrow> stream_ok s (emit now ev data tk, m)"
  using own_emit [of tk "sm_queue m" now ev data]
  by (auto simp: stream_ok_def delivered_emit written_emit split: if_splits)

lemma stream_ok_put:
  assumes "stream_ok s (tk, m)" "may_deliver k tk" shows "stream_ok s (deliver k tk, m)"
proof (cases "sm_phase m = Closed")
  case True
  then show ?thesis using assms(1) by (simp add: stream_ok_def)
next
  case False
  then have s: "sub_ok tk (sm_queue m)" "delivered s (sm_phase m = Opened) (dt_events tk) (queue_of (sm_queue m) tk)
      (in_transit (sm_queue m) tk) (sm_written m)"
    using assms(1) by (simp_all add: stream_ok_live)
  from own_deliver [OF s(1) assms(2)] s(2) False delivered_put show ?thesis
    by (auto simp: stream_ok_live)
qed

lemma stream_ok_copy: "stream_ok s (tk, m) \<Longrightarrow> sm_phase m = Opened \<Longrightarrow> stream_ok s (tk, copy_events tk m)"
  by (simp add: stream_ok_def copy_events_def delivered_copy)

lemma stream_ok_read:
  "stream_ok s (tk, m) \<Longrightarrow> sm_phase m = Live \<Longrightarrow> queue_of (sm_queue m) tk = e # es \<Longrightarrow>
   stream_ok s (pop_queue (sm_queue m) tk, m\<lparr>sm_written := sm_written m @ [e]\<rparr>)"
  using own_pop [of tk "sm_queue m"] by (simp add: stream_ok_def delivered_read)

lemma stream_ok_phase:
  "stream_ok s (tk, m) \<Longrightarrow> sm_phase m \<noteq> Opened \<Longrightarrow> sm_phase m \<noteq> Closed \<Longrightarrow> stream_ok s (tk, m\<lparr>sm_phase := Live\<rparr>)"
  by (simp add: stream_ok_def)

lemma stream_ok_pings: "stream_ok s (tk, m\<lparr>sm_pings := n\<rparr>) = stream_ok s (tk, m)"
  by (simp add: stream_ok_def)

lemma stream_ok_turn:
  assumes "stream_ok s (tk, m)" "sm_phase m = Live" shows "stream_ok s (stream_turn tk m)"
proof (cases "queue_of (sm_queue m) tk")
  case Nil
  then show ?thesis using assms stream_ok_close by (simp add: stream_turn_def Let_def stream_ok_pings)
next
  case (Cons e es)
  from stream_ok_read [OF assms Cons] Cons show ?thesis
    using stream_ok_close by (simp add: stream_turn_def Let_def)
qed

lemma stream_ok_step:
  assumes "stream_ok s x" shows "stream_ok s (stream_step x)"
proof -
  obtain tk m where x: "x = (tk, m)" by (cases x)
  show ?thesis
  proof (cases "sm_phase m")
    case Copied
    then show ?thesis
      using assms stream_ok_phase stream_ok_close by (simp add: x stream_step_def after_copy_def)
  qed (use assms stream_ok_copy stream_ok_turn in \<open>simp_all add: x stream_step_def\<close>)
qed

lemma stream_ok_changed:
  assumes "stream_ok s (tk, m)" "dt_events tk' = dt_events tk" "own_part (sm_queue m) tk' = own_part (sm_queue m) tk"
  shows "stream_ok s (tk', m)"
  using assms(1,2) own_same [OF assms(3)] by (auto simp: stream_ok_def split: if_splits)

interpretation streaming: machine stream_runs "stream_ok s" for s
proof
  show "stream_ok s y" if "stream_ok s x" "stream_runs x y" for x y
    using that(2,1)
    by (induction rule: stream_runs.induct)
      (blast intro: stream_ok_step stream_ok_close stream_ok_emit stream_ok_put stream_ok_changed)+
qed

lemma stream_shared_out:
  assumes "stream_ok s (tk, m)" "sm_phase m \<in> {Copied, Live}"
  shows "\<exists>c ps. s \<le> c \<and> c \<le> length (dt_events tk) \<and> sm_written m = take c (dt_events tk) @ ps \<and>
      shared_out (drop s (dt_events tk)) ps (queue_of (sm_queue m) tk) (in_transit (sm_queue m) tk)"
    "set (dt_events tk) = set (sm_written m) \<union> set (queue_of (sm_queue m) tk) \<union> set (in_transit (sm_queue m) tk)"
proof -
  have d: "delivered s False (dt_events tk) (queue_of (sm_queue m) tk) (in_transit (sm_queue m) tk) (sm_written m)"
    using assms by (auto simp: stream_ok_live)
  then show "\<exists>c ps. s \<le> c \<and> c \<le> length (dt_events tk) \<and> sm_written m = take c (dt_events tk) @ ps \<and>
      shared_out (drop s (dt_events tk)) ps (queue_of (sm_queue m) tk) (in_transit (sm_queue m) tk)"
    by (auto simp: delivered_def)
  show "set (dt_events tk) = set (sm_written m) \<union> set (queue_of (sm_queue m) tk) \<union> set (in_transit (sm_queue m) tk)"
    by (rule delivered_set [OF d])
qed

text \<open>A stream on a task that emits nothing more.\<close>

lemma fresh_queue:
  "q \<notin> set (map fst (dt_subscribers tk)) \<Longrightarrow> queue_of q (subscribe q tk) = []"
  by (simp add: queue_of_def subscribe_def map_add_def map_of_eq_None_iff [THEN iffD2])

lemma idle_live:
  assumes "queue_of (sm_queue m) tk = []" "\<not> terminal tk" "sm_phase m = Live"
  shows "\<exists>p. (stream_step ^^ n) (tk, m) = (tk, m\<lparr>sm_pings := p\<rparr>)"
proof (induction n)
  case 0
  then show ?case by (intro exI [of _ "sm_pings m"]) simp
next
  case (Suc n)
  then show ?case
    using assms by (auto simp: stream_step_def stream_turn_def Let_def)
qed

lemma late_stream:
  assumes "q \<notin> set (map fst (dt_subscribers tk))"
  shows "(\<exists>n. sm_phase (snd ((stream_step ^^ n) (open_stream q tk))) = Closed) \<longleftrightarrow> terminal tk"
proof -
  let ?tk = "subscribe q tk"
  let ?m = "\<lparr>sm_queue = q, sm_written = dt_events tk, sm_pings = 0, sm_phase = Live\<rparr>"
  have t: "terminal ?tk = terminal tk" by (simp add: terminal_def subscribe_def)
  show ?thesis
  proof
    assume "terminal tk"
    then have "sm_phase (snd ((stream_step ^^ 2) (open_stream q tk))) = Closed"
      by (simp add: numeral_2_eq_2 open_stream_def stream_step_def copy_events_def after_copy_def t close_stream_def)
    then show "\<exists>n. sm_phase (snd ((stream_step ^^ n) (open_stream q tk))) = Closed" ..
  next
    assume "\<exists>n. sm_phase (snd ((stream_step ^^ n) (open_stream q tk))) = Closed"
    then obtain n where n: "sm_phase (snd ((stream_step ^^ n) (open_stream q tk))) = Closed" ..
    show "terminal tk"
    proof (rule ccontr)
      assume nt: "\<not> terminal tk"
      have two: "(stream_step ^^ 2) (open_stream q tk) = (?tk, ?m)"
        using nt by (simp add: numeral_2_eq_2 open_stream_def stream_step_def copy_events_def after_copy_def t)
          (simp add: subscribe_def)
      have live: "\<exists>p. (stream_step ^^ k) (?tk, ?m) = (?tk, ?m\<lparr>sm_pings := p\<rparr>)" for k
        using idle_live [of ?m ?tk k] fresh_queue [OF assms] nt t by simp
      consider "n = 0" | "n = 1" | k where "n = k + 2" by (metis One_nat_def add_2_eq_Suc' not0_implies_Suc)
      then show False
      proof cases
        case 3
        have "(stream_step ^^ n) (open_stream q tk) = (stream_step ^^ k) (?tk, ?m)"
          by (simp only: 3 funpow_add comp_apply two)
        with n live [of k] show False by auto
      qed (use n in \<open>simp_all add: open_stream_def stream_step_def copy_events_def\<close>)
    qed
  qed
qed

end
