(* ===== verification/DesktopRun.thy ===== *)
theory DesktopRun
  imports DesktopLive ServerFacts SifterFacts ResolveFacts
begin

text \<open>
  The desktop service around the sifter: its runs end as the sifter's do, a task that is over
  says so except after a blocked run, and a switched profile stays with the service.
\<close>

section \<open>A run of the sifter as a task's run\<close>

text \<open>
  \<^verbatim>\<open>await self.sifter.run(...)\<close> of a sifter whose questions are answered by its own approval
  provider: what it reports on its way is left out, and it ends with its result or its
  exception.
\<close>

definition run_of :: "sifter_result result \<times> 's \<Rightarrow> run_tree" where
  "run_of x = (case fst x of Inr r \<Rightarrow> Return r | Inl e \<Rightarrow> Fail (err_text e))"

definition sift_of :: "('p, 'w) sifter \<Rightarrow> string \<Rightarrow> store option \<Rightarrow> 'w \<Rightarrow> task_record \<Rightarrow> run_tree" where
  "sift_of S tid history w tk = run_of (run S tid (dt_prompt tk) (dt_context tk) (dt_policy tk) None [] history w)"

lemma ended_status: "ended_well r \<Longrightarrow> sr_status r \<in> set SIFTER_STATUSES"
  by (auto simp: ended_well_def SIFTER_STATUSES_def split: option.splits)

lemma sift_of_proper: "proper_sift (sift_of S tid history w)"
proof -
  have "proper_run (run_of (run S tid p c pol None [] history w))" for p c pol
    using run_ends_well [of S tid p c pol None "[]" history w] ended_status
    by (auto simp: run_of_def split: sum.splits)
  then show ?thesis by (simp add: proper_sift_def sift_of_def)
qed

section \<open>Reachable states\<close>

lemma desk_run_live:
  "proper_sift sift \<Longrightarrow> desk_run sift (start_service c app name) s \<Longrightarrow> live_ok s"
  unfolding live_ok_def using desk_live.steps_inv desk_ok_start waiting_start by blast

lemma desk_run_task:
  "proper_sift sift \<Longrightarrow> desk_run sift (start_service c app name) s \<Longrightarrow> get_task s i = Some tk \<Longrightarrow> task_ok tk"
  using desk_run_ok [of sift c app name s] tasks_okD [of s i tk] by (simp add: desk_ok_def)

text \<open>What the record of a task tells.\<close>

lemma task_ok_done:
  assumes "task_ok tk"
  shows "dt_finished_at tk \<noteq> None \<longleftrightarrow> dt_code tk = Ended"
    "length (filter (named ''done'') (dt_events tk)) = (if dt_finished_at tk = None then 0 else 1)"
proof -
  have "place_ok (dt_code tk) tk" using assms by (simp add: task_ok_def)
  then show f: "dt_finished_at tk \<noteq> None \<longleftrightarrow> dt_code tk = Ended" by (cases "dt_code tk") auto
  then show "length (filter (named ''done'') (dt_events tk)) = (if dt_finished_at tk = None then 0 else 1)"
    using assms by (simp add: task_ok_def done_ok_def)
qed

lemma task_ok_asking:
  assumes "task_ok tk" "dt_code tk \<noteq> Lost"
  shows "dt_approval_request tk \<noteq> None \<longleftrightarrow> dt_status tk = ''waiting_approval''"
proof -
  have "place_ok (dt_code tk) tk" using assms(1) by (simp add: task_ok_def)
  then show ?thesis
    using assms(2) by (cases "dt_code tk") (auto simp: not_asking_def finished_status_def SIFTER_STATUSES_def)
qed

lemma ended_status_of:
  assumes "task_ok tk" "dt_code tk = Ended"
  shows "dt_status tk \<in> set (''cancelled'' # SIFTER_STATUSES)"
  using assms by (simp add: task_ok_def finished_status_def)

lemma ended_terminal:
  assumes "task_ok tk" "dt_code tk = Ended"
  shows "terminal tk \<longleftrightarrow> dt_status tk \<noteq> ''blocked''"
  using ended_status_of [OF assms] by (auto simp: terminal_def TERMINAL_STATUSES_def SIFTER_STATUSES_def)

section \<open>Switching the profile\<close>

lemma activated_offline:
  assumes "service_activate ho name s = Inr (v, t)" "read_as_written ho ((ds_app s)\<lparr>app_active_profile := name\<rparr>)"
    "name \<noteq> []" "dict_get (app_profiles (ds_app s)) name = Some p"
    "\<not> (active_tier (cp_expert p) \<and> profile_cloud_allowed p)"
  shows "\<not> cloud_allowed (ds_config t) \<and> routing_policy (ds_config t) = ''local_only'' \<and> ds_profile_name t = name"
  using assms(1)
proof (rule activate_result)
  fix q app app' assume a: "activate_profile (ds_app s) name = Inr (q, app)" "reread ho app = Inr app'"
    and t: "t = s\<lparr>ds_app := app, ds_status_cache := None, ds_profile_name := app_active_profile app,
       ds_config := fst (load_runtime_config (dict_get (ho_env ho)) None (Some app')
         (Some (app_active_profile app)) no_args)\<rparr>"
  have app: "app = (ds_app s)\<lparr>app_active_profile := name\<rparr>"
    using a(1) by (auto simp: activate_profile_def split: sum.splits)
  then have "app' = repaired app" using a(2) reread_written [OF assms(2)] by simp
  then have "get_profile app' (Some (app_active_profile app)) = Inr p"
    using repaired_keeps [of app p] assms(3,4) app
    by (cases name) (simp_all add: get_profile_def selected_profile_def)
  then show ?thesis
    using resolved_offline [OF _ assms(5), of app' _ no_args] by (simp add: t no_args_def app)
qed

end
