(* ===== verification/ConfigCli.thy ===== *)
theory ConfigCli
  imports Doctor Store Recommender
begin

text \<open>
  The configuration commands of the command line (\<^verbatim>\<open>cli/config_commands.py\<close>).  A command takes
  the parsed arguments and the loaded application, and gives what it prints (one text for each
  \<^verbatim>\<open>print\<close>), its exit code, the application it saved, if it saved one, and the files it wrote.
  The detected hardware, the file system, the TOML reader and pydantic's decoder are arguments;
  \<open>fmt\<close> shows a float.
\<close>

section \<open>Arguments and results\<close>

record ns =
  ns_goal :: "string list option"
  ns_quality :: "pyfloat option"
  ns_speed :: "pyfloat option"
  ns_cost :: "pyfloat option"
  ns_privacy :: "pyfloat option"
  ns_cloud :: "bool option"
  ns_local_first :: "bool option"
  ns_context_limit :: "int option"
  ns_max_output_tokens :: "int option"
  ns_routing :: "string option"
  ns_local_provider :: "string option"
  ns_local_model :: "string option"
  ns_local_endpoint :: "string option"
  ns_local_api_key_env :: "string option"
  ns_expert_provider :: "string option"
  ns_expert_model :: "string option"
  ns_expert_endpoint :: "string option"
  ns_expert_api_key_env :: "string option"
  ns_endpoint :: "string option"
  ns_api_key_env :: "string option"
  ns_gpu :: "string option"
  ns_vram :: "pyfloat option"
  ns_ram :: "pyfloat option"
  ns_cpu :: "string option"
  ns_cores :: "int option"
  ns_threads :: "int option"
  ns_detect :: bool
  ns_save :: "string option"
  ns_source :: "string option"
  ns_name :: "string option"
  ns_output :: "string option"
  ns_force :: bool
  ns_use :: bool
  ns_tier :: "string option"
  ns_installed :: bool
  ns_live :: bool
  ns_yes :: bool
  ns_non_interactive :: bool

definition no_flags :: ns where
  "no_flags = \<lparr>ns_goal = None, ns_quality = None, ns_speed = None, ns_cost = None, ns_privacy = None,
     ns_cloud = None, ns_local_first = None, ns_context_limit = None, ns_max_output_tokens = None,
     ns_routing = None, ns_local_provider = None, ns_local_model = None, ns_local_endpoint = None,
     ns_local_api_key_env = None, ns_expert_provider = None, ns_expert_model = None,
     ns_expert_endpoint = None, ns_expert_api_key_env = None, ns_endpoint = None, ns_api_key_env = None,
     ns_gpu = None, ns_vram = None, ns_ram = None, ns_cpu = None, ns_cores = None, ns_threads = None,
     ns_detect = False, ns_save = None, ns_source = None, ns_name = None, ns_output = None,
     ns_force = False, ns_use = False, ns_tier = None, ns_installed = False, ns_live = False,
     ns_yes = False, ns_non_interactive = False\<rparr>"

record cli_out =
  co_lines :: "string list"
  co_code :: int
  co_saved :: "app_config option"
  co_files :: "(string \<times> string) list"

definition said :: "string list \<Rightarrow> cli_out" where
  "said ls = \<lparr>co_lines = ls, co_code = 0, co_saved = None, co_files = []\<rparr>"

definition refused :: "string \<Rightarrow> cli_out" where
  "refused msg = \<lparr>co_lines = [''ERROR: '' @ msg], co_code = 1, co_saved = None, co_files = []\<rparr>"

definition saved :: "app_config \<Rightarrow> string list \<Rightarrow> cli_out" where
  "saved app ls = \<lparr>co_lines = ls, co_code = 0, co_saved = Some app, co_files = []\<rparr>"

definition quoted :: "string \<Rightarrow> string" where
  "quoted s = quote # s @ [quote]"

definition show_bool :: "bool \<Rightarrow> string" where
  "show_bool b = (if b then ''True'' else ''False'')"

definition arg :: "nat \<Rightarrow> string list \<Rightarrow> string option" where
  "arg n q = (if n < length q then Some (q ! n) else None)"

definition arg_or :: "nat \<Rightarrow> string list \<Rightarrow> string \<Rightarrow> string" where
  "arg_or n q d = (case arg n q of None \<Rightarrow> d | Some s \<Rightarrow> s)"

section \<open>What is printed\<close>

definition tier_lines :: "string \<Rightarrow> tier_config option \<Rightarrow> string list" where
  "tier_lines label t = (case t of
     None \<Rightarrow> [label @ '': (not configured)'']
   | Some t \<Rightarrow> [label @ '': '' @ tc_provider t @ '' / '' @ tc_model t] @
       (case tc_context_limit t of None \<Rightarrow> []
        | Some n \<Rightarrow> if n = 0 then [] else [''    context: '' @ show_int n]) @
       (case nonempty_text (tc_endpoint t) of None \<Rightarrow> [] | Some e \<Rightarrow> [''    endpoint: '' @ e]))"

definition profile_lines :: "profile \<Rightarrow> string list" where
  "profile_lines p = tier_lines ''Local'' (cp_local p) @ tier_lines ''Expert'' (cp_expert p) @
     [''Routing: '' @ cp_routing_policy p,
      ''Approval: major='' @ show_bool (ac_major (cp_approval p)) @ '' critical='' @ show_bool (ac_critical (cp_approval p)) @
        '' significant='' @ show_bool (ac_significant (cp_approval p)),
      ''Preferences: local_first='' @ show_bool (up_local_first (cp_preferences p)) @
        '' cost_sensitive='' @ show_bool (up_cost_sensitive (cp_preferences p)) @
        '' privacy_sensitive='' @ show_bool (up_privacy_sensitive (cp_preferences p)) @
        '' cloud_allowed='' @ show_bool (up_cloud_allowed (cp_preferences p))]"

definition size_text :: "(pyfloat \<Rightarrow> string) \<Rightarrow> pyfloat option \<Rightarrow> string" where
  "size_text fmt x = (case x of None \<Rightarrow> ''unknown'' | Some v \<Rightarrow> if v = 0 then ''unknown'' else fmt v @ '' GB'')"

definition hardware_lines :: "(pyfloat \<Rightarrow> string) \<Rightarrow> hardware_profile \<Rightarrow> string list" where
  "hardware_lines fmt h = [''Detected System'', [], ''CPU:'', or_text_of (hw_cpu_name h) ''unknown'', [],
     ''GPU:'', or_text_of (hw_gpu_name h) ''none detected'', [], ''VRAM:'', size_text fmt (hw_gpu_vram_gb h), [],
     ''RAM:'', size_text fmt (hw_system_ram_gb h), [], ''OS:'', or_text_of (hw_operating_system h) ''unknown'']"

definition dashed :: "string list \<Rightarrow> string list" where
  "dashed xs = map (\<lambda>x. ''  - '' @ x) xs"

definition titled :: "string \<Rightarrow> string list \<Rightarrow> string list" where
  "titled title xs = (if xs = [] then [] else [[], title] @ dashed xs)"

definition tier_name_text :: "tier_config \<Rightarrow> string" where
  "tier_name_text t = tc_provider t @ '' / '' @ tc_model t"

definition recommendation_lines :: "recommendation \<Rightarrow> string list" where
  "recommendation_lines r = [[], ''Recommended configuration'', replicate 26 (CHR ''='')] @
     tier_lines ''Local'' (cp_local (rec_profile r)) @ tier_lines ''Expert'' (cp_expert (rec_profile r)) @
     [''Routing: '' @ cp_routing_policy (rec_profile r), ''Confidence: '' @ rec_confidence r] @
     titled ''Why:'' (rec_reasons r) @
     titled ''Local alternatives:'' (map tier_name_text (rec_local_alternatives r)) @
     titled ''Expert alternatives:'' (map tier_name_text (rec_expert_alternatives r)) @
     titled ''Notes:'' (rec_notes r)"

section \<open>Goals and hardware\<close>

definition or_half :: "pyfloat option \<Rightarrow> pyfloat" where
  "or_half x = (case x of None \<Rightarrow> rnd (1 / 2) | Some v \<Rightarrow> v)"

definition goal_from_args :: "ns \<Rightarrow> user_goal" where
  "goal_from_args a = \<lparr>
     ug_workload = (case ns_goal a of Some (g # gs) \<Rightarrow> g # gs
        | _ \<Rightarrow> [''software development'', ''software engineering agents'']),
     ug_quality_priority = or_half (ns_quality a), ug_speed_priority = or_half (ns_speed a),
     ug_cost_priority = or_half (ns_cost a), ug_privacy_priority = or_half (ns_privacy a),
     ug_cloud_allowed = (case ns_cloud a of None \<Rightarrow> True | Some b \<Rightarrow> b),
     ug_preferred_context = ns_context_limit a\<rparr>"

definition gpu_vendor_of :: "string \<Rightarrow> string option" where
  "gpu_vendor_of name =
     (let l = lower name
      in if sublist ''nvidia'' l \<or> sublist ''rtx'' l \<or> sublist ''gtx'' l then Some ''NVIDIA''
         else if sublist ''radeon'' l \<or> sublist ''amd'' l then Some ''AMD''
         else if sublist ''apple'' l then Some ''Apple''
         else None)"

definition some_size :: "pyfloat option \<Rightarrow> bool" where
  "some_size x \<longleftrightarrow> (case x of None \<Rightarrow> False | Some v \<Rightarrow> v \<noteq> 0)"

definition hardware_from_args :: "hardware_profile \<Rightarrow> ns \<Rightarrow> app_config \<Rightarrow> hardware_profile option" where
  "hardware_from_args detected a app =
     (if is_given (ns_gpu a) \<or> some_size (ns_vram a) \<or> some_size (ns_ram a) \<or> is_given (ns_cpu a)
      then Some (new_hardware\<lparr>hw_cpu_name := ns_cpu a, hw_gpu_name := ns_gpu a,
             hw_gpu_vendor := (case nonempty_text (ns_gpu a) of None \<Rightarrow> None | Some g \<Rightarrow> gpu_vendor_of g),
             hw_gpu_vram_gb := ns_vram a, hw_system_ram_gb := ns_ram a, hw_cpu_cores := ns_cores a,
             hw_cpu_threads := ns_threads a\<rparr>)
      else if ns_detect a then Some detected
      else case nonempty_text (app_active_hardware app) of None \<Rightarrow> None | Some n \<Rightarrow> dict_get (app_hardware app) n)"

section \<open>Profiles\<close>

definition profile_row :: "app_config \<Rightarrow> string \<times> profile \<Rightarrow> string" where
  "profile_row app e =
     (if fst e = app_active_profile app then ''*'' else '' '') @ '' '' @ fst e @
     '': local='' @ (case cp_local (snd e) of None \<Rightarrow> ''-'' | Some t \<Rightarrow> tc_model t) @
     '' expert='' @ (case cp_expert (snd e) of None \<Rightarrow> ''-'' | Some t \<Rightarrow> if tc_enabled t then tc_model t else ''-'') @
     '' routing='' @ cp_routing_policy (snd e)"

definition missing :: "string \<Rightarrow> cli_out" where
  "missing name = refused (''profile '' @ quoted name @ '' does not exist'')"

definition cli_copy :: "ns \<Rightarrow> app_config \<Rightarrow> string \<Rightarrow> string \<Rightarrow> cli_out" where
  "cli_copy a app source_name target =
     (if dict_get (app_profiles app) target \<noteq> None \<and> \<not> ns_force a
      then refused (''profile '' @ quoted target @ '' already exists (use --force to overwrite)'')
      else case dict_get (app_profiles app) source_name of
        None \<Rightarrow> refused (''source profile '' @ quoted source_name @ '' does not exist'')
      | Some p \<Rightarrow> saved (put_profile app target (p\<lparr>cp_name := target\<rparr>))
          [''Created profile '' @ quoted target @ '' from '' @ quoted source_name @ ''.''])"

definition cli_create :: "ns \<Rightarrow> app_config \<Rightarrow> string list \<Rightarrow> cli_out" where
  "cli_create a app q = (case arg 2 q of
     None \<Rightarrow> refused ''usage: aa_sifter profile create <name>''
   | Some target \<Rightarrow> cli_copy a app (or_text_of (ns_source a) (app_active_profile app)) target)"

definition cli_copy_profile :: "ns \<Rightarrow> app_config \<Rightarrow> string list \<Rightarrow> cli_out" where
  "cli_copy_profile a app q = (case (arg 2 q, arg 3 q) of
     (Some source, Some target) \<Rightarrow> cli_copy a app source target
   | _ \<Rightarrow> refused ''usage: aa_sifter profile copy <source> <target>'')"

definition cli_use :: "app_config \<Rightarrow> string list \<Rightarrow> cli_out" where
  "cli_use app q = (case arg 2 q of
     None \<Rightarrow> refused ''usage: aa_sifter profile use <name>''
   | Some name \<Rightarrow>
      if dict_get (app_profiles app) name = None then missing name
      else saved (app\<lparr>app_active_profile := name\<rparr>) [''Active profile: '' @ name])"

definition cli_delete :: "app_config \<Rightarrow> string list \<Rightarrow> cli_out" where
  "cli_delete app q = (case arg 2 q of
     None \<Rightarrow> refused ''usage: aa_sifter profile delete <name>''
   | Some name \<Rightarrow>
      if dict_get (app_profiles app) name = None then missing name
      else if length (app_profiles app) = 1 then refused ''cannot delete the last profile''
      else (let ps = dict_del name (app_profiles app); app' = app\<lparr>app_profiles := ps\<rparr>
            in if app_active_profile app = name
               then saved (app'\<lparr>app_active_profile := fst (hd ps)\<rparr>)
                 [''Active profile switched to '' @ quoted (fst (hd ps)) @ ''.'', ''Deleted profile '' @ quoted name @ ''.'']
               else saved app' [''Deleted profile '' @ quoted name @ ''.'']))"

text \<open>\<^verbatim>\<open>_apply_profile_edits\<close>: a tier that is missing is made first, without a model.\<close>

definition set_some :: "'a option \<Rightarrow> (('a \<Rightarrow> 'a) \<Rightarrow> 't \<Rightarrow> 't) \<Rightarrow> 't \<Rightarrow> 't" where
  "set_some x upd t = (case x of None \<Rightarrow> t | Some v \<Rightarrow> upd (\<lambda>_. v) t)"

definition set_opt :: "'a option \<Rightarrow> (('a option \<Rightarrow> 'a option) \<Rightarrow> 't \<Rightarrow> 't) \<Rightarrow> 't \<Rightarrow> 't" where
  "set_opt x upd t = (case x of None \<Rightarrow> t | Some v \<Rightarrow> upd (\<lambda>_. Some v) t)"

definition edited_tier ::
  "string option \<Rightarrow> string option \<Rightarrow> string option \<Rightarrow> string option \<Rightarrow> tier_config \<Rightarrow> tier_config" where
  "edited_tier provider model endpoint key t =
     set_opt key tc_api_key_env_update (set_opt endpoint tc_endpoint_update
       (set_some model tc_model_update (set_some provider tc_provider_update t)))"

definition ensured :: "string \<Rightarrow> tier_config option \<Rightarrow> tier_config" where
  "ensured provider t = (case t of None \<Rightarrow> new_tier provider [] | Some t \<Rightarrow> t)"

definition edits_given :: "ns \<Rightarrow> bool" where
  "edits_given a \<longleftrightarrow>
     list_ex (\<lambda>x. x \<noteq> None) [ns_local_provider a, ns_local_model a, ns_local_endpoint a, ns_local_api_key_env a,
       ns_expert_provider a, ns_expert_model a, ns_expert_endpoint a, ns_expert_api_key_env a] \<or>
     ns_context_limit a \<noteq> None \<or> ns_max_output_tokens a \<noteq> None \<or> is_given (ns_routing a) \<or>
     ns_cloud a \<noteq> None \<or> ns_local_first a \<noteq> None"

definition apply_profile_edits :: "ns \<Rightarrow> profile \<Rightarrow> profile" where
  "apply_profile_edits a p =
     (let loc = edited_tier (ns_local_provider a) (ns_local_model a) (ns_local_endpoint a) (ns_local_api_key_env a)
            (ensured ''ollama'' (cp_local p));
          ex = edited_tier (ns_expert_provider a) (ns_expert_model a) (ns_expert_endpoint a) (ns_expert_api_key_env a)
            (ensured ''deepseek'' (cp_expert p));
          loc = set_opt (ns_max_output_tokens a) tc_max_output_tokens_update
            (set_opt (ns_context_limit a) tc_context_limit_update loc);
          p = (if is_given (ns_routing a) then p\<lparr>cp_routing_policy := the (ns_routing a)\<rparr> else p);
          ex = set_some (ns_cloud a) tc_enabled_update ex;
          p = p\<lparr>cp_local := Some loc, cp_expert := Some ex,
                cp_preferences := set_some (ns_cloud a) up_cloud_allowed_update
                  (set_some (ns_local_first a) up_local_first_update (cp_preferences p))\<rparr>
      in p)"

definition cli_edit :: "string \<Rightarrow> ns \<Rightarrow> app_config \<Rightarrow> string list \<Rightarrow> cli_out" where
  "cli_edit config_path a app q =
     (let name = arg_or 2 q (app_active_profile app)
      in case dict_get (app_profiles app) name of
           None \<Rightarrow> missing name
         | Some p \<Rightarrow>
            if edits_given a
            then saved (put_profile app name (apply_profile_edits a p)) [''Updated profile '' @ quoted name @ ''.'']
            else said ([''Profile file: '' @ config_path,
              ''Edit it directly, or pass flags such as --local-model, --expert-model, --routing, --context-limit, --no-cloud.''] @
              profile_lines (apply_profile_edits a p)))"

definition cli_validate ::
  "(pyfloat \<Rightarrow> string) \<Rightarrow> catalog \<Rightarrow> (string, string) dict \<Rightarrow> app_config \<Rightarrow> string list \<Rightarrow> cli_out" where
  "cli_validate fmt cat env app q =
     (let name = arg_or 2 q (app_active_profile app)
      in case dict_get (app_profiles app) name of
           None \<Rightarrow> missing name
         | Some p \<Rightarrow>
            (let va = validate_profile fmt cat (effective_hardware app p) env True p
             in (said ([''Validating profile '' @ quoted name] @ map (\<lambda>e. ''ERROR: '' @ e) (va_errors va) @
                   map (\<lambda>e. ''WARNING: '' @ e) (va_warnings va) @ [if va_ok va then ''PASS'' else ''FAILED'']))
                  \<lparr>co_code := (if va_ok va then 0 else 1)\<rparr>))"

definition cli_export :: "(rat \<Rightarrow> string) \<Rightarrow> ns \<Rightarrow> app_config \<Rightarrow> string list \<Rightarrow> cli_out result" where
  "cli_export fr a app q = (case arg 2 q of
     None \<Rightarrow> Inr (refused ''usage: aa_sifter profile export <name> [--output file]'')
   | Some name \<Rightarrow> (case export_profile fr app name of
       Inl (KeyError k) \<Rightarrow> Inr (missing name)
     | Inl e \<Rightarrow> Inl e
     | Inr text \<Rightarrow> Inr (case nonempty_text (ns_output a) of
         None \<Rightarrow> said [text]
       | Some path \<Rightarrow> (said [''Exported profile '' @ quoted name @ '' to '' @ path])\<lparr>co_files := [(path, text)]\<rparr>)))"

text \<open>\<open>read_file\<close> gives what a file holds, as a profile or an exception; None if there is no file.\<close>

definition cli_import :: "(string \<Rightarrow> profile result option) \<Rightarrow> ns \<Rightarrow> app_config \<Rightarrow> string list \<Rightarrow> cli_out" where
  "cli_import read_file a app q = (case arg 2 q of
     None \<Rightarrow> refused ''usage: aa_sifter profile import <file>''
   | Some path \<Rightarrow> (case read_file path of
       None \<Rightarrow> refused (''file '' @ quoted path @ '' not found'')
     | Some (Inl e) \<Rightarrow> refused (''could not import profile: '' @ err_text e)
     | Some (Inr p) \<Rightarrow>
         (let p = (case nonempty_text (ns_name a) of None \<Rightarrow> p | Some n \<Rightarrow> p\<lparr>cp_name := n\<rparr>)
          in if dict_get (app_profiles app) (cp_name p) \<noteq> None \<and> \<not> ns_force a
             then refused (''profile '' @ quoted (cp_name p) @ '' already exists (use --force)'')
             else saved (put_profile app (cp_name p) p) [''Imported profile '' @ quoted (cp_name p) @ ''.''])))"

record outside =
  ou_fmt :: "pyfloat \<Rightarrow> string"
  ou_catalog :: catalog
  ou_env :: "(string, string) dict"
  ou_config_path :: string
  ou_detected :: hardware_profile
  ou_read_file :: "string \<Rightarrow> profile result option"

definition cmd_profile :: "outside \<Rightarrow> ns \<Rightarrow> string list \<Rightarrow> app_config \<Rightarrow> cli_out result" where
  "cmd_profile ou a q app =
     (let action = arg_or 1 q ''list''
      in if action = ''list''
         then Inr (said (map (profile_row app) (app_profiles app) @ [nl @ ''Active profile: '' @ app_active_profile app]))
         else if action = ''show''
         then Inr (let name = arg_or 2 q (app_active_profile app)
               in case dict_get (app_profiles app) name of None \<Rightarrow> missing name
                  | Some p \<Rightarrow> said ((''Profile: '' @ name @ (if name = app_active_profile app then '' (active)'' else [])) #
                      profile_lines p))
         else if action = ''create'' then Inr (cli_create a app q)
         else if action = ''copy'' then Inr (cli_copy_profile a app q)
         else if action = ''use'' then Inr (cli_use app q)
         else if action = ''delete'' then Inr (cli_delete app q)
         else if action = ''edit'' then Inr (cli_edit (ou_config_path ou) a app q)
         else if action = ''validate'' then Inr (cli_validate (ou_fmt ou) (ou_catalog ou) (ou_env ou) app q)
         else if action = ''export'' then cli_export (ou_fmt ou) a app q
         else if action = ''import'' then Inr (cli_import (ou_read_file ou) a app q)
         else Inr (refused (''unknown profile action '' @ quoted action)))"

section \<open>System\<close>

definition put_hardware :: "app_config \<Rightarrow> string \<Rightarrow> hardware_profile \<Rightarrow> app_config" where
  "put_hardware app name h = app\<lparr>app_hardware := dict_set name h (app_hardware app), app_active_hardware := Some name\<rparr>"

definition hardware_row :: "(pyfloat \<Rightarrow> string) \<Rightarrow> app_config \<Rightarrow> string \<times> hardware_profile \<Rightarrow> string" where
  "hardware_row fmt app e =
     (let size = (\<lambda>x. case x of None \<Rightarrow> ''?'' | Some v \<Rightarrow> if v = 0 then ''?'' else fmt v)
      in (if Some (fst e) = app_active_hardware app then ''*'' else '' '') @ '' '' @ fst e @ '': '' @
         or_text_of (hw_gpu_name (snd e)) ''no GPU'' @ '' ('' @ size (hw_gpu_vram_gb (snd e)) @ '' GB VRAM), '' @
         size (hw_system_ram_gb (snd e)) @ '' GB RAM'')"

definition cmd_system :: "outside \<Rightarrow> ns \<Rightarrow> string list \<Rightarrow> app_config \<Rightarrow> cli_out" where
  "cmd_system ou a q app =
     (let action = arg_or 1 q ''show''; fmt = ou_fmt ou
      in if action = ''detect''
         then (case nonempty_text (ns_save a) of
             None \<Rightarrow> said (hardware_lines fmt (ou_detected ou))
           | Some n \<Rightarrow> saved (put_hardware app n (ou_detected ou))
               (hardware_lines fmt (ou_detected ou) @ [''Saved hardware profile '' @ quoted n @ ''.'']))
         else if action = ''show''
         then (case nonempty_text (if 2 < length q then Some (q ! 2) else app_active_hardware app) of
             None \<Rightarrow> said [''No active hardware profile. Run '' @ quoted ''aa_sifter system detect --save desktop'' @ ''.'']
           | Some n \<Rightarrow> (case dict_get (app_hardware app) n of
               None \<Rightarrow> said [''No active hardware profile. Run '' @ quoted ''aa_sifter system detect --save desktop'' @ ''.'']
             | Some h \<Rightarrow> said ((''Hardware profile: '' @ n) # hardware_lines fmt h)))
         else if action = ''list''
         then said (if app_hardware app = [] then [''No hardware profiles.'']
                    else map (hardware_row fmt app) (app_hardware app))
         else if action = ''use''
         then (case arg 2 q of
             None \<Rightarrow> refused ''usage: aa_sifter system use <name>''
           | Some n \<Rightarrow> if dict_get (app_hardware app) n = None
               then refused (''hardware profile '' @ quoted n @ '' does not exist'')
               else saved (app\<lparr>app_active_hardware := Some n\<rparr>) [''Active hardware profile: '' @ n])
         else if action = ''configure''
         then (let h = new_hardware\<lparr>hw_cpu_name := ns_cpu a, hw_cpu_cores := ns_cores a, hw_cpu_threads := ns_threads a,
                      hw_gpu_name := ns_gpu a, hw_gpu_vram_gb := ns_vram a, hw_system_ram_gb := ns_ram a\<rparr>;
                   n = or_text_of (ns_save a) ''default''
               in saved (put_hardware app n h) ((''Saved manual hardware profile '' @ quoted n @ ''.'') # hardware_lines fmt h))
         else refused (''unknown system action '' @ quoted action))"

section \<open>Models\<close>

definition model_row :: "pyval list option \<Rightarrow> model_metadata \<Rightarrow> string" where
  "model_row installed m =
     (if mm_local m then ''local '' else ''expert'') @ '' '' @ mm_provider m @ ''/'' @ mm_model_id m @ ''  '' @
     mm_display_name m @
     (case installed of None \<Rightarrow> []
      | Some names \<Rightarrow> if mm_local m \<and> mm_provider m = ''ollama''
          then (if PStr (mm_model_id m) \<in> set names then '' [installed]'' else '' [not installed]'') else [])"

definition cli_set_model :: "catalog \<Rightarrow> ns \<Rightarrow> app_config \<Rightarrow> string list \<Rightarrow> cli_out result" where
  "cli_set_model cat a app q =
     (if length q < 5 then Inr (refused ''usage: aa_sifter model set <local|expert> <provider> <model>'')
      else (let tr = q ! 2; provider = q ! 3; model_id = q ! 4
            in case active_profile app of
                 Inl e \<Rightarrow> Inl e
               | Inr p \<Rightarrow>
                  if tr \<notin> {''local'', ''expert''} then Inr (refused (''unknown tier '' @ quoted tr))
                  else (let t = (\<lambda>old. retier old provider model_id (ns_context_limit a) (ns_max_output_tokens a)
                               (ns_endpoint a) (ns_api_key_env a));
                            p = (if tr = ''local'' then p\<lparr>cp_local := Some (t (cp_local p))\<rparr>
                                 else p\<lparr>cp_expert := Some (t (cp_expert p))\<rparr>)
                        in Inr (saved (put_profile app (app_active_profile app) p)
                          ((if catalog_get cat provider model_id = None
                            then [''WARNING: '' @ quoted (provider @ ''/'' @ model_id) @
                              '' is not in the Compute Sifter catalog; configuration is still allowed.''] else []) @
                           [''Set '' @ tr @ '' tier to '' @ provider @ ''/'' @ model_id @ '' in profile '' @
                            quoted (cp_name p) @ ''.''])))))"

definition cmd_model ::
  "outside \<Rightarrow> ('w \<Rightarrow> pyval list option \<times> 'w) \<Rightarrow> ns \<Rightarrow> string list \<Rightarrow> app_config \<Rightarrow> 'w \<Rightarrow> cli_out result \<times> 'w" where
  "cmd_model ou installed_fn a q app w =
     (let action = arg_or 1 q ''list''
      in if action = ''list''
         then (case (if ns_installed a then installed_fn w else (None, w)) of (installed, w) \<Rightarrow>
           (Inr (said (map (model_row installed) (filter (\<lambda>m. \<not> (ns_tier a = Some ''local'' \<and> \<not> mm_local m) \<and>
              \<not> (ns_tier a = Some ''expert'' \<and> \<not> mm_cloud m)) (ou_catalog ou)))), w))
         else if action = ''show''
         then (case active_profile app of Inl e \<Rightarrow> (Inl e, w)
               | Inr p \<Rightarrow> (Inr (said (tier_lines ''Local'' (cp_local p) @ tier_lines ''Expert'' (cp_expert p))), w))
         else if action = ''set'' then (cli_set_model (ou_catalog ou) a app q, w)
         else (Inr (refused (''unknown model action '' @ quoted action)), w))"

section \<open>Recommendation and setup\<close>

definition cli_recommendation :: "outside \<Rightarrow> hardware_profile option \<Rightarrow> user_goal \<Rightarrow> string \<Rightarrow> recommendation" where
  "cli_recommendation ou hw g name =
     recommend_profile (ou_fmt ou) (ou_catalog ou) hw g name IMPLEMENTED_LOCAL_PROVIDERS IMPLEMENTED_CLOUD_PROVIDERS"

text \<open>\<open>shown\<close> is the text of a recommendation as JSON, if it was asked for.\<close>

definition cmd_recommend :: "outside \<Rightarrow> (recommendation \<Rightarrow> string) option \<Rightarrow> ns \<Rightarrow> app_config \<Rightarrow> cli_out" where
  "cmd_recommend ou shown a app =
     (let r = cli_recommendation ou (hardware_from_args (ou_detected ou) a app) (goal_from_args a)
            (or_text_of (ns_name a) ''recommended'');
          ls = (case shown of None \<Rightarrow> recommendation_lines r | Some f \<Rightarrow> [f r])
      in case nonempty_text (ns_save a) of
           None \<Rightarrow> said ls
         | Some n \<Rightarrow>
            if dict_get (app_profiles app) n \<noteq> None \<and> \<not> ns_force a
            then (refused (''profile '' @ quoted n @ '' exists (use --force)''))
                   \<lparr>co_lines := ls @ [''ERROR: profile '' @ quoted n @ '' exists (use --force)'']\<rparr>
            else (let app = put_profile app n ((rec_profile r)\<lparr>cp_name := n\<rparr>);
                      app = (if ns_use a then app\<lparr>app_active_profile := n\<rparr> else app)
                  in saved app (ls @ [nl @ ''Saved profile '' @ quoted n @ ''.''])))"

text \<open>\<^verbatim>\<open>_ask\<close>: a line of the input, or the default; None is an end of the input.\<close>

fun ask_line :: "string \<Rightarrow> string option list \<Rightarrow> string \<times> string option list" where
  "ask_line d [] = (d, [])"
| "ask_line d (None # xs) = (d, xs)"
| "ask_line d (Some s # xs) = ((if strip s = [] then d else strip s), xs)"

definition is_yes :: "string \<Rightarrow> bool" where
  "is_yes s \<longleftrightarrow> lower (strip s) \<in> {[], ''y'', ''yes''}"

definition setup_hardware ::
  "outside \<Rightarrow> bool \<Rightarrow> ns \<Rightarrow> app_config \<Rightarrow> string option list \<Rightarrow> hardware_profile option \<times> string option list" where
  "setup_hardware ou interactive a app inputs =
     (case hardware_from_args (ou_detected ou) a app of
        Some h \<Rightarrow> (Some h, inputs)
      | None \<Rightarrow> if \<not> interactive then (None, inputs)
          else (case ask_line ''y'' inputs of (s, inputs) \<Rightarrow>
            (if is_yes s then Some (ou_detected ou) else None, inputs)))"

definition workload_of :: "string \<Rightarrow> string list" where
  "workload_of raw = filter (\<lambda>s. s \<noteq> []) (map strip (split_char (CHR '','') raw))"

definition setup_goal :: "bool \<Rightarrow> ns \<Rightarrow> string option list \<Rightarrow> user_goal \<times> string option list" where
  "setup_goal interactive a inputs =
     (let g = goal_from_args a
      in if \<not> interactive then (g, inputs)
         else (case ask_line [] inputs of (raw, inputs) \<Rightarrow>
              (case ask_line ''y'' inputs of (cloud, inputs) \<Rightarrow>
              (case ask_line ''y'' inputs of (local_pref, inputs) \<Rightarrow>
                (let g = (if strip raw = [] then g else g\<lparr>ug_workload := workload_of raw\<rparr>)
                 in (g\<lparr>ug_cloud_allowed := is_yes cloud,
                       ug_privacy_priority := (if is_yes local_pref then rnd (8 / 10) else rnd (3 / 10))\<rparr>, inputs))))))"

text \<open>Whether the human turned to the commands instead, and what was printed on the way.\<close>

definition setup_choice :: "recommendation \<Rightarrow> string option list \<Rightarrow> bool \<times> string list" where
  "setup_choice r inputs =
     (case ask_line ''a'' inputs of (choice, inputs) \<Rightarrow>
        if prefix ''v'' (lower (strip choice))
        then (case ask_line ''y'' inputs of (choice, inputs) \<Rightarrow>
          (prefix ''c'' (lower (strip choice)), [[], ''Reasoning:''] @ dashed (rec_reasons r)))
        else (prefix ''c'' (lower (strip choice)), []))"

definition setup_saved :: "ns \<Rightarrow> hardware_profile option \<Rightarrow> recommendation \<Rightarrow> app_config \<Rightarrow> app_config" where
  "setup_saved a hw r app =
     (let n = or_text_of (ns_name a) ''default'';
          p = (rec_profile r)\<lparr>cp_name := n\<rparr>;
          p = (if hw = None then p else p\<lparr>cp_hardware := hw\<rparr>);
          app = (case hw of None \<Rightarrow> app | Some h \<Rightarrow> put_hardware app (or_text_of (ns_save a) ''detected'') h)
      in (put_profile app n p)\<lparr>app_active_profile := n\<rparr>)"

definition cmd_setup :: "outside \<Rightarrow> bool \<Rightarrow> ns \<Rightarrow> app_config \<Rightarrow> string option list \<Rightarrow> cli_out" where
  "cmd_setup ou terminal_input a app inputs =
     (let interactive = (\<not> ns_non_interactive a \<and> terminal_input); n = or_text_of (ns_name a) ''default''
      in case setup_hardware ou interactive a app inputs of (hw, inputs) \<Rightarrow>
        (case setup_goal interactive a inputs of (g, inputs) \<Rightarrow>
          (let r = cli_recommendation ou hw g n;
               before = [''Compute Sifter Setup'', []] @
                 (case hw of None \<Rightarrow> [] | Some h \<Rightarrow> [] # hardware_lines (ou_fmt ou) h) @
                 [[], ''Analyzing compatible models...''] @ recommendation_lines r;
               (custom, reasoning) = (if interactive \<and> \<not> ns_yes a then setup_choice r inputs else (False, []))
           in if custom
              then said (before @ reasoning @ [''Customize with: aa_sifter model set local <provider> <model>'',
                ''Then: aa_sifter profile use '' @ n])
              else saved (setup_saved a hw r app) (before @ reasoning @
                [[], ''Saved profile '' @ quoted n @ '' to '' @ ou_config_path ou, ''Run: aa_sifter '' @ [dquote] @ ''your task'' @ [dquote]]))))"

section \<open>Doctor\<close>

definition check_line :: "check_row \<Rightarrow> string" where
  "check_line c = ''['' @ (if ck_ok c then ''PASS'' else if ck_optional c then ''SKIP'' else ''FAIL'') @ ''] '' @ ck_name c @
     (if ck_detail c = [] then [] else '' - '' @ ck_detail c)"

definition emit_doctor :: "check_row list \<Rightarrow> cli_out" where
  "emit_doctor rows =
     (let good = list_all ck_ok (filter (\<lambda>c. \<not> ck_optional c) rows)
      in (said ([''Compute Sifter Doctor'', []] @ map check_line rows @
            [if good then ''doctor: healthy'' else ''doctor: problems detected'']))
           \<lparr>co_code := (if good then 0 else 1)\<rparr>)"

definition cmd_doctor :: "outside \<Rightarrow> 'w probes \<Rightarrow> ns \<Rightarrow> app_config \<Rightarrow> 'w \<Rightarrow> cli_out \<times> 'w" where
  "cmd_doctor ou pb a app w =
     (case build_doctor_report (ou_fmt ou) (ou_catalog ou) pb (ou_env ou) (ns_live a) (ou_config_path ou) app w of
        (r, w) \<Rightarrow> (emit_doctor (dr_checks r), w))"

section \<open>Facts\<close>

text \<open>What a profile operation saves.\<close>

definition stored_app :: "('a \<times> app_config) result \<Rightarrow> app_config option" where
  "stored_app r = (case r of Inl e \<Rightarrow> None | Inr (x, app) \<Rightarrow> Some app)"

lemmas out_defs = said_def refused_def saved_def missing_def

lemma selected_selected: "selected_profile app (Some (selected_profile app n)) = selected_profile app n"
  by (simp add: selected_profile_def split: option.split list.split)

lemma or_text_selected: "or_text_of n (app_active_profile app) = selected_profile app n"
  by (auto simp: or_text_of_def nonempty_text_def selected_profile_def split: option.split list.split)

lemma cli_create_agrees:
  "length q = 3 \<Longrightarrow>
   co_saved (cli_create a app q) = stored_app (create_profile app (q ! 2) (ns_source a) (ns_force a))"
  by (simp add: cli_create_def arg_def cli_copy_def create_profile_def get_profile_def selected_selected
      or_text_selected stored_app_def out_defs Let_def split: option.split)

lemma cli_use_agrees:
  "length q = 3 \<Longrightarrow> q ! 2 \<noteq> [] \<Longrightarrow> co_saved (cli_use app q) = stored_app (activate_profile app (q ! 2))"
  by (simp add: cli_use_def arg_def activate_profile_def get_profile_def selected_profile_def stored_app_def out_defs
      split: option.split list.split)

lemma cli_delete_agrees:
  "length q = 3 \<Longrightarrow> q ! 2 \<noteq> [] \<Longrightarrow> co_saved (cli_delete app q) = stored_app (delete_profile app (q ! 2))"
  by (auto simp: cli_delete_def arg_def delete_profile_def get_profile_def selected_profile_def stored_app_def out_defs
      Let_def split: option.split list.split)

definition saved_by :: "cli_out result \<Rightarrow> app_config option" where
  "saved_by r = (case r of Inl e \<Rightarrow> None | Inr out \<Rightarrow> co_saved out)"

lemma cli_set_agrees:
  "length q = 5 \<Longrightarrow> saved_by (cli_set_model cat a app q) =
   stored_app (set_tier app (q ! 2) (q ! 3) (q ! 4) None (ns_context_limit a) (ns_max_output_tokens a)
     (ns_endpoint a) (ns_api_key_env a))"
  by (simp add: cli_set_model_def saved_by_def set_tier_def get_profile_def selected_profile_def active_profile_def
      stored_app_def out_defs Let_def split: option.split)

text \<open>The invariant of what is saved.\<close>

definition saves_ok :: "cli_out \<Rightarrow> bool" where
  "saves_ok out \<longleftrightarrow> (case co_saved out of None \<Rightarrow> True | Some app \<Rightarrow> app_ok app)"

lemma saves_ok_simps [simp]:
  "saves_ok (said ls)" "saves_ok (refused m)" "saves_ok (missing m)" "saves_ok (saved app ls) \<longleftrightarrow> app_ok app"
  "saves_ok (out\<lparr>co_code := c\<rparr>) \<longleftrightarrow> saves_ok out" "saves_ok (out\<lparr>co_files := fs\<rparr>) \<longleftrightarrow> saves_ok out"
  "saves_ok (out\<lparr>co_lines := ls\<rparr>) \<longleftrightarrow> saves_ok out"
  by (simp_all add: saves_ok_def out_defs)

lemma app_ok_entry: "app_ok app \<Longrightarrow> dict_get (app_profiles app) n = Some p \<Longrightarrow> approval_ok p"
  by (simp add: app_ok_def)

lemma approval_ok_rename [simp]: "approval_ok (p\<lparr>cp_name := n\<rparr>) \<longleftrightarrow> approval_ok p"
  by (simp add: approval_ok_def)

lemma approval_ok_edits [simp]: "approval_ok (apply_profile_edits a p) \<longleftrightarrow> approval_ok p"
  by (simp add: approval_ok_def apply_profile_edits_def Let_def)

lemma app_ok_hardware [simp]: "app_ok (put_hardware app n h) \<longleftrightarrow> app_ok app"
  "app_ok (app\<lparr>app_active_hardware := hn\<rparr>) \<longleftrightarrow> app_ok app"
  by (simp_all add: app_ok_def put_hardware_def)

lemma cli_copy_ok: "app_ok app \<Longrightarrow> saves_ok (cli_copy a app source target)"
  by (auto simp: cli_copy_def app_ok_entry intro: app_ok_put split: option.split)

lemma cli_use_ok: "app_ok app \<Longrightarrow> saves_ok (cli_use app q)"
  by (auto simp: cli_use_def app_ok_def split: option.split)

lemma cli_delete_ok:
  assumes "app_ok app" shows "saves_ok (cli_delete app q)"
proof (cases "arg 2 q")
  case (Some name)
  then have l: "2 < length q" and n: "q ! 2 = name" by (auto simp: arg_def split: if_splits)
  have "co_saved (cli_delete app q) = stored_app (delete_profile app name)"
    using assms by (auto simp: app_ok_def cli_delete_def arg_def l n delete_profile_def get_profile_def selected_profile_def stored_app_def out_defs
        Let_def split: option.split list.split)
  then show ?thesis
    using delete_ok [OF assms] by (auto simp: saves_ok_def stored_app_def split: sum.split)
qed (simp add: cli_delete_def)

lemma cli_edit_ok: "app_ok app \<Longrightarrow> saves_ok (cli_edit path a app q)"
  by (auto simp: cli_edit_def Let_def app_ok_entry intro: app_ok_put split: option.split)

lemma cli_import_ok:
  assumes "app_ok app" "\<And>path p. read_file path = Some (Inr p) \<Longrightarrow> approval_ok p"
  shows "saves_ok (cli_import read_file a app q)"
  using assms by (auto simp: cli_import_def Let_def intro!: app_ok_put split: option.split sum.split)

lemma cli_set_model_ok: "app_ok app \<Longrightarrow> cli_set_model cat a app q = Inr out \<Longrightarrow> saves_ok out"
  by (auto simp: cli_set_model_def Let_def active_profile_def approval_ok_def app_ok_entry [unfolded approval_ok_def]
      intro!: app_ok_put split: if_splits option.splits sum.splits)

lemma cmd_profile_ok:
  assumes "app_ok app" "\<And>path p. ou_read_file ou path = Some (Inr p) \<Longrightarrow> approval_ok p"
    "cmd_profile ou a q app = Inr out"
  shows "saves_ok out"
  using assms(3) cli_copy_ok [OF assms(1)] cli_use_ok [OF assms(1)] cli_delete_ok [OF assms(1)]
    cli_edit_ok [OF assms(1)] cli_import_ok [OF assms(1,2)]
  by (auto simp: cmd_profile_def Let_def cli_create_def cli_copy_profile_def cli_validate_def cli_export_def
      split: if_splits option.splits sum.splits py_error.splits)

lemma cmd_system_ok: "app_ok app \<Longrightarrow> saves_ok (cmd_system ou a q app)"
  by (auto simp: cmd_system_def Let_def split: option.split)

lemma cmd_model_ok: "app_ok app \<Longrightarrow> cmd_model ou f a q app w = (Inr out, w') \<Longrightarrow> saves_ok out"
  unfolding cmd_model_def Let_def
  by (auto simp: case_prod_unfold dest: cli_set_model_ok split: if_splits sum.splits)

text \<open>An edit makes an expert tier without a model, where there was none.\<close>

lemma edit_breaks:
  assumes "cp_expert p = None" "profile_cloud_allowed p" "ns_expert_model a = None" "ns_cloud a = None"
  shows "\<not> va_ok (validate_profile fmt cat hw env req (apply_profile_edits a p))"
proof -
  let ?p = "apply_profile_edits a p"
  obtain t where t: "cp_expert ?p = Some t" "tc_model t = []" "tc_enabled t"
    using assms by (simp add: apply_profile_edits_def Let_def edited_tier_def ensured_def set_some_def set_opt_def
        new_tier_def split: option.split)
  have "profile_cloud_allowed ?p"
    using assms by (simp add: apply_profile_edits_def Let_def profile_cloud_allowed_def set_some_def split: option.split)
  with t have "active_tier (cp_expert ?p)" "''expert'' @ '' model is missing'' \<in> set (va_errors (check_tier fmt cat hw env req ''expert'' t))"
    by (simp_all add: active_tier_def check_tier_def va_all_def err_def)
  with t(1) \<open>profile_cloud_allowed ?p\<close> show ?thesis
    by (auto simp: va_ok_def validate_profile_def va_all_def)
qed

text \<open>The exit code of the doctor is its verdict.\<close>

lemma report_finished: "\<exists>rows. fst (build_doctor_report fmt cat pb env live path app w) = finish_report rows"
  by (simp add: build_doctor_report_def Let_def case_prod_unfold split: option.split) blast

lemma doctor_code:
  "co_code (fst (cmd_doctor ou pb a app w)) = 0 \<longleftrightarrow>
   dr_ok (fst (build_doctor_report (ou_fmt ou) (ou_catalog ou) pb (ou_env ou) (ns_live a) (ou_config_path ou) app w))"
proof -
  obtain rows where "fst (build_doctor_report (ou_fmt ou) (ou_catalog ou) pb (ou_env ou) (ns_live a) (ou_config_path ou) app w)
      = finish_report rows"
    using report_finished [of "ou_fmt ou" "ou_catalog ou" pb "ou_env ou" "ns_live a" "ou_config_path ou" app w] by blast
  then show ?thesis
    by (simp add: cmd_doctor_def case_prod_unfold emit_doctor_def Let_def said_def finish_report_def)
qed

end
