(* ===== verification/Hardware.thy ===== *)
theory Hardware
  imports PyStr Schema Config
begin

text \<open>
  Hardware detection (\<^verbatim>\<open>system/hardware.py\<close>).  What the machine says is an argument: the outcome of
  a command, the text of a file, the answers of \<^verbatim>\<open>psutil\<close> (None where it is not installed) and of
  \<^verbatim>\<open>platform\<close>.
\<close>

datatype platform = Windows | Darwin | Unix

record machine_facts =
  mf_platform :: platform
  mf_exec :: "string list \<Rightarrow> (int \<times> string) option"
  mf_file :: "string \<Rightarrow> string option"
  mf_processor :: string
  mf_cpu_count :: "int option"
  mf_physical_cores :: "int option"
  mf_total_memory :: "int option"
  mf_system :: string
  mf_machine :: string

text \<open>\<^verbatim>\<open>_run\<close>: None stands for an exception of the subprocess.\<close>

definition run_probe :: "machine_facts \<Rightarrow> string list \<Rightarrow> string option" where
  "run_probe mf cmd = (case mf_exec mf cmd of
     None \<Rightarrow> None | Some (code, out) \<Rightarrow> if code \<noteq> 0 then None else Some (strip out))"

section \<open>Text\<close>

text \<open>\<^verbatim>\<open>split()\<close>\<close>

fun words_from :: "string \<Rightarrow> string \<Rightarrow> string list" where
  "words_from acc [] = (if acc = [] then [] else [rev acc])"
| "words_from acc (c # cs) =
     (if is_space c then (if acc = [] then words_from [] cs else rev acc # words_from [] cs)
      else words_from (c # acc) cs)"

definition words :: "string \<Rightarrow> string list" where
  "words s = words_from [] s"

definition first_text :: "string list \<Rightarrow> string option" where
  "first_text xs = (case xs of [] \<Rightarrow> None | x # _ \<Rightarrow> Some x)"

definition nonempty_string :: "string \<Rightarrow> string option" where
  "nonempty_string s = (if s = [] then None else Some s)"

section \<open>Processor\<close>

text \<open>The lines of a listing but its header.\<close>

definition listed :: "string \<Rightarrow> string list" where
  "listed output = filter (\<lambda>l. lower l \<noteq> ''name'') (filter (\<lambda>l. l \<noteq> []) (map strip (splitlines output)))"

definition clean_cpu :: "string option \<Rightarrow> string option" where
  "clean_cpu output = (case output of None \<Rightarrow> None | Some s \<Rightarrow> if s = [] then None else first_text (listed s))"

definition cpu_commands :: "string list list" where
  "cpu_commands = [[''wmic'', ''cpu'', ''get'', ''name''],
     [''powershell'', ''-NoProfile'', ''-Command'', ''(Get-CimInstance Win32_Processor).Name'']]"

fun first_nonempty :: "string option list \<Rightarrow> string option" where
  "first_nonempty [] = None"
| "first_nonempty (x # xs) = (case x of Some (c # s) \<Rightarrow> x | _ \<Rightarrow> first_nonempty xs)"

definition model_name_line :: "string \<Rightarrow> string option" where
  "model_name_line text = find (\<lambda>l. prefix ''model name'' (lower l)) (splitlines text)"

definition processor :: "machine_facts \<Rightarrow> string option result" where
  "processor mf = Inr (nonempty_string (mf_processor mf))"

definition detect_cpu_name :: "machine_facts \<Rightarrow> string option result" where
  "detect_cpu_name mf = (case mf_platform mf of
     Windows \<Rightarrow> (case first_nonempty (map (\<lambda>c. clean_cpu (run_probe mf c)) cpu_commands) of
         Some n \<Rightarrow> Inr (Some n) | None \<Rightarrow> processor mf)
   | Darwin \<Rightarrow> (case run_probe mf [''sysctl'', ''-n'', ''machdep.cpu.brand_string''] of
         Some (c # s) \<Rightarrow> Inr (Some (c # s)) | _ \<Rightarrow> processor mf)
   | Unix \<Rightarrow> (case mf_file mf ''/proc/cpuinfo'' of
         None \<Rightarrow> processor mf
       | Some text \<Rightarrow> (case model_name_line text of
           None \<Rightarrow> processor mf
         | Some l \<Rightarrow> (case after_first (CHR '':'') l of
             None \<Rightarrow> Inl (IndexError ''list index out of range'')
           | Some rest \<Rightarrow> Inr (Some (strip rest))))))"

section \<open>Memory\<close>

definition gigabytes :: "int \<Rightarrow> int \<Rightarrow> pyfloat" where
  "gigabytes n unit = fround 1 (rnd (of_int n / of_int unit))"

definition memory_token :: "string list \<Rightarrow> string option" where
  "memory_token ws = find (\<lambda>w. w \<noteq> [] \<and> list_all is_digit w \<and> 6 < length w) ws"

definition detect_ram_gb :: "machine_facts \<Rightarrow> pyfloat option result" where
  "detect_ram_gb mf = (case mf_total_memory mf of
     Some n \<Rightarrow> Inr (Some (gigabytes n (1024 ^ 3)))
   | None \<Rightarrow>
      if mf_platform mf = Windows
      then (case run_probe mf [''wmic'', ''ComputerSystem'', ''get'', ''TotalPhysicalMemory''] of
          None \<Rightarrow> Inr None
        | Some out \<Rightarrow> (case memory_token (words out) of
            None \<Rightarrow> Inr None | Some w \<Rightarrow> Inr (Some (gigabytes (int (read_nat w)) (1024 ^ 3)))))
      else (case mf_file mf ''/proc/meminfo'' of
          None \<Rightarrow> Inr None
        | Some text \<Rightarrow> (case find (prefix ''MemTotal'') (splitlines text) of
            None \<Rightarrow> Inr None
          | Some l \<Rightarrow>
             if length (words l) < 2 then Inl (IndexError ''list index out of range'')
             else (case parse_int (words l ! 1) of
               None \<Rightarrow> Inl (ValueError ''invalid literal for int()'')
             | Some kb \<Rightarrow> Inr (Some (gigabytes kb (1024 ^ 2)))))))"

section \<open>Graphics\<close>

definition nvidia_command :: "string list" where
  "nvidia_command = [''nvidia-smi'', ''--query-gpu=name,memory.total'', ''--format=csv,noheader,nounits'']"

definition detect_nvidia :: "machine_facts \<Rightarrow> string option \<times> pyfloat option" where
  "detect_nvidia mf = (case run_probe mf nvidia_command of
     None \<Rightarrow> (None, None)
   | Some out \<Rightarrow>
      if out = [] then (None, None)
      else (let parts = map strip (split_char (CHR '','') (hd (splitlines out)))
            in if length parts < 2 then (nonempty_string (hd parts), None)
               else (nonempty_string (hd parts),
                 map_option (\<lambda>x. fround 1 (rnd (x / 1024))) (parse_float (parts ! 1)))))"

text \<open>\<^verbatim>\<open>output.split(":", 2)[-1]\<close>\<close>

definition after_two :: "string \<Rightarrow> string" where
  "after_two s = (case after_first (CHR '':'') s of
     None \<Rightarrow> s
   | Some r \<Rightarrow> (case after_first (CHR '':'') r of None \<Rightarrow> r | Some q \<Rightarrow> q))"

definition detect_generic_gpu :: "machine_facts \<Rightarrow> string option" where
  "detect_generic_gpu mf =
     (if mf_platform mf = Windows
      then (case run_probe mf [''wmic'', ''path'', ''win32_VideoController'', ''get'', ''name''] of
          None \<Rightarrow> None | Some out \<Rightarrow> first_text (listed out))
      else (case run_probe mf [''sh'', ''-c'', ''lspci 2>/dev/null | grep -i vga | head -n1''] of
          None \<Rightarrow> None | Some out \<Rightarrow> if out = [] then None else Some (strip (after_two out))))"

definition detect_gpu :: "machine_facts \<Rightarrow> string option \<times> string option \<times> pyfloat option" where
  "detect_gpu mf = (case detect_nvidia mf of
     (Some n, vram) \<Rightarrow> (Some n, Some ''NVIDIA'', vram)
   | (None, vram) \<Rightarrow> (case detect_generic_gpu mf of
       Some (c # s) \<Rightarrow> (Some (c # s), None, None) | _ \<Rightarrow> (None, None, None)))"

definition detect_hardware :: "machine_facts \<Rightarrow> hardware_profile result" where
  "detect_hardware mf = (case detect_gpu mf of (name, vendor, vram) \<Rightarrow>
     (case detect_cpu_name mf of
        Inl e \<Rightarrow> Inl e
      | Inr cpu \<Rightarrow> (case detect_ram_gb mf of
          Inl e \<Rightarrow> Inl e
        | Inr ram \<Rightarrow> Inr \<lparr>hw_cpu_name = cpu, hw_cpu_cores = mf_physical_cores mf, hw_cpu_threads = mf_cpu_count mf,
            hw_gpu_name = name, hw_gpu_vendor = vendor, hw_gpu_vram_gb = vram, hw_system_ram_gb = ram,
            hw_operating_system = nonempty_string (mf_system mf), hw_architecture = nonempty_string (mf_machine mf),
            hw_source = ''detected''\<rparr>)))"

section \<open>Facts\<close>

lemma split_lines_no_break: "l \<in> set (split_lines acc s) \<Longrightarrow> c \<in> set l \<Longrightarrow> is_break c \<Longrightarrow> c \<in> set acc"
proof (induction acc s rule: split_lines.induct)
  case (1 acc)
  then show ?case by (auto split: if_splits)
next
  case (2 acc c' cs)
  then show ?case by (auto split: if_splits)
qed

lemma splitlines_no_break: "l \<in> set (splitlines s) \<Longrightarrow> c \<in> set l \<Longrightarrow> \<not> is_break c"
  using split_lines_no_break [of l "[]" s c] by (auto simp: splitlines_def)

lemma split_lines_nonempty: "acc \<noteq> [] \<or> s \<noteq> [] \<Longrightarrow> split_lines acc s \<noteq> []"
  by (induction acc s rule: split_lines.induct) auto

lemma splitlines_nonempty: "s \<noteq> [] \<Longrightarrow> splitlines s \<noteq> []"
  by (simp add: splitlines_def split_lines_nonempty)

text \<open>A graphics card that is found has a name; its memory is known only for the vendor's own tool.\<close>

lemma detect_gpu_shape:
  "detect_gpu mf = (name, vendor, vram) \<Longrightarrow>
   (vram \<noteq> None \<longrightarrow> vendor = Some ''NVIDIA'') \<and> (vendor \<noteq> None \<longrightarrow> name \<noteq> None) \<and> name \<noteq> Some []"
  by (auto simp: detect_gpu_def detect_nvidia_def Let_def nonempty_string_def
      split: option.splits list.splits prod.splits if_splits)

text \<open>Detection fails only where a file of the system has a line the code does not expect.\<close>

lemma detect_hardware_total:
  assumes "mf_total_memory mf \<noteq> None" "mf_platform mf \<noteq> Unix"
  shows "\<exists>h. detect_hardware mf = Inr h \<and> hw_source h = ''detected''"
proof -
  have "\<exists>c. detect_cpu_name mf = Inr c"
    using assms(2) by (cases "mf_platform mf") (auto simp: detect_cpu_name_def processor_def split: option.split list.split)
  moreover have "\<exists>r. detect_ram_gb mf = Inr r" using assms(1) by (auto simp: detect_ram_gb_def)
  ultimately show ?thesis by (auto simp: detect_hardware_def split: prod.split)
qed

end
