(* ===== verification/Launcher.thy ===== *)
theory Launcher
  imports Doctor
begin

text \<open>
  The launcher of the desktop backend (\<^verbatim>\<open>desktop/launcher.py\<close>) and the commands that use it
  (\<^verbatim>\<open>cli/desktop_commands.py\<close>).  The operating system is a record of functions on a world: the
  clock, ports, processes, the state file, the browser.  A poll loop has fuel, which
  \<open>poll_enough\<close> bounds where sleeping advances the clock; \<open>fr\<close> shows a float.
\<close>

record 'w os =
  os_env :: environ
  os_bind :: "int \<Rightarrow> 'w \<Rightarrow> bool \<times> 'w"
  os_clock :: "'w \<Rightarrow> rat"
  os_sleep :: "rat \<Rightarrow> 'w \<Rightarrow> 'w"
  os_state_text :: "'w \<Rightarrow> string option"
  os_clear_state :: "'w \<Rightarrow> 'w"
  os_spawn :: "int \<Rightarrow> 'w \<Rightarrow> int \<times> 'w"
  os_alive :: "int \<Rightarrow> 'w \<Rightarrow> bool"
  os_kill :: "int \<Rightarrow> 'w \<Rightarrow> 'w"
  os_web :: "'w server"
  os_browser :: "string \<Rightarrow> 'w \<Rightarrow> 'w"
  os_config_exists :: bool

section \<open>Ports\<close>

definition preferred_port :: "'w os \<Rightarrow> int" where
  "preferred_port os = (case os_env os ''SIFTER_DESKTOP_PORT'' of
     None \<Rightarrow> 8765
   | Some raw \<Rightarrow> if raw \<noteq> [] \<and> list_all is_digit raw then int (read_nat raw) else 8765)"

text \<open>A port out of range is an \<^verbatim>\<open>OverflowError\<close> of \<^verbatim>\<open>bind\<close>, which is no \<^verbatim>\<open>OSError\<close>.\<close>

definition port_available :: "'w os \<Rightarrow> int \<Rightarrow> 'w \<Rightarrow> bool result \<times> 'w" where
  "port_available os port w =
     (if 0 \<le> port \<and> port \<le> 65535 then (case os_bind os port w of (b, w) \<Rightarrow> (Inr b, w))
      else (Inl (OverflowError ''bind(): port must be 0-65535.''), w))"

fun first_port :: "'w os \<Rightarrow> int list \<Rightarrow> 'w \<Rightarrow> int result \<times> 'w" where
  "first_port os [] w = (Inr 0, w)"
| "first_port os (p # ps) w = (case port_available os p w of
     (Inl e, w) \<Rightarrow> (Inl e, w)
   | (Inr b, w) \<Rightarrow> if b then (Inr p, w) else first_port os ps w)"

definition choose_port :: "'w os \<Rightarrow> int option \<Rightarrow> 'w \<Rightarrow> int result \<times> 'w" where
  "choose_port os preferred w =
     (let candidate = (case preferred of None \<Rightarrow> preferred_port os | Some p \<Rightarrow> p)
      in if candidate = 0 then (Inr 0, w) else first_port os (map (\<lambda>i. candidate + i) [0..24]) w)"

section \<open>The state file and the running instance\<close>

text \<open>None is a missing file, or one that is not JSON.\<close>

definition read_state :: "'w os \<Rightarrow> 'w \<Rightarrow> pyval" where
  "read_state os w = (case os_state_text os w of
     None \<Rightarrow> PNone | Some text \<Rightarrow> (case json_loads text of None \<Rightarrow> PNone | Some v \<Rightarrow> v))"

definition state_text :: "(rat \<Rightarrow> string) \<Rightarrow> (string, pyval) dict \<Rightarrow> string" where
  "state_text fr d = json_dumps fr (Some 2) (PDict d)"

text \<open>What a serving backend leaves in the file, and the command that starts one.\<close>

definition server_url :: "string \<Rightarrow> int \<Rightarrow> string" where
  "server_url host port = ''http://'' @ host @ '':'' @ show_int port"

definition served_state :: "int \<Rightarrow> string \<Rightarrow> int \<Rightarrow> string \<Rightarrow> bool \<Rightarrow> (string, pyval) dict" where
  "served_state pid host port token open_ui =
     [(''pid'', PInt pid), (''url'', PStr (server_url host port)), (''host'', PStr host), (''port'', PInt port),
      (''token'', PStr token), (''started_by'', PStr (if open_ui then ''in-process'' else ''serve''))]"

definition spawn_command :: "string \<Rightarrow> string \<Rightarrow> int \<Rightarrow> string \<Rightarrow> bool \<Rightarrow> string list" where
  "spawn_command python state_path port host dbg =
     [python, ''-m'', ''aa_sifter.cli.main'', ''serve'', ''--port'', show_int port, ''--host'', host,
      ''--state-file'', state_path] @ (if dbg then [''--debug''] else [])"

definition health_request :: "string \<Rightarrow> string \<Rightarrow> http_request" where
  "health_request url token = \<lparr>rq_url = rstrip_slash url @ ''/api/health'',
     rq_headers = [(''X-Sifter-Token'', token)], rq_payload = PNone\<rparr>"

definition health_of :: "http_outcome \<Rightarrow> pyval" where
  "health_of oc = (case oc of Replied st body (Some v) \<Rightarrow> if st = 200 then v else PNone | _ \<Rightarrow> PNone)"

text \<open>Every exception in the check counts as no answer, one about the types of its arguments too.\<close>

fun health_check :: "'w os \<Rightarrow> pyval \<Rightarrow> pyval \<Rightarrow> 'w \<Rightarrow> pyval \<times> 'w" where
  "health_check os (PStr url) (PStr token) w =
     (case os_web os (health_request url token) w of (oc, w) \<Rightarrow> (health_of oc, w))"
| "health_check os url token w = (PNone, w)"

definition existing_instance :: "'w os \<Rightarrow> 'w \<Rightarrow> (string, pyval) dict option result \<times> 'w" where
  "existing_instance os w =
     (let state = read_state os w
      in if \<not> truthy state then (Inr None, w)
         else case state of
           PDict d \<Rightarrow>
             (let url = get_default d ''url'' PNone; token = get_default d ''token'' PNone
              in if \<not> truthy url \<or> \<not> truthy token then (Inr None, w)
                 else (case health_check os url token w of (h, w) \<Rightarrow>
                   (Inr (if h = PNone then None else Some (dict_set ''health'' h d)), w)))
         | _ \<Rightarrow> (no_get, w))"

section \<open>Waiting\<close>

text \<open>A poll gives an exception, nothing yet, or a value.\<close>

fun poll :: "nat \<Rightarrow> 'w os \<Rightarrow> rat \<Rightarrow> rat \<Rightarrow> ('w \<Rightarrow> 'a option result \<times> 'w) \<Rightarrow> 'w \<Rightarrow> ('a option result \<times> 'w) option" where
  "poll 0 os deadline pause f w = None"
| "poll (Suc n) os deadline pause f w =
     (if os_clock os w < deadline
      then (case f w of
          (Inr None, w) \<Rightarrow> poll n os deadline pause f (os_sleep os pause w)
        | (r, w) \<Rightarrow> Some (r, w))
      else Some (Inr None, w))"

definition state_poll :: "'w os \<Rightarrow> 'w \<Rightarrow> (string, pyval) dict option result \<times> 'w" where
  "state_poll os w =
     (let state = read_state os w
      in (if \<not> truthy state then Inr None
          else case state of
            PDict d \<Rightarrow> Inr (if truthy (get_default d ''url'' PNone) then Some d else None)
          | _ \<Rightarrow> no_get, w))"

definition wait_for_state :: "nat \<Rightarrow> 'w os \<Rightarrow> rat \<Rightarrow> 'w \<Rightarrow> ((string, pyval) dict option result \<times> 'w) option" where
  "wait_for_state fuel os timeout w = poll fuel os (os_clock os w + timeout) (1 / 5) (state_poll os) w"

definition health_poll :: "'w os \<Rightarrow> pyval \<Rightarrow> pyval \<Rightarrow> 'w \<Rightarrow> pyval option result \<times> 'w" where
  "health_poll os url token w =
     (case health_check os url token w of (h, w) \<Rightarrow> (Inr (if h = PNone then None else Some h), w))"

definition wait_for_health ::
  "nat \<Rightarrow> 'w os \<Rightarrow> pyval \<Rightarrow> pyval \<Rightarrow> rat \<Rightarrow> 'w \<Rightarrow> (pyval option result \<times> 'w) option" where
  "wait_for_health fuel os url token timeout w =
     poll fuel os (os_clock os w + timeout) (1 / 4) (health_poll os url token) w"

section \<open>Starting and stopping\<close>

datatype launch_error =
    LauncherError string string "string list"
  | Propagated py_error

definition not_ready :: "string \<Rightarrow> launch_error" where
  "not_ready log_path = LauncherError ''Compute Sifter backend did not become ready.''
     (''Check the log at '' @ log_path) [''View Logs'', ''Retry'']"

definition not_healthy :: "(rat \<Rightarrow> string) \<Rightarrow> int \<Rightarrow> pyval \<Rightarrow> launch_error" where
  "not_healthy fr pid url = LauncherError ''Compute Sifter backend started but failed its health check.''
     (''pid='' @ show_int pid @ '' url='' @ py_str fr url) [''View Logs'', ''Retry'']"

definition started_state :: "pyval \<Rightarrow> int \<Rightarrow> (string, pyval) dict \<Rightarrow> (string, pyval) dict" where
  "started_state h pid d = dict_set ''owned'' (PBool True) (dict_set ''pid'' (PInt pid) (dict_set ''health'' h d))"

text \<open>The polls have fuel for every quarter and fifth of a second of their timeouts.\<close>

definition start_backend_process ::
  "(rat \<Rightarrow> string) \<Rightarrow> string \<Rightarrow> 'w os \<Rightarrow> int option \<Rightarrow> 'w \<Rightarrow> ((launch_error + (string, pyval) dict) \<times> 'w) option" where
  "start_backend_process fr log_path os port w =
     (case choose_port os port (os_clear_state os w) of
        (Inl e, w) \<Rightarrow> Some (Inl (Propagated e), w)
      | (Inr chosen, w) \<Rightarrow> (case os_spawn os chosen w of (pid, w) \<Rightarrow>
         (case wait_for_state 126 os 25 w of
            None \<Rightarrow> None
          | Some (Inl e, w) \<Rightarrow> Some (Inl (Propagated e), w)
          | Some (Inr None, w) \<Rightarrow> Some (Inl (not_ready log_path), w)
          | Some (Inr (Some d), w) \<Rightarrow> (case dict_get d ''token'' of
              None \<Rightarrow> Some (Inl (Propagated (KeyError ''token'')), w)
            | Some token \<Rightarrow> (case wait_for_health 81 os (get_default d ''url'' PNone) token 20 w of
                None \<Rightarrow> None
              | Some (Inl e, w) \<Rightarrow> Some (Inl (Propagated e), w)
              | Some (Inr None, w) \<Rightarrow> Some (Inl (not_healthy fr pid (get_default d ''url'' PNone)), w)
              | Some (Inr (Some h), w) \<Rightarrow> Some (Inr (started_state h pid d), w))))))"

definition shutdown_request :: "string \<Rightarrow> string \<Rightarrow> http_request" where
  "shutdown_request url token = \<lparr>rq_url = rstrip_slash url @ ''/api/shutdown'',
     rq_headers = [(''X-Sifter-Token'', token)], rq_payload = PNone\<rparr>"

fun post_shutdown :: "'w os \<Rightarrow> pyval \<Rightarrow> pyval \<Rightarrow> 'w \<Rightarrow> 'w" where
  "post_shutdown os (PStr url) (PStr token) w = snd (os_web os (shutdown_request url token) w)"
| "post_shutdown os url token w = w"

fun kill_process :: "'w os \<Rightarrow> pyval \<Rightarrow> 'w \<Rightarrow> 'w result" where
  "kill_process os (PInt pid) w = Inr (if 0 < pid \<and> os_alive os pid w then os_kill os pid w else w)"
| "kill_process os (PBool b) w = Inr (if os_alive os 1 w then os_kill os 1 w else w)"
| "kill_process os (PFloat x) w =
     (if x \<le> 0 then Inr w else Inl (TypeError ''an integer is required''))"
| "kill_process os v w = Inl (TypeError ''not supported between instances'')"

definition stop_backend :: "'w os \<Rightarrow> bool \<Rightarrow> 'w \<Rightarrow> bool result \<times> 'w" where
  "stop_backend os force w =
     (let state = read_state os w
      in if \<not> truthy state then (Inr False, w)
         else case state of
           PDict d \<Rightarrow>
             (let url = get_default d ''url'' PNone; token = get_default d ''token'' PNone;
                  pid = get_default d ''pid'' PNone;
                  w = (if truthy url \<and> truthy token then post_shutdown os url token w else w)
              in if force \<and> truthy pid
                 then (case kill_process os pid w of Inl e \<Rightarrow> (Inl e, w) | Inr w \<Rightarrow> (Inr True, os_clear_state os w))
                 else (Inr True, os_clear_state os w))
         | _ \<Rightarrow> (no_get, w))"

section \<open>The commands\<close>

record launch_args =
  la_stop :: bool
  la_no_browser :: bool
  la_headless :: bool
  la_foreground :: bool
  la_port :: int

text \<open>\<^verbatim>\<open>_print_issues\<close> of the problems the backend reports.\<close>

definition issue_lines :: "startup_issue \<Rightarrow> string list" where
  "issue_lines i = [''['' @ is_severity i @ ''] '' @ is_title i] @
     (if is_detail i = [] then [] else [''    '' @ is_detail i]) @
     map (\<lambda>x. ''    - '' @ snd x) (is_options i)"

definition browse :: "'w os \<Rightarrow> launch_args \<Rightarrow> pyval \<Rightarrow> 'w \<Rightarrow> 'w" where
  "browse os a url w = (if \<not> la_no_browser a \<and> \<not> la_headless a
     then (case url of PStr u \<Rightarrow> os_browser os u w | _ \<Rightarrow> w) else w)"

text \<open>
  \<^verbatim>\<open>launch\<close>: \<open>serve\<close> is the server in this process, which serves for ever (None) unless it is
  interrupted; \<open>issues\<close> is what the backend reports of itself.
\<close>

definition launch ::
  "(rat \<Rightarrow> string) \<Rightarrow> string \<Rightarrow> 'w os \<Rightarrow> (bool \<Rightarrow> 'w \<Rightarrow> (int \<times> 'w) option) \<Rightarrow> (pyval \<Rightarrow> pyval \<Rightarrow> 'w \<Rightarrow> startup_issue list \<times> 'w) \<Rightarrow> launch_args \<Rightarrow>
     'w \<Rightarrow> ((string list \<times> int) result \<times> 'w) option" where
  "launch fr log_path os serve issues a w =
     (if la_stop a
      then (case stop_backend os False w of
          (Inl e, w) \<Rightarrow> Some (Inl e, w)
        | (Inr b, w) \<Rightarrow> Some (Inr ([if b then ''Stopped Compute Sifter backend.'' else ''No running backend found.''], 0), w))
      else case existing_instance os w of
          (Inl e, w) \<Rightarrow> Some (Inl e, w)
        | (Inr (Some d), w) \<Rightarrow>
            Some (Inr ([''Compute Sifter is already running at '' @ py_str fr (get_default d ''url'' PNone)], 0),
              browse os a (get_default d ''url'' PNone) w)
        | (Inr None, w) \<Rightarrow>
            (let hints = (if os_config_exists os then []
                   else [''No Compute Sifter profile was found.'',
                     ''Run '' @ [quote] @ ''aa_sifter setup'' @ [quote] @ '' to create one, or '' @ [quote] @
                     ''aa_sifter recommend --save default'' @ [quote] @ ''.''])
             in if la_foreground a
                then (case serve (\<not> la_no_browser a \<and> \<not> la_headless a) w of
                    None \<Rightarrow> None | Some (code, w) \<Rightarrow> Some (Inr (hints, code), w))
                else (case start_backend_process fr log_path os (Some (la_port a)) w of
                    None \<Rightarrow> None
                  | Some (Inl (Propagated e), w) \<Rightarrow> Some (Inl e, w)
                  | Some (Inl (LauncherError m details opts), w) \<Rightarrow>
                      Some (Inr (hints @ [m] @ (if details = [] then [] else [''    '' @ details]) @
                        map (\<lambda>x. ''    - '' @ x) opts, 1), w)
                  | Some (Inr d, w) \<Rightarrow>
                      (case issues (get_default d ''url'' PNone) (get_default d ''token'' PNone) w of (is, w) \<Rightarrow>
                        Some (Inr (hints @ [''Compute Sifter is ready at '' @ py_str fr (get_default d ''url'' PNone),
                          ''Backend log: '' @ log_path] @ concat (map issue_lines is), 0),
                          browse os a (get_default d ''url'' PNone) w)))))"

definition stop_command :: "'w os \<Rightarrow> 'w \<Rightarrow> (string list \<times> int) result \<times> 'w" where
  "stop_command os w =
     (let state = read_state os w;
          finish = (\<lambda>w. case stop_backend os False w of
             (Inl e, w) \<Rightarrow> (Inl e, w)
           | (Inr b, w) \<Rightarrow> (Inr ([if b then ''Stopped Compute Sifter.'' else ''Compute Sifter is not running.''], 0), w))
      in if \<not> truthy state then finish w
         else case state of
           PDict d \<Rightarrow>
             (if truthy (get_default d ''token'' PNone) \<and> truthy (get_default d ''url'' PNone)
              then (case health_check os (get_default d ''url'' PNone) (get_default d ''token'' PNone) w of (h, w) \<Rightarrow>
                if h = PNone then (Inr ([''Removed stale state file.''], 0), os_clear_state os w) else finish w)
              else finish w)
         | _ \<Rightarrow> (no_get, w))"

section \<open>Facts\<close>

text \<open>A chosen port is one of the 25 that were tried, or none.\<close>

lemma first_port_mem: "fst (first_port os ps w) = Inr p \<Longrightarrow> p = 0 \<or> p \<in> set ps \<and> 0 \<le> p \<and> p \<le> 65535"
  by (induction ps arbitrary: w) (auto simp: port_available_def split: prod.splits sum.splits if_splits)

lemma first_port_fits: "\<forall>p\<in>set ps. 0 \<le> p \<and> p \<le> 65535 \<Longrightarrow> \<exists>p. fst (first_port os ps w) = Inr p"
  by (induction ps arbitrary: w) (auto simp: port_available_def split: prod.splits)

lemma choose_port_bounds:
  "fst (choose_port os (Some c) w) = Inr p \<Longrightarrow> p = 0 \<or> c \<le> p \<and> p \<le> c + 24 \<and> 0 \<le> p \<and> p \<le> 65535"
  by (auto simp: choose_port_def Let_def dest!: first_port_mem split: if_splits)

lemma choose_port_total: "0 \<le> c \<Longrightarrow> c + 24 \<le> 65535 \<Longrightarrow> \<exists>p. fst (choose_port os (Some c) w) = Inr p"
  by (auto simp: choose_port_def Let_def intro!: first_port_fits)

text \<open>Where sleeping advances the clock, and asking does not set it back, a poll ends.\<close>

lemma poll_enough:
  assumes sleeps: "\<And>w. os_clock os w + pause \<le> os_clock os (os_sleep os pause w)"
    and asks: "\<And>w. os_clock os w \<le> os_clock os (snd (f w))"
    and "0 < pause" "deadline \<le> os_clock os w + of_nat n * pause"
  shows "poll (Suc n) os deadline pause f w \<noteq> None"
  using assms(4)
proof (induction n arbitrary: w)
  case 0
  then show ?case by simp
next
  case (Suc n)
  show ?case
  proof (cases "os_clock os w < deadline")
    case True
    obtain r w' where f: "f w = (r, w')" by (cases "f w")
    have "os_clock os w + pause \<le> os_clock os (os_sleep os pause w')"
      using sleeps [of w'] asks [of w] f by simp
    then have "deadline \<le> os_clock os (os_sleep os pause w') + of_nat n * pause"
      using Suc.prems by (simp add: algebra_simps)
    then have "poll (Suc n) os deadline pause f (os_sleep os pause w') \<noteq> None" by (rule Suc.IH)
    then show ?thesis
      using True by (subst poll.simps(2)) (simp add: f split: sum.split option.split)
  qed simp
qed

text \<open>A host on which sleeping takes its time and no request sets the clock back.\<close>

definition ticks :: "'w os \<Rightarrow> bool" where
  "ticks os \<longleftrightarrow> (\<forall>d w. os_clock os w + d \<le> os_clock os (os_sleep os d w)) \<and>
     (\<forall>rq w. os_clock os w \<le> os_clock os (snd (os_web os rq w)))"

lemma state_poll_world [simp]: "snd (state_poll os w) = w"
  by (simp add: state_poll_def Let_def)

lemma health_poll_clock: "ticks os \<Longrightarrow> os_clock os w \<le> os_clock os (snd (health_poll os url token w))"
  by (cases "(os, url, token, w)" rule: health_check.cases)
    (simp_all add: ticks_def health_poll_def case_prod_unfold)

lemma wait_for_state_ends: "ticks os \<Longrightarrow> wait_for_state 126 os 25 w \<noteq> None"
  using poll_enough [where n = 125 and os = os and w = w and pause = "1 / 5" and f = "state_poll os"
      and deadline = "os_clock os w + 25"]
  by (simp add: wait_for_state_def ticks_def)

lemma wait_for_health_ends: "ticks os \<Longrightarrow> wait_for_health 81 os url token 20 w \<noteq> None"
  using poll_enough [where n = 80 and os = os and w = w and pause = "1 / 4" and f = "health_poll os url token"
      and deadline = "os_clock os w + 20"] health_poll_clock [of os _ url token]
  by (simp add: wait_for_health_def ticks_def)

lemma start_backend_ends: "ticks os \<Longrightarrow> start_backend_process fr log_path os port w \<noteq> None"
  using wait_for_state_ends [of os, unfolded not_None_eq] wait_for_health_ends [of os, unfolded not_None_eq]
  by (auto simp: start_backend_process_def split: prod.split sum.split option.split) (metis option.distinct(1))+

lemma launch_ends:
  assumes "ticks os" "launch fr log_path os serve issues a w = None"
  shows "la_foreground a \<and> \<not> la_stop a \<and>
    (\<exists>w'. existing_instance os w = (Inr None, w') \<and> serve (\<not> la_no_browser a \<and> \<not> la_headless a) w' = None)"
proof -
  have s: "(start_backend_process fr log_path os p v = None) = False" for p v
    using start_backend_ends [OF assms(1)] by blast
  show ?thesis using assms(2)
    by (auto simp: s launch_def Let_def split: prod.splits sum.splits option.splits launch_error.splits if_splits)
qed

text \<open>The port the command line asks for by default leaves the choice to the system.\<close>

lemma default_port: "choose_port os (Some 0) w = (Inr 0, w)"
  by (simp add: choose_port_def)

lemma stopped_clears: "stop_backend os force w = (Inr True, w') \<Longrightarrow> \<exists>v. w' = os_clear_state os v"
  by (auto simp: stop_backend_def Let_def no_get_def split: if_splits pyval.splits sum.splits)

text \<open>
  What a backend writes when it starts is what a later launcher reads, and leads it to ask that
  backend for its health.
\<close>

lemma read_back_state:
  assumes "os_state_text os w = Some (state_text fr (served_state pid host port token open_ui))"
  shows "read_state os w = PDict (served_state pid host port token open_ui)"
proof -
  have "plain_json (PDict (served_state pid host port token open_ui))" by (simp add: served_state_def)
  then show ?thesis by (simp add: read_state_def assms state_text_def json_round_trip)
qed

lemma served_found:
  assumes "os_state_text os w = Some (state_text fr (served_state pid host port token open_ui))" "token \<noteq> []"
  shows "existing_instance os w =
    (case os_web os (health_request (server_url host port) token) w of (oc, w) \<Rightarrow>
      (Inr (if health_of oc = PNone then None
            else Some (dict_set ''health'' (health_of oc) (served_state pid host port token open_ui))), w))"
proof -
  have "truthy (PDict (served_state pid host port token open_ui))"
    "get_default (served_state pid host port token open_ui) ''url'' PNone = PStr (server_url host port)"
    "get_default (served_state pid host port token open_ui) ''token'' PNone = PStr token"
    "truthy (PStr (server_url host port))"
    by (simp_all add: served_state_def get_default_def server_url_def)
  with assms(2) read_back_state [OF assms(1)] show ?thesis
    by (simp add: existing_instance_def Let_def split: prod.split)
qed

end
