(* ===== verification/MainCli.thy ===== *)
theory MainCli
  imports Resolve SifterFacts
begin

text \<open>
  What is left of the command line (\<^verbatim>\<open>cli/main.py\<close>): which command a query is, the context of a
  task, the rules commands, what a result prints, one prompt and the chat loop.  A command prints
  a list of texts and then returns a code, or leaves with \<^verbatim>\<open>SystemExit\<close> and a message.
\<close>

datatype exit_with =
    Code int
  | SystemExit string

section \<open>Context\<close>

text \<open>\<open>read_file\<close> is the text of a file, or its exception.\<close>

definition load_context ::
  "(string \<Rightarrow> string result) \<Rightarrow> string option \<Rightarrow> string option \<Rightarrow> (exit_with + string option) result" where
  "load_context read_file ctx context_file =
     (if is_given ctx \<and> is_given context_file
      then Inr (Inl (SystemExit ''Provide either --context or --context-file, not both''))
      else if is_given context_file
      then (case read_file (the context_file) of Inl e \<Rightarrow> Inl e | Inr t \<Rightarrow> Inr (Inr (Some t)))
      else Inr (Inr ctx))"

section \<open>Rules\<close>

definition id_text :: "standing_rule \<Rightarrow> string" where
  "id_text r = (case rule_id r of None \<Rightarrow> ''None'' | Some i \<Rightarrow> show_int i)"

definition rule_lines :: "standing_rule \<Rightarrow> string list" where
  "rule_lines r =
     [''['' @ id_text r @ ''] ('' @ (if rule_active r then ''active'' else ''inactive'') @ '') '' @ rule_text r] @
     (if forbid_terms r = [] then [] else [''      forbid: '' @ join '', '' (forbid_terms r)]) @
     (if rule_grants r = [] then [] else [''      grants: '' @ join '', '' (rule_grants r)])"

definition remove_rule :: "int \<Rightarrow> rule_engine \<Rightarrow> bool \<times> rule_engine" where
  "remove_rule i e = (case eng_store e of
     None \<Rightarrow> (False, reload e)
   | Some st \<Rightarrow> (case deactivate_standing_rule i st of (b, st) \<Rightarrow> (b, reload (e\<lparr>eng_store := Some st\<rparr>))))"

definition handle_rules :: "rule_engine \<Rightarrow> string list \<Rightarrow> (string list \<times> exit_with) result \<times> rule_engine" where
  "handle_rules e q =
     (let action = (if 1 < length q then q ! 1 else ''list'')
      in if action = ''list''
         then (Inr (if eng_rules e = [] then [''No standing rules.''] else concat (map rule_lines (eng_rules e)), Code 0), e)
         else if action = ''add''
         then (let text = strip (join '' '' (drop 2 q))
               in if text = [] then (Inr ([], SystemExit (''Usage: aa_sifter rules add '' @ [dquote] @ ''rule text'' @ [dquote])), e)
                  else (case add_rule text None None None e of (r, e) \<Rightarrow>
                    (Inr ([''Added standing rule ['' @ id_text r @ '']: '' @ rule_text r], Code 0), e)))
         else if action = ''remove''
         then (if length q < 3 then (Inr ([], SystemExit ''Usage: aa_sifter rules remove <id>''), e)
               else (case eng_store e of
                   None \<Rightarrow> (Inr ([''No such rule.''], Code 0), reload e)
                 | Some st \<Rightarrow> (case parse_int (q ! 2) of
                     None \<Rightarrow> (Inl (ValueError ''invalid literal for int()''), e)
                   | Some i \<Rightarrow> (case remove_rule i e of (b, e) \<Rightarrow>
                       (Inr ([if b then ''Removed.'' else ''No such rule.''], Code 0), e)))))
         else (Inr ([], SystemExit (''Unknown rules action: '' @ action)), e))"

section \<open>Results\<close>

definition result_lines :: "sifter_result \<Rightarrow> string list" where
  "result_lines r =
     (if sr_status r \<in> {''completed'', ''done''} then [sr_answer r]
      else [''[status: '' @ sr_status r @ '']''] @ (if sr_answer r = [] then [] else [sr_answer r]) @
           (case sr_blocked_reason r of Some (c # s) \<Rightarrow> [''Reason: '' @ c # s] | _ \<Rightarrow> []))"

definition exit_code :: "sifter_result \<Rightarrow> int" where
  "exit_code r = (if sr_status r \<noteq> ''error'' then 0 else 1)"

section \<open>Which command\<close>

datatype command =
    DesktopCommand string
  | ConfigCommand string
  | RulesCommand
  | StatsCommand
  | ShowConfig
  | ChatCommand
  | NoCommand
  | Prompt string

definition CONFIG_COMMANDS :: "string list" where
  "CONFIG_COMMANDS = [''profile'', ''system'', ''model'', ''recommend'', ''setup'', ''doctor'']"

definition DESKTOP_COMMANDS :: "string list" where
  "DESKTOP_COMMANDS = [''launch'', ''serve'', ''desktop'', ''stop'']"

definition command_of :: "string list \<Rightarrow> command" where
  "command_of query = (case query of
     [] \<Rightarrow> NoCommand
   | command # rest \<Rightarrow>
       if command \<in> set DESKTOP_COMMANDS then DesktopCommand command
       else if command \<in> set CONFIG_COMMANDS then ConfigCommand command
       else if command = ''rules'' then RulesCommand
       else if command = ''stats'' then StatsCommand
       else if command = ''config'' then ShowConfig
       else if command = ''chat'' then ChatCommand
       else Prompt (join '' '' query))"

section \<open>One prompt\<close>

text \<open>The arguments every run of a command gets, and what goes on from one run to the next.\<close>

record run_args =
  ra_policy :: "string option"
  ra_max_cloud_cost :: "pyfloat option"
  ra_context :: "string option"

record 'w session =
  se_store :: "store option"
  se_world :: 'w

definition run_once ::
  "('p, 'w) sifter \<Rightarrow> run_args \<Rightarrow> string \<Rightarrow> string \<Rightarrow> 'w session \<Rightarrow> sifter_result result \<times> 'w run_state" where
  "run_once S a tid prompt se =
     run S tid prompt (ra_context a) (ra_policy a) (ra_max_cloud_cost a) [] (se_store se) (se_world se)"

definition session_after :: "'w run_state \<Rightarrow> 'w session" where
  "session_after s = \<lparr>se_store = tr_history (rs_trace s), se_world = rs_world s\<rparr>"

text \<open>What a command printed, the effects of each of its runs, and how it ended.\<close>

type_synonym ran = "string list \<times> effect list list \<times> int result"

definition prompt_command ::
  "('p, 'w) sifter \<Rightarrow> run_args \<Rightarrow> string \<Rightarrow> string \<Rightarrow> 'w session \<Rightarrow> ran \<times> 'w session" where
  "prompt_command S a tid prompt se = (case run_once S a tid prompt se of
     (Inl e, s) \<Rightarrow> (([], [rs_effects s], Inl e), session_after s)
   | (Inr r, s) \<Rightarrow> ((result_lines r, [rs_effects s], Inr (exit_code r)), session_after s))"

section \<open>The chat loop\<close>

text \<open>\<^verbatim>\<open>input()\<close> gives a line, or raises at the end of the input and on Ctrl-C.\<close>

datatype input =
    Typed string
  | Interrupted

definition EXIT_WORDS :: "string list" where
  "EXIT_WORDS = [''exit'', ''quit'', '':q'']"

definition before :: "string list \<Rightarrow> effect list \<Rightarrow> ran \<times> 'w session \<Rightarrow> ran \<times> 'w session" where
  "before out es r = (case r of ((out', ess, code), se) \<Rightarrow> ((out @ out', es # ess, code), se))"

fun chat_loop ::
  "('p, 'w) sifter \<Rightarrow> run_args \<Rightarrow> (nat \<Rightarrow> string) \<Rightarrow> nat \<Rightarrow> input list \<Rightarrow> 'w session \<Rightarrow> ran \<times> 'w session" where
  "chat_loop S a ids n [] se = (([[]], [], Inr 0), se)"
| "chat_loop S a ids n (Interrupted # ls) se = (([[]], [], Inr 0), se)"
| "chat_loop S a ids n (Typed l # ls) se =
     (let prompt = strip l
      in if prompt = [] then chat_loop S a ids n ls se
         else if lower prompt \<in> set EXIT_WORDS then (([], [], Inr 0), se)
         else case run_once S a (ids n) prompt se of
             (Inl e, s) \<Rightarrow> (([], [rs_effects s], Inl e), session_after s)
           | (Inr r, s) \<Rightarrow> before (result_lines r) (rs_effects s) (chat_loop S a ids (Suc n) ls (session_after s)))"

definition chat_greeting :: string where
  "chat_greeting = ''aa-sifter interactive mode. Type '' @ [quote] @ ''exit'' @ [quote] @ '' to quit.''"

definition chat ::
  "('p, 'w) sifter \<Rightarrow> run_args \<Rightarrow> (nat \<Rightarrow> string) \<Rightarrow> input list \<Rightarrow> 'w session \<Rightarrow> ran \<times> 'w session" where
  "chat S a ids ls se = (case chat_loop S a ids 0 ls se of ((out, ess, code), se) \<Rightarrow>
     ((chat_greeting # out, ess, code), se))"

text \<open>
  The context is read before a command that runs prompts.  What the other commands do is the
  argument \<open>elsewhere\<close>: \<open>handle_rules\<close> here, and \<open>ConfigCli\<close> and \<open>Launcher\<close>; \<open>help\<close> is argparse's.
\<close>

type_synonym exited = "string list \<times> effect list list \<times> exit_with result"

definition coded :: "ran \<times> 'w session \<Rightarrow> exited \<times> 'w session" where
  "coded r = (case r of ((out, ess, code), se) \<Rightarrow> ((out, ess, map_sum id Code code), se))"

definition with_context ::
  "(string \<Rightarrow> string result) \<Rightarrow> run_args \<Rightarrow> string option \<Rightarrow> (run_args \<Rightarrow> exited \<times> 'w session) \<Rightarrow> 'w session \<Rightarrow>
     exited \<times> 'w session" where
  "with_context read_file a context_file f se = (case load_context read_file (ra_context a) context_file of
     Inl e \<Rightarrow> (([], [], Inl e), se)
   | Inr (Inl left) \<Rightarrow> (([], [], Inr left), se)
   | Inr (Inr ctx) \<Rightarrow> f (a\<lparr>ra_context := ctx\<rparr>))"

definition main_command ::
  "(command \<Rightarrow> 'w session \<Rightarrow> exited \<times> 'w session) \<Rightarrow> (string \<Rightarrow> string result) \<Rightarrow> string list \<Rightarrow> ('p, 'w) sifter \<Rightarrow>
     run_args \<Rightarrow> string option \<Rightarrow> (nat \<Rightarrow> string) \<Rightarrow> string list \<Rightarrow> input list \<Rightarrow> 'w session \<Rightarrow> exited \<times> 'w session" where
  "main_command elsewhere read_file help S a context_file ids query ls se = (case command_of query of
     ChatCommand \<Rightarrow> with_context read_file a context_file (\<lambda>a. coded (chat S a ids ls se)) se
   | NoCommand \<Rightarrow> with_context read_file a context_file (\<lambda>a. ((help, [], Inr (Code 1)), se)) se
   | Prompt p \<Rightarrow> with_context read_file a context_file (\<lambda>a. coded (prompt_command S a (ids 0) p se)) se
   | c \<Rightarrow> elsewhere c se)"

section \<open>Facts\<close>

text \<open>The prompts of a chat: what is typed before the end or a word that ends it, without blanks.\<close>

fun chat_prompts :: "input list \<Rightarrow> string list" where
  "chat_prompts [] = []"
| "chat_prompts (Interrupted # ls) = []"
| "chat_prompts (Typed l # ls) =
     (if strip l = [] then chat_prompts ls
      else if lower (strip l) \<in> set EXIT_WORDS then []
      else strip l # chat_prompts ls)"

text \<open>
  The runs of a chat are the runs of its prompts, in order: all of them, unless one raises an
  exception, which is then the last.  What every run satisfies, the chat does.
\<close>

lemma chat_loop_runs:
  assumes "\<And>tid p h w. P p (rs_effects (snd (run S tid p (ra_context a) (ra_policy a) (ra_max_cloud_cost a) [] h w)))"
    and "chat_loop S a ids n ls se = ((out, ess, code), se')"
  shows "list_all2 P (take (length ess) (chat_prompts ls)) ess \<and>
    (\<forall>c. code = Inr c \<longrightarrow> c = 0 \<and> length ess = length (chat_prompts ls))"
  using assms(2)
proof (induction ls arbitrary: n se out ess)
  case (Cons l ls)
  show ?case
  proof (cases l)
    case (Typed l')
    obtain r s where r: "run_once S a (ids n) (strip l') se = (r, s)" by fastforce
    have "P (strip l') (rs_effects s)" using assms(1) [where tid = "ids n" and p = "strip l'"] r by (metis run_once_def snd_conv)
    moreover obtain out' ess' code' se2 where
      "chat_loop S a ids (Suc n) ls (session_after s) = ((out', ess', code'), se2)" by (metis prod.collapse)
    ultimately show ?thesis
      using Cons.prems Cons.IH r by (cases r) (auto simp: Typed Let_def before_def split: if_splits)
  qed (use Cons.prems in auto)
qed auto

text \<open>Each run of a chat keeps the discipline of runs, and asks before it calls the expert.\<close>

definition chat_run_ok :: "('p, 'w) sifter \<Rightarrow> string \<Rightarrow> effect list \<Rightarrow> bool" where
  "chat_run_ok S p es \<longleftrightarrow> list_all (effect_ok S) es \<and>
     (cls_requires_human_approval (prompt_classification S p) \<longrightarrow> preceded False authorizes expert_call es)"

lemma chat_disciplined:
  assumes "chat S a ids ls se = ((out, ess, code), se')"
  shows "list_all2 (chat_run_ok S) (take (length ess) (chat_prompts ls)) ess \<and>
    (\<forall>c. code = Inr c \<longrightarrow> c = 0 \<and> length ess = length (chat_prompts ls))"
proof -
  obtain out' where "chat_loop S a ids 0 ls se = ((out', ess, code), se')"
    using assms by (auto simp: chat_def split: prod.splits)
  then show ?thesis
    by (rule chat_loop_runs [rotated]) (simp add: chat_run_ok_def run_effects_ok run_consent)
qed

end
